(* ===== verification/Go_Prelude.thy ===== *)
theory Go_Prelude
  imports Complex_Main "HOL-Library.AList" "HOL-Library.Word"
begin

text \<open>
  The part of the Go language and its standard library that every component uses:
  instants and durations, built-in maps, byte strings, UTF-8 decoding, and the functions of
  the packages \<^verbatim>\<open>strings\<close>, \<^verbatim>\<open>unicode\<close> and \<^verbatim>\<open>utf8\<close> the services call.

  \<^item> An instant (\<^verbatim>\<open>time.Time\<close>, always taken in UTC by the services) is the number of nanoseconds
    since the Unix epoch, an unbounded \<^typ>\<open>int\<close>; \<^verbatim>\<open>time.Duration\<close> is a number of nanoseconds.
  \<^item> A map is an association list with distinct keys. Its order stands for the unspecified
    iteration order of Go; nothing below depends on it.
  \<^item> A \<^verbatim>\<open>string\<close> and a \<^verbatim>\<open>[]byte\<close> are both lists of \<^typ>\<open>char\<close>, one per byte.
\<close>

named_theorems map_simps "lookups in maps after the map operations"
named_theorems wf_intros "preservation of well-formedness"

section \<open>Instants and durations\<close>

type_synonym time = int
type_synonym duration = int

definition second :: duration where
  "second = 1000000000"

definition minute :: duration where
  "minute = 60 * second"

definition hour :: duration where
  "hour = 60 * minute"

text \<open>The zero \<^verbatim>\<open>time.Time\<close>: January 1 of the year 1, and \<^verbatim>\<open>IsZero\<close>.\<close>

definition zero_time :: time where
  "zero_time = - 62135596800 * 1000000000"

definition is_zero_time :: "time \<Rightarrow> bool" where
  "is_zero_time t \<longleftrightarrow> t = zero_time"

text \<open>
  \<^verbatim>\<open>time.Unix(s, 0)\<close> for an \<^verbatim>\<open>int64\<close> count of seconds: Go stores seconds since year 1 in an
  \<^verbatim>\<open>int64\<close>, so the offset is added with wrap-around.
\<close>

definition wrap64 :: "int \<Rightarrow> int" where
  "wrap64 i = signed_take_bit 63 i"

definition unix_time :: "int \<Rightarrow> time" where
  "unix_time s = (wrap64 (s + 62135596800) - 62135596800) * 1000000000"

lemma wrap64_id:
  assumes "- (2 ^ 63) \<le> i" and "i < 2 ^ 63"
  shows "wrap64 i = i"
  using assms unfolding wrap64_def by (simp add: signed_take_bit_int_eq_self)

lemma unix_time_id:
  assumes "- (2 ^ 62) \<le> s" and "s < 2 ^ 62"
  shows "unix_time s = s * 1000000000"
  using assms unfolding unix_time_def by (subst wrap64_id) auto

section \<open>Floating point\<close>

text \<open>A \<^verbatim>\<open>float64\<close>: a finite value is an exact rational number.\<close>

datatype go_float = Finite rat | PosInf | NegInf | NaN

section \<open>Results\<close>

text \<open>
  A fallible computation returns \<^term>\<open>Inl e\<close> for an error and \<^term>\<open>Inr y\<close> for a result. An early
  return under a condition, a value that may be missing and a call that may fail are written in
  continuation style, in the order of the source.
\<close>

definition ensure :: "bool \<Rightarrow> 'e \<Rightarrow> 'e + 'a \<Rightarrow> 'e + 'a" where
  "ensure P e rest = (if P then rest else Inl e)"

definition some_or :: "'a option \<Rightarrow> 'e \<Rightarrow> ('a \<Rightarrow> 'e + 'b) \<Rightarrow> 'e + 'b" where
  "some_or v e rest = (case v of None \<Rightarrow> Inl e | Some x \<Rightarrow> rest x)"

definition no_error :: "'e option \<Rightarrow> 'e + 'b \<Rightarrow> 'e + 'b" where
  "no_error v rest = (case v of None \<Rightarrow> rest | Some e \<Rightarrow> Inl e)"

definition ok :: "'e + 'a \<Rightarrow> 'a option" where
  "ok r = (case r of Inl e \<Rightarrow> None | Inr y \<Rightarrow> Some y)"

named_theorems result_simps "when a fallible computation succeeds"

lemma ensure_Inr [result_simps]: "ensure P e rest = Inr y \<longleftrightarrow> P \<and> rest = Inr y"
  by (simp add: ensure_def)

lemma some_or_Inr [result_simps]: "some_or v e rest = Inr y \<longleftrightarrow> (\<exists>x. v = Some x \<and> rest x = Inr y)"
  by (cases v) (simp_all add: some_or_def)

lemma no_error_Inr [result_simps]: "no_error v rest = Inr y \<longleftrightarrow> v = None \<and> rest = Inr y"
  by (cases v) (simp_all add: no_error_def)

lemma ok_Some [result_simps]: "ok r = Some y \<longleftrightarrow> r = Inr y"
  by (cases r) (simp_all add: ok_def)

lemma ok_None: "ok r = None \<longleftrightarrow> (\<exists>e. r = Inl e)"
  by (cases r) (simp_all add: ok_def)

text \<open>An option of a constructor: a value that is not positive takes the default, one above the limit is an error.\<close>

definition with_limit :: "int \<Rightarrow> int \<Rightarrow> int \<Rightarrow> 'e \<Rightarrow> (int \<Rightarrow> 'e + 'a) \<Rightarrow> 'e + 'a" where
  "with_limit x dflt most e rest =
    (let v :: int = (if x \<le> 0 then dflt else x) in if v > most then Inl e else rest v)"

lemma with_limit_Inr [result_simps]:
  "with_limit x dflt most e rest = Inr y \<longleftrightarrow>
    (\<exists>v. v = (if x \<le> 0 then dflt else x) \<and> v \<le> most \<and> rest v = Inr y)"
  by (auto simp: with_limit_def Let_def)

lemma ensure_True [simp]: "ensure True e rest = rest"
  by (simp add: ensure_def)

lemma ensure_False [simp]: "ensure False e rest = Inl e"
  by (simp add: ensure_def)

lemma some_or_Some [simp]: "some_or (Some x) e rest = rest x"
  by (simp add: some_or_def)

lemma some_or_None [simp]: "some_or None e rest = Inl e"
  by (simp add: some_or_def)

lemma no_error_None [simp]: "no_error None rest = rest"
  by (simp add: no_error_def)

lemma no_error_Some [simp]: "no_error (Some e) rest = Inl e"
  by (simp add: no_error_def)

section \<open>Maps\<close>

type_synonym ('k, 'v) gomap = "('k \<times> 'v) list"

definition put :: "('k, 'v) gomap \<Rightarrow> 'k \<Rightarrow> 'v \<Rightarrow> ('k, 'v) gomap" where
  "put m k v = AList.update k v m"

definition del :: "('k, 'v) gomap \<Rightarrow> 'k \<Rightarrow> ('k, 'v) gomap" where
  "del m k = AList.delete k m"

text \<open>The loops that delete every entry whose value fails a test.\<close>

definition keep :: "('v \<Rightarrow> bool) \<Rightarrow> ('k, 'v) gomap \<Rightarrow> ('k, 'v) gomap" where
  "keep P m = filter (\<lambda>(k, v). P v) m"

definition has_key :: "('k, 'v) gomap \<Rightarrow> 'k \<Rightarrow> bool" where
  "has_key m k = (map_of m k \<noteq> None)"

definition wf_map :: "('k, 'v) gomap \<Rightarrow> bool" where
  "wf_map m = distinct (map fst m)"

text \<open>Every entry, or every value, of the map satisfies a test.\<close>

definition all_entries :: "('k \<Rightarrow> 'v \<Rightarrow> bool) \<Rightarrow> ('k, 'v) gomap \<Rightarrow> bool" where
  "all_entries P m = list_all (\<lambda>(k, v). P k v) m"

abbreviation all_values :: "('v \<Rightarrow> bool) \<Rightarrow> ('k, 'v) gomap \<Rightarrow> bool" where
  "all_values P \<equiv> all_entries (\<lambda>_. P)"

lemma wf_map_Nil [simp, wf_intros]: "wf_map []"
  by (simp add: wf_map_def)

lemma map_of_put [map_simps, simp]: "map_of (put m k v) k' = (if k' = k then Some v else map_of m k')"
  by (simp add: put_def update_conv')

lemma map_of_del [map_simps, simp]: "map_of (del m k) k' = (if k' = k then None else map_of m k')"
  by (simp add: del_def delete_conv')

lemma wf_map_put [wf_intros, simp]: "wf_map m \<Longrightarrow> wf_map (put m k v)"
  by (simp add: wf_map_def put_def distinct_update)

lemma wf_map_del [wf_intros, simp]: "wf_map m \<Longrightarrow> wf_map (del m k)"
  by (simp add: wf_map_def del_def distinct_delete)

lemma wf_map_keep [wf_intros, simp]: "wf_map m \<Longrightarrow> wf_map (keep P m)"
  by (simp add: wf_map_def keep_def distinct_map_filter)

lemma map_of_keep [map_simps]:
  "wf_map m \<Longrightarrow>
    map_of (keep P m) k = (case map_of m k of None \<Rightarrow> None | Some v \<Rightarrow> if P v then Some v else None)"
  unfolding wf_map_def keep_def
  by (induction m) (auto split: option.splits simp: map_of_eq_None_iff image_iff)

lemma map_of_keep_Some:
  "wf_map m \<Longrightarrow> map_of (keep P m) k = Some v \<longleftrightarrow> map_of m k = Some v \<and> P v"
  by (auto simp: map_of_keep split: option.splits)

lemma del_absent: "map_of m k = None \<Longrightarrow> del m k = m"
  by (simp add: del_def map_of_eq_None_iff)

lemma length_put:
  "length (put m k v) = (if has_key m k then length m else Suc (length m))"
  unfolding put_def has_key_def by (induction m) auto

lemma length_put_le: "length (put m k v) \<le> Suc (length m)"
  by (simp add: length_put)

lemma length_del:
  assumes "wf_map m"
  shows "length (del m k) = (if has_key m k then length m - 1 else length m)"
proof -
  have "length (removeAll k xs) = (if k \<in> set xs then length xs - 1 else length xs)"
    if "distinct xs" for xs :: "'a list"
    using that by (induction xs) (auto simp: Suc_leI length_greater_0_conv intro: Suc_pred split: if_splits dest: length_pos_if_in_set)
  from this [of "map fst m"] assms
  have "length (map fst (del m k)) = (if k \<in> set (map fst m) then length m - 1 else length m)"
    by (simp add: del_def delete_keys wf_map_def)
  then show ?thesis
    by (simp add: has_key_def map_of_eq_None_iff)
qed

lemma length_del_le: "length (del m k) \<le> length m"
  by (simp add: del_def length_delete_le)

lemma length_keep_le: "length (keep P m) \<le> length m"
  by (simp add: keep_def)

lemma has_key_put [map_simps, simp]: "has_key (put m k v) k' \<longleftrightarrow> k' = k \<or> has_key m k'"
  by (simp add: has_key_def)

lemma has_key_del [map_simps, simp]: "has_key (del m k) k' \<longleftrightarrow> k' \<noteq> k \<and> has_key m k'"
  by (simp add: has_key_def)

lemma has_key_SomeI [intro]: "map_of m k = Some v \<Longrightarrow> has_key m k"
  by (simp add: has_key_def)

lemma all_entries_Nil [simp, wf_intros]: "all_entries P []"
  by (simp add: all_entries_def)

lemma all_entries_iff:
  "wf_map m \<Longrightarrow> all_entries P m \<longleftrightarrow> (\<forall>k v. map_of m k = Some v \<longrightarrow> P k v)"
  unfolding all_entries_def wf_map_def list_all_iff by auto

lemma all_entriesD: "all_entries P m \<Longrightarrow> map_of m k = Some v \<Longrightarrow> P k v"
  unfolding all_entries_def list_all_iff by (auto dest: map_of_SomeD)

lemma all_entries_put [wf_intros, simp]:
  "wf_map m \<Longrightarrow> all_entries P m \<Longrightarrow> P k v \<Longrightarrow> all_entries P (put m k v)"
  by (auto simp: all_entries_iff)

lemma all_entries_update:
  assumes "wf_map m" and "all_entries P m" and "map_of m k = Some v" and "P k v \<Longrightarrow> P k v'"
  shows "all_entries P (put m k v')"
  using assms(1, 2) assms(4) [OF all_entriesD [OF assms(2, 3)]] by (rule all_entries_put)

lemma all_entries_del [wf_intros, simp]:
  "wf_map m \<Longrightarrow> all_entries P m \<Longrightarrow> all_entries P (del m k)"
  by (auto simp: all_entries_iff)

lemma all_entries_keep [wf_intros, simp]: "all_entries P m \<Longrightarrow> all_entries P (keep Q m)"
  by (auto simp: all_entries_def keep_def list_all_iff)

lemma keep_True: "all_values P m \<Longrightarrow> keep P m = m"
  by (auto simp: all_entries_def keep_def list_all_iff filter_id_conv)

lemma all_values_kept: "all_values P (keep P m)"
  by (auto simp: all_entries_def keep_def list_all_iff)

lemma keep_keep: "keep P (keep Q m) = keep (\<lambda>v. Q v \<and> P v) m"
  by (simp add: keep_def case_prod_unfold)

end
