(* ===== verification/Go_Strings.thy ===== *)
theory Go_Strings
  imports Go_Prelude
begin

text \<open>
  Byte strings: UTF-8 decoding as the Go runtime does it (an invalid byte is the rune U+FFFD of
  width one), the character classes of \<^verbatim>\<open>unicode\<close>, and the functions of \<^verbatim>\<open>strings\<close> the services use.
\<close>

section \<open>Bytes and UTF-8\<close>

definition byte :: "char \<Rightarrow> nat" where
  "byte c = of_char c"

definition byte_in :: "nat \<Rightarrow> nat \<Rightarrow> char \<Rightarrow> bool" where
  "byte_in lo hi c \<longleftrightarrow> lo \<le> byte c \<and> byte c \<le> hi"

definition rune_error :: nat where
  "rune_error = 0xFFFD"

text \<open>The accepted range of the second byte after a given first byte of three or four.\<close>

definition accept_lo :: "nat \<Rightarrow> nat" where
  "accept_lo b = (if b = 0xE0 then 0xA0 else if b = 0xF0 then 0x90 else 0x80)"

definition accept_hi :: "nat \<Rightarrow> nat" where
  "accept_hi b = (if b = 0xED then 0x9F else if b = 0xF4 then 0x8F else 0xBF)"

definition cont :: "char \<Rightarrow> bool" where
  "cont c = byte_in 0x80 0xBF c"

text \<open>\<^verbatim>\<open>utf8.DecodeRuneInString\<close>: the first rune and its width; (U+FFFD, 0) on the empty string.\<close>

fun decode_rune :: "string \<Rightarrow> nat \<times> nat" where
  "decode_rune [] = (rune_error, 0)"
| "decode_rune (a # s) =
    (let b = byte a in
     if b < 0x80 then (b, 1)
     else if 0xC2 \<le> b \<and> b \<le> 0xDF then
       (case s of
          c1 # _ \<Rightarrow> if cont c1 then ((b mod 32) * 64 + byte c1 mod 64, 2) else (rune_error, 1)
        | [] \<Rightarrow> (rune_error, 1))
     else if 0xE0 \<le> b \<and> b \<le> 0xEF then
       (case s of
          c1 # c2 # _ \<Rightarrow>
            if byte_in (accept_lo b) (accept_hi b) c1 \<and> cont c2
            then ((b mod 16) * 4096 + (byte c1 mod 64) * 64 + byte c2 mod 64, 3) else (rune_error, 1)
        | _ \<Rightarrow> (rune_error, 1))
     else if 0xF0 \<le> b \<and> b \<le> 0xF4 then
       (case s of
          c1 # c2 # c3 # _ \<Rightarrow>
            if byte_in (accept_lo b) (accept_hi b) c1 \<and> cont c2 \<and> cont c3
            then ((b mod 8) * 262144 + (byte c1 mod 64) * 4096 + (byte c2 mod 64) * 64 + byte c3 mod 64, 4)
            else (rune_error, 1)
        | _ \<Rightarrow> (rune_error, 1))
     else (rune_error, 1))"

lemma decode_rune_width:
  "s \<noteq> [] \<Longrightarrow> 1 \<le> snd (decode_rune s) \<and> snd (decode_rune s) \<le> length s"
  by (cases s) (simp_all add: Let_def split: list.split)

declare decode_rune.simps [simp del]

lemma decode_rune_shrinks: "s \<noteq> [] \<Longrightarrow> length s - snd (decode_rune s) < length s"
  using decode_rune_width [of s] by linarith

text \<open>The runes a \<^verbatim>\<open>for _, r := range s\<close> loop visits.\<close>

function runes :: "string \<Rightarrow> nat list" where
  "runes s = (if s = [] then [] else fst (decode_rune s) # runes (drop (snd (decode_rune s)) s))"
  by pat_completeness auto
termination
  by (relation "measure length") (simp_all add: decode_rune_shrinks)

declare runes.simps [simp del]

lemma runes_Nil [simp]: "runes [] = []"
  by (simp add: runes.simps)

lemma runes_ascii_Cons: "byte c < 128 \<Longrightarrow> runes (c # s) = byte c # runes s"
  by (subst runes.simps) (simp add: decode_rune.simps)

text \<open>\<^verbatim>\<open>utf8.ValidString\<close>: no byte decodes to the error rune of width one.\<close>

function valid_utf8 :: "string \<Rightarrow> bool" where
  "valid_utf8 s =
    (if s = [] then True
     else if decode_rune s = (rune_error, 1) then False
     else valid_utf8 (drop (snd (decode_rune s)) s))"
  by pat_completeness auto
termination
  by (relation "measure length") (simp_all add: decode_rune_shrinks)

declare valid_utf8.simps [simp del]

definition rune_start :: "char \<Rightarrow> bool" where
  "rune_start c \<longleftrightarrow> \<not> cont c"

text \<open>\<^verbatim>\<open>utf8.DecodeLastRuneInString\<close>: walk back at most four bytes to the start of a rune.\<close>

definition last_starts :: "string \<Rightarrow> nat list" where
  "last_starts s = filter (\<lambda>k. k \<le> length s \<and> rune_start (s ! (length s - k))) [1, 2, 3, 4]"

definition decode_last_rune :: "string \<Rightarrow> nat \<times> nat" where
  "decode_last_rune s =
    (if s = [] then (rune_error, 0)
     else case last_starts s of
       [] \<Rightarrow> (rune_error, 1)
     | k # _ \<Rightarrow>
         (let d = decode_rune (drop (length s - k) s) in if snd d = k then d else (rune_error, 1)))"

lemma last_starts_bounds: "k \<in> set (last_starts s) \<Longrightarrow> 1 \<le> k \<and> k \<le> length s"
  unfolding last_starts_def set_filter by auto

lemma decode_last_rune_width:
  assumes "s \<noteq> []"
  shows "1 \<le> snd (decode_last_rune s) \<and> snd (decode_last_rune s) \<le> length s"
proof (cases "last_starts s")
  case Nil
  with assms show ?thesis
    by (cases s) (simp_all add: decode_last_rune_def)
next
  case (Cons k ks)
  then have "1 \<le> k \<and> k \<le> length s"
    using last_starts_bounds [of k s] by simp
  with assms Cons show ?thesis
    by (simp add: decode_last_rune_def Let_def)
qed

lemma decode_last_rune_shrinks:
  "s \<noteq> [] \<Longrightarrow> length s - (length s - snd (decode_last_rune s)) > 0 \<and> length s - snd (decode_last_rune s) < length s"
  using decode_last_rune_width [of s] by linarith

section \<open>Character classes\<close>

text \<open>\<^verbatim>\<open>unicode.IsControl\<close>: the category Cc.\<close>

definition is_control :: "nat \<Rightarrow> bool" where
  "is_control r \<longleftrightarrow> r < 32 \<or> (127 \<le> r \<and> r < 160)"

text \<open>\<^verbatim>\<open>unicode.IsSpace\<close>: the property White Space.\<close>

definition is_space :: "nat \<Rightarrow> bool" where
  "is_space r \<longleftrightarrow> (9 \<le> r \<and> r \<le> 13) \<or> r = 32 \<or> r = 0x85 \<or> r = 0xA0 \<or> r = 0x1680 \<or>
     (0x2000 \<le> r \<and> r \<le> 0x200A) \<or> r = 0x2028 \<or> r = 0x2029 \<or> r = 0x202F \<or> r = 0x205F \<or> r = 0x3000"

definition is_lower :: "char \<Rightarrow> bool" where
  "is_lower c = byte_in 97 122 c"

definition is_upper :: "char \<Rightarrow> bool" where
  "is_upper c = byte_in 65 90 c"

definition is_digit :: "char \<Rightarrow> bool" where
  "is_digit c = byte_in 48 57 c"

definition is_alpha :: "char \<Rightarrow> bool" where
  "is_alpha c \<longleftrightarrow> is_lower c \<or> is_upper c"

definition is_alnum :: "char \<Rightarrow> bool" where
  "is_alnum c \<longleftrightarrow> is_alpha c \<or> is_digit c"

definition is_ascii :: "char \<Rightarrow> bool" where
  "is_ascii c \<longleftrightarrow> byte c < 128"

section \<open>The package strings\<close>

definition has_prefix :: "'a list \<Rightarrow> 'a list \<Rightarrow> bool" where
  "has_prefix s p \<longleftrightarrow> take (length p) s = p"

definition has_suffix :: "string \<Rightarrow> string \<Rightarrow> bool" where
  "has_suffix s p \<longleftrightarrow> length p \<le> length s \<and> drop (length s - length p) s = p"

definition trim_prefix :: "string \<Rightarrow> string \<Rightarrow> string" where
  "trim_prefix s p = (if has_prefix s p then drop (length p) s else s)"

definition trim_suffix :: "string \<Rightarrow> string \<Rightarrow> string" where
  "trim_suffix s p = (if has_suffix s p then take (length s - length p) s else s)"

fun contains :: "'a list \<Rightarrow> 'a list \<Rightarrow> bool" where
  "contains [] sub \<longleftrightarrow> sub = []"
| "contains (c # s) sub \<longleftrightarrow> has_prefix (c # s) sub \<or> contains s sub"

text \<open>\<^verbatim>\<open>strings.ContainsAny\<close> for a set of ASCII characters.\<close>

definition contains_any :: "string \<Rightarrow> string \<Rightarrow> bool" where
  "contains_any s chars \<longleftrightarrow> list_ex (\<lambda>c. c \<in> set chars) s"

fun join :: "string \<Rightarrow> string list \<Rightarrow> string" where
  "join sep [] = []"
| "join sep [x] = x"
| "join sep (x # y # xs) = x @ sep @ join sep (y # xs)"

text \<open>\<^verbatim>\<open>strings.Split\<close> on a one-byte separator: always at least one field.\<close>

fun split_on :: "char \<Rightarrow> string \<Rightarrow> string list" where
  "split_on d [] = [[]]"
| "split_on d (c # s) =
    (if c = d then [] # split_on d s
     else case split_on d s of [] \<Rightarrow> [[c]] | f # fs \<Rightarrow> (c # f) # fs)"

definition lower_char :: "char \<Rightarrow> char" where
  "lower_char c = (if is_upper c then char_of (byte c + 32) else c)"

function trim_left_space :: "string \<Rightarrow> string" where
  "trim_left_space s =
    (if s \<noteq> [] \<and> is_space (fst (decode_rune s))
     then trim_left_space (drop (snd (decode_rune s)) s) else s)"
  by pat_completeness auto
termination
  by (relation "measure length") (simp_all add: decode_rune_shrinks)

function trim_right_space :: "string \<Rightarrow> string" where
  "trim_right_space s =
    (if s \<noteq> [] \<and> is_space (fst (decode_last_rune s))
     then trim_right_space (take (length s - snd (decode_last_rune s)) s) else s)"
  by pat_completeness auto
termination
  by (relation "measure length") (simp_all add: decode_last_rune_shrinks)

declare trim_left_space.simps [simp del] trim_right_space.simps [simp del]

definition trim_space :: "string \<Rightarrow> string" where
  "trim_space s = trim_right_space (trim_left_space s)"

section \<open>Lemmas\<close>

lemma byte_less [simp]: "byte c < 256"
proof -
  have "byte c mod 256 < 256"
    by (rule mod_less_divisor) simp
  then show ?thesis
    unfolding byte_def of_char_mod_256 .
qed

text \<open>Trimming leaves a string of printable ASCII without blanks alone.\<close>

definition plain_char :: "char \<Rightarrow> bool" where
  "plain_char c \<longleftrightarrow> byte_in 33 126 c"

lemma plain_charD:
  assumes "plain_char c"
  shows "byte c < 128" "\<not> is_space (byte c)" "\<not> cont c"
  using assms by (auto simp: plain_char_def byte_in_def is_space_def cont_def)

lemma trim_left_space_plain: "s = [] \<or> plain_char (hd s) \<Longrightarrow> trim_left_space s = s"
  by (cases s) (auto simp: trim_left_space.simps decode_rune.simps plain_charD)

lemma decode_last_plain: "plain_char c \<Longrightarrow> decode_last_rune (s @ [c]) = (byte c, 1)"
  by (simp add: decode_last_rune_def last_starts_def rune_start_def plain_charD nth_append decode_rune.simps)

lemma trim_right_space_plain: "s = [] \<or> plain_char (last s) \<Longrightarrow> trim_right_space s = s"
  by (cases s rule: rev_cases) (auto simp: trim_right_space.simps decode_last_plain plain_charD)

lemma trim_space_ends: "s = [] \<or> plain_char (hd s) \<and> plain_char (last s) \<Longrightarrow> trim_space s = s"
  unfolding trim_space_def
  by (cases "s = []") (simp_all add: trim_left_space_plain trim_right_space_plain)

lemma trim_space_plain: "list_all plain_char s \<Longrightarrow> trim_space s = s"
  by (rule trim_space_ends) (auto simp: list_all_iff)

lemma trim_space_newline:
  assumes "s \<noteq> []" and "plain_char (hd s)" and "plain_char (last s)"
  shows "trim_space (s @ [CHR 0x0A]) = s"
proof -
  have "decode_last_rune (s @ [CHR 0x0A]) = (10, 1)"
    by (simp add: decode_last_rune_def last_starts_def rune_start_def cont_def byte_in_def byte_def nth_append decode_rune.simps)
  then have "trim_right_space (s @ [CHR 0x0A]) = trim_right_space s"
    by (subst trim_right_space.simps) (simp add: is_space_def)
  with assms show ?thesis
    by (simp add: trim_space_def trim_left_space_plain trim_right_space_plain)
qed

text \<open>Evaluation of these functions on literals.\<close>

lemmas char_eval = plain_char_def byte_in_def byte_def
lemmas trim_eval = trim_space_ends char_eval

lemma trim_prefix_append [simp]: "trim_prefix (p @ s) p = s" "has_prefix (p @ s) p"
  by (simp_all add: trim_prefix_def has_prefix_def)

section \<open>The package strconv\<close>

text \<open>\<^verbatim>\<open>FormatInt(i, 10)\<close>, \<^verbatim>\<open>ParseUint(s, 10, 64)\<close> and \<^verbatim>\<open>ParseInt(s, 10, 64)\<close>.\<close>

fun format_nat :: "nat \<Rightarrow> string" where
  "format_nat n = (if n < 10 then [char_of (48 + n)] else format_nat (n div 10) @ [char_of (48 + n mod 10)])"

declare format_nat.simps [simp del]

definition format_int :: "int \<Rightarrow> string" where
  "format_int i = (if i < 0 then CHR ''-'' # format_nat (nat (- i)) else format_nat (nat i))"

definition parse_nat :: "string \<Rightarrow> nat option" where
  "parse_nat s =
    (if s \<noteq> [] \<and> list_all is_digit s then Some (foldl (\<lambda>acc c. 10 * acc + (byte c - 48)) 0 s) else None)"

definition parse_uint64 :: "string \<Rightarrow> nat option" where
  "parse_uint64 s = (case parse_nat s of Some n \<Rightarrow> if n < 2 ^ 64 then Some n else None | None \<Rightarrow> None)"

definition parse_int64 :: "string \<Rightarrow> int option" where
  "parse_int64 s =
    (case s of
       [] \<Rightarrow> None
     | c # r \<Rightarrow>
         if c = CHR ''-'' then
           (case parse_nat r of Some n \<Rightarrow> if n \<le> 2 ^ 63 then Some (- int n) else None | None \<Rightarrow> None)
         else
           (case parse_nat (if c = CHR ''+'' then r else s) of
              Some n \<Rightarrow> if n < 2 ^ 63 then Some (int n) else None | None \<Rightarrow> None))"

lemma byte_digit_char: "n < 10 \<Longrightarrow> byte (char_of (48 + n)) = 48 + n"
  by (simp add: byte_def)

lemma is_digit_char: "(n :: nat) < 10 \<Longrightarrow> is_digit (char_of (48 + n))"
  by (simp add: is_digit_def byte_in_def byte_digit_char)

lemma format_nat_digits: "list_all is_digit (format_nat n) \<and> format_nat n \<noteq> []"
proof (induction n rule: format_nat.induct)
  case (1 n)
  then show ?case
    by (subst (1 2) format_nat.simps) (auto simp: is_digit_char)
qed

lemma parse_format_nat: "parse_nat (format_nat n) = Some n"
proof -
  have "foldl (\<lambda>acc c. 10 * acc + (byte c - 48)) 0 (format_nat n) = n"
  proof (induction n rule: format_nat.induct)
    case (1 n)
    then show ?case
      by (subst format_nat.simps) (auto simp: byte_digit_char)
  qed
  then show ?thesis
    using format_nat_digits [of n] by (simp add: parse_nat_def)
qed

lemma is_digit_plain: "is_digit c \<Longrightarrow> plain_char c \<and> c \<noteq> CHR ''-'' \<and> c \<noteq> CHR ''+'' \<and> c \<noteq> CHR 0x0A"
  by (auto simp: is_digit_def plain_char_def byte_in_def byte_def)

lemma parse_format_int:
  assumes "- (2 ^ 63) \<le> i" and "i < 2 ^ 63"
  shows "parse_int64 (format_int i) = Some i"
proof (cases "i < 0")
  case True
  then have "nat (- i) \<le> 2 ^ 63"
    using assms by (simp add: nat_le_iff)
  with True show ?thesis
    by (simp add: format_int_def parse_int64_def parse_format_nat)
next
  case False
  then have "nat i < 2 ^ 63"
    using assms by (simp add: nat_less_iff)
  moreover obtain c r where "format_nat (nat i) = c # r" "is_digit c"
    using format_nat_digits [of "nat i"] by (cases "format_nat (nat i)") auto
  moreover from this have "parse_nat (c # r) = Some (nat i)"
    using parse_format_nat by metis
  ultimately show ?thesis
    using False is_digit_plain [of c] by (simp add: format_int_def parse_int64_def)
qed

lemma format_int_plain: "list_all plain_char (format_int i)" "format_int i \<noteq> []"
  using format_nat_digits [of "nat i"] format_nat_digits [of "nat (- i)"] is_digit_plain
  by (auto simp: format_int_def list_all_iff char_eval)

lemma format_int_no_newline: "CHR 0x0A \<notin> set (format_int i)"
  using format_nat_digits [of "nat i"] format_nat_digits [of "nat (- i)"] is_digit_plain
  by (auto simp: format_int_def list_all_iff)

lemma format_nat_inj: "format_nat m = format_nat n \<longleftrightarrow> m = n"
  using parse_format_nat by (metis option.inject)

lemma format_int_inj: "format_int i = format_int k \<longleftrightarrow> i = k"
proof -
  have "format_nat n \<noteq> CHR ''-'' # s" for n s
    using format_nat_digits [of n] is_digit_plain [of "CHR ''-''"] by (cases "format_nat n") auto
  then show ?thesis
    unfolding format_int_def by (auto simp: format_nat_inj dest: sym)
qed

lemma format_chars:
  assumes "c \<in> set (format_nat n) \<or> c \<in> set (format_int i)"
  shows "is_digit c \<or> c = CHR ''-''"
  using assms format_nat_digits [of n] format_nat_digits [of "nat i"] format_nat_digits [of "nat (- i)"]
  by (auto simp: format_int_def list_all_iff split: if_splits)

section \<open>Joining with a separator\<close>

lemma split_first:
  assumes "a @ x # b = c @ x # d" and "x \<notin> set a" and "x \<notin> set c"
  shows "a = c \<and> b = d"
  using assms by (induction a arbitrary: c) (auto simp: Cons_eq_append_conv append_eq_Cons_conv)

lemma join_inj:
  assumes "join [x] as = join [x] bs" and "length as = length bs"
    and "list_all (\<lambda>s. x \<notin> set s) as" and "list_all (\<lambda>s. x \<notin> set s) bs"
  shows "as = bs"
  using assms
proof (induction as arbitrary: bs)
  case (Cons a as)
  then obtain b bs' where bs: "bs = b # bs'"
    by (cases bs) auto
  show ?case
  proof (cases as)
    case Nil
    with Cons bs show ?thesis
      by simp
  next
    case as: (Cons a' as')
    then obtain b' bs'' where bs': "bs' = b' # bs''"
      using Cons.prems(2) bs by (cases bs') auto
    have "a @ x # join [x] as = b @ x # join [x] bs'"
      using Cons.prems(1) bs bs' as by simp
    then have "a = b \<and> join [x] as = join [x] bs'"
      using Cons.prems(3, 4) bs by (intro split_first) auto
    with Cons.IH [of bs'] Cons.prems bs show ?thesis
      by simp
  qed
qed simp

section \<open>Strings of ASCII runes\<close>

lemma mod_window: "k * m \<le> b \<Longrightarrow> b < k * m + m \<Longrightarrow> b mod m = b - k * m" for b m k :: nat
  by (auto dest!: le_Suc_ex)

lemma lead_bits:
  fixes b c :: nat
  shows "194 \<le> b \<Longrightarrow> b \<le> 223 \<Longrightarrow> 2 \<le> b mod 32"
    and "b \<noteq> 224 \<Longrightarrow> 224 \<le> b \<Longrightarrow> b \<le> 239 \<Longrightarrow> 1 \<le> b mod 16"
    and "160 \<le> c \<Longrightarrow> c \<le> 191 \<Longrightarrow> 32 \<le> c mod 64"
    and "b \<noteq> 240 \<Longrightarrow> 240 \<le> b \<Longrightarrow> b \<le> 244 \<Longrightarrow> 1 \<le> b mod 8"
    and "144 \<le> c \<Longrightarrow> c \<le> 191 \<Longrightarrow> 16 \<le> c mod 64"
  using mod_window [of 6 32 b] mod_window [of 14 16 b] mod_window [of 2 64 c] mod_window [of 30 8 b]
  by simp_all

lemma decode_rune_three:
  assumes "224 \<le> byte c" and "byte c \<le> 239"
  shows "fst (decode_rune (c # s)) = rune_error \<or>
    (\<exists>d e. byte_in (accept_lo (byte c)) (accept_hi (byte c)) d \<and>
      fst (decode_rune (c # s)) = byte c mod 16 * 4096 + byte d mod 64 * 64 + byte e mod 64)"
  using assms by (cases s; cases "tl s") (auto simp: decode_rune.simps Let_def)

lemma decode_rune_four:
  assumes "240 \<le> byte c" and "byte c \<le> 244"
  shows "fst (decode_rune (c # s)) = rune_error \<or>
    (\<exists>d e f. byte_in (accept_lo (byte c)) (accept_hi (byte c)) d \<and>
      fst (decode_rune (c # s)) = byte c mod 8 * 262144 + byte d mod 64 * 4096 + byte e mod 64 * 64 + byte f mod 64)"
  using assms by (cases s; cases "tl s"; cases "tl (tl s)") (auto simp: decode_rune.simps Let_def)

lemma decode_rune_ascii:
  assumes "fst (decode_rune (c # s)) < 128"
  shows "byte c < 128"
proof (rule ccontr)
  assume big: "\<not> byte c < 128"
  consider "byte c < 194" | "194 \<le> byte c" "byte c \<le> 223" | "224 \<le> byte c" "byte c \<le> 239"
    | "240 \<le> byte c" "byte c \<le> 244" | "244 < byte c"
    by linarith
  then show False
  proof cases
    case 2
    with lead_bits(1) [of "byte c"] assms show False
      by (cases s) (auto simp: decode_rune.simps rune_error_def split: if_splits)
  next
    case 3
    from decode_rune_three [OF 3, of s] assms obtain d e where
      d: "byte_in (accept_lo (byte c)) (accept_hi (byte c)) d" and
      small: "byte c mod 16 * 4096 + byte d mod 64 * 64 + byte e mod 64 < 128"
      by (auto simp: rune_error_def)
    from d 3 lead_bits(2) [of "byte c"] lead_bits(3) [of "byte d"]
    have "1 \<le> byte c mod 16 \<or> 32 \<le> byte d mod 64"
      by (cases "byte c = 224") (auto simp: byte_in_def accept_lo_def accept_hi_def)
    with small show False
      by linarith
  next
    case 4
    from decode_rune_four [OF 4, of s] assms obtain d e f where
      d: "byte_in (accept_lo (byte c)) (accept_hi (byte c)) d" and
      small: "byte c mod 8 * 262144 + byte d mod 64 * 4096 + byte e mod 64 * 64 + byte f mod 64 < 128"
      by (auto simp: rune_error_def)
    from d 4 lead_bits(4) [of "byte c"] lead_bits(5) [of "byte d"]
    have "1 \<le> byte c mod 8 \<or> 16 \<le> byte d mod 64"
      by (cases "byte c = 240") (auto simp: byte_in_def accept_lo_def accept_hi_def)
    with small show False
      by linarith
  qed (use big assms in \<open>auto simp: decode_rune.simps rune_error_def\<close>)
qed

lemma runes_ascii: "list_all (\<lambda>r. r < 128) (runes s) \<Longrightarrow> runes s = map byte s"
proof (induction s)
  case (Cons c s)
  have "fst (decode_rune (c # s)) < 128"
    using Cons.prems by (subst (asm) runes.simps) simp
  then have "runes (c # s) = byte c # runes s"
    by (intro runes_ascii_Cons decode_rune_ascii)
  with Cons show ?case
    by simp
qed simp

lemma runes_map_byte: "list_all is_ascii s \<Longrightarrow> runes s = map byte s"
  by (induction s) (simp_all add: runes_ascii_Cons is_ascii_def)

text \<open>An ASCII byte is always decoded as a rune of its own.\<close>

lemma decode_rune_skips:
  assumes "128 \<le> byte a" and "c \<in> set (take (snd (decode_rune (a # s))) (a # s))"
  shows "128 \<le> byte c"
  using assms
  by (auto simp: decode_rune.simps Let_def cont_def byte_in_def accept_lo_def split: if_splits list.splits)

lemma ascii_byte_is_rune: "c \<in> set s \<Longrightarrow> byte c < 128 \<Longrightarrow> byte c \<in> set (runes s)"
proof (induction s rule: runes.induct)
  case (1 s)
  then obtain a t where s: "s = a # t"
    by (cases s) auto
  show ?case
  proof (cases "byte a < 128")
    case True
    then have "snd (decode_rune s) = 1"
      by (simp add: s decode_rune.simps)
    with 1 True show ?thesis
      by (auto simp: s runes_ascii_Cons)
  next
    case False
    then have "c \<notin> set (take (snd (decode_rune s)) s)"
      using decode_rune_skips [of a c t] "1.prems"(2) s by auto
    then have "c \<in> set (drop (snd (decode_rune s)) s)"
      using "1.prems"(1) by (metis Un_iff append_take_drop_id set_append)
    with 1 s show ?thesis
      by (subst runes.simps) auto
  qed
qed

section \<open>Splitting\<close>

lemma contains_single: "contains s [d] \<longleftrightarrow> d \<in> set s"
  by (induction s) (auto simp: has_prefix_def)

lemma split_on_plain: "d \<notin> set a \<Longrightarrow> split_on d a = [a]"
  by (induction a) auto

lemma split_on_append: "d \<notin> set a \<Longrightarrow> split_on d (a @ d # s) = a # split_on d s"
  by (induction a) (auto split: list.split)

end
