(* ===== verification/Go_Codec.thy ===== *)
theory Go_Codec
  imports Go_Strings
begin

text \<open>
  The encodings and digests of the Go standard library the services use: \<^verbatim>\<open>encoding/hex\<close>, the
  unpadded URL alphabet of \<^verbatim>\<open>encoding/base64\<close>, \<^verbatim>\<open>crypto/sha256\<close> (FIPS 180-4) and \<^verbatim>\<open>crypto/hmac\<close>
  (RFC 2104) over it. All are executable.
\<close>

unbundle bit_operations_syntax

section \<open>SHA-256\<close>

type_synonym w32 = "32 word"

definition rotr :: "nat \<Rightarrow> w32 \<Rightarrow> w32" where
  "rotr n w = drop_bit n w OR push_bit (32 - n) w"

definition sha_ch :: "w32 \<Rightarrow> w32 \<Rightarrow> w32 \<Rightarrow> w32" where
  "sha_ch x y z = (x AND y) XOR (NOT x AND z)"

definition sha_maj :: "w32 \<Rightarrow> w32 \<Rightarrow> w32 \<Rightarrow> w32" where
  "sha_maj x y z = (x AND y) XOR (x AND z) XOR (y AND z)"

definition big_sigma0 :: "w32 \<Rightarrow> w32" where
  "big_sigma0 x = rotr 2 x XOR rotr 13 x XOR rotr 22 x"

definition big_sigma1 :: "w32 \<Rightarrow> w32" where
  "big_sigma1 x = rotr 6 x XOR rotr 11 x XOR rotr 25 x"

definition small_sigma0 :: "w32 \<Rightarrow> w32" where
  "small_sigma0 x = rotr 7 x XOR rotr 18 x XOR drop_bit 3 x"

definition small_sigma1 :: "w32 \<Rightarrow> w32" where
  "small_sigma1 x = rotr 17 x XOR rotr 19 x XOR drop_bit 10 x"

text \<open>
  The constants as the standard defines them: the first 32 bits of the fractional parts of the cube
  roots of the first 64 primes, and of the square roots of the first eight.
\<close>

fun root_search :: "nat \<Rightarrow> int \<Rightarrow> nat \<Rightarrow> int \<Rightarrow> int" where
  "root_search k n 0 r = r"
| "root_search k n (Suc b) r = root_search k n b (if (r + 2 ^ b) ^ k \<le> n then r + 2 ^ b else r)"

definition root_fraction :: "nat \<Rightarrow> int \<Rightarrow> w32" where
  "root_fraction k p = word_of_int (root_search k (p * 2 ^ (32 * k)) 37 0)"

definition small_primes :: "int list" where
  "small_primes = filter (\<lambda>n. list_all (\<lambda>d. n mod d \<noteq> 0) [2..n - 1]) [2..311]"

definition sha_k :: "w32 list" where
  "sha_k = map (root_fraction 3) small_primes"

definition sha_h0 :: "w32 list" where
  "sha_h0 = map (root_fraction 2) (take 8 small_primes)"

text \<open>Big-endian bytes of a number, most significant first.\<close>

fun be_bytes :: "nat \<Rightarrow> int \<Rightarrow> string" where
  "be_bytes 0 n = []"
| "be_bytes (Suc k) n = be_bytes k (n div 256) @ [char_of n]"

definition be_word :: "string \<Rightarrow> w32" where
  "be_word s = foldl (\<lambda>acc c. push_bit 8 acc OR word_of_nat (byte c)) 0 s"

definition sha_pad :: "string \<Rightarrow> string" where
  "sha_pad m = m @ [CHR 0x80] @ replicate ((119 - length m mod 64) mod 64) (CHR 0x00) @ be_bytes 8 (8 * int (length m))"

fun chunks :: "nat \<Rightarrow> nat \<Rightarrow> string \<Rightarrow> string list" where
  "chunks k 0 s = []"
| "chunks k (Suc n) s = take k s # chunks k n (drop k s)"

text \<open>The message schedule, kept newest word first while it is extended.\<close>

fun extend_schedule :: "nat \<Rightarrow> w32 list \<Rightarrow> w32 list" where
  "extend_schedule 0 ws = ws"
| "extend_schedule (Suc n) ws =
    extend_schedule n ((small_sigma1 (ws ! 1) + ws ! 6 + small_sigma0 (ws ! 14) + ws ! 15) # ws)"

definition schedule :: "string \<Rightarrow> w32 list" where
  "schedule block = rev (extend_schedule 48 (rev (map be_word (chunks 4 16 block))))"

fun sha_round :: "w32 list \<Rightarrow> w32 \<times> w32 \<Rightarrow> w32 list" where
  "sha_round [a, b, c, d, e, f, g, h] (k, w) =
    (let t1 = h + big_sigma1 e + sha_ch e f g + k + w;
         t2 = big_sigma0 a + sha_maj a b c
     in [t1 + t2, a, b, c, d + t1, e, f, g])"
| "sha_round st kw = st"

definition compress :: "w32 list \<Rightarrow> string \<Rightarrow> w32 list" where
  "compress hs block = map2 (+) hs (foldl sha_round hs (zip sha_k (schedule block)))"

text \<open>\<^verbatim>\<open>sha256.Sum256\<close>.\<close>

definition sha256 :: "string \<Rightarrow> string" where
  "sha256 m =
    (let p = sha_pad m
     in concat (map (\<lambda>w. be_bytes 4 (uint w)) (foldl compress sha_h0 (chunks 64 (length p div 64) p))))"

section \<open>HMAC-SHA-256\<close>

definition xor_byte :: "nat \<Rightarrow> char \<Rightarrow> char" where
  "xor_byte n c = char_of (byte c XOR n)"

definition hmac_key_block :: "string \<Rightarrow> string" where
  "hmac_key_block key =
    (let k = (if 64 < length key then sha256 key else key) in k @ replicate (64 - length k) (CHR 0x00))"

definition hmac_sha256 :: "string \<Rightarrow> string \<Rightarrow> string" where
  "hmac_sha256 key m =
    (let k = hmac_key_block key
     in sha256 (map (xor_byte 0x5c) k @ sha256 (map (xor_byte 0x36) k @ m)))"

section \<open>Hexadecimal\<close>

definition hex_digit :: "nat \<Rightarrow> char" where
  "hex_digit n = (if n < 10 then char_of (48 + n) else char_of (87 + n))"

definition hex_encode :: "string \<Rightarrow> string" where
  "hex_encode s = concat (map (\<lambda>c. [hex_digit (byte c div 16), hex_digit (byte c mod 16)]) s)"

definition hex_val :: "char \<Rightarrow> nat option" where
  "hex_val c =
    (if is_digit c then Some (byte c - 48)
     else if byte_in 97 102 c then Some (byte c - 87)
     else if byte_in 65 70 c then Some (byte c - 55)
     else None)"

fun hex_decode :: "string \<Rightarrow> string option" where
  "hex_decode [] = Some []"
| "hex_decode [c] = None"
| "hex_decode (c # d # s) =
    (case (hex_val c, hex_val d, hex_decode s) of
       (Some h, Some l, Some t) \<Rightarrow> Some (char_of (16 * h + l) # t)
     | _ \<Rightarrow> None)"

section \<open>Base64: the URL alphabet without padding\<close>

definition b64_char :: "nat \<Rightarrow> char" where
  "b64_char n =
    (if n < 26 then char_of (65 + n) else if n < 52 then char_of (71 + n)
     else if n < 62 then char_of (n - 4) else if n = 62 then CHR ''-'' else CHR ''_'')"

definition b64_val :: "char \<Rightarrow> nat option" where
  "b64_val c =
    (if is_upper c then Some (byte c - 65)
     else if is_lower c then Some (byte c - 71)
     else if is_digit c then Some (byte c + 4)
     else if c = CHR ''-'' then Some 62
     else if c = CHR ''_'' then Some 63
     else None)"

fun b64_values :: "string \<Rightarrow> nat list" where
  "b64_values [] = []"
| "b64_values [a] = [byte a div 4, byte a mod 4 * 16]"
| "b64_values [a, b] = [byte a div 4, byte a mod 4 * 16 + byte b div 16, byte b mod 16 * 4]"
| "b64_values (a # b # c # s) =
    byte a div 4 # (byte a mod 4 * 16 + byte b div 16) # (byte b mod 16 * 4 + byte c div 64) #
    byte c mod 64 # b64_values s"

definition b64_encode :: "string \<Rightarrow> string" where
  "b64_encode s = map b64_char (b64_values s)"

text \<open>
  The decoder. The strict variant (\<^verbatim>\<open>Strict()\<close>) rejects unused trailing bits that are not zero.
\<close>

fun b64_bytes :: "bool \<Rightarrow> nat list \<Rightarrow> string option" where
  "b64_bytes strict [] = Some []"
| "b64_bytes strict [x] = None"
| "b64_bytes strict [x, y] =
    (if strict \<and> y mod 16 \<noteq> 0 then None else Some [char_of (x * 4 + y div 16)])"
| "b64_bytes strict [x, y, z] =
    (if strict \<and> z mod 4 \<noteq> 0 then None
     else Some [char_of (x * 4 + y div 16), char_of (y mod 16 * 16 + z div 4)])"
| "b64_bytes strict (x # y # z # w # vs) =
    map_option (\<lambda>t. char_of (x * 4 + y div 16) # char_of (y mod 16 * 16 + z div 4) #
      char_of (z mod 4 * 64 + w) # t) (b64_bytes strict vs)"

text \<open>\<^verbatim>\<open>DecodeString\<close> skips carriage returns and line feeds.\<close>

definition b64_decode :: "bool \<Rightarrow> string \<Rightarrow> string option" where
  "b64_decode strict s =
    Option.bind (those (map b64_val (filter (\<lambda>c. c \<noteq> CHR 0x0A \<and> c \<noteq> CHR 0x0D) s))) (b64_bytes strict)"

section \<open>Round trips\<close>

lemma byte_char_of [simp]: "byte (char_of n) = n mod 256"
  by (simp add: byte_def)

lemma char_of_byte [simp]: "char_of (byte c) = c"
  by (simp add: byte_def)

lemma char_eq_byte: "c = d \<longleftrightarrow> byte c = byte d"
  by (simp add: byte_def)

lemma byte_digits [simp]:
  "byte c div 16 < 16" "byte c div 16 div 16 = 0" "byte c div 64 div 4 = 0"
  "byte c div 16 mod 16 = byte c div 16" "byte c div 64 mod 4 = byte c div 64" "byte c div 4 < 64"
  using byte_less [of c] by (simp_all add: less_mult_imp_div_less)

lemma hex_val_digit: "n < 16 \<Longrightarrow> hex_val (hex_digit n) = Some n"
  by (auto simp: hex_val_def hex_digit_def is_digit_def byte_in_def)

lemma hex_decode_encode: "hex_decode (hex_encode s) = Some s"
  unfolding hex_encode_def by (induction s) (simp_all add: hex_val_digit)

lemma hex_encode_inj: "hex_encode s = hex_encode t \<longleftrightarrow> s = t"
  using hex_decode_encode by (metis option.inject)

lemma length_hex_encode: "length (hex_encode s) = 2 * length s"
  unfolding hex_encode_def by (induction s) simp_all

lemma byte_b64_char:
  "byte (b64_char n) =
    (if n < 26 then 65 + n else if n < 52 then 71 + n else if n < 62 then n - 4 else if n = 62 then 45 else 95)"
  by (simp add: b64_char_def byte_def)

lemmas byte_classes = is_digit_def is_upper_def is_lower_def byte_in_def

lemma b64_val_char: "n < 64 \<Longrightarrow> b64_val (b64_char n) = Some n"
  unfolding b64_val_def byte_classes char_eq_byte byte_b64_char
  by (simp add: byte_def) arith

lemma b64_char_plain: "b64_char n \<noteq> CHR 0x0A \<and> b64_char n \<noteq> CHR 0x0D"
  unfolding char_eq_byte byte_b64_char by (simp add: byte_def) arith

lemma six_bits:
  "byte a mod 4 * 16 + byte b div 16 < 64" "byte b mod 16 * 4 + byte c div 64 < 64"
proof -
  have "byte a mod 4 < 4" "byte b mod 16 < 16" "byte c div 64 < 4"
    using byte_less [of c] by (simp_all add: less_mult_imp_div_less)
  moreover have "byte b div 16 < 16"
    by simp
  ultimately show "byte a mod 4 * 16 + byte b div 16 < 64" "byte b mod 16 * 4 + byte c div 64 < 64"
    by linarith+
qed

lemma b64_values_less: "list_all (\<lambda>n. n < 64) (b64_values s)"
  by (induction s rule: b64_values.induct) (simp_all add: six_bits)

lemma b64_bytes_values: "b64_bytes strict (b64_values s) = Some s"
  by (induction s rule: b64_values.induct) simp_all

lemma those_map_Some: "list_all (\<lambda>x. f (g x) = Some x) xs \<Longrightarrow> those (map f (map g xs)) = Some xs"
  by (induction xs) simp_all

lemma b64_decode_encode: "b64_decode strict (b64_encode s) = Some s"
proof -
  let ?vs = "b64_values s"
  have plain: "filter (\<lambda>c. c \<noteq> CHR 0x0A \<and> c \<noteq> CHR 0x0D) (map b64_char ?vs) = map b64_char ?vs"
    using b64_values_less [of s] by (auto simp: filter_id_conv b64_char_plain)
  have "those (map b64_val (map b64_char ?vs)) = Some ?vs"
    using b64_values_less [of s] by (intro those_map_Some) (auto simp: list_all_iff b64_val_char)
  then show ?thesis
    by (simp add: b64_decode_def b64_encode_def plain b64_bytes_values)
qed

lemma length_be_bytes [simp]: "length (be_bytes k n) = k"
  by (induction k n rule: be_bytes.induct) simp_all

lemma b64_encode_plain: "list_all plain_char (b64_encode s)"
  using b64_values_less [of s]
  by (auto simp: b64_encode_def list_all_iff plain_char_def byte_in_def byte_b64_char split: if_splits)

lemma b64_encode_inj: "b64_encode s = b64_encode t \<longleftrightarrow> s = t"
  using b64_decode_encode by (metis option.inject)

lemma b64_encode_Nil_iff: "b64_encode s = [] \<longleftrightarrow> s = []"
  by (cases s rule: b64_values.cases) (simp_all add: b64_encode_def)

lemma length_sha_round [simp]: "length (sha_round st kw) = length st"
  by (cases "(st, kw)" rule: sha_round.cases) (simp_all add: Let_def)

lemma length_sha_rounds [simp]: "length (foldl sha_round st kws) = length st"
  by (induction kws arbitrary: st) simp_all

lemma length_compress [simp]: "length (compress hs block) = length hs"
  by (simp add: compress_def)

lemma length_sha_blocks [simp]: "length (foldl compress hs blocks) = length hs"
  by (induction blocks arbitrary: hs) simp_all

lemma small_primes_iff:
  "p \<in> set small_primes \<longleftrightarrow> 2 \<le> p \<and> p \<le> 311 \<and> list_all (\<lambda>d. p mod d \<noteq> 0) [2..p - 1]"
  unfolding small_primes_def set_filter set_upto by fastforce

lemma length_sha_h0: "length sha_h0 = 8"
proof -
  have "{2, 3, 5, 7, 11, 13, 17, 19} \<subseteq> set small_primes"
    by (simp add: small_primes_iff)
  then have "card {2, 3, 5, 7, 11, 13, 17, 19 :: int} \<le> card (set small_primes)"
    by (intro card_mono) simp_all
  moreover have "card (set small_primes) \<le> length small_primes"
    by (rule card_length)
  ultimately show ?thesis
    by (simp add: sha_h0_def)
qed

lemma length_concat_const: "length (concat (map (\<lambda>w. be_bytes k (f w)) ws)) = k * length ws"
  by (induction ws) simp_all

lemma length_sha256 [simp]: "length (sha256 m) = 32"
  by (simp add: sha256_def Let_def length_concat_const length_sha_h0)

lemma hex_digit_newline: "n < 16 \<Longrightarrow> CHR 0x0A \<noteq> hex_digit n"
  by (auto simp: hex_digit_def char_eq_byte byte_def)

lemma length_b64_encode: "length (b64_encode s) = (8 * length s + 5) div 6"
  unfolding b64_encode_def length_map by (induction s rule: b64_values.induct) simp_all

lemma b64_char_special: "CHR ''.'' \<noteq> b64_char n \<and> CHR ''='' \<noteq> b64_char n"
  unfolding char_eq_byte byte_b64_char by (simp add: byte_def) arith

lemma b64_encode_chars: "CHR ''.'' \<notin> set (b64_encode s)" "CHR ''='' \<notin> set (b64_encode s)"
  using b64_char_special by (auto simp: b64_encode_def image_iff)

end
