(* ===== verification/Auth.thy ===== *)
theory Auth
  imports Go_Codec
begin

text \<open>
  Sessions and the permission matrix (\<^verbatim>\<open>control-plane/internal/auth/auth.go\<close>).

  A role is the string the client sends, a permission is one of the constants of the package. The
  session table maps the SHA-256 digest of a bearer token to the stored session. The random bytes
  that \<^verbatim>\<open>crypto/rand\<close> delivers and the instant \<^verbatim>\<open>s.now()\<close> returns are arguments of the operations;
  a failed read of the random source is \<^const>\<open>None\<close>.
\<close>

section \<open>Roles and permissions\<close>

type_synonym role = string

definition RoleViewer :: role where "RoleViewer = ''viewer''"
definition RoleOperator :: role where "RoleOperator = ''operator''"
definition RoleAdmin :: role where "RoleAdmin = ''admin''"
definition RoleAuditor :: role where "RoleAuditor = ''auditor''"

datatype permission =
  HostsRead | HostsWrite | HostsDelete | HostKeyPin | HostKeyReplace | CredentialsManage
| JobsRead | SnapshotsRun | CommandsRun | AnomalyScansRun | TerminalSessionsOpen
| RunbooksPreview | RunbooksExecute | JobsCancel
| WorkersRead | WorkersWrite | WorkerTokensManage | WorkerDeploymentsPlan | WorkerDeploymentsRun
| AuditRead | SessionRevokeSelf

definition grants :: "(role, permission list) gomap" where
  "grants = [
    (RoleViewer, [HostsRead, JobsRead, WorkersRead, SessionRevokeSelf]),
    (RoleOperator,
      [HostsRead, HostsWrite, HostKeyPin, JobsRead, SnapshotsRun, CommandsRun,
       AnomalyScansRun, TerminalSessionsOpen, RunbooksPreview, RunbooksExecute, JobsCancel,
       WorkersRead, WorkersWrite, WorkerDeploymentsPlan, SessionRevokeSelf]),
    (RoleAdmin,
      [HostsRead, HostsWrite, HostsDelete, HostKeyPin, HostKeyReplace,
       CredentialsManage, JobsRead, SnapshotsRun, CommandsRun, AnomalyScansRun,
       TerminalSessionsOpen, RunbooksPreview, RunbooksExecute, JobsCancel,
       WorkersRead, WorkersWrite, WorkerTokensManage, WorkerDeploymentsPlan, WorkerDeploymentsRun,
       AuditRead, SessionRevokeSelf]),
    (RoleAuditor, [HostsRead, JobsRead, WorkersRead, AuditRead, SessionRevokeSelf])]"

definition ValidRole :: "role \<Rightarrow> bool" where
  "ValidRole role = has_key grants role"

definition Allowed :: "role \<Rightarrow> permission \<Rightarrow> bool" where
  "Allowed role permission =
    (case map_of grants role of None \<Rightarrow> False | Some permissions \<Rightarrow> permission \<in> set permissions)"

section \<open>Sessions\<close>

record principal =
  p_Subject :: string
  p_Role :: role
  p_AllHosts :: bool
  p_HostIDs :: "string list"
  p_SessionID :: string

definition no_principal :: principal where
  "no_principal = \<lparr>p_Subject = [], p_Role = [], p_AllHosts = False, p_HostIDs = [], p_SessionID = []\<rparr>"

record session =
  s_Principal :: principal
  s_ExpiresAt :: time

record storedSession =
  st_Session :: session
  st_tokenHash :: string
  st_revoked :: bool

type_synonym sessions = "(string, storedSession) gomap"

definition NewSessions :: sessions where
  "NewSessions = []"

fun dedup_loop :: "string list \<Rightarrow> string list \<Rightarrow> string list" where
  "dedup_loop seen [] = []"
| "dedup_loop seen (value # values) =
    (let v = trim_space value in
     if v = [] then dedup_loop seen values
     else if v \<in> set seen then dedup_loop seen values
     else v # dedup_loop (v # seen) values)"

definition deduplicate :: "string list \<Rightarrow> string list" where
  "deduplicate values = dedup_loop [] values"

datatype auth_error = InvalidSubjectOrRole | InvalidSessionTTL | RandomSourceFailed

definition Sessions_Issue ::
  "sessions \<Rightarrow> time \<Rightarrow> string option \<Rightarrow> string option \<Rightarrow> principal \<Rightarrow> duration \<Rightarrow>
    sessions \<times> (auth_error + string \<times> session)" where
  "Sessions_Issue s now rand rand' pr ttl =
    (if trim_space (p_Subject pr) = [] \<or> \<not> ValidRole (p_Role pr) then (s, Inl InvalidSubjectOrRole)
     else if ttl \<le> 0 \<or> ttl > 8 * hour then (s, Inl InvalidSessionTTL)
     else case rand of None \<Rightarrow> (s, Inl RandomSourceFailed) | Some raw \<Rightarrow>
       (let token = b64_encode raw in
        case rand' of None \<Rightarrow> (s, Inl RandomSourceFailed) | Some sessionIDRaw \<Rightarrow>
          (let pr' = pr\<lparr>p_SessionID := ''session_'' @ b64_encode sessionIDRaw,
                                      p_HostIDs := deduplicate (p_HostIDs pr)\<rparr>;
               hash = sha256 token;
               session = \<lparr>s_Principal = pr', s_ExpiresAt = now + ttl\<rparr>
           in (put s hash \<lparr>st_Session = session, st_tokenHash = hash, st_revoked = False\<rparr>,
               Inr (token, session)))))"

definition bearer :: string where
  "bearer = ''Bearer ''"

definition Authenticate :: "sessions \<Rightarrow> time \<Rightarrow> string \<Rightarrow> sessions \<times> principal \<times> bool" where
  "Authenticate s now authorization =
    (if \<not> has_prefix authorization bearer then (s, no_principal, False)
     else let token = trim_space (trim_prefix authorization bearer) in
       if token = [] then (s, no_principal, False)
       else let hash = sha256 token in
         case map_of s hash of
           None \<Rightarrow> (s, no_principal, False)
         | Some stored \<Rightarrow>
             if st_revoked stored \<or> hash \<noteq> st_tokenHash stored then (s, no_principal, False)
             else if \<not> now < s_ExpiresAt (st_Session stored) then (del s hash, no_principal, False)
             else (s, s_Principal (st_Session stored), True))"

definition Revoke :: "sessions \<Rightarrow> string \<Rightarrow> sessions \<times> bool" where
  "Revoke s authorization =
    (if \<not> has_prefix authorization bearer then (s, False)
     else let hash = sha256 (trim_space (trim_prefix authorization bearer)) in
       case map_of s hash of
         None \<Rightarrow> (s, False)
       | Some stored \<Rightarrow> (put s hash (stored\<lparr>st_revoked := True\<rparr>), True))"

definition CanAccessHost :: "principal \<Rightarrow> string \<Rightarrow> bool" where
  "CanAccessHost pr hostID \<longleftrightarrow>
    p_AllHosts pr \<or>
    list_ex (\<lambda>allowed. allowed = hostID \<and> length allowed = length hostID) (p_HostIDs pr)"

text \<open>The loop over the sessions stops at the first live session with the identifier.\<close>

fun AuthorizeSession :: "sessions \<Rightarrow> time \<Rightarrow> string \<Rightarrow> permission \<Rightarrow> string \<Rightarrow> principal \<times> bool" where
  "AuthorizeSession [] now sessionID permission hostID = (no_principal, False)"
| "AuthorizeSession ((hash, stored) # s) now sessionID permission hostID =
    (let pr = s_Principal (st_Session stored) in
     if p_SessionID pr \<noteq> sessionID \<or> st_revoked stored \<or> \<not> now < s_ExpiresAt (st_Session stored)
     then AuthorizeSession s now sessionID permission hostID
     else (pr, Allowed (p_Role pr) permission \<and> CanAccessHost pr hostID))"

definition SecureTokenEqual :: "string \<Rightarrow> string \<Rightarrow> bool" where
  "SecureTokenEqual got want =
    (if length got < 32 \<or> length want < 32 \<or> length got \<noteq> length want then False else got = want)"

section \<open>Operations on the session table as a sequence of steps\<close>

datatype session_op =
  Op_Issue "string option" "string option" principal duration
| Op_Authenticate string
| Op_Revoke string

fun session_step :: "time \<times> session_op \<Rightarrow> sessions \<Rightarrow> sessions" where
  "session_step (now, Op_Issue rand rand' pr ttl) s = fst (Sessions_Issue s now rand rand' pr ttl)"
| "session_step (now, Op_Authenticate authorization) s = fst (Authenticate s now authorization)"
| "session_step (now, Op_Revoke authorization) s = fst (Revoke s authorization)"

text \<open>The digests under which a sequence of operations issues sessions.\<close>

fun issued_hashes :: "(time \<times> session_op) list \<Rightarrow> string list" where
  "issued_hashes [] = []"
| "issued_hashes ((now, Op_Issue (Some raw) rand' pr ttl) # ops) = sha256 (b64_encode raw) # issued_hashes ops"
| "issued_hashes (op # ops) = issued_hashes ops"

text \<open>What every stored session satisfies.\<close>

definition wf_stored :: "string \<Rightarrow> storedSession \<Rightarrow> bool" where
  "wf_stored hash stored \<longleftrightarrow>
    st_tokenHash stored = hash \<and>
    ValidRole (p_Role (s_Principal (st_Session stored))) \<and>
    trim_space (p_Subject (s_Principal (st_Session stored))) \<noteq> [] \<and>
    distinct (p_HostIDs (s_Principal (st_Session stored))) \<and>
    [] \<notin> set (p_HostIDs (s_Principal (st_Session stored)))"

definition wf_sessions :: "sessions \<Rightarrow> bool" where
  "wf_sessions s \<longleftrightarrow> wf_map s \<and> all_entries wf_stored s"

section \<open>Lemmas\<close>

lemma dedup_loop_props:
  "distinct (dedup_loop seen values) \<and> set (dedup_loop seen values) \<inter> set seen = {} \<and>
   [] \<notin> set (dedup_loop seen values)"
  by (induction seen "values" rule: dedup_loop.induct) (auto simp: Let_def)

lemma set_dedup_loop:
  "set (dedup_loop seen values) = trim_space ` set values - {[]} - set seen"
  by (induction seen "values" rule: dedup_loop.induct) (auto simp: Let_def)

lemma set_deduplicate: "set (deduplicate values) = trim_space ` set values - {[]}"
  by (simp add: deduplicate_def set_dedup_loop)

lemma distinct_deduplicate: "distinct (deduplicate values)" "[] \<notin> set (deduplicate values)"
  using dedup_loop_props [of "[]" "values"] by (simp_all add: deduplicate_def)

lemma wf_stored_revoked: "wf_stored hash stored \<Longrightarrow> wf_stored hash (stored\<lparr>st_revoked := True\<rparr>)"
  by (simp add: wf_stored_def)

lemma wf_sessions_step [wf_intros]:
  assumes "wf_sessions s"
  shows "wf_sessions (session_step op s)"
proof (cases op)
  case (Pair now op')
  show ?thesis
  proof (cases op')
    case (Op_Issue rand rand' pr ttl)
    with Pair assms show ?thesis
      by (auto simp: wf_sessions_def wf_stored_def Sessions_Issue_def Let_def distinct_deduplicate
        split: option.split)
  next
    case (Op_Authenticate authorization)
    with Pair assms show ?thesis
      by (auto simp: wf_sessions_def Authenticate_def Let_def split: option.split)
  next
    case (Op_Revoke authorization)
    with Pair assms show ?thesis
      by (auto simp: wf_sessions_def Revoke_def Let_def intro: wf_stored_revoked all_entries_update
        split: option.split)
  qed
qed

lemma wf_sessions_fold [wf_intros]: "wf_sessions s \<Longrightarrow> wf_sessions (fold session_step ops s)"
  by (induction ops arbitrary: s) (auto intro: wf_sessions_step)

lemma wf_NewSessions [simp]: "wf_sessions NewSessions"
  by (simp add: wf_sessions_def NewSessions_def)

text \<open>A revoked entry stays revoked, or disappears, unless a session is issued under its digest.\<close>

definition dead :: "sessions \<Rightarrow> string \<Rightarrow> bool" where
  "dead s hash \<longleftrightarrow> (case map_of s hash of None \<Rightarrow> True | Some stored \<Rightarrow> st_revoked stored)"

lemma dead_step:
  assumes "dead s hash" and "hash \<notin> set (issued_hashes [op])"
  shows "dead (session_step op s) hash"
  using assms
  by (cases "([op])" rule: issued_hashes.cases)
    (auto simp: dead_def Sessions_Issue_def Authenticate_def Revoke_def Let_def split: option.splits)

lemma issued_hashes_Cons: "set (issued_hashes (op # ops)) = set (issued_hashes [op]) \<union> set (issued_hashes ops)"
  by (cases "op # ops" rule: issued_hashes.cases) auto

lemma dead_fold:
  assumes "dead s hash" and "hash \<notin> set (issued_hashes ops)"
  shows "dead (fold session_step ops s) hash"
  using assms
proof (induction ops arbitrary: s)
  case (Cons op ops)
  then have "dead (session_step op s) hash"
    by (intro dead_step) (auto simp: issued_hashes_Cons [of op ops])
  with Cons show ?case
    by (simp add: issued_hashes_Cons [of op ops])
qed simp

lemma Authenticate_dead:
  assumes "dead s (sha256 (trim_space token))"
  shows "snd (Authenticate s now (bearer @ token)) = (no_principal, False)"
  using assms by (auto simp: Authenticate_def dead_def Let_def split: option.split)

lemma Revoke_dead: "dead (fst (Revoke s (bearer @ token))) (sha256 (trim_space token))"
  by (auto simp: Revoke_def dead_def Let_def split: option.split)

lemma AuthorizeSession_True:
  assumes "AuthorizeSession s now sessionID permission hostID = (pr, True)"
  shows "\<exists>hash stored. (hash, stored) \<in> set s \<and> s_Principal (st_Session stored) = pr \<and>
    p_SessionID pr = sessionID \<and> \<not> st_revoked stored \<and> now < s_ExpiresAt (st_Session stored) \<and>
    Allowed (p_Role pr) permission \<and> CanAccessHost pr hostID"
  using assms
  by (induction s now sessionID permission hostID rule: AuthorizeSession.induct)
    (auto simp: Let_def split: if_splits)

lemma wf_sessions_distinct: "wf_sessions s \<Longrightarrow> (hash, stored) \<in> set s \<longleftrightarrow> map_of s hash = Some stored"
  by (simp add: wf_sessions_def wf_map_def)

lemma AuthorizeSession_live:
  assumes "wf_sessions s" and "snd (AuthorizeSession s now sessionID permission hostID)"
  shows "\<exists>hash stored. map_of s hash = Some stored \<and> wf_stored hash stored \<and>
    p_SessionID (s_Principal (st_Session stored)) = sessionID \<and>
    \<not> st_revoked stored \<and> now < s_ExpiresAt (st_Session stored) \<and>
    Allowed (p_Role (s_Principal (st_Session stored))) permission \<and>
    CanAccessHost (s_Principal (st_Session stored)) hostID"
proof -
  from assms(2) obtain pr where "AuthorizeSession s now sessionID permission hostID = (pr, True)"
    by (metis prod.collapse)
  from AuthorizeSession_True [OF this] assms(1) show ?thesis
    by (auto simp: wf_sessions_distinct) (auto simp: wf_sessions_def dest: all_entriesD)
qed

lemma Revoke_wf: "wf_sessions s \<Longrightarrow> wf_sessions (fst (Revoke s authorization))"
  using wf_sessions_step [of s "(0, Op_Revoke authorization)"] by simp

lemmas grants_eval = ValidRole_def Allowed_def has_key_def grants_def
  RoleViewer_def RoleOperator_def RoleAdmin_def RoleAuditor_def

lemma AuthorizeSession_only:
  assumes "map_of s hash = Some stored"
    and "\<not> st_revoked stored" and "now < s_ExpiresAt (st_Session stored)"
    and "\<forall>h st. (h, st) \<in> set s \<and> p_SessionID (s_Principal (st_Session st)) = sessionID \<longrightarrow> st = stored"
    and "p_SessionID (s_Principal (st_Session stored)) = sessionID"
  shows "AuthorizeSession s now sessionID permission hostID =
    (s_Principal (st_Session stored), Allowed (p_Role (s_Principal (st_Session stored))) permission \<and>
      CanAccessHost (s_Principal (st_Session stored)) hostID)"
  using assms(1, 4)
proof (induction s)
  case (Cons e s)
  obtain h st where e: "e = (h, st)"
    by (cases e)
  show ?case
  proof (cases "p_SessionID (s_Principal (st_Session st)) = sessionID")
    case True
    then have "st = stored"
      using Cons.prems(2) e by (auto dest: spec [of _ h])
    with True e assms(2, 3) show ?thesis
      by (simp add: Let_def)
  next
    case False
    then have "map_of s hash = Some stored"
      using Cons.prems(1) e assms(5) by (auto split: if_splits)
    moreover have "\<forall>h st. (h, st) \<in> set s \<and> p_SessionID (s_Principal (st_Session st)) = sessionID \<longrightarrow> st = stored"
      using Cons.prems(2) by auto
    ultimately show ?thesis
      using Cons.IH False e by (simp add: Let_def)
  qed
qed simp

section \<open>Properties\<close>

lemma Sessions_Issue_Inr:
  assumes "Sessions_Issue s now (Some raw) rand' pr ttl = (s', Inr (token, session))"
  shows "token = b64_encode raw \<and> 0 < ttl \<and> ttl \<le> 8 * hour \<and> s_ExpiresAt session = now + ttl \<and>
    p_HostIDs (s_Principal session) = deduplicate (p_HostIDs pr) \<and>
    s' = put s (sha256 token) \<lparr>st_Session = session, st_tokenHash = sha256 token, st_revoked = False\<rparr>"
  using assms unfolding Sessions_Issue_def Let_def
  by (clarsimp split: option.splits if_splits)

lemma Authenticate_stored:
  assumes "map_of s (sha256 token) = Some stored" and "trim_space token = token" and "token \<noteq> []"
    and "st_tokenHash stored = sha256 token" and "\<not> st_revoked stored"
  shows "snd (Authenticate s now (bearer @ token)) =
    (if now < s_ExpiresAt (st_Session stored) then (s_Principal (st_Session stored), True)
     else (no_principal, False))"
  using assms by (simp add: Authenticate_def)

text \<open>
  C21. The token \<^verbatim>\<open>Issue\<close> returns authenticates as exactly the issued principal strictly before
  its expiry, which is at most eight hours away, and never afterwards.
\<close>

theorem issued_token_authenticates:
  assumes "Sessions_Issue s now (Some raw) rand' pr ttl = (s', Inr (token, session))"
    and "raw \<noteq> []"
  shows "snd (Authenticate s' now' (bearer @ token)) =
      (if now' < s_ExpiresAt session then (s_Principal session, True) else (no_principal, False))
    \<and> s_ExpiresAt session = now + ttl \<and> 0 < ttl \<and> ttl \<le> 8 * hour
    \<and> set (p_HostIDs (s_Principal session)) = trim_space ` set (p_HostIDs pr) - {[]}"
proof -
  note issued = Sessions_Issue_Inr [OF assms(1)]
  then have "trim_space token = token" "token \<noteq> []"
    using assms(2) by (simp_all add: trim_space_plain [OF b64_encode_plain] b64_encode_Nil_iff)
  with issued show ?thesis
    by (simp add: Authenticate_stored set_deduplicate)
qed

theorem issued_token_authenticates_witness:
  "snd (Authenticate (fst (Sessions_Issue [] 0 (Some ''k'') (Some ''i'')
      \<lparr>p_Subject = ''alice'', p_Role = ''viewer'', p_AllHosts = False, p_HostIDs = [''h1''], p_SessionID = []\<rparr> 1))
     0 (bearer @ b64_encode ''k'')) =
   (\<lparr>p_Subject = ''alice'', p_Role = ''viewer'', p_AllHosts = False, p_HostIDs = [''h1''],
      p_SessionID = ''session_'' @ b64_encode ''i''\<rparr>, True)"
proof -
  let ?pr = "\<lparr>p_Subject = ''alice'', p_Role = ''viewer'', p_AllHosts = False, p_HostIDs = [''h1''], p_SessionID = []\<rparr>"
  have trims: "trim_space ''alice'' = ''alice''" "trim_space ''h1'' = ''h1''" and role: "ValidRole ''viewer''"
    by (simp_all add: trim_eval grants_eval)
  have "Sessions_Issue [] 0 (Some ''k'') (Some ''i'') ?pr 1 =
    (fst (Sessions_Issue [] 0 (Some ''k'') (Some ''i'') ?pr 1), Inr (b64_encode ''k'',
      \<lparr>s_Principal = \<lparr>p_Subject = ''alice'', p_Role = ''viewer'', p_AllHosts = False, p_HostIDs = [''h1''],
        p_SessionID = ''session_'' @ b64_encode ''i''\<rparr>, s_ExpiresAt = 1\<rparr>))"
    by (simp add: Sessions_Issue_def trims role Let_def hour_def minute_def second_def deduplicate_def)
  from issued_token_authenticates [OF this, of 0] show ?thesis
    by simp
qed

text \<open>
  C10. A token that was revoked never authenticates again, whatever operations follow at whatever
  instants, unless the random source draws a token with the same digest.
\<close>

theorem revoked_token_stays_dead:
  assumes "sha256 (trim_space token) \<notin> set (issued_hashes ops)"
  shows "snd (Authenticate (fold session_step ops (fst (Revoke s (bearer @ token)))) now (bearer @ token)) =
    (no_principal, False)"
  using assms by (intro Authenticate_dead dead_fold Revoke_dead)

theorem revoked_token_stays_dead_witness:
  "snd (Authenticate (fold session_step [(5, Op_Authenticate ''Bearer k''), (6, Op_Revoke ''Bearer x'')]
      (fst (Revoke [(sha256 (trim_space ''k''),
        \<lparr>st_Session = \<lparr>s_Principal = no_principal, s_ExpiresAt = 100\<rparr>,
         st_tokenHash = sha256 (trim_space ''k''), st_revoked = False\<rparr>)] (bearer @ ''k'')))) 7 (bearer @ ''k'')) =
    (no_principal, False)"
  by (rule revoked_token_stays_dead) simp

text \<open>
  C22. Queued work is authorised by a live session only. When one session of the table carries an
  identifier, \<^verbatim>\<open>AuthorizeSession\<close> grants under it exactly when that session is neither revoked nor
  expired, its role has the permission and its scope contains the host; after its token is revoked
  every permission on every host is denied.
\<close>

theorem authorize_session_exact:
  assumes wf: "wf_sessions s"
    and stored: "map_of s (sha256 (trim_space token)) = Some stored"
    and id: "p_SessionID (s_Principal (st_Session stored)) = sessionID"
    and unique: "\<forall>hash st. map_of s hash = Some st \<and> p_SessionID (s_Principal (st_Session st)) = sessionID \<longrightarrow>
      hash = sha256 (trim_space token)"
  shows "(snd (AuthorizeSession s now sessionID permission hostID) \<longleftrightarrow>
      \<not> st_revoked stored \<and> now < s_ExpiresAt (st_Session stored) \<and>
      Allowed (p_Role (s_Principal (st_Session stored))) permission \<and>
      CanAccessHost (s_Principal (st_Session stored)) hostID)
    \<and> \<not> snd (AuthorizeSession (fst (Revoke s (bearer @ token))) now sessionID permission hostID)"
proof
  show "snd (AuthorizeSession s now sessionID permission hostID) \<longleftrightarrow>
      \<not> st_revoked stored \<and> now < s_ExpiresAt (st_Session stored) \<and>
      Allowed (p_Role (s_Principal (st_Session stored))) permission \<and>
      CanAccessHost (s_Principal (st_Session stored)) hostID" (is "?auth \<longleftrightarrow> ?live")
  proof
    assume ?auth
    from AuthorizeSession_live [OF wf this] unique stored show ?live
      by (metis option.inject)
  next
    assume live: ?live
    have "\<forall>h st. (h, st) \<in> set s \<and> p_SessionID (s_Principal (st_Session st)) = sessionID \<longrightarrow> st = stored"
      using unique stored by (metis wf wf_sessions_distinct option.inject)
    with live id stored show ?auth
      by (subst AuthorizeSession_only) auto
  qed
next
  show "\<not> snd (AuthorizeSession (fst (Revoke s (bearer @ token))) now sessionID permission hostID)"
  proof
    assume "snd (AuthorizeSession (fst (Revoke s (bearer @ token))) now sessionID permission hostID)"
    from AuthorizeSession_live [OF Revoke_wf [OF wf] this] unique stored show False
      by (auto simp: Revoke_def Let_def split: if_splits)
  qed
qed

theorem authorize_session_exact_witness:
  "snd (AuthorizeSession
      [(sha256 (trim_space ''k''), \<lparr>st_Session = \<lparr>s_Principal = \<lparr>p_Subject = ''alice'', p_Role = ''operator'',
          p_AllHosts = False, p_HostIDs = [''h1''], p_SessionID = ''session_1''\<rparr>, s_ExpiresAt = 100\<rparr>,
        st_tokenHash = sha256 (trim_space ''k''), st_revoked = False\<rparr>)] 99 ''session_1'' CommandsRun ''h1'') = True"
proof -
  let ?stored = "\<lparr>st_Session = \<lparr>s_Principal = \<lparr>p_Subject = ''alice'', p_Role = ''operator'',
          p_AllHosts = False, p_HostIDs = [''h1''], p_SessionID = ''session_1''\<rparr>, s_ExpiresAt = 100\<rparr>,
        st_tokenHash = sha256 (trim_space ''k''), st_revoked = False\<rparr>"
  let ?s = "[(sha256 (trim_space ''k''), ?stored)]"
  have "trim_space ''alice'' = ''alice''" "ValidRole ''operator''" "Allowed ''operator'' CommandsRun"
    by (simp_all add: trim_eval grants_eval)
  moreover from this have "wf_sessions ?s"
    by (simp add: wf_sessions_def wf_map_def all_entries_def wf_stored_def)
  ultimately show ?thesis
    using authorize_session_exact [of ?s "''k''" ?stored "''session_1''" 99 CommandsRun "''h1''"] by (simp add: CanAccessHost_def)
qed

text \<open>
  The permission matrix: the viewer's permissions are a subset of everybody's, the operator's of
  the administrator's; deleting hosts, replacing a pinned host key, managing credentials and worker
  tokens and running deployments are the administrator's alone; the audit log is read by the
  administrator and the auditor; the viewer and the auditor change nothing but their own session;
  and a role that is not in the table has no permission.
\<close>

lemma permission_matrix:
  "(Allowed RoleViewer p \<longrightarrow> Allowed RoleOperator p \<and> Allowed RoleAuditor p)
   \<and> (Allowed RoleOperator p \<or> Allowed RoleAuditor p \<longrightarrow> Allowed RoleAdmin p)
   \<and> Allowed RoleAdmin p
   \<and> (p \<in> {HostsDelete, HostKeyReplace, CredentialsManage, WorkerTokensManage, WorkerDeploymentsRun} \<longrightarrow>
       (Allowed r p \<longleftrightarrow> r = RoleAdmin))
   \<and> (Allowed r AuditRead \<longleftrightarrow> r = RoleAdmin \<or> r = RoleAuditor)
   \<and> (r \<in> {RoleViewer, RoleAuditor} \<longrightarrow> Allowed r p \<longrightarrow>
       p \<in> {HostsRead, JobsRead, WorkersRead, AuditRead, SessionRevokeSelf})
   \<and> (Allowed r p \<longrightarrow> ValidRole r)"
  by (cases p) (auto simp: grants_eval)

end
