(* ===== verification/Contracts.thy ===== *)
theory Contracts
  imports Go_Prelude
begin

text \<open>
  The contracts several components share, each with the consequences its clients rely on. Every
  locale below is interpreted by the components that provide it: stores of single-use tickets by the
  step-up manager and the two WebSSH ticket tables, replay guards by the connector's request verifier
  and the identity verifier, and stores with version numbers by the repositories.
\<close>

section \<open>Counting observations along a sequence of operations\<close>

fun count_along :: "('op \<Rightarrow> 's \<Rightarrow> 's) \<Rightarrow> ('op \<Rightarrow> 's \<Rightarrow> bool) \<Rightarrow> 'op list \<Rightarrow> 's \<Rightarrow> nat" where
  "count_along step P [] s = 0"
| "count_along step P (op # ops) s = (if P op s then 1 else 0) + count_along step P ops (step op s)"

section \<open>Stores of single-use tickets\<close>

text \<open>
  \<^term>\<open>held s k\<close> is the outstanding ticket under key \<^term>\<open>k\<close>; \<^term>\<open>issues op s\<close> is the ticket the
  operation adds, \<^term>\<open>redeems op s\<close> the key it redeems with success. The provider promises that
  tickets appear only by being issued, and that a redeemed ticket was held and is gone afterwards.
\<close>

locale ticket_store =
  fixes inv :: "'s \<Rightarrow> bool"
    and held :: "'s \<Rightarrow> 'k \<Rightarrow> 'e option"
    and step :: "'op \<Rightarrow> 's \<Rightarrow> 's"
    and issues :: "'op \<Rightarrow> 's \<Rightarrow> ('k \<times> 'e) option"
    and redeems :: "'op \<Rightarrow> 's \<Rightarrow> 'k option"
  assumes inv_step: "inv s \<Longrightarrow> inv (step op s)"
    and held_step: "inv s \<Longrightarrow> held (step op s) k = Some e \<Longrightarrow> held s k = Some e \<or> issues op s = Some (k, e)"
    and redeem_held: "inv s \<Longrightarrow> redeems op s = Some k \<Longrightarrow> held s k \<noteq> None"
    and redeem_gone: "inv s \<Longrightarrow> redeems op s = Some k \<Longrightarrow> held (step op s) k = None"
begin

lemma inv_run: "inv s \<Longrightarrow> inv (fold step ops s)"
  by (induction ops arbitrary: s) (simp_all add: inv_step)

text \<open>A key is redeemed at most as often as it is issued, once more if it is held at the start.\<close>

lemma redeemed_at_most_issued:
  assumes "inv s"
  shows "count_along step (\<lambda>op s. redeems op s = Some k) ops s \<le>
    count_along step (\<lambda>op s. \<exists>e. issues op s = Some (k, e)) ops s + (if held s k = None then 0 else 1)"
  using assms
proof (induction ops arbitrary: s)
  case (Cons op ops)
  note IH = Cons.IH [OF inv_step [OF Cons.prems], of op]
  show ?case
  proof (cases "held (step op s) k")
    case None
    with IH redeem_held [OF Cons.prems, of op k] show ?thesis
      by (cases "redeems op s = Some k") auto
  next
    case (Some e)
    with redeem_gone [OF Cons.prems, of op k] held_step [OF Cons.prems Some] IH show ?thesis
      by auto
  qed
qed simp

text \<open>While a ticket is held that was not there at the start, it is redeemed less often than issued.\<close>

lemma redeemed_less_issued:
  assumes "inv s" and "held (fold step ops s) k \<noteq> None" and "held s k = None"
  shows "count_along step (\<lambda>op s. redeems op s = Some k) ops s < count_along step (\<lambda>op s. \<exists>e. issues op s = Some (k, e)) ops s"
proof -
  have "count_along step (\<lambda>op s. redeems op s = Some k) ops s + 1 \<le>
      count_along step (\<lambda>op s. \<exists>e. issues op s = Some (k, e)) ops s + (if held s k = None then 0 else 1)"
    if "inv s" "held (fold step ops s) k \<noteq> None" for s
    using that
  proof (induction ops arbitrary: s)
    case (Cons op ops)
    note IH = Cons.IH [OF inv_step [OF Cons.prems(1)], of op]
    show ?case
    proof (cases "held (step op s) k")
      case None
      with IH Cons.prems redeem_held [OF Cons.prems(1), of op k] show ?thesis
        by (cases "redeems op s = Some k") auto
    next
      case (Some e)
      with redeem_gone [OF Cons.prems(1), of op k] held_step [OF Cons.prems(1) Some] IH Cons.prems show ?thesis
        by auto
    qed
  qed auto
  from this [of s] assms show ?thesis
    by simp
qed

text \<open>What is redeemed was issued before, or was there at the start.\<close>

lemma held_was_issued:
  assumes "inv s" and "held (fold step ops s) k = Some e"
  shows "held s k = Some e \<or>
    (\<exists>before op after. ops = before @ op # after \<and> issues op (fold step before s) = Some (k, e))"
  using assms
proof (induction ops arbitrary: s)
  case (Cons op ops)
  have "held (fold step ops (step op s)) k = Some e"
    using Cons.prems(2) by simp
  from Cons.IH [OF inv_step [OF Cons.prems(1)] this]
  consider "held (step op s) k = Some e"
    | before op' after where "ops = before @ op' # after" "issues op' (fold step before (step op s)) = Some (k, e)"
    by blast
  then show ?case
  proof cases
    case 1
    from held_step [OF Cons.prems(1) this] show ?thesis
    proof
      assume "issues op s = Some (k, e)"
      then have "op # ops = [] @ op # ops \<and> issues op (fold step [] s) = Some (k, e)"
        by simp
      then show ?thesis
        by blast
    qed simp
  next
    case 2
    then have "op # ops = (op # before) @ op' # after \<and> issues op' (fold step (op # before) s) = Some (k, e)"
      by simp
    then show ?thesis
      by blast
  qed
qed simp

end

section \<open>Replay guards\<close>

text \<open>
  A guard remembers the key of every request it accepts until \<^term>\<open>horizon\<close>; \<^term>\<open>live d t\<close> says that
  what is remembered until \<^term>\<open>d\<close> is still remembered at instant \<^term>\<open>t\<close>. While it is remembered,
  requests with the same key are refused.
\<close>

locale replay_guard =
  fixes inv :: "'s \<Rightarrow> bool"
    and seen :: "'s \<Rightarrow> 'k \<Rightarrow> time option"
    and step :: "time \<times> 'r \<Rightarrow> 's \<Rightarrow> 's"
    and accepts :: "time \<times> 'r \<Rightarrow> 's \<Rightarrow> bool"
    and key :: "'r \<Rightarrow> 'k"
    and horizon :: "time \<Rightarrow> 'r \<Rightarrow> time"
    and live :: "time \<Rightarrow> time \<Rightarrow> bool"
  assumes inv_step: "inv s \<Longrightarrow> inv (step tr s)"
    and accept_remembers: "inv s \<Longrightarrow> accepts (t, r) s \<Longrightarrow> seen (step (t, r) s) (key r) = Some (horizon t r)"
    and live_kept: "inv s \<Longrightarrow> seen s k = Some d \<Longrightarrow> live d t \<Longrightarrow> seen (step (t, r) s) k = Some d"
    and live_refused: "inv s \<Longrightarrow> seen s (key r) = Some d \<Longrightarrow> live d t \<Longrightarrow> \<not> accepts (t, r) s"
begin

lemma remembered:
  assumes "inv s" and "seen s k = Some d" and "\<forall>tr \<in> set trs. live d (fst tr)"
  shows "seen (fold step trs s) k = Some d \<and> inv (fold step trs s)"
  using assms
proof (induction trs arbitrary: s)
  case (Cons tr trs)
  have "seen (step tr s) k = Some d"
    using Cons.prems(1, 2, 3) by (cases tr) (auto intro: live_kept)
  from Cons.IH [OF inv_step [OF Cons.prems(1)] this] Cons.prems(3) show ?case
    by simp
qed simp

text \<open>The same key is refused as long as the first acceptance is remembered.\<close>

lemma replay_refused:
  assumes "inv s" and "accepts (t, r) s" and "key r' = key r"
    and "\<forall>tr \<in> set trs. live (horizon t r) (fst tr)" and "live (horizon t r) t'"
  shows "\<not> accepts (t', r') (fold step trs (step (t, r) s))"
proof -
  from remembered [OF inv_step [OF assms(1)] accept_remembers [OF assms(1, 2)] assms(4)]
  show ?thesis
    using live_refused assms(3, 5) by metis
qed

end

section \<open>Compare-and-swap stores\<close>

text \<open>
  An update names the version it is based on; a version is a counter, or the state of a state machine.
  It succeeds only when that is the stored version, and then the stored version is another one; a
  failing update changes nothing.
\<close>

locale versioned_store =
  fixes get :: "'s \<Rightarrow> 'k \<Rightarrow> 'v option"
    and version :: "'v \<Rightarrow> 'n"
    and cas :: "'s \<Rightarrow> 'k \<Rightarrow> 'v \<Rightarrow> 'n \<Rightarrow> 's option"
  assumes cas_based: "cas s k v n = Some s' \<Longrightarrow> \<exists>old. get s k = Some old \<and> version old = n"
    and cas_moves: "cas s k v n = Some s' \<Longrightarrow> \<exists>new. get s' k = Some new \<and> version new \<noteq> n"
    and cas_other: "cas s k v n = Some s' \<Longrightarrow> k' \<noteq> k \<Longrightarrow> get s' k' = get s k'"
begin

text \<open>Of two updates based on the same version the second one fails: no update is lost.\<close>

lemma no_lost_update:
  assumes "cas s k v n = Some s'"
  shows "cas s' k v' n = None"
proof (rule ccontr)
  assume "cas s' k v' n \<noteq> None"
  then obtain s'' where "cas s' k v' n = Some s''"
    by blast
  from cas_based [OF this] cas_moves [OF assms] show False
    by auto
qed

text \<open>Updates of different keys do not disturb each other.\<close>

lemma other_update_kept:
  assumes "cas s k v n = Some s'" and "cas s' k' v' n' = Some s''" and "k' \<noteq> k"
  shows "get s'' k = get s' k"
  using cas_other [OF assms(2), of k] assms(3) by simp

end

end
