(* ===== verification/Identity.thy ===== *)
theory Identity
  imports Auth Contracts
begin

text \<open>
  Signed identity assertions of the login bridge (\<^verbatim>\<open>control-plane/internal/identity/assertion.go\<close>).
  The signature scheme Ed25519 and the strict JSON decoding of the two segments are arguments:
  \<^term>\<open>ed25519 key message signature\<close> says whether a signature is valid, and the decoders return
  \<^const>\<open>None\<close> for input that is not exactly one object with known fields. \<^verbatim>\<open>Verify\<close> reads the clock
  twice, to validate the claims and to consume the assertion.
\<close>

section \<open>Model\<close>

definition maxAssertionBytes :: nat where "maxAssertionBytes = 12 * 1024"
definition maxAssertionTTL :: duration where "maxAssertionTTL = 60 * second"
definition defaultClockSkew :: duration where "defaultClockSkew = 5 * second"

record claims =
  c_Issuer :: string
  c_Audience :: string
  c_Subject :: string
  c_Role :: role
  c_AllHosts :: bool
  c_HostIDs :: "string list"
  c_IssuedAt :: int
  c_Expires :: int
  c_JWTID :: string

record jwt_header =
  jh_Algorithm :: string
  jh_KeyID :: string
  jh_Type :: string

record id_verifier =
  iv_issuer :: string
  iv_audience :: string
  iv_keyID :: string
  iv_key :: string
  iv_skew :: duration
  iv_consumed :: "(string, time) gomap"

datatype identity_error =
  IssuerAudienceRequired | IdentityKeyIDInvalid | PublicKeyInvalid | ClockSkewInvalid
| AssertionInvalid | AssertionMalformed | HeaderInvalid | HeaderNotAccepted | SignatureInvalid
| SignatureVerificationFailed | PayloadInvalid | ClaimsInvalid | IssuerAudienceNotAccepted | PrincipalInvalid
| AssertionIDInvalid | HostScopeInvalid | HostScopeDuplicates | LifetimeInvalid | OutsideValidityWindow
| AlreadyConsumed

definition NewIdentityVerifier ::
  "string \<Rightarrow> string \<Rightarrow> string \<Rightarrow> string \<Rightarrow> duration \<Rightarrow> identity_error + id_verifier" where
  "NewIdentityVerifier issuer' audience' keyID' publicKey skew' =
    (let issuer = trim_space issuer'; audience = trim_space audience'; keyID = trim_space keyID';
         skew = (if skew' = 0 then defaultClockSkew else skew') in
     ensure (\<not> (issuer = [] \<or> length issuer > 256 \<or> audience = [] \<or> length audience > 256)) IssuerAudienceRequired (
     ensure (\<not> (keyID = [] \<or> length keyID > 128 \<or> contains_any keyID [CHR 0x0D, CHR 0x0A])) IdentityKeyIDInvalid (
     ensure (length publicKey = 32) PublicKeyInvalid (
     ensure (\<not> (skew < 0 \<or> skew > 15 * second)) ClockSkewInvalid (
     Inr \<lparr>iv_issuer = issuer, iv_audience = audience, iv_keyID = keyID, iv_key = publicKey, iv_skew = skew,
          iv_consumed = []\<rparr>)))))"

definition decodeSegment :: "string \<Rightarrow> nat \<Rightarrow> string option" where
  "decodeSegment v limit =
    (if contains v ''='' then None
     else case b64_decode True v of
       None \<Rightarrow> None
     | Some decoded \<Rightarrow> if length decoded > limit then None else Some decoded)"

fun check_hosts :: "string list \<Rightarrow> string list \<Rightarrow> identity_error option" where
  "check_hosts seen [] = None"
| "check_hosts seen (hostID # hostIDs) =
    (if \<not> has_prefix hostID ''host_'' \<or> length hostID > 128 \<or> trim_space hostID \<noteq> hostID then Some HostScopeInvalid
     else if hostID \<in> set seen then Some HostScopeDuplicates
     else check_hosts (hostID # seen) hostIDs)"

definition validateClaims :: "id_verifier \<Rightarrow> time \<Rightarrow> claims \<Rightarrow> identity_error option" where
  "validateClaims v now c =
    (if c_Issuer c \<noteq> iv_issuer v \<or> c_Audience c \<noteq> iv_audience v then Some IssuerAudienceNotAccepted
     else if trim_space (c_Subject c) \<noteq> c_Subject c \<or> length (c_Subject c) < 1 \<or> length (c_Subject c) > 128 \<or>
       \<not> ValidRole (c_Role c) then Some PrincipalInvalid
     else if trim_space (c_JWTID c) \<noteq> c_JWTID c \<or> length (c_JWTID c) < 16 \<or> length (c_JWTID c) > 128
     then Some AssertionIDInvalid
     else if c_AllHosts c \<and> length (c_HostIDs c) \<noteq> 0 \<or> length (c_HostIDs c) > 256 then Some HostScopeInvalid
     else if check_hosts [] (c_HostIDs c) \<noteq> None then check_hosts [] (c_HostIDs c)
     else let issued = unix_time (c_IssuedAt c); expires = unix_time (c_Expires c) in
       if c_IssuedAt c \<le> 0 \<or> c_Expires c \<le> 0 \<or> \<not> expires > issued \<or> expires - issued > maxAssertionTTL
       then Some LifetimeInvalid
       else if issued > now + iv_skew v \<or> \<not> expires > now - iv_skew v then Some OutsideValidityWindow
       else None)"

definition consume :: "id_verifier \<Rightarrow> time \<Rightarrow> string \<Rightarrow> time \<Rightarrow> id_verifier \<times> bool" where
  "consume v now ident expires =
    (let digest = sha256 ident;
         consumed = keep (\<lambda>deadline. deadline > now - iv_skew v) (iv_consumed v)
     in if has_key consumed digest then (v\<lparr>iv_consumed := consumed\<rparr>, False)
        else (v\<lparr>iv_consumed := put consumed digest (expires + iv_skew v)\<rparr>, True))"

fun three_parts :: "string list \<Rightarrow> (string \<times> string \<times> string) option" where
  "three_parts [p0, p1, p2] = (if p0 = [] \<or> p1 = [] \<or> p2 = [] then None else Some (p0, p1, p2))"
| "three_parts _ = None"

type_synonym signature_scheme = "string \<Rightarrow> string \<Rightarrow> string \<Rightarrow> bool"

text \<open>The signature check and decoding of \<^verbatim>\<open>Verify\<close>: the claims of an authentic assertion.\<close>

definition authentic_claims ::
  "signature_scheme \<Rightarrow> (string \<Rightarrow> jwt_header option) \<Rightarrow> (string \<Rightarrow> claims option) \<Rightarrow>
    id_verifier \<Rightarrow> string \<Rightarrow> identity_error + claims" where
  "authentic_claims ed25519 decode_header decode_claims v assertion =
    ensure (\<not> (assertion = [] \<or> length assertion > maxAssertionBytes \<or> trim_space assertion \<noteq> assertion)) AssertionInvalid (
    some_or (three_parts (split_on (CHR ''.'') assertion)) AssertionMalformed (\<lambda>(p0, p1, p2).
    some_or (decodeSegment p0 1024) HeaderInvalid (\<lambda>headerBytes.
    some_or (decode_header headerBytes) HeaderNotAccepted (\<lambda>h.
    ensure (\<not> (jh_Algorithm h \<noteq> ''EdDSA'' \<or> jh_Type h \<noteq> ''VPSMGR+JWT'' \<or> jh_KeyID h \<noteq> iv_keyID v)) HeaderNotAccepted (
    some_or (decodeSegment p2 64) SignatureInvalid (\<lambda>signature.
    ensure (length signature = 64) SignatureInvalid (
    ensure (ed25519 (iv_key v) (p0 @ ''.'' @ p1) signature) SignatureVerificationFailed (
    some_or (decodeSegment p1 8192) PayloadInvalid (\<lambda>payload.
    some_or (decode_claims payload) ClaimsInvalid (\<lambda>c.
    Inr c))))))))))"

definition IdentityVerify ::
  "signature_scheme \<Rightarrow> (string \<Rightarrow> jwt_header option) \<Rightarrow> (string \<Rightarrow> claims option) \<Rightarrow>
    id_verifier \<Rightarrow> time \<Rightarrow> time \<Rightarrow> string \<Rightarrow> id_verifier \<times> (identity_error + principal)" where
  "IdentityVerify ed25519 decode_header decode_claims v now now' assertion =
    (case authentic_claims ed25519 decode_header decode_claims v assertion of
       Inl e \<Rightarrow> (v, Inl e)
     | Inr c \<Rightarrow>
         case validateClaims v now c of
           Some e \<Rightarrow> (v, Inl e)
         | None \<Rightarrow>
             (let (v', ok) = consume v now' (c_JWTID c) (unix_time (c_Expires c)) in
              if \<not> ok then (v', Inl AlreadyConsumed)
              else (v', Inr \<lparr>p_Subject = c_Subject c, p_Role = c_Role c, p_AllHosts = c_AllHosts c,
                             p_HostIDs = c_HostIDs c, p_SessionID = []\<rparr>)))"

section \<open>Lemmas\<close>

lemma check_hosts_None:
  "check_hosts seen hostIDs = None \<Longrightarrow>
    distinct hostIDs \<and> set hostIDs \<inter> set seen = {} \<and>
    (\<forall>h \<in> set hostIDs. has_prefix h ''host_'' \<and> length h \<le> 128 \<and> trim_space h = h)"
proof (induction hostIDs arbitrary: seen)
  case (Cons hostID hostIDs)
  then have "has_prefix hostID ''host_'' \<and> length hostID \<le> 128 \<and> trim_space hostID = hostID" "hostID \<notin> set seen"
    and rest: "check_hosts (hostID # seen) hostIDs = None"
    by (auto simp del: trim_prefix_append split: if_splits)
  with Cons.IH [OF rest] show ?case
    by simp
qed simp

lemma validateClaims_None:
  assumes "validateClaims v now c = None"
  shows "ValidRole (c_Role c) \<and> (c_AllHosts c \<longrightarrow> c_HostIDs c = []) \<and> length (c_HostIDs c) \<le> 256 \<and>
    check_hosts [] (c_HostIDs c) = None \<and>
    unix_time (c_IssuedAt c) < unix_time (c_Expires c) \<and>
    unix_time (c_Expires c) \<le> unix_time (c_IssuedAt c) + maxAssertionTTL \<and>
    unix_time (c_IssuedAt c) \<le> now + iv_skew v \<and> now - iv_skew v < unix_time (c_Expires c) \<and>
    c_Issuer c = iv_issuer v \<and> c_Audience c = iv_audience v \<and> c_Subject c \<noteq> []"
  using assms unfolding validateClaims_def Let_def by (auto split: if_splits)

lemma validateClaims_window:
  "validateClaims v now c = None \<Longrightarrow> now - iv_skew v < unix_time (c_Expires c)"
  using validateClaims_None by blast

lemma authentic_claims_config:
  "iv_keyID v' = iv_keyID v \<Longrightarrow> iv_key v' = iv_key v \<Longrightarrow>
    authentic_claims ed dh dc v' assertion = authentic_claims ed dh dc v assertion"
  by (simp add: authentic_claims_def)

lemma consume_config [simp]:
  "iv_issuer (fst (consume v now i e)) = iv_issuer v" "iv_audience (fst (consume v now i e)) = iv_audience v"
  "iv_keyID (fst (consume v now i e)) = iv_keyID v" "iv_key (fst (consume v now i e)) = iv_key v"
  "iv_skew (fst (consume v now i e)) = iv_skew v"
  by (simp_all add: consume_def Let_def)

lemma IdentityVerify_fst:
  "fst (IdentityVerify ed dh dc v now now' assertion) =
    (case authentic_claims ed dh dc v assertion of
       Inl e \<Rightarrow> v
     | Inr c \<Rightarrow> if validateClaims v now c = None then fst (consume v now' (c_JWTID c) (unix_time (c_Expires c))) else v)"
  by (simp add: IdentityVerify_def case_prod_unfold Let_def split: sum.split option.split)

lemma IdentityVerify_Inr:
  "snd (IdentityVerify ed dh dc v now now' assertion) = Inr pr \<longleftrightarrow>
    (\<exists>c. authentic_claims ed dh dc v assertion = Inr c \<and> validateClaims v now c = None \<and>
      snd (consume v now' (c_JWTID c) (unix_time (c_Expires c))) \<and>
      pr = \<lparr>p_Subject = c_Subject c, p_Role = c_Role c, p_AllHosts = c_AllHosts c, p_HostIDs = c_HostIDs c, p_SessionID = []\<rparr>)"
  by (auto simp: IdentityVerify_def case_prod_unfold Let_def split: sum.split option.split)

lemma IdentityVerify_config [simp]:
  "iv_keyID (fst (IdentityVerify ed dh dc v now now' a)) = iv_keyID v"
  "iv_key (fst (IdentityVerify ed dh dc v now now' a)) = iv_key v"
  "iv_skew (fst (IdentityVerify ed dh dc v now now' a)) = iv_skew v"
  by (simp_all add: IdentityVerify_fst split: sum.split)

lemma decodeSegment_encode: "length s \<le> limit \<Longrightarrow> decodeSegment (b64_encode s) limit = Some s"
  using b64_encode_chars(2) [of s] by (simp add: decodeSegment_def contains_single b64_decode_encode)

text \<open>An assertion as the bridge composes it.\<close>

definition compose_assertion :: "string \<Rightarrow> string \<Rightarrow> string \<Rightarrow> string" where
  "compose_assertion headerBytes payload signature =
    b64_encode headerBytes @ ''.'' @ b64_encode payload @ ''.'' @ b64_encode signature"

lemma compose_assertion_plain: "list_all plain_char (compose_assertion hb pb sig)"
  using b64_encode_plain by (simp add: compose_assertion_def char_eval)

lemma authentic_composed:
  assumes "hb \<noteq> []" "length hb \<le> 1024" and "pb \<noteq> []" "length pb \<le> 8192" and "length sig = 64"
    and "decode_header hb = Some h" "jh_Algorithm h = ''EdDSA''" "jh_Type h = ''VPSMGR+JWT''" "jh_KeyID h = iv_keyID v"
    and "ed25519 (iv_key v) (b64_encode hb @ ''.'' @ b64_encode pb) sig"
    and "decode_claims pb = Some c" and "length (compose_assertion hb pb sig) \<le> maxAssertionBytes"
  shows "authentic_claims ed25519 decode_header decode_claims v (compose_assertion hb pb sig) = Inr c"
proof -
  have sig: "sig \<noteq> []"
    using assms(5) by auto
  have "split_on (CHR ''.'') (compose_assertion hb pb sig) = [b64_encode hb, b64_encode pb, b64_encode sig]"
    by (simp add: compose_assertion_def split_on_append split_on_plain b64_encode_chars)
  moreover have "compose_assertion hb pb sig \<noteq> []"
    by (simp add: compose_assertion_def)
  ultimately show ?thesis
    using assms sig
    by (simp add: authentic_claims_def trim_space_plain [OF compose_assertion_plain] decodeSegment_encode b64_encode_Nil_iff)
qed

section \<open>The verifier as a replay guard\<close>

definition identity_step ::
  "signature_scheme \<Rightarrow> (string \<Rightarrow> jwt_header option) \<Rightarrow> (string \<Rightarrow> claims option) \<Rightarrow>
    time \<times> time \<times> string \<Rightarrow> id_verifier \<Rightarrow> id_verifier" where
  "identity_step ed dh dc tr v = (case tr of (now', now, a) \<Rightarrow> fst (IdentityVerify ed dh dc v now now' a))"

definition identity_accepts ::
  "signature_scheme \<Rightarrow> (string \<Rightarrow> jwt_header option) \<Rightarrow> (string \<Rightarrow> claims option) \<Rightarrow>
    time \<times> time \<times> string \<Rightarrow> id_verifier \<Rightarrow> bool" where
  "identity_accepts ed dh dc tr v =
    (case tr of (now', now, a) \<Rightarrow> \<exists>pr. snd (IdentityVerify ed dh dc v now now' a) = Inr pr)"

definition identity_key ::
  "signature_scheme \<Rightarrow> (string \<Rightarrow> jwt_header option) \<Rightarrow> (string \<Rightarrow> claims option) \<Rightarrow> id_verifier \<Rightarrow> time \<times> string \<Rightarrow> string" where
  "identity_key ed dh dc v r =
    (case authentic_claims ed dh dc v (snd r) of Inr c \<Rightarrow> sha256 (c_JWTID c) | Inl e \<Rightarrow> [])"

definition identity_horizon ::
  "signature_scheme \<Rightarrow> (string \<Rightarrow> jwt_header option) \<Rightarrow> (string \<Rightarrow> claims option) \<Rightarrow> id_verifier \<Rightarrow>
    time \<Rightarrow> time \<times> string \<Rightarrow> time" where
  "identity_horizon ed dh dc v t r =
    (case authentic_claims ed dh dc v (snd r) of Inr c \<Rightarrow> unix_time (c_Expires c) + iv_skew v | Inl e \<Rightarrow> 0)"

definition identity_inv :: "id_verifier \<Rightarrow> id_verifier \<Rightarrow> bool" where
  "identity_inv v0 v \<longleftrightarrow> wf_map (iv_consumed v) \<and> iv_keyID v = iv_keyID v0 \<and> iv_key v = iv_key v0 \<and> iv_skew v = iv_skew v0"

lemma consume_cases:
  "snd (consume v now i e) \<longleftrightarrow> \<not> has_key (keep (\<lambda>d. now - iv_skew v < d) (iv_consumed v)) (sha256 i)"
  "iv_consumed (fst (consume v now i e)) =
    (let live = keep (\<lambda>d. now - iv_skew v < d) (iv_consumed v) in
     if has_key live (sha256 i) then live else put live (sha256 i) (e + iv_skew v))"
  by (simp_all add: consume_def Let_def)

lemma identity_inv_step: "identity_inv v0 v \<Longrightarrow> identity_inv v0 (identity_step ed dh dc tr v)"
  by (cases tr)
    (auto simp: identity_inv_def identity_step_def IdentityVerify_fst consume_cases Let_def split: sum.split)

interpretation identity: replay_guard "identity_inv v0" "\<lambda>v. map_of (iv_consumed v)" "identity_step ed dh dc"
  "identity_accepts ed dh dc" "identity_key ed dh dc v0" "identity_horizon ed dh dc v0" "\<lambda>d t. t - iv_skew v0 < d"
  for ed dh dc v0
proof
  fix v tr
  assume "identity_inv v0 v"
  then show "identity_inv v0 (identity_step ed dh dc tr v)"
    by (rule identity_inv_step)
next
  fix v t and r :: "time \<times> string"
  assume inv: "identity_inv v0 v" and "identity_accepts ed dh dc (t, r) v"
  then show "map_of (iv_consumed (identity_step ed dh dc (t, r) v)) (identity_key ed dh dc v0 r) =
      Some (identity_horizon ed dh dc v0 t r)"
    using authentic_claims_config [of v v0 ed dh dc "snd r"]
    by (cases r) (auto simp: identity_accepts_def identity_step_def identity_inv_def IdentityVerify_Inr IdentityVerify_fst
      consume_cases identity_key_def identity_horizon_def)
next
  fix v k d t and r :: "time \<times> string"
  assume "identity_inv v0 v" "map_of (iv_consumed v) k = Some d" "t - iv_skew v0 < d"
  then show "map_of (iv_consumed (identity_step ed dh dc (t, r) v)) k = Some d"
    by (cases r) (auto simp: identity_step_def identity_inv_def IdentityVerify_fst consume_cases Let_def map_of_keep
      has_key_def split: sum.split)
next
  fix v d t and r :: "time \<times> string"
  assume inv: "identity_inv v0 v" "map_of (iv_consumed v) (identity_key ed dh dc v0 r) = Some d" "t - iv_skew v0 < d"
  then show "\<not> identity_accepts ed dh dc (t, r) v"
    using authentic_claims_config [of v v0 ed dh dc "snd r"]
    by (cases r) (auto simp: identity_accepts_def identity_inv_def IdentityVerify_Inr consume_cases identity_key_def
      has_key_def map_of_keep)
qed

section \<open>Evaluation fixtures\<close>

definition demo_claims :: claims where
  "demo_claims = \<lparr>c_Issuer = ''bridge'', c_Audience = ''control-plane'', c_Subject = ''alice'', c_Role = ''operator'',
    c_AllHosts = False, c_HostIDs = [''host_1''], c_IssuedAt = 100, c_Expires = 160, c_JWTID = ''0123456789abcdef''\<rparr>"

definition demo_header :: jwt_header where
  "demo_header = \<lparr>jh_Algorithm = ''EdDSA'', jh_KeyID = ''key-1'', jh_Type = ''VPSMGR+JWT''\<rparr>"

definition demo_id_verifier :: id_verifier where
  "demo_id_verifier = \<lparr>iv_issuer = ''bridge'', iv_audience = ''control-plane'', iv_keyID = ''key-1'',
    iv_key = replicate 32 (CHR ''k''), iv_skew = 5 * second, iv_consumed = []\<rparr>"

definition demo_assertion :: string where
  "demo_assertion = compose_assertion ''h'' ''p'' (replicate 64 (CHR ''s''))"

text \<open>Parameters that accept this one assertion.\<close>

definition demo_scheme :: signature_scheme where
  "demo_scheme key message signature \<longleftrightarrow>
    key = replicate 32 (CHR ''k'') \<and> message = b64_encode ''h'' @ ''.'' @ b64_encode ''p'' \<and> signature = replicate 64 (CHR ''s'')"

definition demo_decode_header :: "string \<Rightarrow> jwt_header option" where
  "demo_decode_header s = (if s = ''h'' then Some demo_header else None)"

definition demo_decode_claims :: "string \<Rightarrow> claims option" where
  "demo_decode_claims s = (if s = ''p'' then Some demo_claims else None)"

lemma demo_authentic:
  "authentic_claims demo_scheme demo_decode_header demo_decode_claims demo_id_verifier demo_assertion = Inr demo_claims"
  unfolding demo_assertion_def
  by (rule authentic_composed [where h = demo_header])
    (simp_all add: demo_scheme_def demo_decode_header_def demo_decode_claims_def demo_header_def demo_id_verifier_def
      compose_assertion_def length_b64_encode maxAssertionBytes_def)

lemma demo_claims_valid: "95 * second \<le> now \<Longrightarrow> now < 165 * second \<Longrightarrow> validateClaims demo_id_verifier now demo_claims = None"
proof -
  have "unix_time 100 = 100 * second" "unix_time 160 = 160 * second"
    by (simp_all add: unix_time_id second_def)
  moreover have "ValidRole ''operator''"
    by (simp add: grants_eval)
  moreover assume "95 * second \<le> now" "now < 165 * second"
  ultimately show ?thesis
    by (simp add: validateClaims_def demo_claims_def demo_id_verifier_def trim_eval has_prefix_def
      maxAssertionTTL_def second_def)
qed

section \<open>Properties\<close>

text \<open>
  C16. What an accepted assertion proves: it carries a valid signature of the configured key over header
  and payload, its claims are addressed to this service, live at most a minute and are valid at the
  instant of validation up to the skew; the principal has a known role, and either every host or at
  most 256 distinct well-formed host identifiers, and is exactly the claimed one.
\<close>

theorem accepted_assertion_authentic:
  assumes "snd (IdentityVerify ed25519 decode_header decode_claims v now now' assertion) = Inr pr"
  shows "\<exists>c p0 p1 p2 signature payload.
    split_on (CHR ''.'') assertion = [p0, p1, p2] \<and> decodeSegment p2 64 = Some signature \<and>
    ed25519 (iv_key v) (p0 @ ''.'' @ p1) signature \<and> decodeSegment p1 8192 = Some payload \<and> decode_claims payload = Some c \<and>
    c_Issuer c = iv_issuer v \<and> c_Audience c = iv_audience v \<and>
    now - iv_skew v < unix_time (c_Expires c) \<and> unix_time (c_IssuedAt c) \<le> now + iv_skew v \<and>
    unix_time (c_Expires c) \<le> unix_time (c_IssuedAt c) + maxAssertionTTL \<and>
    p_Subject pr = c_Subject c \<and> p_Role pr = c_Role c \<and> p_AllHosts pr = c_AllHosts c \<and> p_HostIDs pr = c_HostIDs c \<and>
    ValidRole (p_Role pr) \<and> (p_AllHosts pr \<longrightarrow> p_HostIDs pr = []) \<and> length (p_HostIDs pr) \<le> 256 \<and>
    distinct (p_HostIDs pr) \<and> (\<forall>h \<in> set (p_HostIDs pr). has_prefix h ''host_'')"
proof -
  from assms obtain c where c: "authentic_claims ed25519 decode_header decode_claims v assertion = Inr c"
    "validateClaims v now c = None" and
    pr: "pr = \<lparr>p_Subject = c_Subject c, p_Role = c_Role c, p_AllHosts = c_AllHosts c, p_HostIDs = c_HostIDs c, p_SessionID = []\<rparr>"
    by (auto simp: IdentityVerify_Inr)
  from c(1) obtain p0 p1 p2 signature payload where
    "three_parts (split_on (CHR ''.'') assertion) = Some (p0, p1, p2)" "decodeSegment p2 64 = Some signature"
    "ed25519 (iv_key v) (p0 @ ''.'' @ p1) signature" "decodeSegment p1 8192 = Some payload" "decode_claims payload = Some c"
    by (auto simp: authentic_claims_def result_simps)
  moreover from this(1) have "split_on (CHR ''.'') assertion = [p0, p1, p2]"
    by (cases "split_on (CHR ''.'') assertion" rule: three_parts.cases) (auto split: if_splits)
  moreover note validateClaims_None [OF c(2)] check_hosts_None [of "[]" "c_HostIDs c"] pr
  ultimately show ?thesis
    by (intro exI [of _ c] exI [of _ p0] exI [of _ p1] exI [of _ p2] exI [of _ signature] exI [of _ payload]) simp
qed

theorem accepted_assertion_authentic_witness:
  "\<exists>pr. snd (IdentityVerify demo_scheme demo_decode_header demo_decode_claims demo_id_verifier (120 * second) (120 * second) demo_assertion) = Inr pr
     \<and> ValidRole (p_Role pr)"
proof -
  have "\<exists>pr. snd (IdentityVerify demo_scheme demo_decode_header demo_decode_claims demo_id_verifier (120 * second) (120 * second) demo_assertion) = Inr pr"
    using demo_authentic demo_claims_valid [of "120 * second"]
    by (simp add: IdentityVerify_Inr consume_cases has_key_def keep_def second_def demo_id_verifier_def)
  then show ?thesis
    using accepted_assertion_authentic by blast
qed

text \<open>
  C17. An assertion is accepted once: after it was accepted, it is refused at every later verification,
  whatever is verified in between, as long as the clock does not run backwards and the two clock
  readings of the later verification are at most the skew apart.
\<close>

theorem assertion_single_use:
  assumes wf: "wf_map (iv_consumed v)"
    and first: "snd (IdentityVerify ed25519 decode_header decode_claims v n n' assertion) = Inr pr"
    and between: "\<forall>tr \<in> set trs. fst tr \<le> m'"
    and reads: "m' \<le> m + iv_skew v"
  shows "snd (IdentityVerify ed25519 decode_header decode_claims
      (fold (identity_step ed25519 decode_header decode_claims) trs
        (fst (IdentityVerify ed25519 decode_header decode_claims v n n' assertion))) m m' assertion) \<noteq> Inr pr'"
proof
  let ?step = "identity_step ed25519 decode_header decode_claims"
  let ?v = "fold ?step trs (?step (n', n, assertion) v)"
  assume "snd (IdentityVerify ed25519 decode_header decode_claims (fold ?step trs
      (fst (IdentityVerify ed25519 decode_header decode_claims v n n' assertion))) m m' assertion) = Inr pr'"
  then have again: "snd (IdentityVerify ed25519 decode_header decode_claims ?v m m' assertion) = Inr pr'"
    by (simp add: identity_step_def)
  from first obtain c where c: "authentic_claims ed25519 decode_header decode_claims v assertion = Inr c"
    by (auto simp: IdentityVerify_Inr)
  have inv: "identity_inv v v" "identity_accepts ed25519 decode_header decode_claims (n', n, assertion) v"
    using wf first by (auto simp: identity_inv_def identity_accepts_def)
  have inv': "identity_inv v (fold ?step trs w)" if "identity_inv v w" for w
    using that by (induction trs arbitrary: w) (auto intro: identity_inv_step)
  have config: "identity_inv v ?v"
    by (rule inv' [OF identity_inv_step [OF inv(1)]])
  then have "authentic_claims ed25519 decode_header decode_claims ?v assertion = Inr c"
    using c by (subst authentic_claims_config [of _ v]) (simp_all add: identity_inv_def)
  with again have "m - iv_skew ?v < unix_time (c_Expires c)"
    by (auto simp: IdentityVerify_Inr intro: validateClaims_window)
  then have "m' - iv_skew v < unix_time (c_Expires c) + iv_skew v"
    using reads config by (simp add: identity_inv_def)
  then have "\<not> identity_accepts ed25519 decode_header decode_claims (m', m, assertion) ?v"
    using between c
    by (intro identity.replay_refused [OF inv, where trs = trs]) (auto simp: identity_horizon_def identity_key_def)
  with again show False
    by (simp add: identity_accepts_def)
qed

theorem assertion_single_use_witness:
  "snd (IdentityVerify demo_scheme demo_decode_header demo_decode_claims
      (fold (identity_step demo_scheme demo_decode_header demo_decode_claims) [(121 * second, 121 * second, ''x'')]
        (fst (IdentityVerify demo_scheme demo_decode_header demo_decode_claims demo_id_verifier (120 * second) (120 * second) demo_assertion)))
      (164 * second) (164 * second) demo_assertion) \<noteq> Inr no_principal"
proof -
  obtain pr where "snd (IdentityVerify demo_scheme demo_decode_header demo_decode_claims demo_id_verifier (120 * second) (120 * second) demo_assertion) = Inr pr"
    using demo_authentic demo_claims_valid [of "120 * second"]
    by (simp add: IdentityVerify_Inr consume_cases has_key_def keep_def second_def demo_id_verifier_def)
  then show ?thesis
    by (rule assertion_single_use [rotated]) (simp_all add: second_def demo_id_verifier_def)
qed

end
