(* ===== verification/Stepup.thy ===== *)
theory Stepup
  imports Go_Codec Contracts
begin

text \<open>
  Step-up tickets (\<^verbatim>\<open>control-plane/internal/stepup/manager.go\<close>): short-lived, single-use tickets for
  sensitive actions, bound to a principal, a session, an action, a target and its parameters. The
  factor verifier is an external service: its answer, \<^const>\<open>None\<close> when it fails, is an argument of
  \<^verbatim>\<open>Issue\<close>.
\<close>

section \<open>Model\<close>

definition defaultTTL :: duration where "defaultTTL = 2 * minute"
definition maximumTTL :: duration where "maximumTTL = 5 * minute"
definition maximumFreshness :: duration where "maximumFreshness = 2 * minute"
definition defaultCapacity :: int where "defaultCapacity = 4096"

definition allowedActions :: "string list" where
  "allowedActions =
    [''web_ssh_start'', ''credential_rotate'', ''credential_delete'', ''worker_deploy'', ''worker_rollback'',
     ''service_restart'', ''process_terminate'', ''host_reboot'', ''breakglass_activate'']"

record verifiedFactor =
  vfa_Subject :: string
  vfa_SessionID :: string
  vfa_VerifiedAt :: time
  vfa_AssuranceLevel :: int
  vfa_Methods :: "string list"

record binding =
  b_Subject :: string
  b_SessionID :: string
  b_Action :: string
  b_TargetID :: string
  b_ParametersSHA256 :: string
  b_Reason :: string

text \<open>An issue request is a binding with the assertion for the verifier and a lifetime.\<close>

record issueRequest = binding +
  ir_Assertion :: string
  ir_TTL :: duration

record entry =
  e_bindingDigest :: string
  e_expiresAt :: time
  e_sessionDigest :: string

record manager =
  mg_capacity :: int
  mg_tickets :: "(string, entry) gomap"

record ticket =
  tk_Value :: string
  tk_ExpiresAt :: time

datatype stepup_error =
  VerifierRequired | CapacityInvalid | ContextRequired | BindingInvalid | ActionInvalid | ParametersInvalid
| ReasonInvalid | ReasonControlCharacters | AssertionInvalid | LifetimeInvalid | VerificationFailed
| VerificationNotFresh | TicketGenerationFailed | CapacityReached | TicketCollision

text \<open>\<^verbatim>\<open>New\<close>: the first argument says whether a verifier was configured.\<close>

definition New :: "bool \<Rightarrow> int \<Rightarrow> stepup_error + manager" where
  "New has_verifier capacity' =
    (let capacity = (if capacity' = 0 then defaultCapacity else capacity') in
     ensure has_verifier VerifierRequired (
     ensure (\<not> (capacity < 1 \<or> capacity > 65536)) CapacityInvalid (
     Inr \<lparr>mg_capacity = capacity, mg_tickets = []\<rparr>)))"

text \<open>
  The digest must be lower-case hexadecimal. \<^verbatim>\<open>strings.ToLower\<close> is written for ASCII: a string with
  other runes is not hexadecimal, and the source reports the same error for it.
\<close>

definition validateBinding :: "binding \<Rightarrow> stepup_error option" where
  "validateBinding b =
    (if trim_space (b_Subject b) \<noteq> b_Subject b \<or> length (b_Subject b) < 1 \<or> length (b_Subject b) > 128 \<or>
        trim_space (b_SessionID b) \<noteq> b_SessionID b \<or> length (b_SessionID b) < 8 \<or> length (b_SessionID b) > 128 \<or>
        trim_space (b_TargetID b) \<noteq> b_TargetID b \<or> length (b_TargetID b) < 1 \<or> length (b_TargetID b) > 128
     then Some BindingInvalid
     else if b_Action b \<notin> set allowedActions then Some ActionInvalid
     else if length (b_ParametersSHA256 b) \<noteq> 64 \<or> map lower_char (b_ParametersSHA256 b) \<noteq> b_ParametersSHA256 b
     then Some ParametersInvalid
     else if hex_decode (b_ParametersSHA256 b) = None then Some ParametersInvalid
     else if trim_space (b_Reason b) \<noteq> b_Reason b \<or> length (b_Reason b) < 8 \<or> length (b_Reason b) > 500
     then Some ReasonInvalid
     else if list_ex (\<lambda>r. r = 10 \<or> r = 13 \<or> r = 0 \<or> is_control r) (runes (b_Reason b))
     then Some ReasonControlCharacters
     else None)"

definition binding_fields :: "binding \<Rightarrow> string list" where
  "binding_fields b =
    [b_Subject b, b_SessionID b, b_Action b, b_TargetID b, b_ParametersSHA256 b, b_Reason b]"

definition digestBinding :: "binding \<Rightarrow> string" where
  "digestBinding b = sha256 (join [CHR 0x00] (binding_fields b))"

definition pruneLocked :: "time \<Rightarrow> (string, entry) gomap \<Rightarrow> (string, entry) gomap" where
  "pruneLocked now tickets = keep (\<lambda>stored. now < e_expiresAt stored) tickets"

definition request_binding :: "issueRequest \<Rightarrow> binding" where
  "request_binding r =
    \<lparr>b_Subject = b_Subject r, b_SessionID = b_SessionID r, b_Action = b_Action r, b_TargetID = b_TargetID r,
     b_ParametersSHA256 = b_ParametersSHA256 r, b_Reason = b_Reason r\<rparr>"

text \<open>The checks of \<^verbatim>\<open>Issue\<close> before the ticket is drawn; the result is the lifetime.\<close>

definition issue_checks :: "bool \<Rightarrow> time \<Rightarrow> issueRequest \<Rightarrow> verifiedFactor option \<Rightarrow> stepup_error + duration" where
  "issue_checks has_context now request factor =
    (let ttl = (if ir_TTL request = 0 then defaultTTL else ir_TTL request) in
     ensure has_context ContextRequired (
     no_error (validateBinding (request_binding request)) (
     ensure (\<not> (length (ir_Assertion request) < 16 \<or> length (ir_Assertion request) > 16384)) AssertionInvalid (
     ensure (\<not> (ttl \<le> 0 \<or> ttl > maximumTTL)) LifetimeInvalid (
     some_or factor VerificationFailed (\<lambda>verified.
     ensure (\<not> (vfa_Subject verified \<noteq> b_Subject request \<or> vfa_SessionID verified \<noteq> b_SessionID request \<or>
         vfa_AssuranceLevel verified < 2 \<or> vfa_Methods verified = [] \<or> is_zero_time (vfa_VerifiedAt verified) \<or>
         vfa_VerifiedAt verified > now + 15 * second \<or> now - vfa_VerifiedAt verified > maximumFreshness))
       VerificationNotFresh (
     Inr ttl)))))))"

definition Issue ::
  "manager \<Rightarrow> bool \<Rightarrow> time \<Rightarrow> string option \<Rightarrow> issueRequest \<Rightarrow> verifiedFactor option \<Rightarrow>
    manager \<times> (stepup_error + ticket)" where
  "Issue m has_context now rand request factor =
    (case issue_checks has_context now request factor of
       Inl e \<Rightarrow> (m, Inl e)
     | Inr ttl \<Rightarrow>
         case rand of None \<Rightarrow> (m, Inl TicketGenerationFailed) | Some raw \<Rightarrow>
           (let stored = \<lparr>e_bindingDigest = digestBinding (request_binding request), e_expiresAt = now + ttl,
                          e_sessionDigest = sha256 (b_SessionID request)\<rparr>;
                ticketDigest = sha256 raw;
                tickets = pruneLocked now (mg_tickets m);
                m' = m\<lparr>mg_tickets := tickets\<rparr>
            in if int (length tickets) \<ge> mg_capacity m then (m', Inl CapacityReached)
               else if has_key tickets ticketDigest then (m', Inl TicketCollision)
               else (m\<lparr>mg_tickets := put tickets ticketDigest stored\<rparr>,
                     Inr \<lparr>tk_Value = b64_encode raw, tk_ExpiresAt = e_expiresAt stored\<rparr>)))"

text \<open>The digest under which the presented value may be stored.\<close>

definition ticket_digest :: "string \<Rightarrow> string option" where
  "ticket_digest v =
    (case b64_decode True v of None \<Rightarrow> None | Some raw \<Rightarrow> if length raw \<noteq> 32 then None else Some (sha256 raw))"

definition Consume :: "manager \<Rightarrow> time \<Rightarrow> string \<Rightarrow> binding \<Rightarrow> manager \<times> bool" where
  "Consume m now v b =
    (if length v < 32 \<or> length v > 128 \<or> validateBinding b \<noteq> None then (m, False)
     else case ticket_digest v of None \<Rightarrow> (m, False) | Some digest \<Rightarrow>
       (let tickets = pruneLocked now (mg_tickets m) in
        case map_of tickets digest of
          None \<Rightarrow> (m\<lparr>mg_tickets := tickets\<rparr>, False)
        | Some stored \<Rightarrow>
            (m\<lparr>mg_tickets := del tickets digest\<rparr>,
             if \<not> now < e_expiresAt stored then False
             else digestBinding b = e_bindingDigest stored)))"

definition RevokeSession :: "manager \<Rightarrow> string \<Rightarrow> manager \<times> nat" where
  "RevokeSession m sessionID =
    (let left = keep (\<lambda>stored. sha256 sessionID \<noteq> e_sessionDigest stored) (mg_tickets m)
     in (m\<lparr>mg_tickets := left\<rparr>, length (mg_tickets m) - length left))"

definition DigestParameters :: "string \<Rightarrow> string option" where
  "DigestParameters canonical =
    (if canonical = [] \<or> length canonical > 65536 then None else Some (hex_encode (sha256 canonical)))"

section \<open>Operations as steps\<close>

datatype stepup_op =
  St_Issue bool time "string option" issueRequest "verifiedFactor option"
| St_Consume time string binding
| St_Revoke string

fun stepup_step :: "stepup_op \<Rightarrow> manager \<Rightarrow> manager" where
  "stepup_step (St_Issue has_context now rand request factor) m = fst (Issue m has_context now rand request factor)"
| "stepup_step (St_Consume now v b) m = fst (Consume m now v b)"
| "stepup_step (St_Revoke sessionID) m = fst (RevokeSession m sessionID)"

text \<open>The ticket an operation adds, and the digest of the ticket it redeems.\<close>

fun stepup_issues :: "stepup_op \<Rightarrow> manager \<Rightarrow> (string \<times> entry) option" where
  "stepup_issues (St_Issue has_context now (Some raw) request factor) m =
    (case snd (Issue m has_context now (Some raw) request factor) of
       Inl e \<Rightarrow> None
     | Inr t \<Rightarrow> Some (sha256 raw, \<lparr>e_bindingDigest = digestBinding (request_binding request),
         e_expiresAt = tk_ExpiresAt t, e_sessionDigest = sha256 (b_SessionID request)\<rparr>))"
| "stepup_issues op m = None"

fun stepup_redeems :: "stepup_op \<Rightarrow> manager \<Rightarrow> string option" where
  "stepup_redeems (St_Consume now v b) m = (if snd (Consume m now v b) then ticket_digest v else None)"
| "stepup_redeems op m = None"

definition wf_manager :: "manager \<Rightarrow> bool" where
  "wf_manager m \<longleftrightarrow> wf_map (mg_tickets m)"

section \<open>Lemmas\<close>

lemma pruneLocked_Some:
  "wf_map tickets \<Longrightarrow> map_of (pruneLocked now tickets) k = Some e \<longleftrightarrow> map_of tickets k = Some e \<and> now < e_expiresAt e"
  by (simp add: pruneLocked_def map_of_keep_Some)

lemma wf_pruneLocked [simp]: "wf_map tickets \<Longrightarrow> wf_map (pruneLocked now tickets)"
  by (simp add: pruneLocked_def)

lemma issue_checks_Inr:
  assumes "issue_checks has_context now request factor = Inr ttl"
  shows "0 < ttl \<and> ttl \<le> maximumTTL \<and> validateBinding (request_binding request) = None \<and>
    (\<exists>verified. factor = Some verified \<and> vfa_Subject verified = b_Subject request \<and>
      vfa_SessionID verified = b_SessionID request \<and> 2 \<le> vfa_AssuranceLevel verified \<and> vfa_Methods verified \<noteq> [] \<and>
      now - maximumFreshness \<le> vfa_VerifiedAt verified \<and> vfa_VerifiedAt verified \<le> now + 15 * second)"
  using assms by (auto simp: issue_checks_def result_simps Let_def)

lemma Issue_Inr:
  assumes "snd (Issue m has_context now (Some raw) request factor) = Inr t"
  shows "\<exists>ttl. issue_checks has_context now request factor = Inr ttl \<and> tk_Value t = b64_encode raw \<and>
    tk_ExpiresAt t = now + ttl \<and>
    mg_tickets (fst (Issue m has_context now (Some raw) request factor)) =
      put (pruneLocked now (mg_tickets m)) (sha256 raw)
        \<lparr>e_bindingDigest = digestBinding (request_binding request), e_expiresAt = now + ttl,
         e_sessionDigest = sha256 (b_SessionID request)\<rparr>"
  using assms by (auto simp: Issue_def Let_def split: sum.splits if_splits)

lemma Issue_Inl:
  assumes "snd (Issue m has_context now rand request factor) = Inl e"
  shows "mg_tickets (fst (Issue m has_context now rand request factor)) = mg_tickets m \<or>
    mg_tickets (fst (Issue m has_context now rand request factor)) = pruneLocked now (mg_tickets m)"
  using assms by (auto simp: Issue_def Let_def split: sum.splits if_splits option.splits)

lemma Consume_True:
  "snd (Consume m now v b) \<longleftrightarrow>
    32 \<le> length v \<and> length v \<le> 128 \<and> validateBinding b = None \<and>
    (\<exists>digest stored. ticket_digest v = Some digest \<and> map_of (pruneLocked now (mg_tickets m)) digest = Some stored \<and>
      now < e_expiresAt stored \<and> digestBinding b = e_bindingDigest stored)"
  by (auto simp: Consume_def Let_def split: option.splits)

lemma Consume_tickets:
  "mg_tickets (fst (Consume m now v b)) =
    (if length v < 32 \<or> length v > 128 \<or> validateBinding b \<noteq> None then mg_tickets m
     else case ticket_digest v of None \<Rightarrow> mg_tickets m | Some digest \<Rightarrow> del (pruneLocked now (mg_tickets m)) digest)"
  by (auto simp: Consume_def Let_def del_absent split: option.splits)

interpretation stepup: ticket_store wf_manager "\<lambda>m. map_of (mg_tickets m)" stepup_step stepup_issues stepup_redeems
proof
  fix m op
  assume "wf_manager m"
  then show "wf_manager (stepup_step op m)"
  proof (cases op)
    case (St_Issue has_context now rand request factor)
    with \<open>wf_manager m\<close> show ?thesis
      by (auto simp: wf_manager_def Issue_def Let_def split: sum.split option.split)
  qed (auto simp: wf_manager_def Consume_tickets RevokeSession_def Let_def split: option.split)
next
  fix m op k e
  assume wf: "wf_manager m" and held: "map_of (mg_tickets (stepup_step op m)) k = Some e"
  show "map_of (mg_tickets m) k = Some e \<or> stepup_issues op m = Some (k, e)"
  proof (cases op)
    case (St_Issue has_context now rand request factor)
    show ?thesis
    proof (cases "snd (Issue m has_context now rand request factor)")
      case (Inl e')
      from Issue_Inl [OF this] wf held St_Issue show ?thesis
        by (auto simp: pruneLocked_Some wf_manager_def)
    next
      case (Inr t)
      then obtain raw where raw: "rand = Some raw"
        by (auto simp: Issue_def split: sum.splits option.splits)
      from Issue_Inr [OF Inr [unfolded raw]] wf held St_Issue Inr raw show ?thesis
        by (auto simp: pruneLocked_Some wf_manager_def split: if_splits)
    qed
  next
    case (St_Consume now v b)
    with wf held show ?thesis
      by (auto simp: Consume_tickets pruneLocked_Some wf_manager_def split: if_splits option.splits)
  next
    case (St_Revoke sessionID)
    with wf held show ?thesis
      by (simp add: RevokeSession_def Let_def map_of_keep_Some wf_manager_def)
  qed
next
  fix m op k
  assume wf: "wf_manager m" and red: "stepup_redeems op m = Some k"
  then obtain now v b where op: "op = St_Consume now v b" "snd (Consume m now v b)" "ticket_digest v = Some k"
    by (cases op) (auto split: if_splits)
  with wf show "map_of (mg_tickets m) k \<noteq> None" "map_of (mg_tickets (stepup_step op m)) k = None"
    by (auto simp: Consume_True Consume_tickets wf_manager_def pruneLocked_Some)
qed

lemma ticket_digest_value:
  assumes "length raw = 32"
  shows "ticket_digest (b64_encode raw) = Some (sha256 raw)" "length (b64_encode raw) = 43"
  using assms by (simp_all add: ticket_digest_def b64_decode_encode length_b64_encode)

section \<open>Evaluation fixtures\<close>

definition demo_ticket_request :: issueRequest where
  "demo_ticket_request =
    \<lparr>b_Subject = ''alice'', b_SessionID = ''session_1'', b_Action = ''host_reboot'', b_TargetID = ''host_1'',
     b_ParametersSHA256 = replicate 64 (CHR ''0''), b_Reason = ''kernel-upgrade'',
     ir_Assertion = replicate 16 (CHR ''a''), ir_TTL = 0\<rparr>"

definition demo_factor :: verifiedFactor where
  "demo_factor = \<lparr>vfa_Subject = ''alice'', vfa_SessionID = ''session_1'', vfa_VerifiedAt = 0,
    vfa_AssuranceLevel = 2, vfa_Methods = [''webauthn'']\<rparr>"

definition demo_manager :: manager where
  "demo_manager = \<lparr>mg_capacity = 4096, mg_tickets = []\<rparr>"

lemma demo_manager_tickets: "mg_tickets demo_manager = []"
  by (simp add: demo_manager_def)

lemma zeros_hex: "hex_decode (replicate (2 * n) (CHR ''0'')) \<noteq> None"
  by (induction n) (auto simp: hex_val_def is_digit_def byte_in_def byte_def)

lemma demo_valid: "validateBinding (request_binding demo_ticket_request) = None"
proof -
  have "runes ''kernel-upgrade'' = map byte ''kernel-upgrade''"
    by (rule runes_map_byte) (simp add: is_ascii_def byte_def)
  moreover have "hex_decode (replicate 64 (CHR ''0'')) \<noteq> None"
    using zeros_hex [of 32] by simp
  ultimately show ?thesis
    by (simp add: validateBinding_def request_binding_def demo_ticket_request_def trim_eval allowedActions_def
      lower_char_def is_upper_def is_control_def)
qed

lemma demo_issue:
  "snd (Issue demo_manager True 0 (Some (replicate 32 (CHR ''r''))) demo_ticket_request (Some demo_factor)) =
    Inr \<lparr>tk_Value = b64_encode (replicate 32 (CHR ''r'')), tk_ExpiresAt = 2 * minute\<rparr>"
proof -
  have "issue_checks True 0 demo_ticket_request (Some demo_factor) = Inr (2 * minute)"
    using demo_valid
    by (simp add: issue_checks_def demo_ticket_request_def demo_factor_def defaultTTL_def maximumTTL_def
      maximumFreshness_def minute_def second_def is_zero_time_def zero_time_def)
  then show ?thesis
    by (simp add: Issue_def demo_manager_def pruneLocked_def keep_def has_key_def Let_def)
qed

section \<open>Properties\<close>



text \<open>
  Along every sequence of issues, consumptions and revocations, a ticket is redeemed at most as
  often as a ticket of that digest is issued: once when the random source does not repeat itself.
\<close>

lemma ticket_redeemed_at_most_issued:
  assumes "New True capacity = Inr m"
  shows "count_along stepup_step (\<lambda>op m. stepup_redeems op m = Some digest) ops m \<le>
    count_along stepup_step (\<lambda>op m. \<exists>e. stepup_issues op m = Some (digest, e)) ops m"
proof -
  have "wf_manager m \<and> map_of (mg_tickets m) digest = None"
    using assms by (auto simp: New_def Let_def result_simps wf_manager_def)
  with stepup.redeemed_at_most_issued [of m digest ops] show ?thesis
    by simp
qed

text \<open>
  C19. A ticket that is redeemed in a run of the manager was issued earlier in that run, for a binding
  with the same digest, after a factor verification of assurance level two or more for the same subject
  and session that was at most two minutes old, and at most five minutes before it is redeemed.
\<close>

theorem redeemed_ticket_was_verified:
  assumes new: "New True capacity = Inr m"
    and consumed: "snd (Consume (fold stepup_step ops m) now v b)"
  shows "\<exists>before has_context t0 raw request verified after.
    ops = before @ St_Issue has_context t0 (Some raw) request (Some verified) # after \<and>
    ticket_digest v = Some (sha256 raw) \<and> digestBinding (request_binding request) = digestBinding b \<and>
    validateBinding (request_binding request) = None \<and>
    now < t0 + maximumTTL \<and> t0 - maximumFreshness \<le> vfa_VerifiedAt verified \<and> 2 \<le> vfa_AssuranceLevel verified \<and>
    vfa_Subject verified = b_Subject request \<and> vfa_SessionID verified = b_SessionID request"
proof -
  have empty: "wf_manager m" "mg_tickets m = []"
    using new by (auto simp: New_def Let_def result_simps wf_manager_def)
  from consumed stepup.inv_run [OF empty(1), of ops] obtain digest stored where
    c: "ticket_digest v = Some digest" "map_of (mg_tickets (fold stepup_step ops m)) digest = Some stored"
      "now < e_expiresAt stored" "digestBinding b = e_bindingDigest stored"
    by (auto simp: Consume_True pruneLocked_Some wf_manager_def)
  from stepup.held_was_issued [OF empty(1) c(2)] empty(2) obtain before op after where
    ops: "ops = before @ op # after" and iss: "stepup_issues op (fold stepup_step before m) = Some (digest, stored)"
    by auto
  from iss obtain has_context t0 raw request factor t where
    op: "op = St_Issue has_context t0 (Some raw) request factor" and
    t: "snd (Issue (fold stepup_step before m) has_context t0 (Some raw) request factor) = Inr t" and
    stored: "digest = sha256 raw" "e_bindingDigest stored = digestBinding (request_binding request)"
      "e_expiresAt stored = tk_ExpiresAt t"
    by (cases "(op, fold stepup_step before m)" rule: stepup_issues.cases) (auto split: sum.splits)
  from Issue_Inr [OF t] obtain ttl where
    checks: "issue_checks has_context t0 request factor = Inr ttl" "tk_ExpiresAt t = t0 + ttl"
    by auto
  from issue_checks_Inr [OF checks(1)] obtain verified where "factor = Some verified" "ttl \<le> maximumTTL"
    "validateBinding (request_binding request) = None" "vfa_Subject verified = b_Subject request"
    "vfa_SessionID verified = b_SessionID request" "2 \<le> vfa_AssuranceLevel verified"
    "t0 - maximumFreshness \<le> vfa_VerifiedAt verified"
    by auto
  moreover have "now < t0 + maximumTTL"
    using c(3) stored(3) checks(2) \<open>ttl \<le> maximumTTL\<close> by linarith
  moreover have "ticket_digest v = Some (sha256 raw)" "digestBinding (request_binding request) = digestBinding b"
    using c(1, 4) stored(1, 2) by simp_all
  ultimately show ?thesis
    using ops op by blast
qed

theorem redeemed_ticket_was_verified_witness:
  "2 \<le> vfa_AssuranceLevel demo_factor \<and>
   snd (Consume (fold stepup_step [St_Issue True 0 (Some (replicate 32 (CHR ''r''))) demo_ticket_request (Some demo_factor)]
     demo_manager) 1 (b64_encode (replicate 32 (CHR ''r''))) (request_binding demo_ticket_request))"
proof -
  have new: "New True 0 = Inr demo_manager"
    by (simp add: New_def demo_manager_def defaultCapacity_def)
  have "snd (Consume (fold stepup_step [St_Issue True 0 (Some (replicate 32 (CHR ''r''))) demo_ticket_request (Some demo_factor)]
     demo_manager) 1 (b64_encode (replicate 32 (CHR ''r''))) (request_binding demo_ticket_request))"
    using Issue_Inr [OF demo_issue] demo_valid
    by (auto simp: Consume_True ticket_digest_value pruneLocked_Some minute_def second_def demo_manager_tickets)
  from redeemed_ticket_was_verified [OF new this] this show ?thesis
    by (auto simp: Cons_eq_append_conv)
qed

text \<open>
  C24. The digest does not separate all valid bindings: the fields are joined with NUL bytes, and the
  validation admits NUL bytes in the subject, the session and the target. Bindings whose fields
  contain no NUL byte are equal when the strings that are hashed are equal.
\<close>

theorem binding_digest_ambiguous:
  "(\<exists>b b'. validateBinding b = None \<and> validateBinding b' = None \<and> b_Subject b \<noteq> b_Subject b' \<and>
      b_SessionID b \<noteq> b_SessionID b' \<and> digestBinding b = digestBinding b')
   \<and> (\<forall>b b'. list_all (\<lambda>f. CHR 0x00 \<notin> set f) (binding_fields b) \<and> list_all (\<lambda>f. CHR 0x00 \<notin> set f) (binding_fields b') \<and>
      join [CHR 0x00] (binding_fields b) = join [CHR 0x00] (binding_fields b') \<longrightarrow> b = b')"
proof
  let ?base = "request_binding demo_ticket_request"
  let ?b = "?base\<lparr>b_Subject := ''a'' @ [CHR 0x00] @ ''bbbbbbbb'', b_SessionID := ''cccccccc''\<rparr>"
  let ?b' = "?base\<lparr>b_Subject := ''a'', b_SessionID := ''bbbbbbbb'' @ [CHR 0x00] @ ''cccccccc''\<rparr>"
  have "validateBinding ?b = None" "validateBinding ?b' = None"
    using demo_valid by (auto simp: validateBinding_def trim_eval split: if_splits)
  moreover have "digestBinding ?b = digestBinding ?b'"
    by (simp add: digestBinding_def binding_fields_def)
  ultimately show "\<exists>b b'. validateBinding b = None \<and> validateBinding b' = None \<and> b_Subject b \<noteq> b_Subject b' \<and>
      b_SessionID b \<noteq> b_SessionID b' \<and> digestBinding b = digestBinding b'"
    by (intro exI [of _ ?b] exI [of _ ?b']) simp
  show "\<forall>b b'. list_all (\<lambda>f. CHR 0x00 \<notin> set f) (binding_fields b) \<and> list_all (\<lambda>f. CHR 0x00 \<notin> set f) (binding_fields b') \<and>
      join [CHR 0x00] (binding_fields b) = join [CHR 0x00] (binding_fields b') \<longrightarrow> b = b'"
  proof (intro allI impI)
    fix b b' :: binding
    assume "list_all (\<lambda>f. CHR 0x00 \<notin> set f) (binding_fields b) \<and> list_all (\<lambda>f. CHR 0x00 \<notin> set f) (binding_fields b') \<and>
      join [CHR 0x00] (binding_fields b) = join [CHR 0x00] (binding_fields b')"
    then have "binding_fields b = binding_fields b'"
      by (intro join_inj) (auto simp: binding_fields_def)
    then show "b = b'"
      by (simp add: binding_fields_def)
  qed
qed

theorem binding_digest_ambiguous_witness:
  "request_binding demo_ticket_request = request_binding (demo_ticket_request\<lparr>ir_TTL := 5\<rparr>)"
  using binding_digest_ambiguous
  by (elim conjE allE [of _ "request_binding demo_ticket_request"]
      allE [of _ "request_binding (demo_ticket_request\<lparr>ir_TTL := 5\<rparr>)"])
    (simp add: binding_fields_def request_binding_def demo_ticket_request_def)

end
