(* ===== verification/Connector_Auth.thy ===== *)
theory Connector_Auth
  imports Go_Codec Contracts
begin

text \<open>
  The signed channel between the control plane and the connector
  (\<^verbatim>\<open>connector-protocol/auth.go\<close>): signing, verification and the cache of nonces that makes a
  signed request usable once. An HTTP request is its method, its request URI and its headers, keyed by
  canonical header names as \<^verbatim>\<open>net/http\<close> keeps them.
\<close>

section \<open>Model\<close>

definition ProtocolVersion :: string where "ProtocolVersion = ''v1''"
definition HeaderProtocol :: string where "HeaderProtocol = ''X-Vpsmgr-Protocol''"
definition HeaderKeyID :: string where "HeaderKeyID = ''X-Vpsmgr-Key-Id''"
definition HeaderTimestamp :: string where "HeaderTimestamp = ''X-Vpsmgr-Timestamp''"
definition HeaderNonce :: string where "HeaderNonce = ''X-Vpsmgr-Nonce''"
definition HeaderSignature :: string where "HeaderSignature = ''X-Vpsmgr-Signature''"

definition minimumKeyBytes :: nat where "minimumKeyBytes = 32"
definition defaultMaxSkew :: duration where "defaultMaxSkew = 30 * second"
definition defaultNonces :: int where "defaultNonces = 10000"

type_synonym headers = "(string, string list) gomap"

record http_request =
  req_Method :: string
  req_URI :: string
  req_Header :: headers

record signer =
  sg_keyID :: string
  sg_key :: string

record verifier =
  vf_keyID :: string
  vf_key :: string
  vf_maxSkew :: duration
  vf_maxNonces :: int
  vf_nonces :: "(string, time) gomap"

datatype key_error = KeyIDLength | KeyIDCharacter | KeyTooShort | SkewTooLarge | NonceLimitTooLarge

text \<open>The codes of \<^verbatim>\<open>VerifyError\<close>.\<close>

datatype verify_error =
  Invalid_request | Invalid_protocol | Invalid_key_id | Invalid_timestamp | Stale_request | Invalid_nonce
| Invalid_signature | Replayed_request | Replay_cache_full

definition key_id_rune :: "nat \<Rightarrow> bool" where
  "key_id_rune r \<longleftrightarrow> (97 \<le> r \<and> r \<le> 122) \<or> (65 \<le> r \<and> r \<le> 90) \<or> (48 \<le> r \<and> r \<le> 57) \<or> r = 46 \<or> r = 95 \<or> r = 45"

definition validateKey :: "string \<Rightarrow> string \<Rightarrow> key_error option" where
  "validateKey keyID key =
    (if length keyID < 1 \<or> length keyID > 64 then Some KeyIDLength
     else if \<not> list_all key_id_rune (runes keyID) then Some KeyIDCharacter
     else if length key < minimumKeyBytes then Some KeyTooShort
     else None)"

definition NewSigner :: "string \<Rightarrow> string \<Rightarrow> key_error + signer" where
  "NewSigner keyID key =
    (case validateKey keyID key of
       Some e \<Rightarrow> Inl e
     | None \<Rightarrow> Inr \<lparr>sg_keyID = keyID, sg_key = key\<rparr>)"

definition NewVerifier :: "string \<Rightarrow> string \<Rightarrow> duration \<Rightarrow> int \<Rightarrow> key_error + verifier" where
  "NewVerifier keyID key maxSkew maxNonces =
    (case validateKey keyID key of
       Some e \<Rightarrow> Inl e
     | None \<Rightarrow>
         (let skew = (if maxSkew \<le> 0 then defaultMaxSkew else maxSkew) in
          if skew > 5 * minute then Inl SkewTooLarge
          else let nonces = (if maxNonces \<le> 0 then defaultNonces else maxNonces) in
            if nonces > 1000000 then Inl NonceLimitTooLarge
            else Inr \<lparr>vf_keyID = keyID, vf_key = key, vf_maxSkew = skew, vf_maxNonces = nonces, vf_nonces = []\<rparr>))"

text \<open>
  \<^verbatim>\<open>strings.ToUpper\<close> on a method, for the ASCII characters: \<^verbatim>\<open>net/http\<close> admits no other in the method of a request,
  neither where it is sent nor where it is received.
\<close>

definition upper_char :: "char \<Rightarrow> char" where
  "upper_char c = (if is_lower c then char_of (byte c - 32) else c)"

definition canonicalRequest :: "string \<Rightarrow> string \<Rightarrow> string \<Rightarrow> string \<Rightarrow> string \<Rightarrow> string \<Rightarrow> string" where
  "canonicalRequest method requestURI keyID timestamp nonce body =
    join [CHR 0x0A]
      [''VPSMGR-HMAC-SHA256'', ProtocolVersion, keyID, timestamp, nonce,
       map upper_char method, requestURI, hex_encode (sha256 body)]"

definition computeMAC :: "string \<Rightarrow> string \<Rightarrow> string" where
  "computeMAC key canonical = hmac_sha256 key canonical"

definition unix_seconds :: "time \<Rightarrow> int" where
  "unix_seconds t = t div 1000000000"

datatype sign_error = RequestURLRequired | NonceGenerationFailed

definition Sign ::
  "signer \<Rightarrow> time \<Rightarrow> string option \<Rightarrow> http_request option \<Rightarrow> string \<Rightarrow> sign_error + http_request" where
  "Sign s now rand request' body =
    (case request' of None \<Rightarrow> Inl RequestURLRequired | Some request \<Rightarrow>
     case rand of None \<Rightarrow> Inl NonceGenerationFailed | Some nonceBytes \<Rightarrow>
       (let timestamp = format_int (unix_seconds now);
            nonce = b64_encode nonceBytes;
            signature = computeMAC (sg_key s)
              (canonicalRequest (req_Method request) (req_URI request) (sg_keyID s) timestamp nonce body);
            h1 = put (req_Header request) HeaderProtocol [ProtocolVersion];
            h2 = put h1 HeaderKeyID [sg_keyID s];
            h3 = put h2 HeaderTimestamp [timestamp];
            h4 = put h3 HeaderNonce [nonce];
            h5 = put h4 HeaderSignature [b64_encode signature]
        in Inr (request\<lparr>req_Header := h5\<rparr>)))"

definition singleHeader :: "headers \<Rightarrow> string \<Rightarrow> string option" where
  "singleHeader header name =
    (case map_of header name of
       Some [value] \<Rightarrow> if trim_space value = [] \<or> value \<noteq> trim_space value then None else Some value
     | _ \<Rightarrow> None)"

text \<open>The part of \<^verbatim>\<open>Verify\<close> under the lock: expire nonces, refuse a known one, record the new one.\<close>

definition record_nonce :: "verifier \<Rightarrow> time \<Rightarrow> string \<Rightarrow> verifier \<times> verify_error option" where
  "record_nonce v now cacheKey =
    (let live = keep (\<lambda>expiresAt. now < expiresAt) (vf_nonces v) in
     if has_key live cacheKey then (v\<lparr>vf_nonces := live\<rparr>, Some Replayed_request)
     else if int (length live) \<ge> vf_maxNonces v then (v\<lparr>vf_nonces := live\<rparr>, Some Replay_cache_full)
     else (v\<lparr>vf_nonces := put live cacheKey (now + 2 * vf_maxSkew v)\<rparr>, None))"

text \<open>The checks before it; the result is the key under which the nonce is recorded.\<close>

definition check_request :: "verifier \<Rightarrow> time \<Rightarrow> http_request option \<Rightarrow> string \<Rightarrow> verify_error + string" where
  "check_request v now request' body =
    some_or request' Invalid_request (\<lambda>request.
    ensure (singleHeader (req_Header request) HeaderProtocol = Some ProtocolVersion) Invalid_protocol (
    ensure (singleHeader (req_Header request) HeaderKeyID = Some (vf_keyID v)) Invalid_key_id (
    some_or (singleHeader (req_Header request) HeaderTimestamp) Invalid_timestamp (\<lambda>timestampText.
    some_or (parse_int64 timestampText) Invalid_timestamp (\<lambda>timestamp.
    ensure (\<not> (unix_time timestamp < now - vf_maxSkew v \<or> unix_time timestamp > now + vf_maxSkew v)) Stale_request (
    some_or (singleHeader (req_Header request) HeaderNonce) Invalid_nonce (\<lambda>nonce.
    some_or (b64_decode False nonce) Invalid_nonce (\<lambda>nonceBytes.
    ensure (\<not> (length nonceBytes < 16 \<or> length nonceBytes > 64)) Invalid_nonce (
    some_or (singleHeader (req_Header request) HeaderSignature) Invalid_signature (\<lambda>signatureText.
    some_or (b64_decode False signatureText) Invalid_signature (\<lambda>signature.
    ensure (length signature = 32) Invalid_signature (
    ensure (computeMAC (vf_key v)
        (canonicalRequest (req_Method request) (req_URI request) (vf_keyID v) timestampText nonce body)
        = signature) Invalid_signature (
    Inr (vf_keyID v @ [CHR 0x00] @ nonce))))))))))))))"

definition Verify :: "verifier \<Rightarrow> time \<Rightarrow> http_request option \<Rightarrow> string \<Rightarrow> verifier \<times> verify_error option" where
  "Verify v now request' body =
    (case check_request v now request' body of
       Inl e \<Rightarrow> (v, Some e)
     | Inr cacheKey \<Rightarrow> record_nonce v now cacheKey)"

section \<open>Lemmas\<close>

lemmas header_names = HeaderProtocol_def HeaderKeyID_def HeaderTimestamp_def HeaderNonce_def HeaderSignature_def

text \<open>What identifies a request to the nonce cache, and the instant it claims.\<close>

definition request_key :: "string \<Rightarrow> http_request option \<times> string \<Rightarrow> string" where
  "request_key keyID r =
    (case fst r of None \<Rightarrow> [] | Some request \<Rightarrow>
      keyID @ [CHR 0x00] @ case_option [] id (singleHeader (req_Header request) HeaderNonce))"

definition request_time :: "http_request \<Rightarrow> time option" where
  "request_time request =
    map_option unix_time (Option.bind (singleHeader (req_Header request) HeaderTimestamp) parse_int64)"

lemma check_request_Inr:
  assumes "check_request v now r body = Inr k"
  shows "\<exists>request t. r = Some request \<and> request_time request = Some t \<and> k = request_key (vf_keyID v) (r, body) \<and>
    now - vf_maxSkew v \<le> t \<and> t \<le> now + vf_maxSkew v"
  using assms
  by (auto simp: check_request_def request_key_def request_time_def result_simps)

text \<open>Only the clock decides whether a request that passed the checks passes them again.\<close>

lemma check_request_again:
  assumes "check_request v now (Some request) body = Inr k" and "request_time request = Some t"
    and "vf_keyID v' = vf_keyID v" and "vf_key v' = vf_key v" and "vf_maxSkew v' = vf_maxSkew v"
  shows "check_request v' now' (Some request) body =
    (if now' - vf_maxSkew v \<le> t \<and> t \<le> now' + vf_maxSkew v then Inr k else Inl Stale_request)"
  using assms
  by (clarsimp simp: check_request_def request_time_def result_simps) (auto simp: ensure_def)

lemma record_nonce_config [simp]:
  "vf_keyID (fst (record_nonce v now k)) = vf_keyID v" "vf_key (fst (record_nonce v now k)) = vf_key v"
  "vf_maxSkew (fst (record_nonce v now k)) = vf_maxSkew v"
  "vf_maxNonces (fst (record_nonce v now k)) = vf_maxNonces v"
  by (simp_all add: record_nonce_def Let_def)

lemma Verify_config [simp]:
  "vf_keyID (fst (Verify v now r body)) = vf_keyID v" "vf_key (fst (Verify v now r body)) = vf_key v"
  "vf_maxSkew (fst (Verify v now r body)) = vf_maxSkew v"
  "vf_maxNonces (fst (Verify v now r body)) = vf_maxNonces v"
  by (simp_all add: Verify_def split: sum.split)

lemma key_id_plain:
  assumes "validateKey keyID key = None"
  shows "list_all plain_char keyID" "keyID \<noteq> []" "CHR 0x0A \<notin> set keyID"
proof -
  have small: "list_all key_id_rune (runes keyID)" and "keyID \<noteq> []"
    using assms by (auto simp: validateKey_def split: if_splits)
  then have "runes keyID = map byte keyID"
    by (intro runes_ascii) (auto simp: list_all_iff key_id_rune_def)
  with small have chars: "list_all (\<lambda>c. key_id_rune (byte c)) keyID"
    by (simp add: list_all_iff)
  then show "list_all plain_char keyID"
    by (auto simp: list_all_iff key_id_rune_def plain_char_def byte_in_def)
  have "\<not> key_id_rune (byte (CHR 0x0A))"
    by (simp add: key_id_rune_def byte_def)
  with chars show "CHR 0x0A \<notin> set keyID"
    by (auto simp: list_all_iff)
  show "keyID \<noteq> []"
    by fact
qed

lemma singleHeader_plain:
  "map_of h name = Some [v] \<Longrightarrow> v \<noteq> [] \<Longrightarrow> list_all plain_char v \<Longrightarrow> singleHeader h name = Some v"
  by (simp add: singleHeader_def trim_space_plain)

lemma length_computeMAC [simp]: "length (computeMAC key m) = 32"
  by (simp add: computeMAC_def hmac_sha256_def Let_def)

lemma computeMAC_nonempty [simp]: "computeMAC key m \<noteq> []"
  using length_computeMAC [of key m] by (metis list.size(3) zero_neq_numeral)

text \<open>A request signed with the verifier's key passes every check while its time stamp is fresh.\<close>

definition paired :: "signer \<Rightarrow> verifier \<Rightarrow> bool" where
  "paired s v \<longleftrightarrow> validateKey (sg_keyID s) (sg_key s) = None \<and>
    vf_keyID v = sg_keyID s \<and> vf_key v = sg_key s"

lemma signed_request_checks:
  assumes pair: "paired s v"
    and signed: "Sign s t0 (Some nb) (Some request) body = Inr request'"
    and nonce: "16 \<le> length nb" "length nb \<le> 64"
    and range: "- (2 ^ 62) \<le> unix_seconds t0" "unix_seconds t0 < 2 ^ 62"
    and fresh: "now - vf_maxSkew v \<le> unix_seconds t0 * 1000000000" "unix_seconds t0 * 1000000000 \<le> now + vf_maxSkew v"
  shows "check_request v now (Some request') body = Inr (vf_keyID v @ [CHR 0x00] @ b64_encode nb)"
    and "request_time request' = Some (unix_seconds t0 * 1000000000)"
proof -
  have req': "req_Method request' = req_Method request" "req_URI request' = req_URI request"
    and header: "map_of (req_Header request') HeaderProtocol = Some [ProtocolVersion]"
      "map_of (req_Header request') HeaderKeyID = Some [sg_keyID s]"
      "map_of (req_Header request') HeaderTimestamp = Some [format_int (unix_seconds t0)]"
      "map_of (req_Header request') HeaderNonce = Some [b64_encode nb]"
      "map_of (req_Header request') HeaderSignature = Some [b64_encode (computeMAC (sg_key s)
        (canonicalRequest (req_Method request) (req_URI request) (sg_keyID s) (format_int (unix_seconds t0)) (b64_encode nb) body))]"
    using signed by (auto simp: Sign_def Let_def header_names)
  have nb: "nb \<noteq> []"
    using nonce by auto
  have version: "list_all plain_char ProtocolVersion" "ProtocolVersion \<noteq> []"
    by (simp_all add: ProtocolVersion_def char_eval)
  have vals: "singleHeader (req_Header request') HeaderProtocol = Some ProtocolVersion"
      "singleHeader (req_Header request') HeaderKeyID = Some (sg_keyID s)"
      "singleHeader (req_Header request') HeaderTimestamp = Some (format_int (unix_seconds t0))"
      "singleHeader (req_Header request') HeaderNonce = Some (b64_encode nb)"
      "singleHeader (req_Header request') HeaderSignature = Some (b64_encode (computeMAC (sg_key s)
        (canonicalRequest (req_Method request) (req_URI request) (sg_keyID s) (format_int (unix_seconds t0)) (b64_encode nb) body)))"
    using header pair nb key_id_plain [of "sg_keyID s" "sg_key s"]
    by (auto intro!: singleHeader_plain version format_int_plain b64_encode_plain
      simp: paired_def b64_encode_Nil_iff)
  have stamp: "parse_int64 (format_int (unix_seconds t0)) = Some (unix_seconds t0)"
      "unix_time (unix_seconds t0) = unix_seconds t0 * 1000000000"
    using range by (simp_all add: parse_format_int unix_time_id)
  from vals stamp show "request_time request' = Some (unix_seconds t0 * 1000000000)"
    by (simp add: request_time_def)
  from vals stamp req' pair nonce fresh
  show "check_request v now (Some request') body = Inr (vf_keyID v @ [CHR 0x00] @ b64_encode nb)"
    by (simp add: check_request_def result_simps b64_decode_encode paired_def)
qed

section \<open>The verifier as a replay guard\<close>

definition hmac_step :: "time \<times> http_request option \<times> string \<Rightarrow> verifier \<Rightarrow> verifier" where
  "hmac_step tr v = (case tr of (now, r, body) \<Rightarrow> fst (Verify v now r body))"

definition hmac_accepts :: "time \<times> http_request option \<times> string \<Rightarrow> verifier \<Rightarrow> bool" where
  "hmac_accepts tr v = (case tr of (now, r, body) \<Rightarrow> snd (Verify v now r body) = None)"

definition hmac_inv :: "string \<Rightarrow> duration \<Rightarrow> verifier \<Rightarrow> bool" where
  "hmac_inv keyID skew v \<longleftrightarrow> wf_map (vf_nonces v) \<and> vf_keyID v = keyID \<and> vf_maxSkew v = skew"

lemma Verify_nonces:
  "vf_nonces (fst (Verify v now r body)) =
    (case check_request v now r body of
       Inl e \<Rightarrow> vf_nonces v
     | Inr k \<Rightarrow>
         let live = keep (\<lambda>e. now < e) (vf_nonces v) in
         if has_key live k \<or> vf_maxNonces v \<le> int (length live) then live
         else put live k (now + 2 * vf_maxSkew v))"
  by (auto simp: Verify_def record_nonce_def Let_def split: sum.split)

lemma Verify_accepts:
  "snd (Verify v now r body) = None \<longleftrightarrow>
    (\<exists>k. check_request v now r body = Inr k \<and> \<not> has_key (keep (\<lambda>e. now < e) (vf_nonces v)) k \<and>
      int (length (keep (\<lambda>e. now < e) (vf_nonces v))) < vf_maxNonces v)"
  by (auto simp: Verify_def record_nonce_def Let_def split: sum.split)

lemma Verify_wf: "wf_map (vf_nonces v) \<Longrightarrow> wf_map (vf_nonces (fst (Verify v now r body)))"
  by (simp add: Verify_nonces Let_def split: sum.split)

interpretation hmac: replay_guard "hmac_inv keyID skew" "\<lambda>v. map_of (vf_nonces v)" hmac_step hmac_accepts
  "request_key keyID" "\<lambda>t r. t + 2 * skew" "\<lambda>d t. t < d" for keyID skew
proof
  fix v :: verifier and tr :: "time \<times> http_request option \<times> string"
  assume "hmac_inv keyID skew v"
  then show "hmac_inv keyID skew (hmac_step tr v)"
    by (cases tr) (simp add: hmac_inv_def hmac_step_def Verify_wf)
next
  fix v :: verifier and t :: time and r :: "http_request option \<times> string"
  assume inv: "hmac_inv keyID skew v" and acc: "hmac_accepts (t, r) v"
  obtain q body where r: "r = (q, body)"
    by (cases r)
  from acc r obtain k where k: "check_request v t q body = Inr k" "\<not> has_key (keep (\<lambda>e. t < e) (vf_nonces v)) k"
      "int (length (keep (\<lambda>e. t < e) (vf_nonces v))) < vf_maxNonces v"
    by (auto simp: hmac_accepts_def Verify_accepts)
  with check_request_Inr [OF k(1)] inv r show "map_of (vf_nonces (hmac_step (t, r) v)) (request_key keyID r) = Some (t + 2 * skew)"
    by (auto simp: hmac_step_def Verify_nonces hmac_inv_def Let_def)
next
  fix v :: verifier and k d and t :: time and r :: "http_request option \<times> string"
  assume "hmac_inv keyID skew v" "map_of (vf_nonces v) k = Some d" "t < d"
  then show "map_of (vf_nonces (hmac_step (t, r) v)) k = Some d"
    by (cases r) (auto simp: hmac_step_def hmac_inv_def Verify_nonces Let_def map_of_keep has_key_def split: sum.split)
next
  fix v :: verifier and d and t :: time and r :: "http_request option \<times> string"
  assume inv: "hmac_inv keyID skew v" and "map_of (vf_nonces v) (request_key keyID r) = Some d" "t < d"
  then show "\<not> hmac_accepts (t, r) v"
    using check_request_Inr [of v t "fst r" "snd r"]
    by (cases r) (auto simp: hmac_accepts_def hmac_inv_def Verify_accepts map_of_keep has_key_def)
qed

lemma upper_char_newline: "upper_char c = CHR 0x0A \<Longrightarrow> c = CHR 0x0A"
  by (auto simp: upper_char_def is_lower_def byte_in_def char_eq_byte byte_def split: if_splits)

lemma hex_no_newline: "CHR 0x0A \<notin> set (hex_encode s)"
  by (auto simp: hex_encode_def hex_digit_newline)

text \<open>The limit on the cache holds after every request.\<close>

lemma hmac_bounded_step:
  assumes "int (length (vf_nonces v)) \<le> vf_maxNonces v"
  shows "int (length (vf_nonces (hmac_step tr v))) \<le> vf_maxNonces v"
proof -
  obtain now r body where tr: "tr = (now, r, body)"
    by (cases tr)
  have "length (keep (\<lambda>e. now < e) (vf_nonces v)) \<le> length (vf_nonces v)"
    by (rule length_keep_le)
  then show ?thesis
    using assms by (auto simp: tr hmac_step_def Verify_nonces Let_def length_put split: sum.split)
qed

lemma hmac_bounded_fold:
  assumes "int (length (vf_nonces v)) \<le> vf_maxNonces v"
  shows "int (length (vf_nonces (fold hmac_step trs v))) \<le> vf_maxNonces v \<and>
    vf_maxNonces (fold hmac_step trs v) = vf_maxNonces v \<and> vf_maxSkew (fold hmac_step trs v) = vf_maxSkew v"
  using assms
proof (induction trs arbitrary: v)
  case (Cons tr trs)
  from hmac_bounded_step [OF Cons.prems, of tr] Cons.IH [of "hmac_step tr v"] show ?case
    by (cases tr) (simp add: hmac_step_def)
qed simp

section \<open>Evaluation fixtures\<close>

definition demo_signer :: signer where
  "demo_signer = \<lparr>sg_keyID = ''k1'', sg_key = replicate 32 (CHR ''s'')\<rparr>"

definition demo_verifier :: verifier where
  "demo_verifier = \<lparr>vf_keyID = ''k1'', vf_key = replicate 32 (CHR ''s''), vf_maxSkew = 30 * second,
    vf_maxNonces = 10000, vf_nonces = []\<rparr>"

definition demo_request :: http_request where
  "demo_request = \<lparr>req_Method = ''POST'', req_URI = ''/v1/actions/runtime-snapshot'', req_Header = []\<rparr>"

text \<open>The request signed at second 30 with a nonce of 24 bytes and the body \<^verbatim>\<open>{}\<close>.\<close>

definition demo_signed :: http_request where
  "demo_signed = (case Sign demo_signer (30 * second) (Some (replicate 24 (CHR ''n''))) (Some demo_request) ''{}'' of
    Inr r \<Rightarrow> r | Inl e \<Rightarrow> demo_request)"

lemma demo_paired: "paired demo_signer demo_verifier"
proof -
  have "runes ''k1'' = [107, 49]"
    by (simp add: runes_ascii_Cons byte_def)
  then show ?thesis
    by (simp add: paired_def demo_signer_def demo_verifier_def validateKey_def minimumKeyBytes_def key_id_rune_def)
qed

lemma demo_sign: "Sign demo_signer (30 * second) (Some (replicate 24 (CHR ''n''))) (Some demo_request) ''{}'' = Inr demo_signed"
  by (simp add: demo_signed_def Sign_def Let_def)

lemma demo_check:
  "0 \<le> now \<Longrightarrow> now \<le> 60 * second \<Longrightarrow>
    check_request demo_verifier now (Some demo_signed) ''{}'' =
      Inr (''k1'' @ [CHR 0x00] @ b64_encode (replicate 24 (CHR ''n'')))"
  "request_time demo_signed = Some (30 * second)"
  using signed_request_checks [OF demo_paired demo_sign, of now]
    signed_request_checks(2) [OF demo_paired demo_sign, of 0]
  by (simp_all add: unix_seconds_def second_def demo_verifier_def)

section \<open>Properties\<close>

text \<open>
  C25. A request signed with the verifier's key is accepted while its time stamp is within the skew,
  except when its nonce is still remembered or the cache is full, and then the error says which.
\<close>

theorem signed_request_verified:
  assumes "paired s v"
    and "Sign s t0 (Some nb) (Some request) body = Inr request'"
    and "16 \<le> length nb" "length nb \<le> 64"
    and "- (2 ^ 62) \<le> unix_seconds t0" "unix_seconds t0 < 2 ^ 62"
    and "now - vf_maxSkew v \<le> unix_seconds t0 * 1000000000" "unix_seconds t0 * 1000000000 \<le> now + vf_maxSkew v"
  shows "snd (Verify v now (Some request') body) =
    (let live = keep (\<lambda>e. now < e) (vf_nonces v) in
     if has_key live (vf_keyID v @ [CHR 0x00] @ b64_encode nb) then Some Replayed_request
     else if vf_maxNonces v \<le> int (length live) then Some Replay_cache_full else None)"
  using signed_request_checks(1) [OF assms] by (simp add: Verify_def record_nonce_def Let_def)

theorem signed_request_verified_witness:
  "snd (Verify demo_verifier (31 * second) (Some demo_signed) ''{}'') = None"
  using signed_request_verified [OF demo_paired demo_sign, of "31 * second"]
  by (simp add: demo_verifier_def unix_seconds_def second_def keep_def has_key_def)

text \<open>
  C14. A signed request is usable once: after a request is accepted at instant t, no request with the
  same nonce is accepted before t + 2 * maxSkew, whatever requests are verified in between.
\<close>

theorem signed_request_single_use:
  assumes "wf_map (vf_nonces v)"
    and "snd (Verify v t (Some request) body) = None"
    and "singleHeader (req_Header request') HeaderNonce = singleHeader (req_Header request) HeaderNonce"
    and "\<forall>tr \<in> set trs. fst tr < t + 2 * vf_maxSkew v" and "t' < t + 2 * vf_maxSkew v"
  shows "snd (Verify (fold hmac_step trs (fst (Verify v t (Some request) body))) t' (Some request') body') \<noteq> None"
  using hmac.replay_refused [of "vf_keyID v" "vf_maxSkew v" v t "(Some request, body)" "(Some request', body')" trs t'] assms
  by (simp add: hmac_inv_def hmac_accepts_def hmac_step_def request_key_def)

theorem signed_request_single_use_witness:
  "snd (Verify (fold hmac_step [(1, None, []), (2, Some demo_request, [])]
      (fst (Verify demo_verifier 0 (Some demo_signed) ''{}''))) (59 * second) (Some demo_signed) ''{}'') \<noteq> None"
proof -
  have "snd (Verify demo_verifier 0 (Some demo_signed) ''{}'') = None"
    using demo_check(1) [of 0] by (simp add: Verify_accepts second_def demo_verifier_def keep_def has_key_def)
  then show ?thesis
    by (intro signed_request_single_use) (simp_all add: demo_verifier_def second_def)
qed

text \<open>
  C26. Exactly one replay gets through. Take a verifier whose remembered nonces all expire by
  t + 2 * maxSkew (so it is at every instant of a clock that does not run backwards), and a request it
  accepts at instant t. The same request is accepted again at a later instant t' if and only if
  t' = t + 2 * maxSkew and the request was stamped at t + maxSkew: the time window is closed on both
  sides, while the nonce is already forgotten at that instant.
\<close>

theorem immediate_replay_exact:
  assumes wf: "wf_map (vf_nonces v)" and pos: "0 < vf_maxNonces v"
    and clock: "all_values (\<lambda>e. e \<le> t + 2 * vf_maxSkew v) (vf_nonces v)"
    and accepted: "snd (Verify v t (Some request) body) = None"
    and later: "t \<le> t'"
  shows "snd (Verify (fst (Verify v t (Some request) body)) t' (Some request) body) = None \<longleftrightarrow>
    t' = t + 2 * vf_maxSkew v \<and> request_time request = Some (t + vf_maxSkew v)"
proof -
  let ?v = "fst (Verify v t (Some request) body)"
  from accepted obtain k where k: "check_request v t (Some request) body = Inr k"
      "\<not> has_key (keep (\<lambda>e. t < e) (vf_nonces v)) k" "int (length (keep (\<lambda>e. t < e) (vf_nonces v))) < vf_maxNonces v"
    by (auto simp: Verify_accepts)
  from check_request_Inr [OF k(1)] obtain ts where ts: "request_time request = Some ts"
      "t - vf_maxSkew v \<le> ts" "ts \<le> t + vf_maxSkew v"
    by auto
  have again: "check_request ?v t' (Some request) body =
      (if t' - vf_maxSkew v \<le> ts \<and> ts \<le> t' + vf_maxSkew v then Inr k else Inl Stale_request)"
    by (rule check_request_again [OF k(1) ts(1)]) simp_all
  have nonces: "vf_nonces ?v = put (keep (\<lambda>e. t < e) (vf_nonces v)) k (t + 2 * vf_maxSkew v)"
    using k by (simp add: Verify_nonces Let_def)
  show ?thesis
  proof
    assume "snd (Verify ?v t' (Some request) body) = None"
    with again have window: "t' - vf_maxSkew v \<le> ts" and forgotten: "\<not> has_key (keep (\<lambda>e. t' < e) (vf_nonces ?v)) k"
      by (auto simp: Verify_accepts split: if_splits)
    from forgotten have "\<not> t' < t + 2 * vf_maxSkew v"
      using wf by (auto simp: nonces has_key_def map_of_keep)
    with window ts show "t' = t + 2 * vf_maxSkew v \<and> request_time request = Some (t + vf_maxSkew v)"
      by auto
  next
    assume *: "t' = t + 2 * vf_maxSkew v \<and> request_time request = Some (t + vf_maxSkew v)"
    have "all_values (\<lambda>e. e \<le> t') (vf_nonces ?v)"
      using clock wf * unfolding nonces by (intro all_entries_put) simp_all
    then have "keep (\<lambda>e. t' < e) (vf_nonces ?v) = []"
      by (auto simp: keep_def all_entries_def list_all_iff filter_empty_conv)
    with again * ts later pos show "snd (Verify ?v t' (Some request) body) = None"
      by (simp add: Verify_accepts has_key_def)
  qed
qed

theorem immediate_replay_exact_witness:
  "snd (Verify (fst (Verify demo_verifier 0 (Some demo_signed) ''{}'')) (60 * second) (Some demo_signed) ''{}'') = None"
proof -
  have "snd (Verify demo_verifier 0 (Some demo_signed) ''{}'') = None"
    using demo_check(1) [of 0] by (simp add: Verify_accepts second_def demo_verifier_def keep_def has_key_def)
  then show ?thesis
    using immediate_replay_exact [of demo_verifier 0 demo_signed "''{}''" "60 * second"] demo_check(2)
    by (simp add: demo_verifier_def second_def)
qed

text \<open>
  C27. The signature binds the whole request up to the case of its method: equal canonical forms of requests
  whose methods are ASCII and whose fields contain no line feed have equal key, time stamp, nonce and URI,
  methods that are equal after upper-casing, and bodies of equal digest. The case of the method is not bound.
\<close>

theorem canonical_request_binds:
  assumes "canonicalRequest method uri keyID timestamp nonce body =
      canonicalRequest method' uri' keyID' timestamp' nonce' body'"
    and "\<forall>f \<in> {method, uri, keyID, timestamp, nonce, method', uri', keyID', timestamp', nonce'}. CHR 0x0A \<notin> set f"
    and "\<forall>c \<in> set (method @ method'). byte c < 128"
  shows "map upper_char method = map upper_char method' \<and> uri = uri' \<and> keyID = keyID' \<and>
    timestamp = timestamp' \<and> nonce = nonce' \<and> sha256 body = sha256 body'"
proof -
  have upper: "CHR 0x0A \<notin> set (map upper_char m)" if "CHR 0x0A \<notin> set m" for m
  proof
    assume "CHR 0x0A \<in> set (map upper_char m)"
    then obtain c where "c \<in> set m" "upper_char c = CHR 0x0A"
      by auto
    then have "c = CHR 0x0A"
      using upper_char_newline by blast
    with \<open>c \<in> set m\<close> that show False
      by simp
  qed
  have "[''VPSMGR-HMAC-SHA256'', ProtocolVersion, keyID, timestamp, nonce, map upper_char method, uri, hex_encode (sha256 body)] =
    [''VPSMGR-HMAC-SHA256'', ProtocolVersion, keyID', timestamp', nonce', map upper_char method', uri', hex_encode (sha256 body')]"
    using assms(1) unfolding canonicalRequest_def
    by (rule join_inj) (use assms(2) upper hex_no_newline in \<open>auto simp: ProtocolVersion_def\<close>)
  then show ?thesis
    by (simp add: hex_encode_inj)
qed

theorem canonical_request_binds_witness:
  "canonicalRequest ''get'' ''/healthz'' ''k1'' ''0'' ''n'' ''{}'' = canonicalRequest ''GET'' ''/healthz'' ''k1'' ''0'' ''n'' ''{}''
   \<and> map upper_char ''get'' = ''GET''"
proof -
  have "canonicalRequest ''get'' ''/healthz'' ''k1'' ''0'' ''n'' ''{}'' = canonicalRequest ''GET'' ''/healthz'' ''k1'' ''0'' ''n'' ''{}''"
    "map upper_char ''GET'' = ''GET''"
    by (simp_all add: canonicalRequest_def upper_char_def is_lower_def byte_in_def byte_def char_of_eq_iff)
  then show ?thesis
    using canonical_request_binds [of "''get''" "''/healthz''" "''k1''" "''0''" "''n''" "''{}''" "''GET''" "''/healthz''" "''k1''" "''0''" "''n''" "''{}''"]
    by (simp add: byte_def)
qed

text \<open>
  The nonce cache stays within its configured limit, which is at most a million, and the
  configuration never changes, whatever requests arrive at whatever instants.
\<close>

lemma nonce_cache_bounded:
  assumes "NewVerifier keyID key maxSkew maxNonces = Inr v"
  shows "int (length (vf_nonces (fold hmac_step trs v))) \<le> vf_maxNonces v \<and> vf_maxNonces v \<le> 1000000
    \<and> vf_maxNonces (fold hmac_step trs v) = vf_maxNonces v \<and> vf_maxSkew (fold hmac_step trs v) = vf_maxSkew v
    \<and> 0 < vf_maxSkew v \<and> vf_maxSkew v \<le> 5 * minute"
proof -
  have "vf_nonces v = [] \<and> 0 < vf_maxNonces v \<and> vf_maxNonces v \<le> 1000000 \<and> 0 < vf_maxSkew v \<and> vf_maxSkew v \<le> 5 * minute"
    using assms
    by (auto simp: NewVerifier_def Let_def defaultNonces_def defaultMaxSkew_def second_def split: option.splits if_splits)
  then show ?thesis
    using hmac_bounded_fold [of v trs] by simp
qed

end
