(* ===== verification/Audit_Sanitize.thy ===== *)
theory Audit_Sanitize
  imports Go_Strings
begin

text \<open>
  Redaction of audit details (\<^verbatim>\<open>control-plane/internal/audit/audit.go\<close>). A Go value of type \<^verbatim>\<open>any\<close> is a
  tree by its kind: strings, byte slices (the type \<^verbatim>\<open>[]byte\<close> itself), slices and arrays of bytes of any other type,
  which the code takes for lists, maps with string keys, other maps, slices and arrays, pointers, structures
  with their fields, and \<^term>\<open>VOther\<close> for numbers and booleans.
\<close>

section \<open>Model\<close>

datatype any_value =
  VNil
| VString string
| VBytes string
| VByteList string
| VMap "(string \<times> any_value) list"
| VOtherMap
| VList "any_value list"
| VPointer "any_value option"
| VStruct "(string \<times> any_value) list"
| VOther int

definition sensitiveFragments :: "string list" where
  "sensitiveFragments =
    [''secret'', ''token'', ''password'', ''passphrase'', ''privatekey'', ''private_key'',
     ''authorization'', ''cookie'', ''ciphertext'', ''wrappedkey'', ''wrapped_key'']"

text \<open>
  \<^verbatim>\<open>unicode.ToLower\<close> as far as a search for ASCII text can tell: besides the ASCII capitals only
  U+0130 and U+212A have an ASCII lower case; every other rune beyond ASCII stays beyond ASCII.
\<close>

definition lower_rune :: "nat \<Rightarrow> nat" where
  "lower_rune r = (if 65 \<le> r \<and> r \<le> 90 then r + 32 else if r = 0x130 then 105 else if r = 0x212A then 107 else r)"

definition remove_char :: "char \<Rightarrow> string \<Rightarrow> string" where
  "remove_char d s = filter (\<lambda>c. c \<noteq> d) s"

definition sensitiveKey :: "string \<Rightarrow> bool" where
  "sensitiveKey key =
    (let normalized = map lower_rune (runes (remove_char (CHR ''_'') (remove_char (CHR ''-'') key)))
     in list_ex (\<lambda>fragment. contains normalized (map byte (remove_char (CHR ''_'') fragment))) sensitiveFragments)"

definition redacted :: any_value where
  "redacted = VString ''[redacted]''"

definition binary_note :: "nat \<Rightarrow> string" where
  "binary_note n = ''[binary:'' @ format_nat n @ '' bytes]''"

fun sanitizeValue :: "any_value \<Rightarrow> nat \<Rightarrow> any_value" where
  "sanitizeValue VNil depth = VNil"
| "sanitizeValue (VString s) depth = (if depth > 12 then VString ''[maximum depth]'' else VString s)"
| "sanitizeValue (VBytes s) depth =
    (if depth > 12 then VString ''[maximum depth]'' else VString (binary_note (length s)))"
| "sanitizeValue (VByteList s) depth =
    (if depth > 12 then VString ''[maximum depth]''
     else VList (map (\<lambda>c. if depth + 1 > 12 then VString ''[maximum depth]'' else VOther (int (byte c))) s))"
| "sanitizeValue (VMap entries) depth =
    (if depth > 12 then VString ''[maximum depth]''
     else VMap (map (\<lambda>(key, v). (key, if sensitiveKey key then redacted else sanitizeValue v (depth + 1))) entries))"
| "sanitizeValue VOtherMap depth =
    (if depth > 12 then VString ''[maximum depth]'' else VString ''[unsupported map]'')"
| "sanitizeValue (VList vs) depth =
    (if depth > 12 then VString ''[maximum depth]'' else VList (map (\<lambda>v. sanitizeValue v (depth + 1)) vs))"
| "sanitizeValue (VPointer p) depth =
    (if depth > 12 then VString ''[maximum depth]''
     else case p of None \<Rightarrow> VNil | Some v \<Rightarrow> sanitizeValue v (depth + 1))"
| "sanitizeValue (VStruct fs) depth = (if depth > 12 then VString ''[maximum depth]'' else VStruct fs)"
| "sanitizeValue (VOther i) depth = (if depth > 12 then VString ''[maximum depth]'' else VOther i)"

text \<open>A nil map and an empty map print alike; both are the empty list.\<close>

definition SanitizeDetails :: "(string, any_value) gomap \<Rightarrow> (string, any_value) gomap" where
  "SanitizeDetails details =
    map (\<lambda>(key, v). (key, if sensitiveKey key then redacted else sanitizeValue v 0)) details"

section \<open>Lemmas\<close>

text \<open>
  What redaction leaves: the value of every sensitive key of a map is the redaction mark, at every level that
  is reached through maps and lists, and there are no byte slices, no other maps and no pointers. Structures
  are not looked into.
\<close>

fun clean :: "any_value \<Rightarrow> bool" where
  "clean (VBytes s) = False"
| "clean (VByteList s) = False"
| "clean (VMap entries) = list_all (\<lambda>(key, v). if sensitiveKey key then v = redacted else clean v) entries"
| "clean VOtherMap = False"
| "clean (VList vs) = list_all clean vs"
| "clean (VPointer p) = False"
| "clean v = True"

fun height :: "any_value \<Rightarrow> nat" where
  "height (VMap entries) = Suc (foldr (\<lambda>(key, v) h. max (height v) h) entries 0)"
| "height (VList vs) = Suc (foldr (\<lambda>v h. max (height v) h) vs 0)"
| "height v = 0"

lemma redacted_clean [simp]: "clean redacted" "height redacted = 0" "sanitizeValue redacted 0 = redacted"
  by (simp_all add: redacted_def)

lemma clean_sanitizeValue: "clean (sanitizeValue v depth)"
  by (induction v depth rule: sanitizeValue.induct)
    (auto simp: list_all_iff redacted_def split: option.split)

lemma sanitize_again: "depth' \<le> depth \<Longrightarrow> sanitizeValue (sanitizeValue v depth) depth' = sanitizeValue v depth"
proof (induction v depth arbitrary: depth' rule: sanitizeValue.induct)
  case (5 entries depth)
  then show ?case
    by (force simp: redacted_def)
next
  case (7 vs depth)
  then show ?case
    by force
next
  case (8 p depth)
  then show ?case
    by (cases p) auto
qed auto

lemma map_fst_SanitizeDetails: "map fst (SanitizeDetails details) = map fst details"
  by (simp add: SanitizeDetails_def case_prod_unfold comp_def)

lemma wf_SanitizeDetails [simp, wf_intros]: "wf_map details \<Longrightarrow> wf_map (SanitizeDetails details)"
  unfolding wf_map_def by (simp add: map_fst_SanitizeDetails)

lemma map_of_SanitizeDetails:
  "map_of (SanitizeDetails details) key =
    map_option (\<lambda>v. if sensitiveKey key then redacted else sanitizeValue v 0) (map_of details key)"
  by (induction details) (auto simp: SanitizeDetails_def)

section \<open>Properties\<close>

lemma demo_keys: "\<not> sensitiveKey ''request''" "sensitiveKey ''apiToken''"
  by code_simp+

text \<open>
  C28. Audit details keep their keys, and in what is stored for them the value of every map key that may name
  a secret is the redaction mark, at every level reached through maps, lists and pointers; no value of type
  \<^verbatim>\<open>[]byte\<close> remains, only its length. The redaction ends there: a structure is stored as it is, whatever its
  fields are called, and bytes of any other slice or array type are stored one by one.
\<close>

theorem sanitized_details_clean:
  "map fst (SanitizeDetails details) = map fst details \<and> clean (VMap (SanitizeDetails details))
   \<and> (\<forall>key fs. \<not> sensitiveKey key \<longrightarrow> map_of details key = Some (VStruct fs) \<longrightarrow> map_of (SanitizeDetails details) key = Some (VStruct fs))
   \<and> (\<forall>key s. \<not> sensitiveKey key \<longrightarrow> map_of details key = Some (VByteList s) \<longrightarrow>
       map_of (SanitizeDetails details) key = Some (VList (map (\<lambda>c. VOther (int (byte c))) s)))"
proof -
  have "clean (VMap (SanitizeDetails details))"
    by (auto simp: SanitizeDetails_def list_all_iff clean_sanitizeValue)
  then show ?thesis
    by (simp add: map_fst_SanitizeDetails map_of_SanitizeDetails)
qed

theorem sanitized_details_clean_witness:
  "\<not> sensitiveKey ''request'' \<and> sensitiveKey ''apiToken''
   \<and> clean (VMap (SanitizeDetails [(''request'', VStruct [(''apiToken'', VString ''t'')]), (''apiToken'', VString ''t'')]))
   \<and> map_of (SanitizeDetails [(''request'', VStruct [(''apiToken'', VString ''t'')]), (''apiToken'', VString ''t'')]) ''request''
       = Some (VStruct [(''apiToken'', VString ''t'')])
   \<and> map_of (SanitizeDetails [(''request'', VStruct [(''apiToken'', VString ''t'')]), (''apiToken'', VString ''t'')]) ''apiToken'' = Some redacted"
  using sanitized_details_clean [of "[(''request'', VStruct [(''apiToken'', VString ''t'')]), (''apiToken'', VString ''t'')]"] demo_keys
  by (simp add: map_of_SanitizeDetails)

text \<open>
  Redaction is idempotent, so that the second pass, when the repository copies an event, changes
  nothing that the first one, when the handler records it, has left.
\<close>

lemma sanitize_idempotent: "SanitizeDetails (SanitizeDetails details) = SanitizeDetails details"
  by (induction details) (auto simp: SanitizeDetails_def sanitize_again)

end
