(* ===== verification/Protocol_Types.thy ===== *)
theory Protocol_Types
  imports Go_Strings
begin

text \<open>
  The messages between the control plane and the connector (\<^verbatim>\<open>connector-protocol/types.go\<close>,
  \<^verbatim>\<open>runbook.go\<close> and \<^verbatim>\<open>webssh.go\<close>), as records with the fields of the source.
\<close>

record target =
  t_Address :: string
  t_Port :: int
  t_User :: string

record credential =
  cred_PrivateKeyPEM :: string
  cred_Passphrase :: string

record executionResult =
  xr_Stdout :: string
  xr_Stderr :: string
  xr_ExitCode :: int
  xr_DurationMillis :: int

record runtimeSnapshotRequest =
  rs_ProtocolVersion :: string
  rs_Target :: target
  rs_PinnedHostKey :: string
  rs_Credential :: credential

record runbookActionRef =
  ra_ID :: string
  ra_Version :: int

record runbookParameters =
  rp_Service :: string
  rp_Timezone :: string
  rp_PID :: int
  rp_ProcessStartTicks :: "64 word"

record runbookBinding =
  rb_Action :: runbookActionRef
  rb_HostID :: string
  rb_JobID :: string
  rb_Target :: target
  rb_PinnedHostKeySHA256 :: string
  rb_CredentialPublicKeySHA256 :: string
  rb_Parameters :: runbookParameters

record runbookApprovalSummary =
  ap_Decision :: string
  ap_Action :: runbookActionRef
  ap_HostID :: string
  ap_JobID :: string
  ap_ScopeDigest :: string
  ap_ApprovedAt :: time
  ap_ExpiresAt :: time

record runbookEmergencyGrant =
  eg_IncidentID :: string
  eg_ExpiresAt :: time

record runbookPreviewRequest =
  pq_ProtocolVersion :: string
  pq_Binding :: runbookBinding

record runbookStepPreview =
  sp_ID :: string
  sp_Phase :: string
  sp_Description :: string
  sp_TimeoutSeconds :: int

record runbookPreviewResponse =
  pr_ProtocolVersion :: string
  pr_RequestID :: string
  pr_Action :: string
  pr_CatalogVersion :: string
  pr_Binding :: runbookBinding
  pr_ScopeDigest :: string
  pr_Title :: string
  pr_Mutating :: bool
  pr_Emergency :: bool
  pr_ExecutionEnabled :: bool
  pr_RetryPolicy :: string
  pr_Steps :: "runbookStepPreview list"

record runbookExecuteRequest =
  eq_ProtocolVersion :: string
  eq_Binding :: runbookBinding
  eq_Approval :: runbookApprovalSummary
  eq_Emergency :: runbookEmergencyGrant
  eq_Reason :: string
  eq_PinnedHostKey :: string
  eq_Credential :: credential

record runbookStepResult =
  sr_ID :: string
  sr_Phase :: string
  sr_State :: string
  sr_Stdout :: string
  sr_Stderr :: string
  sr_ExitCode :: int
  sr_DurationMillis :: int
  sr_ErrorCode :: string

record runbookExecuteResponse =
  er_ProtocolVersion :: string
  er_RequestID :: string
  er_Action :: string
  er_CatalogVersion :: string
  er_Binding :: runbookBinding
  er_ScopeDigest :: string
  er_Status :: string
  er_Stopped :: bool
  er_Retryable :: bool
  er_IdempotentReplay :: bool
  er_Steps :: "runbookStepResult list"

text \<open>WebSSH.\<close>

record webSSHBinding =
  wb_PrincipalID :: string
  wb_HostID :: string
  wb_CredentialID :: string
  wb_Action :: string

record terminalSize =
  ts_Columns :: "16 word"
  ts_Rows :: "16 word"
  ts_WidthPixels :: "16 word"
  ts_HeightPixels :: "16 word"

record webSSHTicketRequest =
  wq_ProtocolVersion :: string
  wq_Binding :: webSSHBinding
  wq_Target :: target
  wq_PinnedHostKey :: string
  wq_Credential :: credential
  wq_InitialSize :: terminalSize

record webSSHTicketResponse =
  wp_ProtocolVersion :: string
  wp_RequestID :: string
  wp_Ticket :: string
  wp_SessionID :: string
  wp_ExpiresAt :: time

record webSSHHelloMessage =
  hm_Type :: string
  hm_Ticket :: string
  hm_SessionID :: string
  hm_Binding :: webSSHBinding

text \<open>The messages that follow the hello: input and resizing from the client, the rest to it.\<close>

datatype webSSHMessage =
  WebSSHReady string terminalSize
| WebSSHOutput string
| WebSSHExit int string
| WebSSHError string bool

definition ActionWebSSH :: string where "ActionWebSSH = ''web_ssh_v1''"
definition WebSSHSubprotocol :: string where "WebSSHSubprotocol = ''vpsmgr.webssh.v1''"
definition WebSSHMessageHello :: string where "WebSSHMessageHello = ''hello''"
definition WebSSHMessageInput :: string where "WebSSHMessageInput = ''input''"
definition WebSSHMessageResize :: string where "WebSSHMessageResize = ''resize''"

end
