(* ===== verification/Model.thy ===== *)
theory Model
  imports Auth Audit_Sanitize Protocol_Types
begin

text \<open>
  The data of the control plane (\<^verbatim>\<open>control-plane/internal/model\<close>) and the job state machine. Unsigned
  64-bit fields are words, pointers to values are options, an optional map is a map. The outcome of the
  optional AI analysis of a scan belongs to the package \<^verbatim>\<open>ai\<close> and is opaque here.
\<close>

section \<open>Hosts and credentials\<close>

type_synonym u64 = "64 word"

record hostKeyPin =
  hk_Algorithm :: string
  hk_FingerprintSHA256 :: string
  hk_PublicKey :: string
  hk_ConfirmedAt :: time
  hk_ConfirmedBy :: string

record host =
  h_ID :: string
  h_Name :: string
  h_Address :: string
  h_Port :: int
  h_Username :: string
  h_Labels :: "(string, string) gomap"
  h_HostKey :: "hostKeyPin option"
  h_Version :: u64
  h_CreatedAt :: time
  h_UpdatedAt :: time

record envelope =
  env_Ciphertext :: string
  env_Nonce :: string
  env_WrappedKey :: string
  env_KeyNonce :: string
  env_KeyID :: string

record credentialMetadata =
  cm_ID :: string
  cm_HostID :: string
  cm_Kind :: string
  cm_PublicKeyFingerprint :: string
  cm_KeyID :: string
  cm_CreatedAt :: time
  cm_CreatedBy :: string

record storedCredential =
  sc_Metadata :: credentialMetadata
  sc_Envelope :: envelope

section \<open>Jobs\<close>

datatype jobState =
  JobQueued | JobRunning | JobAwaitingApproval | JobSucceeded | JobFailed | JobTimedOut | JobCancelled

record jobError =
  je_Code :: string
  je_Message :: string

record commandDescriptor =
  cd_ID :: string
  cd_Parameters :: "(string, string) gomap"

record commandResult =
  cr_CommandID :: string
  cr_Stdout :: string
  cr_Stderr :: string
  cr_ExitCode :: int
  cr_DurationMillis :: int
  cr_Truncated :: bool

record filesystemUsage =
  fs_Mount :: string
  fs_TotalBytes :: u64
  fs_UsedBytes :: u64
  fs_FreeBytes :: u64

record runtimeSnapshot =
  sn_ObservedAt :: time
  sn_Hostname :: string
  sn_Kernel :: string
  sn_UptimeSeconds :: u64
  sn_Load :: "go_float \<times> go_float \<times> go_float"
  sn_MemoryTotalBytes :: u64
  sn_MemoryAvailableBytes :: u64
  sn_CPUModel :: string
  sn_CPULogicalCores :: "32 word"
  sn_Filesystems :: "filesystemUsage list"
  sn_FieldErrors :: "(string, string) gomap"

record findingEvidence =
  fe_PID :: int
  fe_ParentPID :: int
  fe_User :: string
  fe_ProcessName :: string
  fe_CPUPercent :: go_float
  fe_ElapsedSeconds :: u64

record processFinding =
  pf_ID :: string
  pf_RuleID :: string
  pf_Title :: string
  pf_Severity :: string
  pf_Confidence :: go_float
  pf_Evidence :: findingEvidence
  pf_FalsePositiveNote :: string

typedecl ai_outcome

record anomalyScanResult =
  as_ObservedAt :: time
  as_Engine :: string
  as_AIExecutionAllowed :: bool
  as_ProcessesEvaluated :: nat
  as_Findings :: "processFinding list"
  as_AIAnalysis :: "ai_outcome option"

text \<open>
  The results of runbooks stored with a job have the fields of the responses of the connector; a
  result of \<^verbatim>\<open>RunbookExecutionResult\<close> keeps the output of its steps as text.
\<close>

record job =
  j_ID :: string
  j_Type :: string
  j_HostID :: string
  j_State :: jobState
  j_RequestedBy :: string
  j_RequestedSessionID :: string
  j_CreatedAt :: time
  j_StartedAt :: "time option"
  j_FinishedAt :: "time option"
  j_Snapshot :: "runtimeSnapshot option"
  j_Command :: "commandDescriptor option"
  j_CommandResult :: "commandResult option"
  j_AnomalyScan :: "anomalyScanResult option"
  j_RunbookPreview :: "runbookPreviewResponse option"
  j_RunbookExecution :: "runbookExecuteResponse option"
  j_Error :: "jobError option"
  j_Version :: u64

record auditEvent =
  ae_ID :: string
  ae_Timestamp :: time
  ae_Actor :: string
  ae_Role :: role
  ae_Action :: string
  ae_TargetType :: string
  ae_TargetID :: string
  ae_Outcome :: string
  ae_RequestID :: string
  ae_Details :: "(string, any_value) gomap"

text \<open>\<^verbatim>\<open>NewID\<close>; the random bytes are an argument, \<^const>\<open>None\<close> when the source fails.\<close>

definition NewID :: "string \<Rightarrow> string option \<Rightarrow> string option" where
  "NewID pre rand =
    (if pre = [] \<or> contains_any pre [CHR '' '', CHR ''/'', CHR 0x5C] then None
     else map_option (\<lambda>raw. pre @ ''_'' @ b64_encode raw) rand)"

fun CanTransition :: "jobState \<Rightarrow> jobState \<Rightarrow> bool" where
  "CanTransition JobQueued s \<longleftrightarrow> s = JobRunning \<or> s = JobCancelled"
| "CanTransition JobAwaitingApproval s \<longleftrightarrow> s = JobRunning \<or> s = JobCancelled"
| "CanTransition JobRunning s \<longleftrightarrow>
    s = JobAwaitingApproval \<or> s = JobSucceeded \<or> s = JobFailed \<or> s = JobTimedOut \<or> s = JobCancelled"
| "CanTransition _ s \<longleftrightarrow> False"

definition terminal :: "jobState \<Rightarrow> bool" where
  "terminal s \<longleftrightarrow> s = JobSucceeded \<or> s = JobFailed \<or> s = JobTimedOut \<or> s = JobCancelled"

text \<open>\<^const>\<open>None\<close> is the error of an invalid transition.\<close>

definition TransitionJob :: "job \<Rightarrow> jobState \<Rightarrow> time \<Rightarrow> job option" where
  "TransitionJob j s now =
    (if \<not> CanTransition (j_State j) s then None
     else let j1 = j\<lparr>j_State := s, j_Version := j_Version j + 1\<rparr>;
              j2 = (if s = JobRunning then j1\<lparr>j_StartedAt := Some now\<rparr> else j1);
              j3 = (if terminal s then j2\<lparr>j_FinishedAt := Some now\<rparr> else j2)
          in Some j3)"

section \<open>Cloudflare workers\<close>

record cloudflareWorker =
  w_ID :: string
  w_Name :: string
  w_AccountID :: string
  w_ScriptName :: string
  w_DesiredVersionID :: string
  w_Version :: u64
  w_CreatedAt :: time
  w_UpdatedAt :: time

record storedCloudflareToken =
  tok_ID :: string
  tok_WorkerID :: string
  tok_Kind :: string
  tok_KeyID :: string
  tok_CreatedAt :: time
  tok_CreatedBy :: string
  tok_Envelope :: envelope

record storedWorkerVersion =
  wv_ID :: string
  wv_WorkerID :: string
  wv_SHA256 :: string
  wv_SizeBytes :: int
  wv_ContentType :: string
  wv_Entrypoint :: string
  wv_State :: string
  wv_ProviderVersionID :: string
  wv_ProviderVersionNumber :: int
  wv_ProviderUploadedAt :: "time option"
  wv_CreatedAt :: time
  wv_CreatedBy :: string
  wv_Module :: string

record cloudflareDeployment =
  d_ID :: string
  d_WorkerID :: string
  d_VersionID :: string
  d_PreviousDesiredVersionID :: string
  d_Kind :: string
  d_State :: string
  d_ProviderExecutionAllowed :: bool
  d_ProviderVersionID :: string
  d_ProviderDeploymentID :: string
  d_ProviderState :: string
  d_ErrorCode :: string
  d_StartedAt :: "time option"
  d_FinishedAt :: "time option"
  d_CreatedAt :: time
  d_CreatedBy :: string

section \<open>Lemmas\<close>

lemma terminal_final: "terminal s \<Longrightarrow> \<not> CanTransition s s'"
  by (auto simp: terminal_def)

lemma TransitionJob_Some:
  "TransitionJob j s now = Some j' \<longleftrightarrow> CanTransition (j_State j) s \<and>
    j' = j\<lparr>j_State := s, j_Version := j_Version j + 1,
           j_StartedAt := (if s = JobRunning then Some now else j_StartedAt j),
           j_FinishedAt := (if terminal s then Some now else j_FinishedAt j)\<rparr>"
  by (auto simp: TransitionJob_def Let_def)

text \<open>The shape of a job in each state: time stamps are there exactly when the state implies them.\<close>

definition job_ok :: "job \<Rightarrow> bool" where
  "job_ok j \<longleftrightarrow>
    (j_FinishedAt j \<noteq> None \<longleftrightarrow> terminal (j_State j)) \<and>
    (j_State j \<in> {JobRunning, JobAwaitingApproval, JobSucceeded, JobFailed, JobTimedOut} \<longrightarrow> j_StartedAt j \<noteq> None) \<and>
    (j_State j = JobQueued \<longrightarrow> j_StartedAt j = None)"

lemma job_ok_transition:
  assumes "job_ok j" and "TransitionJob j s now = Some j'"
  shows "job_ok j'"
  using assms terminal_final [of "j_State j" s]
  by (cases "j_State j") (auto simp: TransitionJob_Some job_ok_def terminal_def)

end
