(* ===== verification/Store.thy ===== *)
theory Store
  imports Model Contracts
begin

text \<open>
  The in-memory repository of the control plane (\<^verbatim>\<open>control-plane/internal/store/memory.go\<close>,
  \<^verbatim>\<open>cloudflare.go\<close>, \<^verbatim>\<open>cloudflare_execution.go\<close>). Every method holds the repository lock from beginning to
  end, so it is one atomic function here; the deep copies the methods make keep callers from sharing
  memory with the repository and are the identity on values, except for audit events, whose details are
  redacted whenever they are copied.
\<close>

section \<open>Model\<close>

datatype store_error = ErrNotFound | ErrConflict

record memory =
  m_hosts :: "(string, host) gomap"
  m_credentials :: "(string, storedCredential) gomap"
  m_jobs :: "(string, job) gomap"
  m_audits :: "auditEvent list"
  m_workers :: "(string, cloudflareWorker) gomap"
  m_workerTokens :: "(string, storedCloudflareToken) gomap"
  m_workerVersions :: "(string, storedWorkerVersion) gomap"
  m_workerDeployments :: "(string, cloudflareDeployment) gomap"

definition NewMemory :: memory where
  "NewMemory = \<lparr>m_hosts = [], m_credentials = [], m_jobs = [], m_audits = [], m_workers = [], m_workerTokens = [],
    m_workerVersions = [], m_workerDeployments = []\<rparr>"

subsection \<open>Hosts and credentials\<close>

definition CreateHost :: "memory \<Rightarrow> host \<Rightarrow> store_error + memory" where
  "CreateHost m h =
    ensure (\<not> has_key (m_hosts m) (h_ID h)) ErrConflict (
    Inr (m\<lparr>m_hosts := put (m_hosts m) (h_ID h) h\<rparr>))"

definition GetHost :: "memory \<Rightarrow> string \<Rightarrow> store_error + host" where
  "GetHost m i = some_or (map_of (m_hosts m) i) ErrNotFound Inr"

definition ListHosts :: "memory \<Rightarrow> host list" where
  "ListHosts m = sort_key h_CreatedAt (map snd (m_hosts m))"

definition UpdateHost :: "memory \<Rightarrow> host \<Rightarrow> u64 \<Rightarrow> store_error + memory" where
  "UpdateHost m h expectedVersion =
    some_or (map_of (m_hosts m) (h_ID h)) ErrNotFound (\<lambda>current.
    ensure (h_Version current = expectedVersion) ErrConflict (
    Inr (m\<lparr>m_hosts := put (m_hosts m) (h_ID h) h\<rparr>)))"

definition DeleteHost :: "memory \<Rightarrow> string \<Rightarrow> store_error + memory" where
  "DeleteHost m i =
    ensure (has_key (m_hosts m) i) ErrNotFound (
    Inr (m\<lparr>m_hosts := del (m_hosts m) i, m_credentials := del (m_credentials m) i\<rparr>))"

definition PutCredential :: "memory \<Rightarrow> storedCredential \<Rightarrow> store_error + memory" where
  "PutCredential m c =
    ensure (has_key (m_hosts m) (cm_HostID (sc_Metadata c))) ErrNotFound (
    Inr (m\<lparr>m_credentials := put (m_credentials m) (cm_HostID (sc_Metadata c)) c\<rparr>))"

definition GetCredential :: "memory \<Rightarrow> string \<Rightarrow> store_error + storedCredential" where
  "GetCredential m hostID = some_or (map_of (m_credentials m) hostID) ErrNotFound Inr"

definition DeleteCredential :: "memory \<Rightarrow> string \<Rightarrow> store_error + memory" where
  "DeleteCredential m hostID =
    ensure (has_key (m_credentials m) hostID) ErrNotFound (
    Inr (m\<lparr>m_credentials := del (m_credentials m) hostID\<rparr>))"

subsection \<open>Jobs\<close>

definition CreateJob :: "memory \<Rightarrow> job \<Rightarrow> store_error + memory" where
  "CreateJob m j =
    ensure (\<not> has_key (m_jobs m) (j_ID j)) ErrConflict (
    Inr (m\<lparr>m_jobs := put (m_jobs m) (j_ID j) j\<rparr>))"

definition GetJob :: "memory \<Rightarrow> string \<Rightarrow> store_error + job" where
  "GetJob m i = some_or (map_of (m_jobs m) i) ErrNotFound Inr"

definition ListJobs :: "memory \<Rightarrow> job list" where
  "ListJobs m = sort_key (\<lambda>j. - j_CreatedAt j) (map snd (m_jobs m))"

text \<open>The error is the repository's own, or the one the callback returns.\<close>

definition MutateJob :: "memory \<Rightarrow> string \<Rightarrow> (job \<Rightarrow> 'e + job) \<Rightarrow> (store_error + 'e) + memory \<times> job" where
  "MutateJob m i mutate =
    some_or (map_of (m_jobs m) i) (Inl ErrNotFound) (\<lambda>j.
    case mutate j of
      Inl e \<Rightarrow> Inl (Inr e)
    | Inr updated \<Rightarrow> Inr (m\<lparr>m_jobs := put (m_jobs m) i updated\<rparr>, updated))"

subsection \<open>Audit events\<close>

definition cloneAudit :: "auditEvent \<Rightarrow> auditEvent" where
  "cloneAudit e = e\<lparr>ae_Details := SanitizeDetails (ae_Details e)\<rparr>"

definition AppendAudit :: "memory \<Rightarrow> auditEvent \<Rightarrow> memory" where
  "AppendAudit m e = m\<lparr>m_audits := m_audits m @ [cloneAudit e]\<rparr>"

text \<open>The loop runs from the last index down to \<^verbatim>\<open>start\<close>.\<close>

definition ListAudits :: "memory \<Rightarrow> int \<Rightarrow> auditEvent list" where
  "ListAudits m limit' =
    (let limit = (if limit' \<le> 0 \<or> limit' > 500 then 100 else limit');
         start = max 0 (int (length (m_audits m)) - limit)
     in map (\<lambda>i. cloneAudit (m_audits m ! i)) (rev [nat start..<length (m_audits m)]))"

subsection \<open>Workers\<close>

definition CreateWorker :: "memory \<Rightarrow> cloudflareWorker \<Rightarrow> store_error + memory" where
  "CreateWorker m w =
    ensure (\<not> has_key (m_workers m) (w_ID w)) ErrConflict (
    Inr (m\<lparr>m_workers := put (m_workers m) (w_ID w) w\<rparr>))"

definition GetWorker :: "memory \<Rightarrow> string \<Rightarrow> store_error + cloudflareWorker" where
  "GetWorker m i = some_or (map_of (m_workers m) i) ErrNotFound Inr"

definition ListWorkers :: "memory \<Rightarrow> cloudflareWorker list" where
  "ListWorkers m = sort_key w_CreatedAt (map snd (m_workers m))"

definition PutWorkerToken :: "memory \<Rightarrow> storedCloudflareToken \<Rightarrow> store_error + memory" where
  "PutWorkerToken m t =
    ensure (has_key (m_workers m) (tok_WorkerID t)) ErrNotFound (
    Inr (m\<lparr>m_workerTokens := put (m_workerTokens m) (tok_WorkerID t) t\<rparr>))"

definition GetWorkerToken :: "memory \<Rightarrow> string \<Rightarrow> store_error + storedCloudflareToken" where
  "GetWorkerToken m workerID = some_or (map_of (m_workerTokens m) workerID) ErrNotFound Inr"

definition DeleteWorkerToken :: "memory \<Rightarrow> string \<Rightarrow> store_error + memory" where
  "DeleteWorkerToken m workerID =
    ensure (has_key (m_workerTokens m) workerID) ErrNotFound (
    Inr (m\<lparr>m_workerTokens := del (m_workerTokens m) workerID\<rparr>))"

definition CreateWorkerVersion :: "memory \<Rightarrow> storedWorkerVersion \<Rightarrow> store_error + memory" where
  "CreateWorkerVersion m v =
    ensure (has_key (m_workers m) (wv_WorkerID v)) ErrNotFound (
    ensure (\<not> has_key (m_workerVersions m) (wv_ID v)) ErrConflict (
    Inr (m\<lparr>m_workerVersions := put (m_workerVersions m) (wv_ID v) v\<rparr>)))"

definition GetWorkerVersion :: "memory \<Rightarrow> string \<Rightarrow> string \<Rightarrow> store_error + storedWorkerVersion" where
  "GetWorkerVersion m workerID versionID =
    some_or (map_of (m_workerVersions m) versionID) ErrNotFound (\<lambda>v.
    ensure (wv_WorkerID v = workerID) ErrNotFound (
    Inr v))"

definition ListWorkerVersions :: "memory \<Rightarrow> string \<Rightarrow> storedWorkerVersion list" where
  "ListWorkerVersions m workerID =
    sort_key (\<lambda>v. - wv_CreatedAt v) (filter (\<lambda>v. wv_WorkerID v = workerID) (map snd (m_workerVersions m)))"

definition PlanWorkerDeployment :: "memory \<Rightarrow> cloudflareDeployment \<Rightarrow> cloudflareWorker \<Rightarrow> store_error + memory" where
  "PlanWorkerDeployment m d updatedAt =
    ensure (\<not> ((d_Kind d \<noteq> ''deploy'' \<and> d_Kind d \<noteq> ''rollback'') \<or> d_State d \<noteq> ''ready_for_provider'' \<or>
        d_ProviderExecutionAllowed d)) ErrConflict (
    some_or (map_of (m_workers m) (d_WorkerID d)) ErrNotFound (\<lambda>worker.
    some_or (map_of (m_workerVersions m) (d_VersionID d)) ErrNotFound (\<lambda>version.
    ensure (wv_WorkerID version = w_ID worker) ErrNotFound (
    ensure (has_key (m_workerTokens m) (w_ID worker)) ErrNotFound (
    ensure (\<not> has_key (m_workerDeployments m) (d_ID d)) ErrConflict (
    ensure (d_PreviousDesiredVersionID d = w_DesiredVersionID worker) ErrConflict (
    ensure (\<not> (d_Kind d = ''rollback'' \<and>
        (w_DesiredVersionID worker = [] \<or> w_DesiredVersionID worker = d_VersionID d))) ErrConflict (
    ensure (\<not> (w_ID updatedAt \<noteq> w_ID worker \<or> w_Version updatedAt \<noteq> w_Version worker + 1 \<or>
        w_DesiredVersionID updatedAt \<noteq> d_VersionID d)) ErrConflict (
    Inr (m\<lparr>m_workerDeployments := put (m_workerDeployments m) (d_ID d) d,
           m_workers := put (m_workers m) (w_ID worker) updatedAt\<rparr>))))))))))"

definition ListWorkerDeployments :: "memory \<Rightarrow> string \<Rightarrow> cloudflareDeployment list" where
  "ListWorkerDeployments m workerID =
    sort_key (\<lambda>d. - d_CreatedAt d) (filter (\<lambda>d. d_WorkerID d = workerID) (map snd (m_workerDeployments m)))"

definition UpdateWorkerVersionProvider ::
  "memory \<Rightarrow> string \<Rightarrow> string \<Rightarrow> string \<Rightarrow> int \<Rightarrow> time \<Rightarrow> store_error + memory" where
  "UpdateWorkerVersionProvider m workerID versionID providerVersionID providerVersionNumber uploadedAt =
    ensure (\<not> (workerID = [] \<or> versionID = [] \<or> providerVersionID = [] \<or> providerVersionNumber < 0 \<or>
        is_zero_time uploadedAt)) ErrConflict (
    some_or (map_of (m_workerVersions m) versionID) ErrNotFound (\<lambda>version.
    ensure (wv_WorkerID version = workerID) ErrNotFound (
    Inr (m\<lparr>m_workerVersions := put (m_workerVersions m) versionID
      (version\<lparr>wv_ProviderVersionID := providerVersionID, wv_ProviderVersionNumber := providerVersionNumber,
               wv_ProviderUploadedAt := Some uploadedAt\<rparr>)\<rparr>))))"

definition GetWorkerDeployment :: "memory \<Rightarrow> string \<Rightarrow> string \<Rightarrow> store_error + cloudflareDeployment" where
  "GetWorkerDeployment m workerID deploymentID =
    some_or (map_of (m_workerDeployments m) deploymentID) ErrNotFound (\<lambda>d.
    ensure (d_WorkerID d = workerID) ErrNotFound (
    Inr d))"

text \<open>\<^verbatim>\<open>!a.Before(b)\<close> for optional instants that are known to be set.\<close>

definition validFinishedDeployment :: "cloudflareDeployment \<Rightarrow> bool" where
  "validFinishedDeployment d =
    (case (d_StartedAt d, d_FinishedAt d) of
       (Some started, Some finished) \<Rightarrow> \<not> started < d_CreatedAt d \<and> \<not> finished < started
     | _ \<Rightarrow> False)"

definition validWorkerDeploymentTransition :: "cloudflareDeployment \<Rightarrow> cloudflareDeployment \<Rightarrow> bool" where
  "validWorkerDeploymentTransition current updated =
    (if d_ID updated \<noteq> d_ID current \<or> d_WorkerID updated \<noteq> d_WorkerID current \<or> d_VersionID updated \<noteq> d_VersionID current \<or>
        d_PreviousDesiredVersionID updated \<noteq> d_PreviousDesiredVersionID current \<or> d_Kind updated \<noteq> d_Kind current \<or>
        d_CreatedAt updated \<noteq> d_CreatedAt current \<or> d_CreatedBy updated \<noteq> d_CreatedBy current \<or>
        \<not> d_ProviderExecutionAllowed updated then False
     else if d_State current = ''ready_for_provider'' \<and> d_State updated = ''running'' then
       (case d_StartedAt updated of
          None \<Rightarrow> False
        | Some started \<Rightarrow> d_FinishedAt updated = None \<and> d_ErrorCode updated = [] \<and> d_ProviderDeploymentID updated = [] \<and>
            d_ProviderState updated = [] \<and> \<not> started < d_CreatedAt updated)
     else if d_State current = ''running'' \<and> d_State updated = ''succeeded'' then
       validFinishedDeployment updated \<and> d_ErrorCode updated = [] \<and> d_ProviderVersionID updated \<noteq> [] \<and>
       d_ProviderDeploymentID updated \<noteq> [] \<and> d_ProviderState updated = ''active''
     else if d_State current = ''running'' \<and> d_State updated = ''failed'' then
       validFinishedDeployment updated \<and> d_ErrorCode updated \<noteq> [] \<and> length (d_ErrorCode updated) \<le> 128
     else False)"

definition UpdateWorkerDeployment :: "memory \<Rightarrow> cloudflareDeployment \<Rightarrow> string \<Rightarrow> store_error + memory" where
  "UpdateWorkerDeployment m updated expectedState =
    some_or (map_of (m_workerDeployments m) (d_ID updated)) ErrNotFound (\<lambda>current.
    ensure (d_WorkerID current = d_WorkerID updated) ErrNotFound (
    ensure (\<not> (d_State current \<noteq> expectedState \<or> \<not> validWorkerDeploymentTransition current updated)) ErrConflict (
    Inr (m\<lparr>m_workerDeployments := put (m_workerDeployments m) (d_ID updated) updated\<rparr>))))"

section \<open>Well-formed repositories\<close>

definition owns_version :: "memory \<Rightarrow> string \<Rightarrow> string \<Rightarrow> bool" where
  "owns_version m workerID versionID =
    (case map_of (m_workerVersions m) versionID of None \<Rightarrow> False | Some v \<Rightarrow> wv_WorkerID v = workerID)"

definition desired_ok :: "memory \<Rightarrow> cloudflareWorker \<Rightarrow> bool" where
  "desired_ok m w \<longleftrightarrow> w_DesiredVersionID w = [] \<or> owns_version m (w_ID w) (w_DesiredVersionID w)"

definition audits_clean :: "memory \<Rightarrow> bool" where
  "audits_clean m = list_all (\<lambda>e. clean (VMap (ae_Details e))) (m_audits m)"

text \<open>
  Records are filed under their own identifiers; credentials belong to hosts, tokens, versions and
  deployments to workers, deployments and desired versions to versions of the same worker. Stored audit
  details are redacted. The host of a job is not among the references that are resolved: a job is created
  without a look at the hosts, and stays when its host is deleted.
\<close>

definition wf_memory :: "memory \<Rightarrow> bool" where
  "wf_memory m \<longleftrightarrow>
    (wf_map (m_hosts m) \<and> wf_map (m_credentials m) \<and> wf_map (m_jobs m) \<and> wf_map (m_workers m) \<and>
     wf_map (m_workerTokens m) \<and> wf_map (m_workerVersions m) \<and> wf_map (m_workerDeployments m)) \<and>
    all_entries (\<lambda>k h. h_ID h = k) (m_hosts m) \<and>
    all_entries (\<lambda>k c. cm_HostID (sc_Metadata c) = k \<and> has_key (m_hosts m) k) (m_credentials m) \<and>
    all_entries (\<lambda>k j. j_ID j = k) (m_jobs m) \<and>
    all_entries (\<lambda>k w. w_ID w = k \<and> desired_ok m w) (m_workers m) \<and>
    all_entries (\<lambda>k t. tok_WorkerID t = k \<and> has_key (m_workers m) k) (m_workerTokens m) \<and>
    all_entries (\<lambda>k v. wv_ID v = k \<and> has_key (m_workers m) (wv_WorkerID v)) (m_workerVersions m) \<and>
    all_entries (\<lambda>k d. d_ID d = k \<and> has_key (m_workers m) (d_WorkerID d) \<and> owns_version m (d_WorkerID d) (d_VersionID d))
      (m_workerDeployments m) \<and>
    audits_clean m"

text \<open>
  A call of a method that changes the repository, and what it does; a call that fails changes nothing. The
  callback of \<^verbatim>\<open>MutateJob\<close> is part of the call.
\<close>

datatype mem_call =
  Call_CreateHost host | Call_UpdateHost host u64 | Call_DeleteHost string | Call_PutCredential storedCredential | Call_DeleteCredential string
| Call_CreateJob job | Call_MutateJob string "job \<Rightarrow> string + job" | Call_AppendAudit auditEvent | Call_CreateWorker cloudflareWorker
| Call_PutWorkerToken storedCloudflareToken | Call_DeleteWorkerToken string | Call_CreateWorkerVersion storedWorkerVersion
| Call_PlanWorkerDeployment cloudflareDeployment cloudflareWorker
| Call_UpdateWorkerVersionProvider string string string int time | Call_UpdateWorkerDeployment cloudflareDeployment string

definition after :: "memory \<Rightarrow> 'e + memory \<Rightarrow> memory" where
  "after m r = (case r of Inl _ \<Rightarrow> m | Inr m' \<Rightarrow> m')"

fun mem_apply :: "mem_call \<Rightarrow> memory \<Rightarrow> memory" where
  "mem_apply (Call_CreateHost h) m = after m (CreateHost m h)"
| "mem_apply (Call_UpdateHost h n) m = after m (UpdateHost m h n)"
| "mem_apply (Call_DeleteHost i) m = after m (DeleteHost m i)"
| "mem_apply (Call_PutCredential c) m = after m (PutCredential m c)"
| "mem_apply (Call_DeleteCredential i) m = after m (DeleteCredential m i)"
| "mem_apply (Call_CreateJob j) m = after m (CreateJob m j)"
| "mem_apply (Call_MutateJob i f) m = (case MutateJob m i f of Inl _ \<Rightarrow> m | Inr (m', _) \<Rightarrow> m')"
| "mem_apply (Call_AppendAudit e) m = AppendAudit m e"
| "mem_apply (Call_CreateWorker w) m = after m (CreateWorker m w)"
| "mem_apply (Call_PutWorkerToken t) m = after m (PutWorkerToken m t)"
| "mem_apply (Call_DeleteWorkerToken i) m = after m (DeleteWorkerToken m i)"
| "mem_apply (Call_CreateWorkerVersion v) m = after m (CreateWorkerVersion m v)"
| "mem_apply (Call_PlanWorkerDeployment d w) m = after m (PlanWorkerDeployment m d w)"
| "mem_apply (Call_UpdateWorkerVersionProvider wi vi pv n t) m = after m (UpdateWorkerVersionProvider m wi vi pv n t)"
| "mem_apply (Call_UpdateWorkerDeployment d st) m = after m (UpdateWorkerDeployment m d st)"

text \<open>
  What the repository leaves to its callers: a callback keeps the identifier of the job, and a worker is
  created without a desired version. The methods check neither.
\<close>

fun caller_ok :: "mem_call \<Rightarrow> bool" where
  "caller_ok (Call_MutateJob i f) \<longleftrightarrow> (\<forall>j j'. f j = Inr j' \<longrightarrow> j_ID j' = j_ID j)"
| "caller_ok (Call_CreateWorker w) \<longleftrightarrow> w_DesiredVersionID w = []"
| "caller_ok _ \<longleftrightarrow> True"

section \<open>Lemmas\<close>

lemma wf_NewMemory: "wf_memory NewMemory"
  by (simp add: wf_memory_def NewMemory_def audits_clean_def)

lemmas store_defs = CreateHost_def UpdateHost_def DeleteHost_def PutCredential_def DeleteCredential_def CreateJob_def
  MutateJob_def AppendAudit_def CreateWorker_def PutWorkerToken_def DeleteWorkerToken_def CreateWorkerVersion_def
  PlanWorkerDeployment_def UpdateWorkerVersionProvider_def UpdateWorkerDeployment_def

text \<open>The invariant with its quantifiers in the open, which is how the preservation proofs use it.\<close>

lemma wf_memory_iff:
  "wf_memory m \<longleftrightarrow>
    (wf_map (m_hosts m) \<and> wf_map (m_credentials m) \<and> wf_map (m_jobs m) \<and> wf_map (m_workers m) \<and>
     wf_map (m_workerTokens m) \<and> wf_map (m_workerVersions m) \<and> wf_map (m_workerDeployments m)) \<and>
    (\<forall>k h. map_of (m_hosts m) k = Some h \<longrightarrow> h_ID h = k) \<and>
    (\<forall>k c. map_of (m_credentials m) k = Some c \<longrightarrow> cm_HostID (sc_Metadata c) = k \<and> has_key (m_hosts m) k) \<and>
    (\<forall>k j. map_of (m_jobs m) k = Some j \<longrightarrow> j_ID j = k) \<and>
    (\<forall>k w. map_of (m_workers m) k = Some w \<longrightarrow> w_ID w = k \<and> desired_ok m w) \<and>
    (\<forall>k t. map_of (m_workerTokens m) k = Some t \<longrightarrow> tok_WorkerID t = k \<and> has_key (m_workers m) k) \<and>
    (\<forall>k v. map_of (m_workerVersions m) k = Some v \<longrightarrow> wv_ID v = k \<and> has_key (m_workers m) (wv_WorkerID v)) \<and>
    (\<forall>k d. map_of (m_workerDeployments m) k = Some d \<longrightarrow>
      d_ID d = k \<and> has_key (m_workers m) (d_WorkerID d) \<and> owns_version m (d_WorkerID d) (d_VersionID d)) \<and>
    audits_clean m"
  unfolding wf_memory_def by (simp add: all_entries_iff cong: conj_cong)

lemma audits_clean_simps [simp]:
  "audits_clean (m\<lparr>m_hosts := x1\<rparr>) = audits_clean m" "audits_clean (m\<lparr>m_credentials := x2\<rparr>) = audits_clean m"
  "audits_clean (m\<lparr>m_jobs := x3\<rparr>) = audits_clean m" "audits_clean (m\<lparr>m_workers := x5\<rparr>) = audits_clean m"
  "audits_clean (m\<lparr>m_workerTokens := x6\<rparr>) = audits_clean m" "audits_clean (m\<lparr>m_workerVersions := x7\<rparr>) = audits_clean m"
  "audits_clean (m\<lparr>m_workerDeployments := x8\<rparr>) = audits_clean m"
  by (simp_all add: audits_clean_def)

lemma MutateJob_Inr:
  "MutateJob m i f = Inr (m', j') \<longleftrightarrow>
    (\<exists>j. map_of (m_jobs m) i = Some j \<and> f j = Inr j' \<and> m' = m\<lparr>m_jobs := put (m_jobs m) i j'\<rparr>)"
  by (cases "map_of (m_jobs m) i") (auto simp: MutateJob_def split: sum.split)

lemma cloneAudit_clean: "clean (VMap (ae_Details (cloneAudit e)))"
  by (auto simp: cloneAudit_def SanitizeDetails_def list_all_iff clean_sanitizeValue)

lemma deployment_transition_ids:
  "validWorkerDeploymentTransition current updated \<Longrightarrow>
    d_ID updated = d_ID current \<and> d_WorkerID updated = d_WorkerID current \<and> d_VersionID updated = d_VersionID current"
  by (auto simp: validWorkerDeploymentTransition_def split: if_splits)

lemma owns_version_simps [simp]:
  "owns_version (m\<lparr>m_hosts := x1\<rparr>) = owns_version m" "owns_version (m\<lparr>m_credentials := x2\<rparr>) = owns_version m"
  "owns_version (m\<lparr>m_jobs := x3\<rparr>) = owns_version m" "owns_version (m\<lparr>m_audits := x4\<rparr>) = owns_version m"
  "owns_version (m\<lparr>m_workers := x5\<rparr>) = owns_version m" "owns_version (m\<lparr>m_workerTokens := x6\<rparr>) = owns_version m"
  "owns_version (m\<lparr>m_workerDeployments := x7\<rparr>) = owns_version m"
  by (auto simp: owns_version_def fun_eq_iff)

lemma desired_ok_simps [simp]:
  "desired_ok (m\<lparr>m_hosts := x1\<rparr>) = desired_ok m" "desired_ok (m\<lparr>m_credentials := x2\<rparr>) = desired_ok m"
  "desired_ok (m\<lparr>m_jobs := x3\<rparr>) = desired_ok m" "desired_ok (m\<lparr>m_audits := x4\<rparr>) = desired_ok m"
  "desired_ok (m\<lparr>m_workers := x5\<rparr>) = desired_ok m" "desired_ok (m\<lparr>m_workerTokens := x6\<rparr>) = desired_ok m"
  "desired_ok (m\<lparr>m_workerDeployments := x7\<rparr>) = desired_ok m"
  by (auto simp: desired_ok_def fun_eq_iff)

lemma owns_version_put:
  "\<not> has_key (m_workerVersions m) i \<Longrightarrow> owns_version m w v \<Longrightarrow>
    owns_version (m\<lparr>m_workerVersions := put (m_workerVersions m) i x\<rparr>) w v"
  "map_of (m_workerVersions m) i = Some y \<Longrightarrow> wv_WorkerID x = wv_WorkerID y \<Longrightarrow> owns_version m w v \<Longrightarrow>
    owns_version (m\<lparr>m_workerVersions := put (m_workerVersions m) i x\<rparr>) w v"
  by (auto simp: owns_version_def has_key_def split: option.splits if_splits)

lemma desired_ok_put:
  "\<not> has_key (m_workerVersions m) i \<Longrightarrow> desired_ok m w \<Longrightarrow>
    desired_ok (m\<lparr>m_workerVersions := put (m_workerVersions m) i x\<rparr>) w"
  "map_of (m_workerVersions m) i = Some y \<Longrightarrow> wv_WorkerID x = wv_WorkerID y \<Longrightarrow> desired_ok m w \<Longrightarrow>
    desired_ok (m\<lparr>m_workerVersions := put (m_workerVersions m) i x\<rparr>) w"
  by (auto simp: desired_ok_def owns_version_put)

lemma desired_ok_new: "w_DesiredVersionID w = [] \<Longrightarrow> desired_ok m w"
  by (simp add: desired_ok_def)

text \<open>One successful call of each method.\<close>

inductive mem_step :: "memory \<Rightarrow> memory \<Rightarrow> bool" where
  CreateHost: "CreateHost m h = Inr m' \<Longrightarrow> mem_step m m'"
| UpdateHost: "UpdateHost m h n = Inr m' \<Longrightarrow> mem_step m m'"
| DeleteHost: "DeleteHost m i = Inr m' \<Longrightarrow> mem_step m m'"
| PutCredential: "PutCredential m c = Inr m' \<Longrightarrow> mem_step m m'"
| DeleteCredential: "DeleteCredential m i = Inr m' \<Longrightarrow> mem_step m m'"
| CreateJob: "CreateJob m j = Inr m' \<Longrightarrow> mem_step m m'"
| MutateJob: "MutateJob m i (f :: job \<Rightarrow> string + job) = Inr (m', j) \<Longrightarrow> caller_ok (Call_MutateJob i f) \<Longrightarrow> mem_step m m'"
| AppendAudit: "mem_step m (AppendAudit m e)"
| CreateWorker: "CreateWorker m w = Inr m' \<Longrightarrow> caller_ok (Call_CreateWorker w) \<Longrightarrow> mem_step m m'"
| PutWorkerToken: "PutWorkerToken m t = Inr m' \<Longrightarrow> mem_step m m'"
| DeleteWorkerToken: "DeleteWorkerToken m i = Inr m' \<Longrightarrow> mem_step m m'"
| CreateWorkerVersion: "CreateWorkerVersion m v = Inr m' \<Longrightarrow> mem_step m m'"
| PlanWorkerDeployment: "PlanWorkerDeployment m d w = Inr m' \<Longrightarrow> mem_step m m'"
| UpdateWorkerVersionProvider: "UpdateWorkerVersionProvider m wi vi pv n t = Inr m' \<Longrightarrow> mem_step m m'"
| UpdateWorkerDeployment: "UpdateWorkerDeployment m d st = Inr m' \<Longrightarrow> mem_step m m'"

lemma wf_memory_step:
  assumes "mem_step m m'" and "wf_memory m"
  shows "wf_memory m'"
  using assms
proof (cases rule: mem_step.cases)
  case (CreateHost h)
  then show ?thesis
    using assms(2) by (clarsimp simp: wf_memory_iff store_defs result_simps split: if_splits)
next
  case (UpdateHost h n)
  then show ?thesis
    using assms(2) by (clarsimp simp: wf_memory_iff store_defs result_simps split: if_splits)
next
  case (DeleteHost i)
  then show ?thesis
    using assms(2) by (clarsimp simp: wf_memory_iff store_defs result_simps split: if_splits)
next
  case (PutCredential c)
  then show ?thesis
    using assms(2) by (clarsimp simp: wf_memory_iff store_defs result_simps split: if_splits)
next
  case (DeleteCredential i)
  then show ?thesis
    using assms(2) by (clarsimp simp: wf_memory_iff store_defs result_simps split: if_splits)
next
  case (CreateJob j)
  then show ?thesis
    using assms(2) by (clarsimp simp: wf_memory_iff store_defs result_simps split: if_splits)
next
  case (MutateJob i f j)
  then show ?thesis
    using assms(2) by (clarsimp simp: wf_memory_iff MutateJob_Inr split: if_splits)
next
  case (AppendAudit e)
  then show ?thesis
    using assms(2) cloneAudit_clean [of e] by (auto simp: wf_memory_iff store_defs audits_clean_def simp del: clean.simps split: if_splits)
next
  case (CreateWorker w)
  then show ?thesis
    using assms(2) by (clarsimp simp: wf_memory_iff store_defs result_simps desired_ok_new split: if_splits)
next
  case (PutWorkerToken t)
  then show ?thesis
    using assms(2) by (clarsimp simp: wf_memory_iff store_defs result_simps split: if_splits)
next
  case (DeleteWorkerToken i)
  then show ?thesis
    using assms(2) by (clarsimp simp: wf_memory_iff store_defs result_simps split: if_splits)
next
  case (CreateWorkerVersion v)
  then show ?thesis
    using assms(2) by (clarsimp simp: wf_memory_iff store_defs result_simps owns_version_put desired_ok_put split: if_splits)
next
  case (PlanWorkerDeployment d w)
  then obtain worker version where
    facts: "map_of (m_workers m) (d_WorkerID d) = Some worker" "map_of (m_workerVersions m) (d_VersionID d) = Some version"
      "wv_WorkerID version = w_ID worker" "w_ID w = w_ID worker" "w_DesiredVersionID w = d_VersionID d"
      "m' = m\<lparr>m_workerDeployments := put (m_workerDeployments m) (d_ID d) d, m_workers := put (m_workers m) (w_ID worker) w\<rparr>"
    by (auto simp: PlanWorkerDeployment_def result_simps)
  then have "w_ID worker = d_WorkerID d"
    using assms(2) by (simp add: wf_memory_iff)
  with facts assms(2) show ?thesis
    by (auto simp: wf_memory_iff owns_version_def desired_ok_def split: if_splits)
next
  case (UpdateWorkerVersionProvider wi vi pv n t)
  then show ?thesis
    using assms(2) by (clarsimp simp: wf_memory_iff store_defs result_simps owns_version_put(2) desired_ok_put(2) split: if_splits)
next
  case (UpdateWorkerDeployment d st)
  then obtain current where
    facts: "map_of (m_workerDeployments m) (d_ID d) = Some current" "validWorkerDeploymentTransition current d"
      "m' = m\<lparr>m_workerDeployments := put (m_workerDeployments m) (d_ID d) d\<rparr>"
    by (auto simp: UpdateWorkerDeployment_def result_simps)
  moreover have "has_key (m_workers m) (d_WorkerID current) \<and> owns_version m (d_WorkerID current) (d_VersionID current)"
    using assms(2) facts(1) unfolding wf_memory_iff by blast
  then have "has_key (m_workers m) (d_WorkerID d)" "owns_version m (d_WorkerID d) (d_VersionID d)"
    using deployment_transition_ids [OF facts(2)] by simp_all
  ultimately show ?thesis
    using assms(2) by (clarsimp simp: wf_memory_iff split: if_splits)
qed

lemma mem_apply_step:
  assumes "caller_ok call"
  shows "mem_apply call m = m \<or> mem_step m (mem_apply call m)"
  using assms
proof (cases call)
  case (Call_MutateJob i f)
  then show ?thesis
    using assms by (auto intro: mem_step.MutateJob split: sum.split)
next
  case (Call_CreateWorker w)
  then show ?thesis
    using assms by (auto simp: after_def intro: mem_step.CreateWorker split: sum.split)
qed (auto simp: after_def intro: mem_step.intros split: sum.split)

lemma wf_memory_calls: "wf_memory m \<Longrightarrow> list_all caller_ok calls \<Longrightarrow> wf_memory (fold mem_apply calls m)"
proof (induction calls arbitrary: m)
  case (Cons call calls)
  then have "wf_memory (mem_apply call m)"
    using mem_apply_step [of call m] by (auto intro: wf_memory_step)
  with Cons show ?case
    by simp
qed simp

text \<open>The page of audit events is the newest ones, newest first.\<close>

lemma ListAudits_newest:
  "ListAudits m limit = map cloneAudit (take (nat (if limit \<le> 0 \<or> limit > 500 then 100 else limit)) (rev (m_audits m)))"
proof -
  define n where "n = nat (if limit \<le> 0 \<or> limit > 500 then 100 else limit)"
  have "map (\<lambda>i. cloneAudit (m_audits m ! i)) (rev [k..<length (m_audits m)]) =
      map cloneAudit (take (length (m_audits m) - k) (rev (m_audits m)))" for k
  proof -
    have "map (\<lambda>i. m_audits m ! i) [k..<length (m_audits m)] = drop k (m_audits m)"
      by (rule nth_equalityI) auto
    then have "map (\<lambda>i. cloneAudit (m_audits m ! i)) [k..<length (m_audits m)] = map cloneAudit (drop k (m_audits m))"
      by (metis (no_types, lifting) comp_def list.map_comp map_cong)
    then show ?thesis
      by (cases "k \<le> length (m_audits m)") (simp_all add: take_rev flip: rev_map)
  qed
  from this [of "nat (max 0 (int (length (m_audits m)) - int n))"] show ?thesis
    unfolding ListAudits_def n_def [symmetric]
    by (auto simp: n_def Let_def nat_diff_distrib max_def split: if_splits)
qed

section \<open>Compare-and-swap updates\<close>

text \<open>A deployment is claimed by its state, a host by its version, which the handlers count up.\<close>

definition cas_deployment :: "memory \<Rightarrow> string \<Rightarrow> cloudflareDeployment \<Rightarrow> string \<Rightarrow> memory option" where
  "cas_deployment m k d st = (if d_ID d = k then ok (UpdateWorkerDeployment m d st) else None)"

definition cas_host :: "memory \<Rightarrow> string \<Rightarrow> host \<Rightarrow> u64 \<Rightarrow> memory option" where
  "cas_host m k h n = (if h_ID h = k then ok (UpdateHost m (h\<lparr>h_Version := n + 1\<rparr>) n) else None)"

lemma deployment_moves: "validWorkerDeploymentTransition current updated \<Longrightarrow>
  (d_State current, d_State updated) \<in> {(''ready_for_provider'', ''running''), (''running'', ''succeeded''), (''running'', ''failed'')}"
  by (auto simp: validWorkerDeploymentTransition_def split: if_splits)

lemma deployment_moves_on: "validWorkerDeploymentTransition current updated \<Longrightarrow> d_State updated \<noteq> d_State current"
  using deployment_moves by fastforce

interpretation deployments: versioned_store "\<lambda>m. map_of (m_workerDeployments m)" d_State cas_deployment
  by unfold_locales
    (auto simp: cas_deployment_def UpdateWorkerDeployment_def result_simps dest: deployment_moves_on split: if_splits)

interpretation hosts: versioned_store "\<lambda>m. map_of (m_hosts m)" h_Version cas_host
  by unfold_locales (auto simp: cas_host_def UpdateHost_def result_simps split: if_splits)

section \<open>Evaluation fixtures\<close>

definition demo_host :: host where
  "demo_host = \<lparr>h_ID = ''host_1'', h_Name = ''web'', h_Address = ''203.0.113.7'', h_Port = 22, h_Username = ''ops'',
    h_Labels = [], h_HostKey = None, h_Version = 1, h_CreatedAt = 0, h_UpdatedAt = 0\<rparr>"

definition demo_deployment :: cloudflareDeployment where
  "demo_deployment = \<lparr>d_ID = ''dep_1'', d_WorkerID = ''w_1'', d_VersionID = ''v_1'', d_PreviousDesiredVersionID = [],
    d_Kind = ''deploy'', d_State = ''ready_for_provider'', d_ProviderExecutionAllowed = False, d_ProviderVersionID = [],
    d_ProviderDeploymentID = [], d_ProviderState = [], d_ErrorCode = [], d_StartedAt = None, d_FinishedAt = None,
    d_CreatedAt = 0, d_CreatedBy = ''alice''\<rparr>"

section \<open>Properties\<close>

text \<open>
  C12. After any sequence of calls of the methods on an empty repository, failed calls included, in which job
  callbacks keep the identifier of their job and workers are created without a desired version, every record
  is filed under its own identifier; every credential belongs to a host that is there, every token, version
  and deployment to a worker that is there, and a deployment and a desired version name a version of the same
  worker; and stored audit details are redacted. Nothing is said of the host of a job, which may be gone.
\<close>

theorem reachable_memory_wf:
  assumes "list_all caller_ok calls"
  defines "m \<equiv> fold mem_apply calls NewMemory"
  shows "(\<forall>i h. map_of (m_hosts m) i = Some h \<longrightarrow> h_ID h = i) \<and> (\<forall>i j. map_of (m_jobs m) i = Some j \<longrightarrow> j_ID j = i)
    \<and> (\<forall>i c. map_of (m_credentials m) i = Some c \<longrightarrow> cm_HostID (sc_Metadata c) = i \<and> has_key (m_hosts m) i)
    \<and> (\<forall>i w. map_of (m_workers m) i = Some w \<longrightarrow> w_ID w = i \<and> (w_DesiredVersionID w = [] \<or> owns_version m i (w_DesiredVersionID w)))
    \<and> (\<forall>i t. map_of (m_workerTokens m) i = Some t \<longrightarrow> tok_WorkerID t = i \<and> has_key (m_workers m) i)
    \<and> (\<forall>i v. map_of (m_workerVersions m) i = Some v \<longrightarrow> wv_ID v = i \<and> has_key (m_workers m) (wv_WorkerID v))
    \<and> (\<forall>i d. map_of (m_workerDeployments m) i = Some d \<longrightarrow>
        d_ID d = i \<and> has_key (m_workers m) (d_WorkerID d) \<and> owns_version m (d_WorkerID d) (d_VersionID d))
    \<and> list_all (\<lambda>e. clean (VMap (ae_Details e))) (m_audits m)"
proof -
  have "wf_memory m"
    unfolding m_def by (rule wf_memory_calls [OF wf_NewMemory assms(1)])
  then show ?thesis
    unfolding wf_memory_iff by (auto simp: desired_ok_def audits_clean_def)
qed

theorem reachable_memory_wf_witness:
  "\<exists>m. m = fold mem_apply [Call_CreateHost demo_host, Call_MutateJob ''j'' (\<lambda>_. Inl ''no''), Call_DeleteHost ''host_2''] NewMemory
    \<and> map_of (m_hosts m) ''host_1'' = Some demo_host \<and> h_ID demo_host = ''host_1''"
proof -
  let ?calls = "[Call_CreateHost demo_host, Call_MutateJob ''j'' (\<lambda>_. Inl ''no''), Call_DeleteHost ''host_2'']"
  have "map_of (m_hosts (fold mem_apply ?calls NewMemory)) ''host_1'' = Some demo_host"
    by (simp add: after_def CreateHost_def MutateJob_def DeleteHost_def NewMemory_def has_key_def put_def demo_host_def)
  with reachable_memory_wf [of ?calls] show ?thesis
    by auto
qed

text \<open>
  C20. A deployment moves only from ready to running and from running to succeeded or failed, its
  identity and target never change, and a state is left once: a second update that expects the same state
  fails, so that one executor at most claims a deployment.
\<close>

theorem deployment_claimed_once:
  assumes "UpdateWorkerDeployment m d st = Inr m'"
  shows "(st, d_State d) \<in> {(''ready_for_provider'', ''running''), (''running'', ''succeeded''), (''running'', ''failed'')}
    \<and> (\<exists>current. map_of (m_workerDeployments m) (d_ID d) = Some current \<and> d_State current = st \<and>
        d_WorkerID d = d_WorkerID current \<and> d_VersionID d = d_VersionID current \<and> d_ProviderExecutionAllowed d)
    \<and> map_of (m_workerDeployments m') (d_ID d) = Some d
    \<and> (d_ID d' = d_ID d \<longrightarrow> (\<exists>e. UpdateWorkerDeployment m' d' st = Inl e))"
proof -
  from assms obtain current where current: "map_of (m_workerDeployments m) (d_ID d) = Some current" "d_State current = st"
      "validWorkerDeploymentTransition current d" "map_of (m_workerDeployments m') (d_ID d) = Some d"
    by (auto simp: UpdateWorkerDeployment_def result_simps)
  have "cas_deployment m (d_ID d) d st = Some m'"
    using assms by (simp add: cas_deployment_def ok_Some)
  from deployments.no_lost_update [OF this, of d'] have "d_ID d' = d_ID d \<longrightarrow> (\<exists>e. UpdateWorkerDeployment m' d' st = Inl e)"
    by (auto simp: cas_deployment_def ok_None)
  moreover have "d_ProviderExecutionAllowed d"
    using current(3) by (auto simp: validWorkerDeploymentTransition_def split: if_splits)
  ultimately show ?thesis
    using current deployment_moves [OF current(3)] deployment_transition_ids [OF current(3)] by auto
qed

theorem deployment_claimed_once_witness:
  "\<exists>m'. UpdateWorkerDeployment (NewMemory\<lparr>m_workerDeployments := [(''dep_1'', demo_deployment)]\<rparr>)
      (demo_deployment\<lparr>d_State := ''running'', d_ProviderExecutionAllowed := True, d_StartedAt := Some 5\<rparr>) ''ready_for_provider'' = Inr m'
    \<and> (\<exists>e. UpdateWorkerDeployment m'
      (demo_deployment\<lparr>d_State := ''running'', d_ProviderExecutionAllowed := True, d_StartedAt := Some 6\<rparr>) ''ready_for_provider'' = Inl e)"
proof -
  obtain m' where "UpdateWorkerDeployment (NewMemory\<lparr>m_workerDeployments := [(''dep_1'', demo_deployment)]\<rparr>)
      (demo_deployment\<lparr>d_State := ''running'', d_ProviderExecutionAllowed := True, d_StartedAt := Some 5\<rparr>) ''ready_for_provider'' = Inr m'"
    by (simp add: UpdateWorkerDeployment_def demo_deployment_def validWorkerDeploymentTransition_def)
  from this deployment_claimed_once [OF this, of "demo_deployment\<lparr>d_State := ''running'', d_ProviderExecutionAllowed := True, d_StartedAt := Some 6\<rparr>"]
  show ?thesis
    by simp
qed

end
