(* ===== verification/Go_Netip.thy ===== *)
theory Go_Netip
  imports Go_Strings
begin

text \<open>
  The part of Go's \<^verbatim>\<open>net/netip\<close> the services use: addresses, their textual form as \<^verbatim>\<open>ParseAddr\<close> reads
  it, the classification of addresses, prefixes, and the order of addresses.
\<close>

section \<open>Addresses\<close>

text \<open>The zero \<^verbatim>\<open>Addr\<close>, an IPv4 address, and an IPv6 address with its zone (empty for none).\<close>

datatype addr = NoAddr | V4 "32 word" | V6 "128 word" string

definition bytes_nat :: "nat list \<Rightarrow> nat" where
  "bytes_nat bs = foldl (\<lambda>n b. n * 256 + b) 0 bs"

definition v4_of :: "nat list \<Rightarrow> 32 word" where
  "v4_of bs = of_nat (bytes_nat bs)"

definition v6_of :: "nat list \<Rightarrow> 128 word" where
  "v6_of bs = of_nat (bytes_nat bs)"

definition v6_groups :: "nat list \<Rightarrow> 128 word" where
  "v6_groups gs = v6_of (concat (map (\<lambda>g. [g div 256, g mod 256]) gs))"

text \<open>\<^verbatim>\<open>Unmap\<close>: an IPv4 address in IPv6 form is the IPv4 address, without its zone.\<close>

fun Unmap :: "addr \<Rightarrow> addr" where
  "Unmap (V6 a zone) = (if unat a div 2 ^ 32 = 0xFFFF then V4 (of_nat (unat a mod 2 ^ 32)) else V6 a zone)"
| "Unmap a = a"

section \<open>ParseAddr\<close>

text \<open>\<^verbatim>\<open>parseIPv4Fields\<close>: four decimal fields up to 255 without leading zeros.\<close>

definition v4_field :: "string \<Rightarrow> nat option" where
  "v4_field f =
    (case parse_nat f of
      None \<Rightarrow> None
    | Some n \<Rightarrow> if n \<le> 255 \<and> (length f > 1 \<longrightarrow> hd f \<noteq> CHR ''0'') then Some n else None)"

definition parseIPv4Fields :: "string \<Rightarrow> nat list option" where
  "parseIPv4Fields s =
    (let fields = map v4_field (split_on (CHR ''.'') s)
     in if length fields = 4 \<and> None \<notin> set fields then Some (map the fields) else None)"

fun hex_digit :: "char \<Rightarrow> nat option" where
  "hex_digit c =
    (if byte_in 48 57 c then Some (byte c - 48)
     else if byte_in 97 102 c then Some (byte c - 87)
     else if byte_in 65 70 c then Some (byte c - 55) else None)"

definition is_hex :: "char \<Rightarrow> bool" where
  "is_hex c \<longleftrightarrow> hex_digit c \<noteq> None"

definition hex_group :: "string \<Rightarrow> nat" where
  "hex_group ds = foldl (\<lambda>n c. n * 16 + the (hex_digit c)) 0 ds"

text \<open>
  The loop of \<^verbatim>\<open>parseIPv6\<close>: at most \<^term>\<open>k\<close> more groups fit, \<^term>\<open>ip\<close> holds the bytes read, \<^term>\<open>ell\<close> is the
  position of the ellipsis. The result is the unread rest, the bytes and the ellipsis.
\<close>

fun v6_loop :: "nat \<Rightarrow> string \<Rightarrow> nat list \<Rightarrow> nat option \<Rightarrow> (string \<times> nat list \<times> nat option) option" where
  "v6_loop 0 s ip ell = Some (s, ip, ell)"
| "v6_loop (Suc k) s ip ell =
    (let ds = takeWhile is_hex s; rest = dropWhile is_hex s in
     if length ds > 4 \<or> ds = [] then None
     else if rest \<noteq> [] \<and> hd rest = CHR ''.'' then
       (if ell = None \<and> length ip \<noteq> 12 \<or> length ip + 4 > 16 then None
        else case parseIPv4Fields s of None \<Rightarrow> None | Some fs \<Rightarrow> Some ([], ip @ fs, ell))
     else
       (let g = hex_group ds; ip' = ip @ [g div 256, g mod 256] in
        if rest = [] then Some ([], ip', ell)
        else if hd rest \<noteq> CHR '':'' \<or> length rest = 1 then None
        else if hd (tl rest) = CHR '':'' then
          (if ell \<noteq> None then None
           else if tl (tl rest) = [] then Some ([], ip', Some (length ip'))
           else v6_loop k (tl (tl rest)) ip' (Some (length ip')))
        else v6_loop k (tl rest) ip' ell))"

text \<open>The tail of \<^verbatim>\<open>parseIPv6\<close>: all of the string is read, and the ellipsis fills up to sixteen bytes.\<close>

definition v6_expand :: "string \<times> nat list \<times> nat option \<Rightarrow> nat list option" where
  "v6_expand r =
    (case r of (s, ip, ell) \<Rightarrow>
      if s \<noteq> [] then None
      else if length ip < 16 then
        (case ell of
          None \<Rightarrow> None
        | Some e \<Rightarrow> Some (take e ip @ replicate (16 - length ip) 0 @ drop e ip))
      else if ell \<noteq> None then None else Some ip)"

definition parseIPv6 :: "string \<Rightarrow> addr option" where
  "parseIPv6 s =
    (let body = takeWhile (\<lambda>c. c \<noteq> CHR ''%'') s; rest = dropWhile (\<lambda>c. c \<noteq> CHR ''%'') s; zone = tl rest in
     if rest \<noteq> [] \<and> zone = [] then None
     else
       let lead = has_prefix body ''::''; ell = (if lead then Some 0 else None); b = (if lead then drop 2 body else body) in
       if lead \<and> b = [] then Some (V6 0 zone)
       else case v6_loop 8 b [] ell of
          None \<Rightarrow> None
        | Some r \<Rightarrow> (case v6_expand r of None \<Rightarrow> None | Some ip \<Rightarrow> Some (V6 (v6_of ip) zone)))"

text \<open>\<^verbatim>\<open>ParseAddr\<close>: the first dot, colon or percent sign decides.\<close>

definition ParseAddr :: "string \<Rightarrow> addr option" where
  "ParseAddr s =
    (case dropWhile (\<lambda>c. c \<notin> {CHR ''.'', CHR '':'', CHR ''%''}) s of
      [] \<Rightarrow> None
    | c # _ \<Rightarrow>
        if c = CHR ''.'' then map_option (\<lambda>bs. V4 (v4_of bs)) (parseIPv4Fields s)
        else if c = CHR '':'' then parseIPv6 s else None)"

section \<open>Classification\<close>

definition v4_byte :: "32 word \<Rightarrow> nat \<Rightarrow> nat" where
  "v4_byte a i = unat a div 256 ^ (3 - i) mod 256"

fun IsValid :: "addr \<Rightarrow> bool" where
  "IsValid a \<longleftrightarrow> a \<noteq> NoAddr"

text \<open>\<^verbatim>\<open>IsUnspecified\<close> compares whole addresses: an IPv6 zero address with a zone is not unspecified.\<close>

definition IsUnspecified :: "addr \<Rightarrow> bool" where
  "IsUnspecified a \<longleftrightarrow> a = V4 0 \<or> a = V6 0 []"

fun IsMulticast :: "addr \<Rightarrow> bool" where
  "IsMulticast (V4 a) \<longleftrightarrow> v4_byte a 0 div 16 = 0xE"
| "IsMulticast (V6 a _) \<longleftrightarrow> unat a div 2 ^ 120 = 0xFF"
| "IsMulticast NoAddr \<longleftrightarrow> False"

fun IsLinkLocalUnicast :: "addr \<Rightarrow> bool" where
  "IsLinkLocalUnicast (V4 a) \<longleftrightarrow> v4_byte a 0 = 169 \<and> v4_byte a 1 = 254"
| "IsLinkLocalUnicast (V6 a _) \<longleftrightarrow> unat a div 2 ^ 118 = 0x3FA"
| "IsLinkLocalUnicast NoAddr \<longleftrightarrow> False"

fun IsLoopback :: "addr \<Rightarrow> bool" where
  "IsLoopback (V4 a) \<longleftrightarrow> v4_byte a 0 = 127"
| "IsLoopback (V6 a _) \<longleftrightarrow> a = 1"
| "IsLoopback NoAddr \<longleftrightarrow> False"

definition IsGlobalUnicast :: "addr \<Rightarrow> bool" where
  "IsGlobalUnicast a \<longleftrightarrow> a \<noteq> NoAddr \<and> a \<noteq> V4 0 \<and> a \<noteq> V4 (v4_of [255, 255, 255, 255]) \<and> a \<noteq> V6 0 [] \<and>
    \<not> IsLoopback a \<and> \<not> IsMulticast a \<and> \<not> IsLinkLocalUnicast a"

fun IsPrivate :: "addr \<Rightarrow> bool" where
  "IsPrivate (V4 a) \<longleftrightarrow> v4_byte a 0 = 10 \<or> v4_byte a 0 = 172 \<and> v4_byte a 1 div 16 = 1 \<or> v4_byte a 0 = 192 \<and> v4_byte a 1 = 168"
| "IsPrivate (V6 a _) \<longleftrightarrow> unat a div 2 ^ 121 = 0x7E"
| "IsPrivate NoAddr \<longleftrightarrow> False"

text \<open>\<^verbatim>\<open>Prefix.Contains\<close>: the same family, no zone, and equal leading bits.\<close>

type_synonym prefix_addr = "addr \<times> nat"

fun prefix_contains :: "prefix_addr \<Rightarrow> addr \<Rightarrow> bool" where
  "prefix_contains (V4 p, n) (V4 a) \<longleftrightarrow> unat a div 2 ^ (32 - n) = unat p div 2 ^ (32 - n)"
| "prefix_contains (V6 p _, n) (V6 a zone) \<longleftrightarrow> zone = [] \<and> unat a div 2 ^ (128 - n) = unat p div 2 ^ (128 - n)"
| "prefix_contains _ _ \<longleftrightarrow> False"

section \<open>Order\<close>

fun bytes_less :: "string \<Rightarrow> string \<Rightarrow> bool" where
  "bytes_less _ [] \<longleftrightarrow> False"
| "bytes_less [] (_ # _) \<longleftrightarrow> True"
| "bytes_less (c # s) (d # t) \<longleftrightarrow> byte c < byte d \<or> byte c = byte d \<and> bytes_less s t"

text \<open>\<^verbatim>\<open>Less\<close>: by length, value, and zone.\<close>

fun addr_less :: "addr \<Rightarrow> addr \<Rightarrow> bool" where
  "addr_less _ NoAddr \<longleftrightarrow> False"
| "addr_less NoAddr _ \<longleftrightarrow> True"
| "addr_less (V4 a) (V4 b) \<longleftrightarrow> a < b"
| "addr_less (V4 _) (V6 _ _) \<longleftrightarrow> True"
| "addr_less (V6 _ _) (V4 _) \<longleftrightarrow> False"
| "addr_less (V6 a z) (V6 b y) \<longleftrightarrow> a < b \<or> a = b \<and> bytes_less z y"

text \<open>The first element of a sorted slice: a least one.\<close>

fun least_addr :: "addr \<Rightarrow> addr list \<Rightarrow> addr" where
  "least_addr a [] = a"
| "least_addr a (b # bs) = least_addr (if addr_less b a then b else a) bs"

section \<open>Lemmas\<close>

lemma bytes_less_irrefl [simp]: "\<not> bytes_less s s"
  by (induction s) auto

lemma bytes_less_trans: "bytes_less s t \<Longrightarrow> bytes_less t u \<Longrightarrow> bytes_less s u"
proof (induction s u arbitrary: t rule: bytes_less.induct)
  case (3 c s d u)
  then show ?case
    by (cases t) auto
qed (auto elim: bytes_less.elims)

lemma bytes_less_linear: "\<not> bytes_less s t \<Longrightarrow> \<not> bytes_less t u \<Longrightarrow> \<not> bytes_less s u"
proof (induction s u arbitrary: t rule: bytes_less.induct)
  case (3 c s d u)
  then show ?case
    by (cases t) (auto simp: not_less)
next
  case (2 d u)
  then show ?case
    by (cases t) auto
qed auto

lemma addr_less_irrefl [simp]: "\<not> addr_less a a"
  by (cases a) auto

lemma addr_less_negtrans: "\<not> addr_less a b \<Longrightarrow> \<not> addr_less b c \<Longrightarrow> \<not> addr_less a c"
  by (cases a; cases b; cases c) (auto dest: bytes_less_linear)

lemma addr_less_asym: "addr_less a b \<Longrightarrow> \<not> addr_less b a"
proof (cases a; cases b)
  fix x z y z' assume "a = V6 x z" "b = V6 y z'" "addr_less a b"
  then show "\<not> addr_less b a"
    using bytes_less_trans by fastforce
qed auto

lemma least_addr_least:
  "least_addr a bs \<in> set (a # bs) \<and> (\<forall>b \<in> set (a # bs). \<not> addr_less b (least_addr a bs))"
proof (induction a bs rule: least_addr.induct)
  case (2 a b bs)
  let ?m = "if addr_less b a then b else a"
  from 2 have least: "\<not> addr_less ?m (least_addr ?m bs)" "\<forall>c \<in> set bs. \<not> addr_less c (least_addr ?m bs)"
      "least_addr ?m bs \<in> set (?m # bs)"
    by auto
  moreover have "\<not> addr_less a ?m" "\<not> addr_less b ?m"
    using addr_less_asym [of b a] by auto
  ultimately have "\<not> addr_less a (least_addr ?m bs)" "\<not> addr_less b (least_addr ?m bs)"
    using addr_less_negtrans by blast+
  with least show ?case
    by (auto split: if_splits)
qed simp

lemma Unmap_idem [simp]: "Unmap (Unmap a) = Unmap a"
  by (cases a) auto

lemma div_eq_range: "n div k = q \<longleftrightarrow> q * k \<le> n \<and> n < q * k + k" if "0 < k" for n k q :: nat
proof
  assume "n div k = q"
  then show "q * k \<le> n \<and> n < q * k + k"
    using that div_times_less_eq_dividend [of n k] dividend_less_div_times [of k n] by (auto simp: mult.commute)
next
  assume "q * k \<le> n \<and> n < q * k + k"
  then show "n div k = q"
    using that by (intro div_nat_eqI) (auto simp: mult.commute)
qed

text \<open>Conditions on the leading bytes of an IPv4 address are intervals.\<close>

lemma split_digit: "q div m = x \<and> q mod m = y \<longleftrightarrow> q = x * m + y" if "y < m" for q m x y :: nat
proof
  assume "q div m = x \<and> q mod m = y"
  then show "q = x * m + y"
    using div_mult_mod_eq [of q m] by auto
next
  assume "q = x * m + y"
  with that show "q div m = x \<and> q mod m = y"
    by simp
qed

lemma v4_byte0: "v4_byte a 0 = unat a div 2 ^ 24"
proof -
  have "unat a < 2 ^ 32"
    using unsigned_less [of a] by simp
  then have "unat a div 2 ^ 24 < 256"
    by (simp add: less_mult_imp_div_less)
  then show ?thesis
    by (simp add: v4_byte_def)
qed

lemma v4_bytes: "v4_byte a 0 = x \<and> v4_byte a 1 = y \<longleftrightarrow> unat a div 2 ^ 16 = x * 256 + y" if "y < 256"
proof -
  have "unat a div 2 ^ 24 = unat a div 2 ^ 16 div 256"
    by (simp add: div_mult2_eq [symmetric])
  then have "v4_byte a 0 = unat a div 2 ^ 16 div 256"
    by (simp only: v4_byte0)
  moreover have "v4_byte a 1 = unat a div 2 ^ 16 mod 256"
    by (simp add: v4_byte_def)
  ultimately show ?thesis
    using split_digit [OF that, of "unat a div 2 ^ 16" x] by (simp only:)
qed

lemma v4_nibbles: "v4_byte a 0 = x \<and> v4_byte a 1 div 16 = y \<longleftrightarrow> unat a div 2 ^ 20 = x * 16 + y" if "y < 16"
proof -
  have "unat a div 2 ^ 24 = unat a div 2 ^ 20 div 16" "unat a div 2 ^ 20 = unat a div 2 ^ 16 div 16"
    by (simp_all add: div_mult2_eq [symmetric])
  moreover have "v4_byte a 1 div 16 = unat a div 2 ^ 16 div 16 mod 16"
    using mod_mult2_eq [of "unat a div 2 ^ 16" 16 16] by (simp add: v4_byte_def)
  ultimately have "v4_byte a 0 = unat a div 2 ^ 20 div 16" "v4_byte a 1 div 16 = unat a div 2 ^ 20 mod 16"
    by (simp_all only: v4_byte0)
  then show ?thesis
    using split_digit [OF that, of "unat a div 2 ^ 20" x] by (simp only:)
qed

end
