(* ===== verification/Runbook.thy ===== *)
theory Runbook
  imports Protocol_Types Go_Codec
begin

text \<open>
  The reviewed operations (\<^verbatim>\<open>runbook/types.go\<close>, \<^verbatim>\<open>catalog.go\<close> and \<^verbatim>\<open>executor.go\<close>): the catalogue of actions,
  the plan a request for an action is turned into, the digest an approval is bound to, and the executor.
  The parameters of the package have the fields of the protocol's; what the remote host answers to a
  step is an argument of the executor.
\<close>

section \<open>Catalogue\<close>

definition CatalogVersion :: string where "CatalogVersion = ''2026-08-29.1''"

datatype phase = PhasePreflight | PhaseEvidence | PhaseApply | PhaseVerify

fun phase_name :: "phase \<Rightarrow> string" where
  "phase_name PhasePreflight = ''preflight''"
| "phase_name PhaseEvidence = ''evidence''"
| "phase_name PhaseApply = ''apply''"
| "phase_name PhaseVerify = ''verify''"

record rb_definition =
  df_ID :: string
  df_Version :: int
  df_Title :: string
  df_Mutating :: bool
  df_Emergency :: bool
  df_RetryPolicy :: string

record step =
  s_id :: string
  s_phase :: phase
  s_description :: string
  s_command :: string
  s_timeout :: duration
  s_seal :: string

record plan =
  p_definition :: rb_definition
  p_parameters :: runbookParameters
  p_steps :: "step list"

definition ActionCapabilities :: string where "ActionCapabilities = ''system_capabilities_v1''"
definition ActionUpdateCheck :: string where "ActionUpdateCheck = ''package_update_check_v1''"
definition ActionServiceStatus :: string where "ActionServiceStatus = ''service_status_v1''"
definition ActionServiceRestart :: string where "ActionServiceRestart = ''service_restart_v1''"
definition ActionTimezoneSet :: string where "ActionTimezoneSet = ''timezone_set_v1''"
definition ActionProcessSIGTERM :: string where "ActionProcessSIGTERM = ''process_sigterm_v1''"
definition ActionHostRebootPlan :: string where "ActionHostRebootPlan = ''host_reboot_plan_v1''"

definition catalog_entry :: "string \<Rightarrow> string \<Rightarrow> bool \<Rightarrow> string \<times> rb_definition" where
  "catalog_entry action title mutating =
    (action, \<lparr>df_ID = action, df_Version = 1, df_Title = title, df_Mutating = mutating, df_Emergency = mutating,
      df_RetryPolicy = ''never''\<rparr>)"

definition definitions :: "(string, rb_definition) gomap" where
  "definitions = [
    catalog_entry ActionCapabilities ''Inspect host capabilities'' False,
    catalog_entry ActionUpdateCheck ''Inspect cached package updates'' False,
    catalog_entry ActionServiceStatus ''Inspect service status'' False,
    catalog_entry ActionServiceRestart ''Restart an approved service'' True,
    catalog_entry ActionTimezoneSet ''Set an approved timezone'' True,
    catalog_entry ActionProcessSIGTERM ''Send SIGTERM to a bound process'' True,
    catalog_entry ActionHostRebootPlan ''Schedule a host reboot in one minute'' True]"

text \<open>\<^verbatim>\<open>Definitions\<close>: the catalogue in a fixed order.\<close>

definition catalog_order :: "string list" where
  "catalog_order = [ActionCapabilities, ActionUpdateCheck, ActionServiceStatus, ActionServiceRestart, ActionTimezoneSet,
    ActionProcessSIGTERM, ActionHostRebootPlan]"

definition Definitions :: "rb_definition list" where
  "Definitions = map (\<lambda>i. the (map_of definitions i)) catalog_order"

section \<open>Reviewed commands\<close>

definition capabilitiesCommand :: string where
  "capabilitiesCommand =
    ''LC_ALL=C'' @ [CHR 0x0A] @
    ''printf '' @ [CHR 0x27] @ ''init'' @ [CHR 0x5C] @ ''t'' @ [CHR 0x27] @
    ''; if command -v systemctl >/dev/null; then printf '' @ [CHR 0x27] @ ''systemd'' @ [CHR 0x5C] @
    ''n'' @ [CHR 0x27] @ ''; else printf '' @ [CHR 0x27] @ ''unknown'' @ [CHR 0x5C] @ ''n'' @ [CHR 0x27] @
    ''; fi'' @ [CHR 0x0A] @
    ''for tool in sudo systemctl timedatectl shutdown apt apt-get dnf yum apk; do if command -v '' @
    [CHR 0x22] @ ''$tool'' @ [CHR 0x22] @ '' >/dev/null; then printf '' @ [CHR 0x27] @ ''tool'' @
    [CHR 0x5C] @ ''t%s'' @ [CHR 0x5C] @ ''n'' @ [CHR 0x27] @ '' '' @ [CHR 0x22] @ ''$tool'' @ [CHR 0x22] @
    ''; fi; done'' @ [CHR 0x0A] @
    ''printf '' @ [CHR 0x27] @ ''timezone'' @ [CHR 0x5C] @ ''t'' @ [CHR 0x27] @
    ''; (timedatectl show --property=Timezone --value 2>/dev/null || date +%Z)''"

definition updateCheckCommand :: string where
  "updateCheckCommand =
    ''LC_ALL=C'' @ [CHR 0x0A] @
    ''if command -v apt >/dev/null; then apt list --upgradable 2>/dev/null || true'' @ [CHR 0x0A] @
    ''elif command -v dnf >/dev/null; then dnf --cacheonly --quiet check-update 2>/dev/null || test '' @
    [CHR 0x22] @ ''$?'' @ [CHR 0x22] @ '' -eq 100'' @ [CHR 0x0A] @
    ''elif command -v yum >/dev/null; then yum --cacheonly --quiet check-update 2>/dev/null || test '' @
    [CHR 0x22] @ ''$?'' @ [CHR 0x22] @ '' -eq 100'' @ [CHR 0x0A] @
    ''elif command -v apk >/dev/null; then apk version -l '' @ [CHR 0x27] @ ''<'' @ [CHR 0x27] @
    '' 2>/dev/null'' @ [CHR 0x0A] @
    ''else printf '' @ [CHR 0x27] @ ''unsupported package manager'' @ [CHR 0x5C] @ ''n'' @ [CHR 0x27] @
    ''; exit 3; fi''"

definition status_command :: "string \<Rightarrow> string" where
  "status_command unit_name =
    ''LC_ALL=C systemctl show --no-pager --property=Id,Description,LoadState,ActiveState,SubState,UnitFileState,MainPID '' @
    unit_name"

definition serviceStatusCommands :: "(string, string) gomap" where
  "serviceStatusCommands = [
    (''nginx'', status_command ''nginx.service''),
    (''ssh'', status_command ''ssh.service''),
    (''docker'', status_command ''docker.service''),
    (''cron'', status_command ''cron.service'')]"

record commandPair =
  cp_evidence :: string
  cp_apply :: string
  cp_verify :: string

definition restart_commands :: "string \<Rightarrow> commandPair" where
  "restart_commands unit_name =
    \<lparr>cp_evidence = status_command unit_name,
     cp_apply = ''LC_ALL=C sudo -n systemctl restart '' @ unit_name,
     cp_verify = ''LC_ALL=C systemctl is-active --quiet '' @ unit_name @
       ''; systemctl show --no-pager --property=ActiveState,SubState,MainPID '' @ unit_name\<rparr>"

definition serviceRestartCommands :: "(string, commandPair) gomap" where
  "serviceRestartCommands = [
    (''nginx'', restart_commands ''nginx.service''),
    (''ssh'', restart_commands ''ssh.service''),
    (''docker'', restart_commands ''docker.service''),
    (''cron'', restart_commands ''cron.service'')]"

definition zone_commands :: "string \<Rightarrow> commandPair" where
  "zone_commands zone =
    \<lparr>cp_evidence = [],
     cp_apply = ''LC_ALL=C sudo -n timedatectl set-timezone '' @ zone,
     cp_verify =
       ''LC_ALL=C test '' @ [CHR 0x22] @ ''$(timedatectl show --property=Timezone --value)'' @ [CHR 0x22] @
       '' = '' @ [CHR 0x27] @ zone @ [CHR 0x27]\<rparr>"

definition timezoneCommands :: "(string, commandPair) gomap" where
  "timezoneCommands = [
    (''UTC'', zone_commands ''UTC''),
    (''Asia/Shanghai'', zone_commands ''Asia/Shanghai''),
    (''America/New_York'', zone_commands ''America/New_York''),
    (''Europe/London'', zone_commands ''Europe/London'')]"

definition sigterm_preflight :: "string \<Rightarrow> string \<Rightarrow> string" where
  "sigterm_preflight pid ticks =
    ''LC_ALL=C; test '' @ pid @ '' -ne 1; test '' @ pid @ '' -ne '' @ [CHR 0x22] @ ''$$'' @ [CHR 0x22] @
    ''; test '' @ pid @ '' -ne '' @ [CHR 0x22] @ ''$PPID'' @ [CHR 0x22] @ ''; test -e /proc/'' @ pid @
    ''/exe; test '' @ [CHR 0x22] @ ''$(awk '' @ [CHR 0x27] @ ''{print $22}'' @ [CHR 0x27] @ '' /proc/'' @
    pid @ ''/stat)'' @ [CHR 0x22] @ '' = '' @ [CHR 0x22] @ ticks @ [CHR 0x22] @
    ''; command -v sudo >/dev/null''"

definition sigterm_evidence :: "string \<Rightarrow> string" where
  "sigterm_evidence pid =
    ''LC_ALL=C ps -p '' @ pid @ '' -o pid=,ppid=,user=,stat=,etimes=,comm=''"

definition sigterm_apply :: "string \<Rightarrow> string \<Rightarrow> string" where
  "sigterm_apply pid ticks =
    ''LC_ALL=C; test '' @ [CHR 0x22] @ ''$(awk '' @ [CHR 0x27] @ ''{print $22}'' @ [CHR 0x27] @
    '' /proc/'' @ pid @ ''/stat 2>/dev/null)'' @ [CHR 0x22] @ '' = '' @ [CHR 0x22] @ ticks @ [CHR 0x22] @
    ''; sudo -n kill -TERM -- '' @ pid"

definition sigterm_verify :: "string \<Rightarrow> string \<Rightarrow> string" where
  "sigterm_verify pid ticks =
    ''LC_ALL=C; current=$(awk '' @ [CHR 0x27] @ ''{print $22}'' @ [CHR 0x27] @ '' /proc/'' @ pid @
    ''/stat 2>/dev/null || true); test '' @ [CHR 0x22] @ ''$current'' @ [CHR 0x22] @ '' != '' @
    [CHR 0x22] @ ticks @ [CHR 0x22]"

definition privilegePreflight :: "string \<Rightarrow> string" where
  "privilegePreflight tool = ''LC_ALL=C command -v '' @ tool @ '' >/dev/null; command -v sudo >/dev/null; sudo -n true''"

section \<open>Plans\<close>

definition newStep :: "string \<Rightarrow> phase \<Rightarrow> string \<Rightarrow> string \<Rightarrow> duration \<Rightarrow> step" where
  "newStep i ph description command timeout =
    \<lparr>s_id = i, s_phase = ph, s_description = description, s_command = command, s_timeout = timeout, s_seal = []\<rparr>"

text \<open>\<^verbatim>\<open>time.Duration.String\<close>.\<close>

definition fraction_text :: "nat \<Rightarrow> nat \<Rightarrow> string" where
  "fraction_text u prec =
    (let digits = format_nat (10 ^ prec + u mod 10 ^ prec);
         kept = rev (dropWhile (\<lambda>c. c = CHR ''0'') (rev (tl digits)))
     in if kept = [] then [] else CHR ''.'' # kept)"

definition duration_text :: "duration \<Rightarrow> string" where
  "duration_text d =
    (let u = nat \<bar>d\<bar>; sign = (if d < 0 then ''-'' else []) in
     if u = 0 then ''0s''
     else if u < 1000 then sign @ format_nat u @ ''ns''
     else if u < 1000000 then sign @ format_nat (u div 1000) @ fraction_text u 3 @ [CHR 0xC2, CHR 0xB5] @ ''s''
     else if u < 1000000000 then sign @ format_nat (u div 1000000) @ fraction_text u 6 @ ''ms''
     else let secs = u div 1000000000; mins = secs div 60; hours = mins div 60;
              low = format_nat (secs mod 60) @ fraction_text u 9 @ ''s''
          in sign @ (if mins = 0 then low
                     else (if hours = 0 then [] else format_nat hours @ ''h'') @ format_nat (mins mod 60) @ ''m'' @ low))"

definition sealStep :: "step \<Rightarrow> string" where
  "sealStep s = sha256 (join [CHR 0x00]
    [s_id s, phase_name (s_phase s), s_description s, s_command s, duration_text (s_timeout s)])"

definition IsReviewedCatalogStep :: "step \<Rightarrow> bool" where
  "IsReviewedCatalogStep s \<longleftrightarrow> s_seal s = sealStep s"

definition readOnlySteps :: "string \<Rightarrow> string \<Rightarrow> string \<Rightarrow> step list" where
  "readOnlySteps pre description evidence =
    [newStep (pre @ ''-preflight'') PhasePreflight ''check basic POSIX host capability'' ''LC_ALL=C id -u; uname -sr'' (10 * second),
     newStep (pre @ ''-evidence'') PhaseEvidence description evidence (60 * second)]"

definition mutatingSteps :: "string \<Rightarrow> string \<Rightarrow> string \<Rightarrow> string \<Rightarrow> step list" where
  "mutatingSteps pre evidence apply' verify =
    [newStep (pre @ ''-preflight'') PhasePreflight ''check systemctl and non-interactive sudo'' (privilegePreflight ''systemctl'') (10 * second),
     newStep (pre @ ''-evidence'') PhaseEvidence ''record the current approved service state'' evidence (10 * second),
     newStep (pre @ ''-apply'') PhaseApply ''apply the approved service restart once'' apply' (20 * second),
     newStep (pre @ ''-verify'') PhaseVerify ''verify the approved service is active'' verify (15 * second)]"

definition timezone_steps :: "commandPair \<Rightarrow> step list" where
  "timezone_steps commands =
    [newStep ''timezone-preflight'' PhasePreflight ''check timedatectl and non-interactive sudo'' (privilegePreflight ''timedatectl'') (10 * second),
     newStep ''timezone-evidence'' PhaseEvidence ''record the current timezone'' ''LC_ALL=C timedatectl show --property=Timezone --value'' (10 * second),
     newStep ''timezone-apply'' PhaseApply ''set the approved timezone'' (cp_apply commands) (15 * second),
     newStep ''timezone-verify'' PhaseVerify ''verify the selected timezone'' (cp_verify commands) (10 * second)]"

definition sigterm_steps :: "string \<Rightarrow> string \<Rightarrow> step list" where
  "sigterm_steps pid ticks =
    [newStep ''process-preflight'' PhasePreflight ''reject reserved, self, kernel-thread, and stale process targets'' (sigterm_preflight pid ticks) (10 * second),
     newStep ''process-evidence'' PhaseEvidence ''record non-secret process identity'' (sigterm_evidence pid) (10 * second),
     newStep ''process-apply'' PhaseApply ''send SIGTERM once to the bound process instance'' (sigterm_apply pid ticks) (10 * second),
     newStep ''process-verify'' PhaseVerify ''verify the original process instance exited'' (sigterm_verify pid ticks) (15 * second)]"

definition reboot_steps :: "step list" where
  "reboot_steps =
    [newStep ''reboot-preflight'' PhasePreflight ''check shutdown and non-interactive sudo'' (privilegePreflight ''shutdown'') (10 * second),
     newStep ''reboot-evidence'' PhaseEvidence ''record uptime and logged-in sessions'' ''LC_ALL=C uptime; who'' (10 * second),
     newStep ''reboot-apply'' PhaseApply ''schedule a reboot in one minute''
       (''LC_ALL=C sudo -n shutdown -r +1 '' @ [CHR 0x27] @ ''vpsmanager approved reboot'' @ [CHR 0x27]) (10 * second),
     newStep ''reboot-verify'' PhaseVerify ''verify a shutdown is scheduled'' ''LC_ALL=C shutdown --show'' (10 * second)]"

definition no_parameters :: runbookParameters where
  "no_parameters = \<lparr>rp_Service = [], rp_Timezone = [], rp_PID = 0, rp_ProcessStartTicks = 0\<rparr>"

datatype runbook_error =
  NotInCatalog | ParametersNotAccepted | ServiceRequired | TimezoneRequired | ProcessRequired | UnsupportedAction | ErrInvalidPlan

definition buildSteps :: "string \<Rightarrow> runbookParameters \<Rightarrow> runbook_error + step list \<times> runbookParameters" where
  "buildSteps action p =
    (if action = ActionCapabilities then
       ensure (p = no_parameters) ParametersNotAccepted (
       Inr (readOnlySteps ''capabilities'' ''collect supported host tools'' capabilitiesCommand, p))
     else if action = ActionUpdateCheck then
       ensure (p = no_parameters) ParametersNotAccepted (
       Inr (readOnlySteps ''updates'' ''inspect cached package update metadata'' updateCheckCommand, p))
     else if action = ActionServiceStatus then
       some_or (map_of serviceStatusCommands (rp_Service p)) ServiceRequired (\<lambda>command.
       ensure (\<not> (rp_Timezone p \<noteq> [] \<or> rp_PID p \<noteq> 0 \<or> rp_ProcessStartTicks p \<noteq> 0)) ServiceRequired (
       Inr (readOnlySteps ''service-status'' ''inspect approved service state'' command, p)))
     else if action = ActionServiceRestart then
       some_or (map_of serviceRestartCommands (rp_Service p)) ServiceRequired (\<lambda>commands.
       ensure (\<not> (rp_Timezone p \<noteq> [] \<or> rp_PID p \<noteq> 0 \<or> rp_ProcessStartTicks p \<noteq> 0)) ServiceRequired (
       Inr (mutatingSteps ''service-restart'' (cp_evidence commands) (cp_apply commands) (cp_verify commands), p)))
     else if action = ActionTimezoneSet then
       some_or (map_of timezoneCommands (rp_Timezone p)) TimezoneRequired (\<lambda>commands.
       ensure (\<not> (rp_Service p \<noteq> [] \<or> rp_PID p \<noteq> 0 \<or> rp_ProcessStartTicks p \<noteq> 0)) TimezoneRequired (
       Inr (timezone_steps commands, p)))
     else if action = ActionProcessSIGTERM then
       ensure (\<not> (rp_Service p \<noteq> [] \<or> rp_Timezone p \<noteq> [] \<or> rp_PID p < 100 \<or> rp_ProcessStartTicks p = 0)) ProcessRequired (
       Inr (sigterm_steps (format_int (rp_PID p)) (format_nat (unat (rp_ProcessStartTicks p))), p))
     else if action = ActionHostRebootPlan then
       ensure (p = no_parameters) ParametersNotAccepted (
       Inr (reboot_steps, p))
     else Inl UnsupportedAction)"

definition Build :: "string \<Rightarrow> int \<Rightarrow> runbookParameters \<Rightarrow> runbook_error + plan" where
  "Build action version parameters =
    some_or (map_of definitions action) NotInCatalog (\<lambda>definition'.
    ensure (version = df_Version definition') NotInCatalog (
    case buildSteps action parameters of
      Inl e \<Rightarrow> Inl e
    | Inr (steps, normalized) \<Rightarrow>
        Inr \<lparr>p_definition = definition', p_parameters = normalized,
             p_steps = map (\<lambda>s. s\<lparr>s_seal := sealStep s\<rparr>) steps\<rparr>))"

definition scope_fields :: "string \<Rightarrow> string \<Rightarrow> plan \<Rightarrow> string list" where
  "scope_fields hostID jobID pl =
    [CatalogVersion, df_ID (p_definition pl), format_int (df_Version (p_definition pl)), hostID, jobID,
     rp_Service (p_parameters pl), rp_Timezone (p_parameters pl), format_int (rp_PID (p_parameters pl)),
     format_nat (unat (rp_ProcessStartTicks (p_parameters pl)))]"

definition ScopeDigest :: "string \<Rightarrow> string \<Rightarrow> plan \<Rightarrow> runbook_error + string" where
  "ScopeDigest hostID jobID pl =
    ensure (has_key definitions (df_ID (p_definition pl)) \<and> p_steps pl \<noteq> []) ErrInvalidPlan (
    Inr (hex_encode (sha256 (join [CHR 0x0A] (scope_fields hostID jobID pl)))))"

section \<open>Executor\<close>

datatype run_error = DeadlineExceeded | Canceled | ErrOutputLimit | OtherError

text \<open>
  What running a step gives: the command's result, the error of the runner, the time that elapsed, and
  whether the caller's context is cancelled by then.
\<close>

record step_outcome =
  so_Stdout :: string
  so_Stderr :: string
  so_ExitCode :: int
  so_Duration :: duration
  so_Error :: "run_error option"
  so_Elapsed :: duration
  so_ContextCanceled :: bool

datatype stepState = StepSucceeded | StepFailed | StepCanceled

record stepResult =
  res_ID :: string
  res_Phase :: phase
  res_State :: stepState
  res_Stdout :: string
  res_Stderr :: string
  res_ExitCode :: int
  res_Duration :: duration
  res_ErrorCode :: string

record execution =
  x_Status :: string
  x_Steps :: "stepResult list"
  x_Stopped :: bool

definition classifyError :: "run_error option \<Rightarrow> int \<Rightarrow> string" where
  "classifyError err exitCode =
    (if err = Some DeadlineExceeded then ''step_timeout''
     else if err = Some Canceled then ''step_canceled''
     else if err = Some ErrOutputLimit then ''output_limit''
     else if exitCode \<noteq> 0 then ''nonzero_exit''
     else if err \<noteq> None then ''execution_error''
     else ''exit_'' @ format_int exitCode)"

definition step_ok :: "step_outcome \<Rightarrow> bool" where
  "step_ok r \<longleftrightarrow> so_Error r = None \<and> so_ExitCode r = 0"

definition step_result :: "step \<Rightarrow> step_outcome \<Rightarrow> stepResult" where
  "step_result s r =
    (let base = \<lparr>res_ID = s_id s, res_Phase = s_phase s, res_State = StepSucceeded, res_Stdout = so_Stdout r,
                 res_Stderr = so_Stderr r, res_ExitCode = so_ExitCode r,
                 res_Duration = (if so_Duration r \<le> 0 then so_Elapsed r else so_Duration r), res_ErrorCode = []\<rparr>
     in if step_ok r then base
        else base\<lparr>res_State := (if so_Error r = Some Canceled \<or> so_Error r = Some DeadlineExceeded \<or> so_ContextCanceled r
                                then StepCanceled else StepFailed),
                  res_ErrorCode := classifyError (so_Error r) (so_ExitCode r)\<rparr>)"

fun run_steps :: "(step \<Rightarrow> step_outcome) \<Rightarrow> step list \<Rightarrow> execution \<Rightarrow> execution" where
  "run_steps runner [] x = x"
| "run_steps runner (s # ss) x =
    (let r = runner s; x' = x\<lparr>x_Steps := x_Steps x @ [step_result s r]\<rparr>
     in if step_ok r then run_steps runner ss x' else x'\<lparr>x_Status := ''failed'', x_Stopped := True\<rparr>)"

definition Execute :: "(step \<Rightarrow> step_outcome) option \<Rightarrow> plan \<Rightarrow> runbook_error + execution" where
  "Execute runner' pl =
    some_or runner' ErrInvalidPlan (\<lambda>runner.
    ensure (p_steps pl \<noteq> []) ErrInvalidPlan (
    ensure (list_all IsReviewedCatalogStep (p_steps pl)) ErrInvalidPlan (
    Inr (run_steps runner (p_steps pl) \<lparr>x_Status = ''succeeded'', x_Steps = [], x_Stopped = False\<rparr>))))"

section \<open>Lemmas\<close>

lemmas action_names = ActionCapabilities_def ActionUpdateCheck_def ActionServiceStatus_def ActionServiceRestart_def
  ActionTimezoneSet_def ActionProcessSIGTERM_def ActionHostRebootPlan_def

lemmas step_lists = readOnlySteps_def mutatingSteps_def timezone_steps_def sigterm_steps_def reboot_steps_def newStep_def

lemma sealStep_seal [simp]: "sealStep (s\<lparr>s_seal := x\<rparr>) = sealStep s"
  by (simp add: sealStep_def)

lemma reviewed_sealed: "IsReviewedCatalogStep (s\<lparr>s_seal := sealStep s\<rparr>)"
  by (simp add: IsReviewedCatalogStep_def)

definition full_phases :: "phase list" where
  "full_phases = [PhasePreflight, PhaseEvidence, PhaseApply, PhaseVerify]"

definition approved_parameters :: "runbookParameters \<Rightarrow> bool" where
  "approved_parameters p \<longleftrightarrow>
    rp_Service p \<in> {[], ''nginx'', ''ssh'', ''docker'', ''cron''} \<and>
    rp_Timezone p \<in> {[], ''UTC'', ''Asia/Shanghai'', ''America/New_York'', ''Europe/London''} \<and>
    (rp_PID p = 0 \<and> rp_ProcessStartTicks p = 0 \<or> rp_PID p \<ge> 100 \<and> rp_ProcessStartTicks p \<noteq> 0)"

lemma service_tables:
  "map_of serviceStatusCommands k = Some c \<Longrightarrow> k \<in> {''nginx'', ''ssh'', ''docker'', ''cron''}"
  "map_of serviceRestartCommands k = Some cs \<Longrightarrow> k \<in> {''nginx'', ''ssh'', ''docker'', ''cron''}"
  "map_of timezoneCommands k = Some cs \<Longrightarrow> k \<in> {''UTC'', ''Asia/Shanghai'', ''America/New_York'', ''Europe/London''}"
  by (auto simp: serviceStatusCommands_def serviceRestartCommands_def timezoneCommands_def split: if_splits)

text \<open>The actions of the catalogue, one by one.\<close>

lemma definitions_cases:
  assumes "map_of definitions action = Some d"
  shows "df_ID d = action \<and> df_Version d = 1 \<and> df_RetryPolicy d = ''never'' \<and> df_Emergency d = df_Mutating d \<and>
    (df_Mutating d \<longleftrightarrow> action \<in> {ActionServiceRestart, ActionTimezoneSet, ActionProcessSIGTERM, ActionHostRebootPlan}) \<and>
    action \<in> set catalog_order"
  using assms unfolding definitions_def catalog_entry_def catalog_order_def
  by (auto simp: action_names split: if_splits)

lemma buildSteps_Inr:
  assumes "buildSteps action p = Inr (ss, p')"
  shows "p' = p \<and> approved_parameters p \<and>
    map s_phase ss = (if action \<in> {ActionServiceRestart, ActionTimezoneSet, ActionProcessSIGTERM, ActionHostRebootPlan}
      then full_phases else [PhasePreflight, PhaseEvidence]) \<and>
    list_all (\<lambda>s. 10 * second \<le> s_timeout s \<and> s_timeout s \<le> 60 * second) ss"
  using assms unfolding buildSteps_def approved_parameters_def full_phases_def
  by (auto simp: result_simps step_lists action_names no_parameters_def second_def dest!: service_tables split: if_splits)

lemma Build_Inr:
  assumes "Build action version p = Inr pl"
  obtains d ss where "map_of definitions action = Some d" "version = 1" "buildSteps action p = Inr (ss, p)"
    "pl = \<lparr>p_definition = d, p_parameters = p, p_steps = map (\<lambda>s. s\<lparr>s_seal := sealStep s\<rparr>) ss\<rparr>"
proof (cases "buildSteps action p")
  case (Inl e)
  with assms show ?thesis
    by (auto simp: Build_def result_simps)
next
  case (Inr r)
  then obtain ss p' where built: "buildSteps action p = Inr (ss, p')"
    by (cases r) auto
  from assms built obtain d where "map_of definitions action = Some d" "version = df_Version d"
    "pl = \<lparr>p_definition = d, p_parameters = p', p_steps = map (\<lambda>s. s\<lparr>s_seal := sealStep s\<rparr>) ss\<rparr>"
    by (auto simp: Build_def result_simps)
  with built buildSteps_Inr [OF built] definitions_cases [of action d] show ?thesis
    using that by simp
qed

lemma Build_fields:
  assumes "Build action version p = Inr pl"
  shows "p_parameters pl = p \<and> approved_parameters p \<and> df_ID (p_definition pl) = action \<and>
    df_Version (p_definition pl) = 1 \<and> version = 1 \<and> p_steps pl \<noteq> [] \<and> has_key definitions action \<and> action \<in> set catalog_order"
proof -
  obtain d ss where pl: "map_of definitions action = Some d" "version = 1" "buildSteps action p = Inr (ss, p)"
    "pl = \<lparr>p_definition = d, p_parameters = p, p_steps = map (\<lambda>s. s\<lparr>s_seal := sealStep s\<rparr>) ss\<rparr>"
    by (rule Build_Inr [OF assms])
  moreover have "ss \<noteq> []"
    using buildSteps_Inr [OF pl(3)] by (auto simp: full_phases_def split: if_splits)
  ultimately show ?thesis
    using definitions_cases [OF pl(1)] buildSteps_Inr [OF pl(3)] by (simp add: has_key_def)
qed

lemma scope_fields_clean:
  assumes "Build action version p = Inr pl" and "CHR 0x0A \<notin> set hostID" and "CHR 0x0A \<notin> set jobID"
  shows "list_all (\<lambda>f. CHR 0x0A \<notin> set f) (scope_fields hostID jobID pl)"
proof -
  have "CHR 0x0A \<notin> set (df_ID (p_definition pl))"
    using Build_fields [OF assms(1)] by (auto simp: catalog_order_def action_names)
  moreover have "CHR 0x0A \<notin> set (format_nat n)" "CHR 0x0A \<notin> set (format_int i)" for n i
    using format_chars [of "CHR 0x0A"] by (auto simp: is_digit_def byte_in_def byte_def)
  ultimately show ?thesis
    using assms(2, 3) Build_fields [OF assms(1)] by (auto simp: scope_fields_def CatalogVersion_def approved_parameters_def)
qed

text \<open>For identifiers without line feeds the digest input determines host, job and plan.\<close>

lemma scope_fields_inj:
  assumes "Build action version p = Inr pl" and "Build action' version' p' = Inr pl'"
    and "\<forall>i \<in> {hostID, jobID, hostID', jobID'}. CHR 0x0A \<notin> set i"
    and "join [CHR 0x0A] (scope_fields hostID jobID pl) = join [CHR 0x0A] (scope_fields hostID' jobID' pl')"
  shows "hostID = hostID' \<and> jobID = jobID' \<and> action = action' \<and> p = p' \<and> pl = pl'
    \<and> ScopeDigest hostID jobID pl = Inr (hex_encode (sha256 (join [CHR 0x0A] (scope_fields hostID jobID pl))))"
proof -
  have "scope_fields hostID jobID pl = scope_fields hostID' jobID' pl'"
    using assms(4) by (rule join_inj)
      (use assms(3) scope_fields_clean [OF assms(1), of hostID jobID] scope_fields_clean [OF assms(2), of hostID' jobID']
        in \<open>auto simp: scope_fields_def\<close>)
  with Build_fields [OF assms(1)] Build_fields [OF assms(2)]
  have "hostID = hostID'" "jobID = jobID'" "action = action'" "version = version'" "p = p'"
    by (auto simp: scope_fields_def format_int_inj format_nat_inj word_unat_eq_iff intro!: runbookParameters.equality)
  with assms(1, 2) Build_fields [OF assms(1)] show ?thesis
    by (simp add: ScopeDigest_def)
qed

text \<open>The executor runs the steps up to and including the first that fails.\<close>

lemma takeWhile_short: "length (takeWhile P xs) < length xs \<longleftrightarrow> \<not> list_all P xs"
  by (induction xs) auto

lemma run_steps_prefix:
  "run_steps runner ss x =
    (let n = length (takeWhile (\<lambda>s. step_ok (runner s)) ss) in
     x\<lparr>x_Steps := x_Steps x @ map (\<lambda>s. step_result s (runner s)) (take (Suc n) ss),
       x_Status := (if n < length ss then ''failed'' else x_Status x),
       x_Stopped := (n < length ss \<or> x_Stopped x)\<rparr>)"
  by (induction runner ss x rule: run_steps.induct) (auto simp: Let_def)

lemma Execute_built:
  assumes "Build action version p = Inr pl"
  shows "Execute (Some runner) pl =
    Inr (run_steps runner (p_steps pl) \<lparr>x_Status = ''succeeded'', x_Steps = [], x_Stopped = False\<rparr>)"
proof -
  obtain d ss where pl: "buildSteps action p = Inr (ss, p)"
    "pl = \<lparr>p_definition = d, p_parameters = p, p_steps = map (\<lambda>s. s\<lparr>s_seal := sealStep s\<rparr>) ss\<rparr>"
    by (rule Build_Inr [OF assms])
  with Build_fields [OF assms] show ?thesis
    by (simp add: Execute_def list_all_iff reviewed_sealed)
qed

section \<open>The shell's view of a step\<close>

text \<open>
  The connector starts a step's command as one script on the remote host. Commands separated by
  semicolons form a sequential list of the POSIX shell: each runs in turn whatever the status of the one
  before, and the status of the list is that of the last. \<^term>\<open>exec c\<close> is the status of a simple command.
\<close>

definition sh_commands :: "string \<Rightarrow> string list" where
  "sh_commands script = map (dropWhile (\<lambda>c. c = CHR '' '')) (split_on (CHR '';'') script)"

fun sh_list :: "(string \<Rightarrow> int) \<Rightarrow> string list \<Rightarrow> string list \<times> int" where
  "sh_list exec [] = ([], 0)"
| "sh_list exec [c] = ([c], exec c)"
| "sh_list exec (c # cs) = (c # fst (sh_list exec cs), snd (sh_list exec cs))"

definition ticks_test :: "string \<Rightarrow> string \<Rightarrow> string" where
  "ticks_test pid ticks =
    ''test '' @ [CHR 0x22] @ ''$(awk '' @ [CHR 0x27] @ ''{print $22}'' @ [CHR 0x27] @
    '' /proc/'' @ pid @ ''/stat 2>/dev/null)'' @ [CHR 0x22] @ '' = '' @ [CHR 0x22] @ ticks @ [CHR 0x22]"

lemma sigterm_apply_commands:
  assumes "CHR '';'' \<notin> set pid" and "CHR '';'' \<notin> set ticks"
  shows "sh_commands (sigterm_apply pid ticks) = [''LC_ALL=C'', ticks_test pid ticks, ''sudo -n kill -TERM -- '' @ pid]"
proof -
  have "sigterm_apply pid ticks = ''LC_ALL=C'' @ CHR '';'' # ('' '' @ ticks_test pid ticks) @ CHR '';'' # ('' sudo -n kill -TERM -- '' @ pid)"
    by (simp add: sigterm_apply_def ticks_test_def)
  moreover have "CHR '';'' \<notin> set (ticks_test pid ticks)"
    using assms by (simp add: ticks_test_def)
  ultimately have "split_on (CHR '';'') (sigterm_apply pid ticks) =
      [''LC_ALL=C'', '' '' @ ticks_test pid ticks, '' sudo -n kill -TERM -- '' @ pid]"
    using assms by (simp only:) (subst split_on_append, simp, subst split_on_append, simp, subst split_on_plain, simp_all)
  then show ?thesis
    by (simp add: sh_commands_def ticks_test_def)
qed

lemma digits_no_semicolon: "CHR '';'' \<notin> set (format_int i)" "CHR '';'' \<notin> set (format_nat n)"
  using format_chars [of "CHR '';''"] by (auto simp: is_digit_def byte_in_def byte_def)

section \<open>Evaluation fixtures\<close>

definition demo_restart :: runbookParameters where
  "demo_restart = no_parameters\<lparr>rp_Service := ''nginx''\<rparr>"

definition demo_kill :: runbookParameters where
  "demo_kill = no_parameters\<lparr>rp_PID := 4242, rp_ProcessStartTicks := 77\<rparr>"

lemma demo_restart_built: "\<exists>pl. Build ActionServiceRestart 1 demo_restart = Inr pl"
  by (simp add: Build_def definitions_def catalog_entry_def action_names buildSteps_def demo_restart_def no_parameters_def
    serviceRestartCommands_def)

lemma demo_kill_built: "\<exists>pl. Build ActionProcessSIGTERM 1 demo_kill = Inr pl"
  by (simp add: Build_def definitions_def catalog_entry_def action_names buildSteps_def demo_kill_def no_parameters_def)

section \<open>Properties\<close>

text \<open>
  C29. A plan comes from the catalogue: every step carries the seal of its contents, a mutating action is
  exactly one that has an apply step, preceded by a preflight and an evidence step and followed by a
  verification, it is marked as an emergency and never retried, every step has a timeout of ten seconds to
  a minute, and the parameters are the requested ones, each from its approved list.
\<close>

theorem built_plan_reviewed:
  assumes "Build action version p = Inr pl"
  shows "list_all IsReviewedCatalogStep (p_steps pl)
    \<and> map s_phase (p_steps pl) =
        (if df_Mutating (p_definition pl) then full_phases else [PhasePreflight, PhaseEvidence])
    \<and> df_Emergency (p_definition pl) = df_Mutating (p_definition pl) \<and> df_RetryPolicy (p_definition pl) = ''never''
    \<and> df_ID (p_definition pl) = action \<and> df_Version (p_definition pl) = version
    \<and> list_all (\<lambda>s. 10 * second \<le> s_timeout s \<and> s_timeout s \<le> 60 * second) (p_steps pl)
    \<and> p_parameters pl = p \<and> approved_parameters p"
proof -
  obtain d ss where pl: "map_of definitions action = Some d" "version = 1" "buildSteps action p = Inr (ss, p)"
    "pl = \<lparr>p_definition = d, p_parameters = p, p_steps = map (\<lambda>s. s\<lparr>s_seal := sealStep s\<rparr>) ss\<rparr>"
    by (rule Build_Inr [OF assms])
  have "map s_phase (map (\<lambda>s. s\<lparr>s_seal := sealStep s\<rparr>) ss) = map s_phase ss"
    by simp
  with pl definitions_cases [OF pl(1)] buildSteps_Inr [OF pl(3)] show ?thesis
    by (auto simp: list_all_iff reviewed_sealed)
qed

theorem built_plan_reviewed_witness:
  "\<exists>pl. Build ActionServiceRestart 1 demo_restart = Inr pl \<and> approved_parameters demo_restart"
  using demo_restart_built built_plan_reviewed by blast

text \<open>
  C11. The executor runs a plan of the catalogue step by step up to and including the first step that
  fails, and reports success exactly when none fails. In particular no apply step runs unless the preflight
  and the evidence step succeeded.
\<close>

theorem execution_stops_at_failure:
  assumes "Build action version p = Inr pl"
  shows "\<exists>x. Execute (Some runner) pl = Inr x
    \<and> x_Steps x = map (\<lambda>s. step_result s (runner s))
        (take (Suc (length (takeWhile (\<lambda>s. step_ok (runner s)) (p_steps pl)))) (p_steps pl))
    \<and> (x_Status x = ''succeeded'' \<longleftrightarrow> list_all (\<lambda>s. step_ok (runner s)) (p_steps pl))
    \<and> (x_Stopped x \<longleftrightarrow> \<not> list_all (\<lambda>s. step_ok (runner s)) (p_steps pl))
    \<and> (PhaseApply \<in> res_Phase ` set (x_Steps x) \<longrightarrow>
        step_ok (runner (p_steps pl ! 0)) \<and> step_ok (runner (p_steps pl ! 1)))"
proof -
  let ?ok = "\<lambda>s. step_ok (runner s)"
  let ?n = "length (takeWhile ?ok (p_steps pl))"
  let ?x = "run_steps runner (p_steps pl) \<lparr>x_Status = ''succeeded'', x_Steps = [], x_Stopped = False\<rparr>"
  obtain d ss where pl: "buildSteps action p = Inr (ss, p)"
    "pl = \<lparr>p_definition = d, p_parameters = p, p_steps = map (\<lambda>s. s\<lparr>s_seal := sealStep s\<rparr>) ss\<rparr>"
    by (rule Build_Inr [OF assms])
  have phases: "map s_phase (p_steps pl) = full_phases \<or> map s_phase (p_steps pl) = [PhasePreflight, PhaseEvidence]"
    using buildSteps_Inr [OF pl(1)] pl(2) by (auto simp: comp_def)
  have all: "?n < length (p_steps pl) \<longleftrightarrow> \<not> list_all ?ok (p_steps pl)"
    by (rule takeWhile_short)
  have phase: "res_Phase (step_result s r) = s_phase s" for s r
    by (simp add: step_result_def Let_def)
  have "?ok (p_steps pl ! 0) \<and> ?ok (p_steps pl ! 1)" if "PhaseApply \<in> s_phase ` set (take (Suc ?n) (p_steps pl))"
  proof -
    from that have "PhaseApply \<in> set (map s_phase (p_steps pl))"
      using in_set_takeD by fastforce
    with phases have full: "map s_phase (p_steps pl) = full_phases"
      by (elim disjE) simp_all
    then obtain a b c e where steps: "p_steps pl = [a, b, c, e]" "s_phase a = PhasePreflight" "s_phase b = PhaseEvidence"
      by (auto simp: full_phases_def map_eq_Cons_conv)
    with that show ?thesis
      by (cases "?ok a"; cases "?ok b") (auto simp: full_phases_def)
  qed
  with all show ?thesis
    by (intro exI [of _ ?x])
      (simp add: Execute_built [OF assms] run_steps_prefix Let_def image_image phase del: take_Suc_Cons)
qed

theorem execution_stops_at_failure_witness:
  "\<exists>pl x. Build ActionServiceRestart 1 demo_restart = Inr pl \<and>
    Execute (Some (\<lambda>s. \<lparr>so_Stdout = [], so_Stderr = [], so_ExitCode = (if s_phase s = PhaseEvidence then 1 else 0),
      so_Duration = 1, so_Error = None, so_Elapsed = 1, so_ContextCanceled = False\<rparr>)) pl = Inr x \<and>
    PhaseApply \<notin> res_Phase ` set (x_Steps x)"
proof -
  let ?runner = "\<lambda>s. \<lparr>so_Stdout = [], so_Stderr = [], so_ExitCode = (if s_phase s = PhaseEvidence then 1 else 0),
      so_Duration = 1, so_Error = None, so_Elapsed = 1, so_ContextCanceled = False\<rparr>"
  obtain pl where pl: "Build ActionServiceRestart 1 demo_restart = Inr pl"
    using demo_restart_built by blast
  have "s_phase (p_steps pl ! 1) = PhaseEvidence"
    using pl by (rule Build_Inr)
      (auto simp: buildSteps_def demo_restart_def no_parameters_def action_names serviceRestartCommands_def step_lists)
  with execution_stops_at_failure [OF pl, of ?runner] pl show ?thesis
    by (auto simp: step_ok_def)
qed

text \<open>
  C30. The guards of the SIGTERM action do not guard. Its apply script is a sequential list: the kill
  runs whatever the test of the process's start ticks says, and its status alone decides the step.
\<close>

theorem sigterm_guard_ineffective:
  assumes "Build ActionProcessSIGTERM 1 p = Inr pl"
  shows "fst (sh_list exec (sh_commands (s_command (p_steps pl ! 2)))) =
      [''LC_ALL=C'', ticks_test (format_int (rp_PID p)) (format_nat (unat (rp_ProcessStartTicks p))),
       ''sudo -n kill -TERM -- '' @ format_int (rp_PID p)]
    \<and> snd (sh_list exec (sh_commands (s_command (p_steps pl ! 2)))) = exec (''sudo -n kill -TERM -- '' @ format_int (rp_PID p))"
proof -
  obtain ss where "buildSteps ActionProcessSIGTERM p = Inr (ss, p)"
    "p_steps pl = map (\<lambda>s. s\<lparr>s_seal := sealStep s\<rparr>) ss"
    using assms by (rule Build_Inr) auto
  then have "s_command (p_steps pl ! 2) = sigterm_apply (format_int (rp_PID p)) (format_nat (unat (rp_ProcessStartTicks p)))"
    by (auto simp: buildSteps_def action_names result_simps step_lists)
  then show ?thesis
    by (simp add: sigterm_apply_commands digits_no_semicolon)
qed

theorem sigterm_guard_ineffective_witness:
  "\<exists>pl. Build ActionProcessSIGTERM 1 demo_kill = Inr pl \<and>
    ''sudo -n kill -TERM -- '' @ format_int 4242 \<in>
      set (fst (sh_list (\<lambda>c. if c = ticks_test (format_int 4242) (format_nat 77) then 1 else 0) (sh_commands (s_command (p_steps pl ! 2)))))"
proof -
  obtain pl where "Build ActionProcessSIGTERM 1 demo_kill = Inr pl"
    using demo_kill_built by blast
  with sigterm_guard_ineffective [OF this] show ?thesis
    by (simp add: demo_kill_def no_parameters_def)
qed

end
