(* ===== verification/Ssh_Connector.thy ===== *)
theory Ssh_Connector
  imports Go_Netip Runbook
begin

text \<open>
  The SSH execution boundary (\<^verbatim>\<open>connector/sshconnector\<close>): the destination policy, the pinned host key, the
  output budget, one command session, and the runner of runbook steps. The SSH library, the resolver and
  the network are arguments, gathered in a record of type \<open>network\<close>.
\<close>

section \<open>Destination policy\<close>

definition deniedPublicPrefixes :: "prefix_addr list" where
  "deniedPublicPrefixes = [
    (V4 (v4_of [0, 0, 0, 0]), 8), (V4 (v4_of [100, 64, 0, 0]), 10),
    (V4 (v4_of [192, 0, 0, 0]), 24), (V4 (v4_of [192, 0, 2, 0]), 24),
    (V4 (v4_of [198, 18, 0, 0]), 15), (V4 (v4_of [198, 51, 100, 0]), 24),
    (V4 (v4_of [203, 0, 113, 0]), 24), (V4 (v4_of [240, 0, 0, 0]), 4),
    (V6 (v6_groups [0x2001, 0xDB8, 0, 0, 0, 0, 0, 0]) [], 32), (V6 (v6_groups [0x2001, 2, 0, 0, 0, 0, 0, 0]) [], 48)]"

definition targetAllowed :: "addr \<Rightarrow> bool \<Rightarrow> bool" where
  "targetAllowed address' allowPrivate =
    (let address = Unmap address' in
     if \<not> IsValid address \<or> IsUnspecified address \<or> IsMulticast address \<or> IsLinkLocalUnicast address \<or> IsLoopback address
     then False
     else if allowPrivate then IsGlobalUnicast address \<or> IsPrivate address
     else if \<not> IsGlobalUnicast address \<or> IsPrivate address then False
     else \<not> list_ex (\<lambda>prefix. prefix_contains prefix address) deniedPublicPrefixes)"

text \<open>
  Errors. An error that wraps another one is kept with the class \<^verbatim>\<open>errors.Is\<close> finds in it: a deadline, a
  cancellation, the output limit, or none of these; a failed handshake also with the error of the callback,
  if it was that which ended it.
\<close>

datatype ssh_error =
  ErrHostKeyRequired | ErrHostKeyMismatch | ErrSshOutputLimit | ErrTargetDenied
| TargetInvalid | AddressRequired | PortInvalid | UserRequired | AuthRequired | CommandRequired
| ResolveFailed run_error | NoAddresses | DialFailed run_error | HandshakeFailed "ssh_error option" run_error
| SessionFailed run_error | StartFailed run_error | CommandStopped run_error | RemoteExit int | WaitFailed run_error
| ProbeNotStopped | PinnedKeyUnparsable | PinnedKeyNotSingle

definition resolveTarget :: "(string \<Rightarrow> run_error + addr list) \<Rightarrow> string \<Rightarrow> bool \<Rightarrow> ssh_error + addr" where
  "resolveTarget lookup address allowPrivate =
    (let candidates =
       (case ParseAddr address of
         Some parsed \<Rightarrow> Inr [Unmap parsed]
       | None \<Rightarrow> (case lookup address of Inl e \<Rightarrow> Inl (ResolveFailed e) | Inr resolved \<Rightarrow> Inr (map Unmap resolved)))
     in case candidates of
       Inl e \<Rightarrow> Inl e
     | Inr [] \<Rightarrow> Inl NoAddresses
     | Inr (c # cs) \<Rightarrow>
         ensure (list_all (\<lambda>a. targetAllowed a allowPrivate) (c # cs)) ErrTargetDenied (Inr (least_addr c cs)))"

definition ValidateTargetLiteral :: "string \<Rightarrow> bool \<Rightarrow> ssh_error option" where
  "ValidateTargetLiteral address allowPrivate =
    (case ParseAddr address of
      None \<Rightarrow> None
    | Some parsed \<Rightarrow> if \<not> targetAllowed parsed allowPrivate then Some ErrTargetDenied else None)"

section \<open>Commands\<close>

record command =
  c_id :: string
  c_script :: string

definition CommandRuntimeSnapshot :: string where "CommandRuntimeSnapshot = ''runtime_snapshot_v1''"
definition CommandDiskUsage :: string where "CommandDiskUsage = ''disk_usage_v1''"
definition CommandListeningPorts :: string where "CommandListeningPorts = ''listening_ports_v1''"
definition CommandServiceStatus :: string where "CommandServiceStatus = ''service_status_v1''"
definition CommandProcessList :: string where "CommandProcessList = ''process_inventory_v1''"

definition RuntimeSnapshotCommand :: command where
  "RuntimeSnapshotCommand = \<lparr>c_id = CommandRuntimeSnapshot, c_script =
    ''LC_ALL=C'' @ [CHR 0x0A] @
    ''printf '' @ [CHR 0x27] @ ''hostname'' @ [CHR 0x5C] @ ''t'' @ [CHR 0x27] @
     ''; hostname 2>/dev/null || true'' @ [CHR 0x0A] @
    ''printf '' @ [CHR 0x27] @ ''kernel'' @ [CHR 0x5C] @ ''t'' @ [CHR 0x27] @ ''; uname -sr 2>/dev/null || true'' @
     [CHR 0x0A] @
    ''awk '' @ [CHR 0x27] @ ''{printf '' @ [CHR 0x22] @ ''uptime'' @ [CHR 0x5C] @ ''t%.0f'' @ [CHR 0x5C] @ ''n'' @
     [CHR 0x22] @ '', $1}'' @ [CHR 0x27] @ '' /proc/uptime 2>/dev/null || true'' @ [CHR 0x0A] @
    ''awk '' @ [CHR 0x27] @ ''{printf '' @ [CHR 0x22] @ ''load'' @ [CHR 0x5C] @ ''t%s'' @ [CHR 0x5C] @ ''t%s'' @
     [CHR 0x5C] @ ''t%s'' @ [CHR 0x5C] @ ''n'' @ [CHR 0x22] @ '', $1, $2, $3}'' @ [CHR 0x27] @
     '' /proc/loadavg 2>/dev/null || true'' @ [CHR 0x0A] @
    ''awk '' @ [CHR 0x27] @ ''/^MemTotal:/ {total=$2} /^MemAvailable:/ {available=$2} END {printf '' @ [CHR 0x22] @
     ''memory_kib'' @ [CHR 0x5C] @ ''t%.0f'' @ [CHR 0x5C] @ ''t%.0f'' @ [CHR 0x5C] @ ''n'' @ [CHR 0x22] @
     '', total, available}'' @ [CHR 0x27] @ '' /proc/meminfo 2>/dev/null || true'' @ [CHR 0x0A] @
    ''awk -F: '' @ [CHR 0x27] @ ''/^model name['' @ ''[:space:]'' @ '']*:/ {sub(/^['' @ ''[:space:]'' @ '']+/, '' @ [CHR 0x22, CHR 0x22] @
     '', $2); printf '' @ [CHR 0x22] @ ''cpu_model'' @ [CHR 0x5C] @ ''t%s'' @ [CHR 0x5C] @ ''n'' @ [CHR 0x22] @
     '', $2; exit}'' @ [CHR 0x27] @ '' /proc/cpuinfo 2>/dev/null || true'' @ [CHR 0x0A] @
    ''awk '' @ [CHR 0x27] @ ''/^processor['' @ ''[:space:]'' @ '']*:/ {count++} END {printf '' @ [CHR 0x22] @ ''cpu_logical'' @
     [CHR 0x5C] @ ''t%.0f'' @ [CHR 0x5C] @ ''n'' @ [CHR 0x22] @ '', count}'' @ [CHR 0x27] @
     '' /proc/cpuinfo 2>/dev/null || true'' @ [CHR 0x0A] @
    ''df -P -B1 2>/dev/null | awk '' @ [CHR 0x27] @
     ''NR > 1 && $2 ~ /^[0-9]+$/ {mount=$6; for (i=7; i<=NF; i++) mount=mount '' @ [CHR 0x22] @ '' '' @
     [CHR 0x22] @ '' $i; printf '' @ [CHR 0x22] @ ''filesystem'' @ [CHR 0x5C] @ ''t%s'' @ [CHR 0x5C] @ ''t%s'' @
     [CHR 0x5C] @ ''t%s'' @ [CHR 0x5C] @ ''t%s'' @ [CHR 0x5C] @ ''n'' @ [CHR 0x22] @ '', mount, $2, $3, $4}'' @
     [CHR 0x27] @ '' || true'' @ [CHR 0x0A]\<rparr>"

definition read_only_status :: "(string, string) gomap" where
  "read_only_status = [
    (''nginx'', status_command ''nginx.service 2>/dev/null''),
    (''ssh'', status_command ''ssh.service 2>/dev/null''),
    (''docker'', status_command ''docker.service 2>/dev/null''),
    (''cron'', status_command ''cron.service 2>/dev/null'')]"

datatype catalog_error = NoParametersAccepted | ServiceNotApproved | NotReadOnlyCommand

definition ReadOnlyCommand :: "string \<Rightarrow> string \<Rightarrow> catalog_error + command" where
  "ReadOnlyCommand i service =
    (if i = CommandDiskUsage then
       ensure (service = []) NoParametersAccepted (Inr \<lparr>c_id = i, c_script = ''LC_ALL=C df -P -B1 2>/dev/null''\<rparr>)
     else if i = CommandListeningPorts then
       ensure (service = []) NoParametersAccepted (Inr \<lparr>c_id = i, c_script = ''LC_ALL=C ss -H -lntu 2>/dev/null''\<rparr>)
     else if i = CommandServiceStatus then
       some_or (map_of read_only_status service) ServiceNotApproved (\<lambda>script. Inr \<lparr>c_id = i, c_script = script\<rparr>)
     else Inl NotReadOnlyCommand)"

definition ProcessInventoryCommand :: command where
  "ProcessInventoryCommand =
    \<lparr>c_id = CommandProcessList, c_script = ''LC_ALL=C ps -eo pid=,ppid=,user=,pcpu=,etimes=,comm= --sort=-pcpu 2>/dev/null''\<rparr>"

section \<open>Output budget\<close>

text \<open>One budget shared by the two streams of a session; the channel \<^verbatim>\<open>exceeded\<close> is a flag.\<close>

datatype stream = Stdout | Stderr

record outputBudget =
  ob_remaining :: int
  ob_exceeded :: bool
  ob_stdout :: string
  ob_stderr :: string

definition newOutputBudget :: "int \<Rightarrow> outputBudget" where
  "newOutputBudget max' = \<lparr>ob_remaining = max', ob_exceeded = False, ob_stdout = [], ob_stderr = []\<rparr>"

text \<open>\<^verbatim>\<open>boundedBuffer.Write\<close>: the number of bytes taken, and whether the limit was hit.\<close>

definition Write :: "outputBudget \<Rightarrow> stream \<Rightarrow> string \<Rightarrow> outputBudget \<times> int \<times> bool" where
  "Write b st p =
    (let allowed = (if int (length p) > ob_remaining b then ob_remaining b else int (length p));
         overflow = allowed < int (length p);
         taken = take (nat allowed) p;
         b' = b\<lparr>ob_remaining := ob_remaining b - allowed, ob_exceeded := ob_exceeded b \<or> overflow\<rparr>;
         b'' = (case st of Stdout \<Rightarrow> b'\<lparr>ob_stdout := ob_stdout b @ taken\<rparr> | Stderr \<Rightarrow> b'\<lparr>ob_stderr := ob_stderr b @ taken\<rparr>)
     in (b'', (if overflow then allowed else int (length p)), overflow))"

definition write_all :: "outputBudget \<Rightarrow> (stream \<times> string) list \<Rightarrow> outputBudget" where
  "write_all b ws = foldl (\<lambda>b w. fst (Write b (fst w) (snd w))) b ws"

section \<open>Sessions\<close>

datatype wait_error = ExitError int | OtherWait run_error

text \<open>Which case of the \<^verbatim>\<open>select\<close> in \<^verbatim>\<open>runSession\<close> is taken.\<close>

datatype selected = SessionDone "wait_error option" | BudgetExceeded | ContextDone run_error

text \<open>
  What the remote side does with a command: whether the session opens and starts, the writes to the two
  streams in the order in which they reach the budget, the case selected, and the time that passed.
\<close>

record session_run =
  se_new :: "run_error option"
  se_start :: "run_error option"
  se_writes :: "(stream \<times> string) list"
  se_selected :: selected
  se_elapsed :: duration

record ssh_result =
  r_Stdout :: string
  r_Stderr :: string
  r_ExitCode :: int
  r_Duration :: duration

definition no_result :: ssh_result where
  "no_result = \<lparr>r_Stdout = [], r_Stderr = [], r_ExitCode = 0, r_Duration = 0\<rparr>"

definition runSession :: "session_run \<Rightarrow> int \<Rightarrow> ssh_result \<times> ssh_error option" where
  "runSession run maxBytes =
    (case se_new run of Some e \<Rightarrow> (no_result, Some (SessionFailed e)) | None \<Rightarrow>
     case se_start run of Some e \<Rightarrow> (no_result, Some (StartFailed e)) | None \<Rightarrow>
     (let b = write_all (newOutputBudget maxBytes) (se_writes run);
          result = (\<lambda>code. \<lparr>r_Stdout = ob_stdout b, r_Stderr = ob_stderr b, r_ExitCode = code, r_Duration = se_elapsed run\<rparr>)
      in case se_selected run of
           BudgetExceeded \<Rightarrow> (result (-1), Some ErrSshOutputLimit)
         | ContextDone e \<Rightarrow> (result (-1), Some (CommandStopped e))
         | SessionDone None \<Rightarrow> (result 0, None)
         | SessionDone (Some (ExitError code)) \<Rightarrow> (result code, Some (RemoteExit code))
         | SessionDone (Some (OtherWait e)) \<Rightarrow> (result (-1), Some (WaitFailed e))))"

section \<open>Client\<close>

record ('k, 'a) ssh_config =
  cfg_Address :: string
  cfg_Port :: int
  cfg_User :: string
  cfg_Auth :: "'a option"
  cfg_PinnedHostKey :: "'k option"
  cfg_ConnectTimeout :: duration
  cfg_CommandTimeout :: duration
  cfg_MaxOutputBytes :: int
  cfg_AllowPrivateTargets :: bool

text \<open>
  The library and the network: the resolver, dialling an address and port, the key's wire form, and the
  handshake on a connection, with the callback that judges the server's key. The handshake gives the key
  the callback was called with, and a client or an error. \<open>nw_session\<close> is what a client does with a script
  within a time limit and an output limit.
\<close>

record ('c, 'l, 'k, 'a) network =
  nw_lookup :: "string \<Rightarrow> run_error + addr list"
  nw_dial :: "addr \<Rightarrow> int \<Rightarrow> run_error + 'c"
  nw_marshal :: "'k \<Rightarrow> string"
  nw_handshake :: "'c \<Rightarrow> string \<Rightarrow> string \<Rightarrow> 'a option \<Rightarrow> ('k \<Rightarrow> ssh_error option) \<Rightarrow> 'k option \<times> (ssh_error option \<times> run_error + 'l)"
  nw_session :: "'l \<Rightarrow> string \<Rightarrow> duration \<Rightarrow> int \<Rightarrow> session_run"

definition join_host_port :: "string \<Rightarrow> int \<Rightarrow> string" where
  "join_host_port h p = (if CHR '':'' \<in> set h then ''['' @ h @ '']:'' else h @ '':'') @ format_int p"

definition PinnedHostKeyCallback :: "('k \<Rightarrow> string) \<Rightarrow> 'k option \<Rightarrow> 'k \<Rightarrow> ssh_error option" where
  "PinnedHostKeyCallback marshal pinned remote =
    (case pinned of
      None \<Rightarrow> Some ErrHostKeyRequired
    | Some key \<Rightarrow>
        (let want = marshal key; got = marshal remote
         in if length want \<noteq> length got \<or> want \<noteq> got then Some ErrHostKeyMismatch else None))"

definition ParsePinnedHostKey :: "(string \<Rightarrow> ('k \<times> string) option) \<Rightarrow> string \<Rightarrow> ssh_error + 'k" where
  "ParsePinnedHostKey parse encoded =
    some_or (parse (trim_space encoded @ [CHR 0x0A])) PinnedKeyUnparsable (\<lambda>(key, rest).
    ensure (trim_space rest = []) PinnedKeyNotSingle (Inr key))"

definition validateConfig :: "('k, 'a) ssh_config \<Rightarrow> ssh_error option" where
  "validateConfig cfg =
    (if trim_space (cfg_Address cfg) = [] then Some AddressRequired
     else if cfg_Port cfg < 1 \<or> cfg_Port cfg > 65535 then Some PortInvalid
     else if trim_space (cfg_User cfg) = [] then Some UserRequired
     else if cfg_Auth cfg = None then Some AuthRequired
     else if cfg_PinnedHostKey cfg = None then Some ErrHostKeyRequired
     else None)"

definition run_defaults :: "('k, 'a) ssh_config \<Rightarrow> ('k, 'a) ssh_config" where
  "run_defaults cfg = cfg\<lparr>
    cfg_ConnectTimeout := (if cfg_ConnectTimeout cfg \<le> 0 then 10 * second else cfg_ConnectTimeout cfg),
    cfg_CommandTimeout := (if cfg_CommandTimeout cfg \<le> 0 then 30 * second else cfg_CommandTimeout cfg),
    cfg_MaxOutputBytes := (if cfg_MaxOutputBytes cfg \<le> 0 then 2 ^ 20 else cfg_MaxOutputBytes cfg)\<rparr>"

definition Run :: "('c, 'l, 'k, 'a) network \<Rightarrow> ('k, 'a) ssh_config \<Rightarrow> command \<Rightarrow> ssh_result \<times> ssh_error option" where
  "Run nw cfg0 command =
    (case validateConfig cfg0 of Some e \<Rightarrow> (no_result, Some e) | None \<Rightarrow>
     if c_id command = [] \<or> trim_space (c_script command) = [] then (no_result, Some CommandRequired)
     else
      (let cfg = run_defaults cfg0 in
       case resolveTarget (nw_lookup nw) (cfg_Address cfg) (cfg_AllowPrivateTargets cfg) of Inl e \<Rightarrow> (no_result, Some e) | Inr targetIP \<Rightarrow>
       case nw_dial nw targetIP (cfg_Port cfg) of Inl e \<Rightarrow> (no_result, Some (DialFailed e)) | Inr conn \<Rightarrow>
       case snd (nw_handshake nw conn (join_host_port (cfg_Address cfg) (cfg_Port cfg)) (cfg_User cfg) (cfg_Auth cfg)
              (PinnedHostKeyCallback (nw_marshal nw) (cfg_PinnedHostKey cfg))) of
         Inl (refusal, e) \<Rightarrow> (no_result, Some (HandshakeFailed refusal e))
       | Inr client \<Rightarrow> runSession (nw_session nw client (c_script command) (cfg_CommandTimeout cfg) (cfg_MaxOutputBytes cfg))
                (cfg_MaxOutputBytes cfg)))"

record hostKeyObservation =
  ho_Algorithm :: string
  ho_FingerprintSHA256 :: string
  ho_PublicKey :: string
  ho_ResolvedAddress :: addr

text \<open>\<^verbatim>\<open>ProbeHostKey\<close>; its callback refuses every key, after noting it.\<close>

definition ProbeHostKey ::
    "('c, 'l, 'k, 'a) network \<Rightarrow> ('k \<Rightarrow> string) \<Rightarrow> ('k \<Rightarrow> string) \<Rightarrow> ('k \<Rightarrow> string) \<Rightarrow> string \<Rightarrow> int \<Rightarrow> bool
     \<Rightarrow> ssh_error + hostKeyObservation" where
  "ProbeHostKey nw algorithm fingerprint authorized address port allowPrivate =
    ensure (\<not> (trim_space address = [] \<or> port < 1 \<or> port > 65535)) TargetInvalid (
    case resolveTarget (nw_lookup nw) address allowPrivate of Inl e \<Rightarrow> Inl e | Inr targetIP \<Rightarrow>
    case nw_dial nw targetIP port of Inl e \<Rightarrow> Inl (DialFailed e) | Inr conn \<Rightarrow>
    case nw_handshake nw conn (join_host_port address port) ''host-key-probe'' None (\<lambda>_. Some ErrHostKeyMismatch) of
      (_, Inr client) \<Rightarrow> Inl ProbeNotStopped
    | (None, Inl (refusal, e)) \<Rightarrow> Inl (HandshakeFailed refusal e)
    | (Some key, Inl _) \<Rightarrow>
        Inr \<lparr>ho_Algorithm = algorithm key, ho_FingerprintSHA256 = fingerprint key,
             ho_PublicKey = trim_space (authorized key), ho_ResolvedAddress = targetIP\<rparr>)"

section \<open>Runbook steps\<close>

fun error_class :: "ssh_error \<Rightarrow> run_error" where
  "error_class ErrSshOutputLimit = ErrOutputLimit"
| "error_class (ResolveFailed e) = e"
| "error_class (DialFailed e) = e"
| "error_class (HandshakeFailed _ e) = e"
| "error_class (SessionFailed e) = e"
| "error_class (StartFailed e) = e"
| "error_class (CommandStopped e) = e"
| "error_class (WaitFailed e) = e"
| "error_class _ = OtherError"

text \<open>Whether an error is, or wraps, one of the package's own.\<close>

fun is_error :: "ssh_error \<Rightarrow> ssh_error \<Rightarrow> bool" where
  "is_error (HandshakeFailed (Some e) _) x \<longleftrightarrow> e = x"
| "is_error e x \<longleftrightarrow> e = x"

text \<open>The milliseconds of a duration, as its method of that name counts them.\<close>

definition DurationMillis :: "duration \<Rightarrow> int" where
  "DurationMillis d = (if d < 0 then - ((- d) div 1000000) else d div 1000000)"

text \<open>\<^verbatim>\<open>translateRunbookError\<close>: the limit of this package becomes the limit of the runbook package.\<close>

definition translateRunbookError :: "ssh_error option \<Rightarrow> run_error option" where
  "translateRunbookError err = map_option error_class err"

definition RunRunbookStep :: "('c, 'l, 'k, 'a) network \<Rightarrow> ('k, 'a) ssh_config \<Rightarrow> step \<Rightarrow> ssh_result \<times> run_error option" where
  "RunRunbookStep nw cfg s =
    (if \<not> IsReviewedCatalogStep s \<or> s_command s = [] then (no_result, Some OtherError)
     else
       (let cfg' = (if s_timeout s > 0 \<and> (cfg_CommandTimeout cfg \<le> 0 \<or> s_timeout s < cfg_CommandTimeout cfg)
                    then cfg\<lparr>cfg_CommandTimeout := s_timeout s\<rparr> else cfg);
            (result, err) = Run nw cfg' \<lparr>c_id = ''runbook:'' @ s_id s, c_script = s_command s\<rparr>
        in (result, translateRunbookError err)))"

text \<open>The runner the connector gives the executor: what it reports for a step.\<close>

definition ssh_runner :: "('c, 'l, 'k, 'a) network \<Rightarrow> ('k, 'a) ssh_config \<Rightarrow> (step \<Rightarrow> duration) \<Rightarrow> (step \<Rightarrow> bool) \<Rightarrow> step \<Rightarrow> step_outcome" where
  "ssh_runner nw cfg elapsed canceled s =
    (let (result, err) = RunRunbookStep nw cfg s
     in \<lparr>so_Stdout = r_Stdout result, so_Stderr = r_Stderr result, so_ExitCode = r_ExitCode result,
         so_Duration = r_Duration result, so_Error = err, so_Elapsed = elapsed s, so_ContextCanceled = canceled s\<rparr>)"

section \<open>Lemmas\<close>

subsection \<open>The ranges of the policy\<close>

text \<open>A reference for the policy: the ranges that are not public, from the first address up to, but
  excluding, the one after the last.\<close>

definition reserved4 :: "(nat list \<times> nat list) list" where
  "reserved4 = [
    ([0, 0, 0, 0], [1, 0, 0, 0]), ([10, 0, 0, 0], [11, 0, 0, 0]), ([100, 64, 0, 0], [100, 128, 0, 0]),
    ([127, 0, 0, 0], [128, 0, 0, 0]), ([169, 254, 0, 0], [169, 255, 0, 0]), ([172, 16, 0, 0], [172, 32, 0, 0]),
    ([192, 0, 0, 0], [192, 0, 1, 0]), ([192, 0, 2, 0], [192, 0, 3, 0]), ([192, 168, 0, 0], [192, 169, 0, 0]),
    ([198, 18, 0, 0], [198, 20, 0, 0]), ([198, 51, 100, 0], [198, 51, 101, 0]), ([203, 0, 113, 0], [203, 0, 114, 0]),
    ([224, 0, 0, 0], [256, 0, 0, 0])]"

text \<open>For IPv6 the leading 48 bits of the two ends.\<close>

definition reserved6 :: "(nat \<times> nat) list" where
  "reserved6 = [
    (0xFC0000000000, 0xFE0000000000), (0xFE8000000000, 0xFEC000000000), (0xFF0000000000, 0x1000000000000),
    (0x20010DB80000, 0x20010DB90000), (0x200100020000, 0x200100020001)]"

fun public_address :: "addr \<Rightarrow> bool" where
  "public_address (V4 a) \<longleftrightarrow> list_all (\<lambda>(lo, hi). \<not> (bytes_nat lo \<le> unat a \<and> unat a < bytes_nat hi)) reserved4"
| "public_address (V6 a _) \<longleftrightarrow> a \<noteq> 0 \<and> a \<noteq> 1 \<and>
    list_all (\<lambda>(lo, hi). \<not> (lo * 2 ^ 80 \<le> unat a \<and> unat a < hi * 2 ^ 80)) reserved6"
| "public_address NoAddr \<longleftrightarrow> False"

lemmas range_simps = div_eq_range bytes_nat_def v4_of_def v6_of_def v6_groups_def

lemma class4:
  "IsMulticast (V4 a) \<longleftrightarrow> 3758096384 \<le> unat a \<and> unat a < 4026531840"
  "IsLoopback (V4 a) \<longleftrightarrow> 2130706432 \<le> unat a \<and> unat a < 2147483648"
  "IsLinkLocalUnicast (V4 a) \<longleftrightarrow> 2851995648 \<le> unat a \<and> unat a < 2852061184"
  "IsPrivate (V4 a) \<longleftrightarrow> 167772160 \<le> unat a \<and> unat a < 184549376 \<or> 2886729728 \<le> unat a \<and> unat a < 2887778304
    \<or> 3232235520 \<le> unat a \<and> unat a < 3232301056"
proof -
  have "v4_byte a 0 div 16 = unat a div 2 ^ 28"
    by (simp add: v4_byte0 div_mult2_eq [symmetric])
  then show "IsMulticast (V4 a) \<longleftrightarrow> 3758096384 \<le> unat a \<and> unat a < 4026531840"
    unfolding IsMulticast.simps by (simp only:) (simp add: div_eq_range)
  show "IsLoopback (V4 a) \<longleftrightarrow> 2130706432 \<le> unat a \<and> unat a < 2147483648"
    by (simp add: v4_byte0 div_eq_range)
  show "IsLinkLocalUnicast (V4 a) \<longleftrightarrow> 2851995648 \<le> unat a \<and> unat a < 2852061184"
    unfolding IsLinkLocalUnicast.simps by (subst v4_bytes) (simp_all add: div_eq_range)
  show "IsPrivate (V4 a) \<longleftrightarrow> 167772160 \<le> unat a \<and> unat a < 184549376 \<or> 2886729728 \<le> unat a \<and> unat a < 2887778304
      \<or> 3232235520 \<le> unat a \<and> unat a < 3232301056"
    unfolding IsPrivate.simps by (subst v4_bytes, simp, subst v4_nibbles, simp) (simp add: v4_byte0 div_eq_range)
qed

lemma policy4: "targetAllowed (V4 a) False \<longleftrightarrow> public_address (V4 a)"
proof -
  have n: "unat a < 2 ^ 32"
    using unsigned_less [of a] by simp
  have zero: "a = 0 \<longleftrightarrow> unat a = 0"
    by (simp add: unat_eq_0)
  have ones: "a = 4294967295 \<longleftrightarrow> unat a = 4294967295"
    by (auto simp: word_unat_eq_iff)
  consider "unat a < 16777216" | "3758096384 \<le> unat a" | "16777216 \<le> unat a" "unat a < 3758096384"
    by linarith
  then show ?thesis
  proof cases
    case 1
    then show ?thesis
      by (simp add: targetAllowed_def reserved4_def deniedPublicPrefixes_def IsUnspecified_def IsGlobalUnicast_def class4 zero ones
        range_simps del: IsMulticast.simps IsLoopback.simps IsLinkLocalUnicast.simps IsPrivate.simps) linarith
  next
    case 2
    then show ?thesis
      using n by (simp add: targetAllowed_def reserved4_def deniedPublicPrefixes_def IsUnspecified_def IsGlobalUnicast_def class4
        range_simps del: IsMulticast.simps IsLoopback.simps IsLinkLocalUnicast.simps IsPrivate.simps) linarith
  next
    case 3
    then show ?thesis
      by (simp add: targetAllowed_def reserved4_def deniedPublicPrefixes_def IsUnspecified_def IsGlobalUnicast_def class4 zero ones
        range_simps del: IsMulticast.simps IsLoopback.simps IsLinkLocalUnicast.simps IsPrivate.simps)
  qed
qed

lemma policy6:
  assumes "Unmap (V6 a []) = V6 a []"
  shows "targetAllowed (V6 a []) False \<longleftrightarrow> public_address (V6 a [])"
proof -
  have n: "unat a < 2 ^ 128"
    using unsigned_less [of a] by simp
  show ?thesis
    using n unfolding targetAllowed_def assms public_address.simps reserved6_def deniedPublicPrefixes_def Let_def
    by (simp add: IsUnspecified_def IsGlobalUnicast_def range_simps)
qed

lemma targetAllowed_Unmap [simp]: "targetAllowed (Unmap a) allow = targetAllowed a allow"
  by (simp add: targetAllowed_def)

lemma policy_exact:
  assumes "\<forall>a zone. address = V6 a zone \<longrightarrow> zone = []"
  shows "targetAllowed address False \<longleftrightarrow> public_address (Unmap address)"
proof (cases "Unmap address")
  case NoAddr
  then show ?thesis
    by (simp add: targetAllowed_def)
next
  case (V4 a)
  then show ?thesis
    using policy4 targetAllowed_Unmap [of address False] by simp
next
  case (V6 a zone)
  then have "address = V6 a zone"
    by (cases address) (auto split: if_splits)
  moreover from this assms have "zone = []"
    by simp
  ultimately have "zone = []" "Unmap (V6 a []) = V6 a []"
    using V6 by (simp_all only:)
  with V6 policy6 targetAllowed_Unmap [of address False] show ?thesis
    by simp
qed

subsection \<open>The output budget\<close>

definition written :: "(stream \<times> string) list \<Rightarrow> int" where
  "written ws = sum_list (map (\<lambda>w. int (length (snd w))) ws)"

definition stored :: "outputBudget \<Rightarrow> int" where
  "stored b = int (length (ob_stdout b)) + int (length (ob_stderr b))"

definition stream_output :: "stream \<Rightarrow> (stream \<times> string) list \<Rightarrow> string" where
  "stream_output st ws = concat (map snd (filter (\<lambda>w. fst w = st) ws))"

lemma written_nonneg: "0 \<le> written ws"
  unfolding written_def by (induction ws) auto

lemma Write_exact:
  assumes "0 \<le> ob_remaining b" and "Write b st p = (b', n, over)"
  shows "ob_remaining b' = max 0 (ob_remaining b - int (length p))
    \<and> stored b' = stored b + min (ob_remaining b) (int (length p))
    \<and> ob_exceeded b' = (ob_exceeded b \<or> int (length p) > ob_remaining b)
    \<and> over = (int (length p) > ob_remaining b)
    \<and> (\<not> over \<longrightarrow> ob_stdout b' = ob_stdout b @ stream_output Stdout [(st, p)] \<and> ob_stderr b' = ob_stderr b @ stream_output Stderr [(st, p)])"
  using assms by (cases st) (auto simp: Write_def Let_def stored_def stream_output_def split: if_splits)

lemma write_all_exact:
  assumes "0 \<le> ob_remaining b"
  shows "ob_remaining (write_all b ws) = max 0 (ob_remaining b - written ws)
    \<and> stored (write_all b ws) = stored b + min (ob_remaining b) (written ws)
    \<and> ob_exceeded (write_all b ws) = (ob_exceeded b \<or> written ws > ob_remaining b)
    \<and> (written ws \<le> ob_remaining b \<longrightarrow>
        ob_stdout (write_all b ws) = ob_stdout b @ stream_output Stdout ws \<and>
        ob_stderr (write_all b ws) = ob_stderr b @ stream_output Stderr ws)"
  using assms
proof (induction ws arbitrary: b)
  case Nil
  then show ?case
    by (simp add: write_all_def written_def stream_output_def)
next
  case (Cons w ws)
  obtain b' n over where w: "Write b (fst w) (snd w) = (b', n, over)"
    by (metis prod_cases3)
  have all: "write_all b (w # ws) = write_all b' ws" and sum: "written (w # ws) = int (length (snd w)) + written ws"
    by (simp_all add: write_all_def written_def w)
  have out: "stream_output st (w # ws) = stream_output st [w] @ stream_output st ws" for st
    by (simp add: stream_output_def)
  note one = Write_exact [OF Cons.prems w]
  have "0 \<le> ob_remaining b'"
    using one by simp
  from Cons.IH [OF this] one written_nonneg [of ws] show ?case
    unfolding all sum out by auto
qed

lemma budget_exact:
  assumes "0 < m"
  shows "stored (write_all (newOutputBudget m) ws) = min m (written ws)"
    "ob_exceeded (write_all (newOutputBudget m) ws) \<longleftrightarrow> m < written ws"
    "written ws \<le> m \<Longrightarrow> ob_stdout (write_all (newOutputBudget m) ws) = stream_output Stdout ws \<and>
      ob_stderr (write_all (newOutputBudget m) ws) = stream_output Stderr ws"
  using write_all_exact [of "newOutputBudget m" ws] assms by (simp_all add: newOutputBudget_def stored_def)

subsection \<open>Resolution\<close>

lemma resolveTarget_Inr:
  assumes "resolveTarget lookup address allow = Inr ip"
  shows "targetAllowed ip allow \<and>
    (case ParseAddr address of
      Some a \<Rightarrow> ip = Unmap a
    | None \<Rightarrow> (\<exists>as. lookup address = Inr as \<and> ip \<in> Unmap ` set as \<and>
        (\<forall>a \<in> set as. targetAllowed a allow \<and> \<not> addr_less (Unmap a) ip)))"
proof (cases "ParseAddr address")
  case (Some a)
  with assms show ?thesis
    by (auto simp: resolveTarget_def result_simps)
next
  case None
  with assms obtain r rs where look: "lookup address = Inr (r # rs)" "ip = least_addr (Unmap r) (map Unmap rs)"
      "list_all (\<lambda>a. targetAllowed a allow) (r # rs)"
    by (auto simp: resolveTarget_def result_simps list.pred_map comp_def split: sum.splits list.splits)
  from look(2) least_addr_least [of "Unmap r" "map Unmap rs"]
  have least: "ip \<in> Unmap ` set (r # rs)" "\<forall>a \<in> set (r # rs). \<not> addr_less (Unmap a) ip"
    by auto
  then have "targetAllowed ip allow"
    using look(3) by (auto simp: list_all_iff)
  with None look least show ?thesis
    by (auto simp: list_all_iff)
qed

section \<open>The library's promises\<close>

text \<open>
  What the SSH package documents: a handshake succeeds only if the callback accepted the server's key,
  and waiting for a session succeeds only if its output was copied without an error.
\<close>

definition honours_callback :: "('c, 'l, 'k, 'a) network \<Rightarrow> bool" where
  "honours_callback nw \<longleftrightarrow> (\<forall>conn i user auth cb k l.
    nw_handshake nw conn i user auth cb = (k, Inr l) \<longrightarrow> (\<exists>key. k = Some key \<and> cb key = None))"

definition reports_copy_errors :: "('c, 'l, 'k, 'a) network \<Rightarrow> bool" where
  "reports_copy_errors nw \<longleftrightarrow> (\<forall>l script t m. se_selected (nw_session nw l script t m) = SessionDone None \<longrightarrow>
    \<not> ob_exceeded (write_all (newOutputBudget m) (se_writes (nw_session nw l script t m))))"

lemma Run_success_resolved:
  assumes "honours_callback nw" and "reports_copy_errors nw" and "Run nw cfg command = (r, None)"
  shows "\<exists>ip conn key pinned l.
      resolveTarget (nw_lookup nw) (cfg_Address cfg) (cfg_AllowPrivateTargets cfg) = Inr ip
    \<and> targetAllowed ip (cfg_AllowPrivateTargets cfg) \<and> nw_dial nw ip (cfg_Port cfg) = Inr conn
    \<and> (ParseAddr (cfg_Address cfg) = None \<longrightarrow> (\<exists>as. nw_lookup nw (cfg_Address cfg) = Inr as \<and> ip \<in> Unmap ` set as \<and>
        (\<forall>a \<in> set as. targetAllowed a (cfg_AllowPrivateTargets cfg) \<and> \<not> addr_less (Unmap a) ip)))
    \<and> nw_handshake nw conn (join_host_port (cfg_Address cfg) (cfg_Port cfg)) (cfg_User cfg) (cfg_Auth cfg)
        (PinnedHostKeyCallback (nw_marshal nw) (Some pinned)) = (Some key, Inr l)
    \<and> cfg_PinnedHostKey cfg = Some pinned \<and> nw_marshal nw key = nw_marshal nw pinned
    \<and> r_ExitCode r = 0 \<and> int (length (r_Stdout r) + length (r_Stderr r)) \<le> cfg_MaxOutputBytes (run_defaults cfg)
    \<and> (let ws = se_writes (nw_session nw l (c_script command) (cfg_CommandTimeout (run_defaults cfg)) (cfg_MaxOutputBytes (run_defaults cfg)))
       in r_Stdout r = stream_output Stdout ws \<and> r_Stderr r = stream_output Stderr ws)"
proof -
  have same: "cfg_Address (run_defaults cfg) = cfg_Address cfg" "cfg_Port (run_defaults cfg) = cfg_Port cfg"
    "cfg_User (run_defaults cfg) = cfg_User cfg" "cfg_Auth (run_defaults cfg) = cfg_Auth cfg"
    "cfg_PinnedHostKey (run_defaults cfg) = cfg_PinnedHostKey cfg"
    "cfg_AllowPrivateTargets (run_defaults cfg) = cfg_AllowPrivateTargets cfg"
    by (simp_all add: run_defaults_def)
  have m: "0 < cfg_MaxOutputBytes (run_defaults cfg)" (is "0 < ?m")
    by (simp add: run_defaults_def)
  from assms(3) obtain ip conn k l where run: "validateConfig cfg = None"
      "resolveTarget (nw_lookup nw) (cfg_Address cfg) (cfg_AllowPrivateTargets cfg) = Inr ip"
      "nw_dial nw ip (cfg_Port cfg) = Inr conn"
      "nw_handshake nw conn (join_host_port (cfg_Address cfg) (cfg_Port cfg)) (cfg_User cfg) (cfg_Auth cfg)
        (PinnedHostKeyCallback (nw_marshal nw) (cfg_PinnedHostKey cfg)) = (k, Inr l)"
      "runSession (nw_session nw l (c_script command) (cfg_CommandTimeout (run_defaults cfg)) ?m) ?m = (r, None)"
    by (auto simp: Run_def Let_def same prod_eq_iff split: option.splits sum.splits if_splits)
  obtain pinned where pinned: "cfg_PinnedHostKey cfg = Some pinned"
    using run(1) by (cases "cfg_PinnedHostKey cfg") (auto simp: validateConfig_def split: if_splits)
  obtain key where key: "k = Some key" "nw_marshal nw key = nw_marshal nw pinned"
    using assms(1) run(4) unfolding honours_callback_def pinned
    by (force simp: PinnedHostKeyCallback_def Let_def split: if_splits)
  let ?run = "nw_session nw l (c_script command) (cfg_CommandTimeout (run_defaults cfg)) ?m"
  from run(5) have sess: "se_selected ?run = SessionDone None" "r_ExitCode r = 0"
      "r_Stdout r = ob_stdout (write_all (newOutputBudget ?m) (se_writes ?run))"
      "r_Stderr r = ob_stderr (write_all (newOutputBudget ?m) (se_writes ?run))"
    by (auto simp: runSession_def Let_def split: option.splits selected.splits wait_error.splits)
  then have "written (se_writes ?run) \<le> ?m"
    using assms(2) budget_exact(2) [OF m] unfolding reports_copy_errors_def by (meson not_less)
  with budget_exact [OF m, of "se_writes ?run"] sess key run pinned resolveTarget_Inr [OF run(2)] show ?thesis
    by (intro exI [of _ ip] exI [of _ conn] exI [of _ key] exI [of _ pinned] exI [of _ l])
      (auto simp: stored_def Let_def)
qed

lemma Run_success:
  assumes "honours_callback nw" and "reports_copy_errors nw" and "Run nw cfg command = (r, None)"
  shows "\<exists>ip conn key pinned l.
      targetAllowed ip (cfg_AllowPrivateTargets cfg) \<and> nw_dial nw ip (cfg_Port cfg) = Inr conn
    \<and> (ParseAddr (cfg_Address cfg) = None \<longrightarrow> (\<exists>as. nw_lookup nw (cfg_Address cfg) = Inr as \<and> ip \<in> Unmap ` set as \<and>
        (\<forall>a \<in> set as. targetAllowed a (cfg_AllowPrivateTargets cfg) \<and> \<not> addr_less (Unmap a) ip)))
    \<and> nw_handshake nw conn (join_host_port (cfg_Address cfg) (cfg_Port cfg)) (cfg_User cfg) (cfg_Auth cfg)
        (PinnedHostKeyCallback (nw_marshal nw) (Some pinned)) = (Some key, Inr l)
    \<and> cfg_PinnedHostKey cfg = Some pinned \<and> nw_marshal nw key = nw_marshal nw pinned
    \<and> r_ExitCode r = 0 \<and> int (length (r_Stdout r) + length (r_Stderr r)) \<le> cfg_MaxOutputBytes (run_defaults cfg)
    \<and> (let ws = se_writes (nw_session nw l (c_script command) (cfg_CommandTimeout (run_defaults cfg)) (cfg_MaxOutputBytes (run_defaults cfg)))
       in r_Stdout r = stream_output Stdout ws \<and> r_Stderr r = stream_output Stderr ws)"
  using Run_success_resolved [OF assms] by (elim exE) (rule exI, rule exI, rule exI, rule exI, rule exI, erule conjunct2)

text \<open>A network in which every host presents the key \<open>k\<close> and answers every command alike.\<close>

definition demo_network :: "string \<Rightarrow> (stream \<times> string) list \<Rightarrow> (unit, unit, string, unit) network" where
  "demo_network k ws =
    \<lparr>nw_lookup = (\<lambda>_. Inr [V4 (v4_of [8, 8, 8, 8])]), nw_dial = (\<lambda>_ _. Inr ()), nw_marshal = (\<lambda>x. x),
     nw_handshake = (\<lambda>_ _ _ _ cb. (Some k, if cb k = None then Inr () else Inl (cb k, OtherError))),
     nw_session = (\<lambda>_ _ _ m. \<lparr>se_new = None, se_start = None, se_writes = ws,
       se_selected = (if ob_exceeded (write_all (newOutputBudget m) ws) then BudgetExceeded else SessionDone None), se_elapsed = 1\<rparr>)\<rparr>"

definition demo_config :: "(string, unit) ssh_config" where
  "demo_config = \<lparr>cfg_Address = ''8.8.8.8'', cfg_Port = 22, cfg_User = ''ops'', cfg_Auth = Some (), cfg_PinnedHostKey = Some ''key'',
    cfg_ConnectTimeout = 0, cfg_CommandTimeout = 0, cfg_MaxOutputBytes = 5, cfg_AllowPrivateTargets = False\<rparr>"

lemma demo_network_honest: "honours_callback (demo_network k ws)" "reports_copy_errors (demo_network k ws)"
  by (auto simp: honours_callback_def reports_copy_errors_def demo_network_def split: if_splits)

lemma demo_address: "ParseAddr ''8.8.8.8'' = Some (V4 134744072)"
  by (simp add: ParseAddr_def parseIPv4Fields_def v4_field_def parse_nat_def Let_def v4_of_def bytes_nat_def is_digit_def byte_in_def byte_def)

lemma demo_address_allowed: "targetAllowed (V4 134744072) False"
  by (simp add: policy4 reserved4_def bytes_nat_def)

section \<open>Properties\<close>

text \<open>
  C31. Without the development switch the destination policy admits, among the addresses without a zone,
  exactly those outside the reserved ranges: this network, private, shared, loopback, link-local,
  documentation, benchmarking, multicast and future addresses, unspecified, unique-local and the IPv6
  counterparts, in plain or in IPv4-mapped form.
\<close>

theorem target_policy_exact:
  assumes "\<forall>a zone. address = V6 a zone \<longrightarrow> zone = []"
  shows "targetAllowed address False \<longleftrightarrow> public_address (Unmap address)"
  using assms by (rule policy_exact)

theorem target_policy_exact_witness:
  "targetAllowed (V6 (v6_groups [0, 0, 0, 0, 0, 0xFFFF, 0x7F00, 1]) []) False
    \<longleftrightarrow> public_address (Unmap (V6 (v6_groups [0, 0, 0, 0, 0, 0xFFFF, 0x7F00, 1]) []))"
  by (rule target_policy_exact) simp

text \<open>
  C32. A zone defeats the policy: with any zone the unspecified address and the addresses of the
  documentation range pass, although without a zone they are refused.
\<close>

theorem zoned_target_passes_policy:
  assumes "zone \<noteq> []" and "CHR ''%'' \<notin> set zone"
  shows "ParseAddr (''::%'' @ zone) = Some (V6 0 zone) \<and> ValidateTargetLiteral (''::%'' @ zone) False = None
    \<and> resolveTarget lookup (''::%'' @ zone) False = Inr (V6 0 zone)
    \<and> ValidateTargetLiteral ''::'' False = Some ErrTargetDenied
    \<and> targetAllowed (V6 (v6_groups [0x2001, 0xDB8, 0, 0, 0, 0, 0, 1]) zone) False
    \<and> \<not> targetAllowed (V6 (v6_groups [0x2001, 0xDB8, 0, 0, 0, 0, 0, 1]) []) False"
proof -
  have parse: "ParseAddr (''::%'' @ zone) = Some (V6 0 zone)" "ParseAddr ''::'' = Some (V6 0 [])"
    using assms by (simp_all add: ParseAddr_def parseIPv6_def Let_def has_prefix_def)
  have allowed: "targetAllowed (V6 0 zone) False" "\<not> targetAllowed (V6 0 []) False"
    using assms by (simp_all add: targetAllowed_def Let_def IsUnspecified_def IsGlobalUnicast_def deniedPublicPrefixes_def)
  have doc: "targetAllowed (V6 (v6_groups [0x2001, 0xDB8, 0, 0, 0, 0, 0, 1]) z) False \<longleftrightarrow> z \<noteq> []" for z
    by (auto simp: targetAllowed_def Let_def IsUnspecified_def IsGlobalUnicast_def deniedPublicPrefixes_def v6_groups_def v6_of_def bytes_nat_def)
  show ?thesis
    using assms parse allowed doc by (simp add: ValidateTargetLiteral_def resolveTarget_def)
qed

theorem zoned_target_passes_policy_witness:
  "resolveTarget (\<lambda>_. Inl OtherError) ''::%lo'' False = Inr (V6 0 ''lo'')"
  using zoned_target_passes_policy [of "''lo''" "\<lambda>_. Inl OtherError"] by simp

text \<open>
  C7. A command that succeeds ran on an allowed address, the least of those the name resolved to, all
  of which are allowed; the server presented the pinned key; and the result holds all that the command
  wrote to the two streams, within the output limit. No other run reports success.
\<close>

theorem successful_run_is_pinned:
  assumes "honours_callback nw" and "reports_copy_errors nw" and "Run nw cfg command = (r, None)"
  shows "\<exists>ip conn key pinned l.
      targetAllowed ip (cfg_AllowPrivateTargets cfg) \<and> nw_dial nw ip (cfg_Port cfg) = Inr conn
    \<and> (ParseAddr (cfg_Address cfg) = None \<longrightarrow> (\<exists>as. nw_lookup nw (cfg_Address cfg) = Inr as \<and> ip \<in> Unmap ` set as \<and>
        (\<forall>a \<in> set as. targetAllowed a (cfg_AllowPrivateTargets cfg) \<and> \<not> addr_less (Unmap a) ip)))
    \<and> nw_handshake nw conn (join_host_port (cfg_Address cfg) (cfg_Port cfg)) (cfg_User cfg) (cfg_Auth cfg)
        (PinnedHostKeyCallback (nw_marshal nw) (Some pinned)) = (Some key, Inr l)
    \<and> cfg_PinnedHostKey cfg = Some pinned \<and> nw_marshal nw key = nw_marshal nw pinned
    \<and> r_ExitCode r = 0 \<and> int (length (r_Stdout r) + length (r_Stderr r)) \<le> cfg_MaxOutputBytes (run_defaults cfg)
    \<and> (let ws = se_writes (nw_session nw l (c_script command) (cfg_CommandTimeout (run_defaults cfg)) (cfg_MaxOutputBytes (run_defaults cfg)))
       in r_Stdout r = stream_output Stdout ws \<and> r_Stderr r = stream_output Stderr ws)"
  using assms by (rule Run_success)

theorem successful_run_is_pinned_witness:
  "\<exists>r ip. Run (demo_network ''key'' [(Stdout, ''ok'')]) demo_config ProcessInventoryCommand = (r, None) \<and> targetAllowed ip False"
proof -
  have "trim_space ''8.8.8.8'' = ''8.8.8.8''" "trim_space ''ops'' = ''ops''"
      "trim_space (c_script ProcessInventoryCommand) = c_script ProcessInventoryCommand"
    by (simp_all add: trim_eval ProcessInventoryCommand_def)
  then obtain r where run: "Run (demo_network ''key'' [(Stdout, ''ok'')]) demo_config ProcessInventoryCommand = (r, None)"
    by (simp add: Run_def validateConfig_def demo_config_def run_defaults_def resolveTarget_def demo_address demo_address_allowed
      demo_network_def runSession_def PinnedHostKeyCallback_def Let_def write_all_def Write_def newOutputBudget_def
      ProcessInventoryCommand_def CommandProcessList_def)
  from successful_run_is_pinned [OF demo_network_honest run] run show ?thesis
    by (auto simp: demo_config_def)
qed

end
