(* ===== verification/Go_Float.thy ===== *)
theory Go_Float
  imports Go_Prelude "HOL-Library.Log_Nat"
begin

text \<open>
  Arithmetic on \<^verbatim>\<open>float64\<close> as far as the rate limiters use it: finite values, each an exact rational, and after
  every operation the rounding to the nearest value with 53 significant bits, ties to even, subnormal
  values included. The limiters stay far below the largest finite value. A compiler may fuse a product
  with a following sum on some machines; the model rounds the product, as on amd64.
\<close>

section \<open>Rounding\<close>

text \<open>The exponent of the leading bit of a positive number.\<close>

definition exponent :: "rat \<Rightarrow> int" where
  "exponent x = (let (p, q) = quotient_of x; e = bitlen p - bitlen q in if 2 powi e \<le> x then e else e - 1)"

definition half_even :: "rat \<Rightarrow> int" where
  "half_even x =
    (let f = \<lfloor>x\<rfloor>; r = x - of_int f in if r < 1 / 2 \<or> (r = 1 / 2 \<and> even f) then f else f + 1)"

definition fl :: "rat \<Rightarrow> rat" where
  "fl x = (if x = 0 then 0 else let u = 2 powi (max (exponent \<bar>x\<bar> - 52) (- 1074)) in of_int (half_even (x / u)) * u)"

definition float64 :: "int \<Rightarrow> rat" where
  "float64 n = fl (of_int n)"

text \<open>\<^verbatim>\<open>Time.Sub\<close>, which saturates, and \<^verbatim>\<open>Duration.Seconds\<close>.\<close>

definition time_sub :: "time \<Rightarrow> time \<Rightarrow> duration" where
  "time_sub t u = max (- (2 ^ 63)) (min (2 ^ 63 - 1) (t - u))"

definition Seconds :: "duration \<Rightarrow> rat" where
  "Seconds d =
    (let sec = (if d < 0 then - ((- d) div second) else d div second); nsec = d - sec * second
     in fl (float64 sec + fl (float64 nsec / 1000000000)))"

section \<open>Lemmas\<close>

lemma exponent_le:
  assumes "0 < x"
  shows "2 powi exponent x \<le> x"
proof -
  obtain p q where pq: "quotient_of x = (p, q)"
    by (cases "quotient_of x")
  then have x: "x = of_int p / of_int q" and q: "0 < q"
    using quotient_of_div quotient_of_denom_pos by auto
  with assms have p: "0 < p"
    by (simp add: zero_less_divide_iff)
  have bp: "(2 :: rat) powi (bitlen p - 1) \<le> of_int p"
  proof -
    have "bitlen p \<ge> 1"
      using p bitlen_eq_zero_iff [of p] bitlen_nonneg [of p] by linarith
    then have "(2 :: rat) powi (bitlen p - 1) = of_int (2 ^ nat (bitlen p - 1))"
      by (simp add: power_int_def)
    with bitlen_bounds [OF p] show ?thesis
      by (simp only: of_int_le_iff)
  qed
  have bq: "of_int q \<le> (2 :: rat) powi bitlen q"
  proof -
    have "(2 :: rat) powi bitlen q = of_int (2 ^ nat (bitlen q))"
      using bitlen_nonneg [of q] by (simp add: power_int_def)
    with bitlen_bounds [OF q] show ?thesis
      by (simp only: of_int_le_iff less_imp_le)
  qed
  have "(2 :: rat) powi (bitlen p - bitlen q - 1) = 2 powi (bitlen p - 1) / 2 powi bitlen q"
    using power_int_diff [of "2 :: rat" "bitlen p - 1" "bitlen q"] by (simp add: algebra_simps)
  also have "\<dots> \<le> of_int p / of_int q"
    using bp bq p q by (intro frac_le) simp_all
  finally show ?thesis
    unfolding x [symmetric] by (simp add: exponent_def pq Let_def)
qed

lemma half_even_near: "\<bar>of_int (half_even x) - x\<bar> \<le> 1 / 2"
proof -
  have "of_int \<lfloor>x\<rfloor> \<le> x" "x < of_int \<lfloor>x\<rfloor> + 1"
    by linarith+
  then show ?thesis
    by (auto simp: half_even_def Let_def abs_le_iff)
qed

lemma half_even_int [simp]: "half_even (of_int n) = n"
  by (simp add: half_even_def)

lemma half_even_nonneg: "0 \<le> x \<Longrightarrow> 0 \<le> half_even x"
  using zero_le_floor [of x] by (auto simp: half_even_def Let_def)

lemma fl_zero [simp]: "fl 0 = 0"
  by (simp add: fl_def)

lemma fl_nonneg: "0 \<le> x \<Longrightarrow> 0 \<le> fl x"
  by (auto simp: fl_def Let_def intro!: mult_nonneg_nonneg half_even_nonneg divide_nonneg_nonneg)

text \<open>The error of a rounding: relative, and a tiny absolute one for subnormal values.\<close>

lemma fl_near: "\<bar>fl x - x\<bar> \<le> \<bar>x\<bar> / 2 ^ 53 + 1 / 2 ^ 100"
proof (cases "x = 0")
  case False
  define u :: rat where "u = 2 powi (max (exponent \<bar>x\<bar> - 52) (- 1074))"
  have u: "0 < u"
    by (simp add: u_def)
  have "u \<le> 2 powi (exponent \<bar>x\<bar> - 52) + 2 powi (- 99)"
  proof (cases "exponent \<bar>x\<bar> - 52 \<le> - 1074")
    case True
    have "(2 :: rat) powi (- 1074) \<le> 2 powi (- 99)"
      by (rule power_int_increasing) simp_all
    with True show ?thesis
      by (simp add: u_def max_def add_increasing)
  qed (simp add: u_def max_def)
  moreover have "(2 :: rat) powi (exponent \<bar>x\<bar> - 52) = 2 powi exponent \<bar>x\<bar> / 2 ^ 52"
    by (simp add: power_int_diff)
  moreover have "2 powi exponent \<bar>x\<bar> \<le> \<bar>x\<bar>"
    using False by (intro exponent_le) simp
  moreover have "(2 :: rat) powi (- 99) = 2 / 2 ^ 100"
    by (simp add: power_int_minus)
  ultimately have le: "u / 2 \<le> \<bar>x\<bar> / 2 ^ 53 + 1 / 2 ^ 100"
    by simp
  have "fl x - x = (of_int (half_even (x / u)) - x / u) * u"
    using False u by (simp add: fl_def Let_def u_def [symmetric] left_diff_distrib)
  then have "\<bar>fl x - x\<bar> = \<bar>of_int (half_even (x / u)) - x / u\<bar> * u"
    using u by (simp add: abs_mult)
  also have "\<dots> \<le> 1 / 2 * u"
    using half_even_near [of "x / u"] u by (intro mult_right_mono) simp_all
  finally show ?thesis
    using le by linarith
qed simp

lemma fl_le: "0 \<le> x \<Longrightarrow> fl x \<le> x + x / 2 ^ 53 + 1 / 2 ^ 100"
  using fl_near [of x] by (simp add: abs_le_iff)

lemma float64_exact:
  assumes "\<bar>n\<bar> < 2 ^ 53"
  shows "float64 n = of_int n"
proof (cases "n = 0")
  case False
  let ?x = "of_int n :: rat"
  define e where "e = exponent \<bar>?x\<bar>"
  have "(2 :: rat) powi e \<le> \<bar>?x\<bar>"
    unfolding e_def using False by (intro exponent_le) simp
  also have "\<bar>?x\<bar> < of_int (2 ^ 53)"
    using assms by (simp only: of_int_abs [symmetric] of_int_less_iff)
  also have "\<dots> = 2 powi 53"
    by (simp add: power_int_def)
  finally have "\<not> (2 :: rat) powi 53 \<le> 2 powi e"
    by simp
  then have e: "e < 53"
    using power_int_increasing [of 53 e "2 :: rat"] by fastforce
  define u where "u = max (e - 52) (- 1074)"
  have "u \<le> 0"
    using e by (simp add: u_def)
  then have "?x / 2 powi u = of_int (n * 2 ^ nat (- u))"
    by (simp add: power_int_def field_simps)
  then have "half_even (?x / 2 powi u) = n * 2 ^ nat (- u)"
    by (simp only: half_even_int)
  with False \<open>u \<le> 0\<close> show ?thesis
    by (simp add: float64_def fl_def Let_def e_def [symmetric] u_def [symmetric]) (simp add: power_int_def field_simps)
qed (simp add: float64_def)

lemma Seconds_bounds:
  assumes "0 \<le> d" and "d < 2 ^ 63"
  shows "0 \<le> Seconds d" and "Seconds d \<le> of_int d / 1000000000 * (1 + 1 / 2 ^ 51) + 1 / 2 ^ 98"
proof -
  define s n where "s = d div second" and "n = d mod second"
  have sn: "0 \<le> s" "s < 2 ^ 53" "0 \<le> n" "n < 1000000000" "d = s * 1000000000 + n"
    using assms by (auto simp: s_def n_def second_def)
  have "d - s * second = n"
    using sn(5) by (simp add: second_def)
  then have sec: "Seconds d = fl (float64 s + fl (float64 n / 1000000000))"
    using assms(1) by (simp add: Seconds_def Let_def s_def)
  have exact: "float64 s = of_int s" "float64 n = of_int n"
    using sn by (simp_all add: float64_exact)
  define N where "N = fl (of_int n / 1000000000)"
  have N: "0 \<le> N" "N \<le> of_int n / 1000000000 + of_int n / 1000000000 / 2 ^ 53 + 1 / 2 ^ 100"
    using sn(3) fl_nonneg [of "of_int n / 1000000000"] fl_le [of "of_int n / 1000000000"] by (simp_all add: N_def)
  have s: "0 \<le> (of_int s :: rat)" "0 \<le> (of_int n :: rat)" "(of_int d :: rat) = of_int s * 1000000000 + of_int n"
    using sn by simp_all
  show "0 \<le> Seconds d"
    using N s by (simp add: sec exact N_def fl_nonneg)
  have "Seconds d \<le> (of_int s + N) + (of_int s + N) / 2 ^ 53 + 1 / 2 ^ 100"
    using N s fl_le [of "of_int s + N"] by (simp add: sec exact N_def)
  then show "Seconds d \<le> of_int d / 1000000000 * (1 + 1 / 2 ^ 51) + 1 / 2 ^ 98"
    using N s by (simp add: field_simps)
qed

end
