(* ===== verification/Webssh_Connector.thy ===== *)
theory Webssh_Connector
  imports Ssh_Connector Connector_Auth Go_Float
begin

text \<open>
  The connector's side of interactive sessions (\<^verbatim>\<open>connector/service/webssh.go\<close>): tickets for one connection,
  their redemption by the first WebSocket message, the relay between client and terminal with its rate
  limits, and the end of a session. JSON decoding, URL parsing, the key parsers and the terminal are
  arguments.
\<close>

section \<open>Manager\<close>

record webSSHOptions =
  wo_AllowedOrigins :: "string list"
  wo_TicketTTL :: duration
  wo_HandshakeTimeout :: duration
  wo_IdleTimeout :: duration
  wo_AbsoluteTimeout :: duration
  wo_MaxConcurrent :: int
  wo_MaxOutstandingTickets :: int
  wo_MaxInputMessageBytes :: int
  wo_MaxOutputMessageBytes :: int
  wo_InputBytesPerSecond :: int
  wo_OutputBytesPerSecond :: int
  wo_AllowPrivateTargets :: bool
  wo_ConnectTimeout :: duration

record webSSHTicket =
  wt_sessionID :: string
  wt_binding :: webSSHBinding
  wt_target :: target
  wt_pinnedHostKey :: string
  wt_credential :: credential
  wt_initialSize :: terminalSize
  wt_expiresAt :: time

text \<open>The two channels used as semaphores are their capacity and the number of slots taken.\<close>

record webSSHManager =
  wm_enabled :: bool
  wm_origins :: "(string, unit) gomap"
  wm_ticketTTL :: duration
  wm_handshakeTimeout :: duration
  wm_idleTimeout :: duration
  wm_absoluteTimeout :: duration
  wm_maxTickets :: int
  wm_maxConsumed :: int
  wm_maxInputMessageBytes :: int
  wm_maxOutputMessageBytes :: int
  wm_inputBytesPerSecond :: int
  wm_outputBytesPerSecond :: int
  wm_allowPrivateTargets :: bool
  wm_connectTimeout :: duration
  wm_concurrency :: int
  wm_sessions :: int
  wm_connections :: int
  wm_open :: int
  wm_tickets :: "(string, webSSHTicket) gomap"
  wm_consumed :: "(string, time) gomap"
  wm_closed :: bool

text \<open>What \<^verbatim>\<open>url.Parse\<close> gives, as far as it is used.\<close>

record parsed_url =
  u_Scheme :: string
  u_Host :: string
  u_HasUser :: bool
  u_Path :: string
  u_RawQuery :: string
  u_Fragment :: string

definition normalizeOrigin :: "(string \<Rightarrow> parsed_url option) \<Rightarrow> string \<Rightarrow> string option" where
  "normalizeOrigin parse value =
    (if value = [] \<or> value \<noteq> trim_space value \<or> contains_any value ''*?,'' then None
     else case parse value of
        None \<Rightarrow> None
      | Some u \<Rightarrow>
          if u_Scheme u \<noteq> ''https'' \<and> u_Scheme u \<noteq> ''http'' \<or> u_Host u = [] \<or> u_HasUser u \<or> u_Path u \<noteq> [] \<or>
             u_RawQuery u \<noteq> [] \<or> u_Fragment u \<noteq> [] then None
          else Some (map lower_char (u_Scheme u) @ ''://'' @ map lower_char (u_Host u)))"

fun origin_loop :: "(string \<Rightarrow> parsed_url option) \<Rightarrow> string list \<Rightarrow> (string, unit) gomap \<Rightarrow> (string, unit) gomap option" where
  "origin_loop parse [] result = Some result"
| "origin_loop parse (v # vs) result =
    (case normalizeOrigin parse v of None \<Rightarrow> None | Some n \<Rightarrow> origin_loop parse vs (put result n ()))"

definition normalizeOrigins :: "(string \<Rightarrow> parsed_url option) \<Rightarrow> string list \<Rightarrow> (string, unit) gomap option" where
  "normalizeOrigins parse vs =
    (case origin_loop parse vs [] of None \<Rightarrow> None | Some result \<Rightarrow> if result = [] then None else Some result)"

datatype webssh_config_error =
  OriginsInvalid | TicketTTLLimit | HandshakeLimit | IdleLimit | AbsoluteLimit | ConcurrencyLimit | TicketLimit
| InputMessageLimit | OutputMessageLimit | InputRateLimit | OutputRateLimit | ConnectLimit

definition disabled_manager :: webSSHManager where
  "disabled_manager = \<lparr>wm_enabled = False, wm_origins = [], wm_ticketTTL = 0, wm_handshakeTimeout = 0, wm_idleTimeout = 0,
    wm_absoluteTimeout = 0, wm_maxTickets = 0, wm_maxConsumed = 0, wm_maxInputMessageBytes = 0, wm_maxOutputMessageBytes = 0,
    wm_inputBytesPerSecond = 0, wm_outputBytesPerSecond = 0, wm_allowPrivateTargets = False, wm_connectTimeout = 0,
    wm_concurrency = 0, wm_sessions = 0, wm_connections = 0, wm_open = 0, wm_tickets = [], wm_consumed = [], wm_closed = False\<rparr>"

definition newWebSSHManager :: "(string \<Rightarrow> parsed_url option) \<Rightarrow> webSSHOptions \<Rightarrow> webssh_config_error + webSSHManager" where
  "newWebSSHManager parse o' =
    (if wo_AllowedOrigins o' = [] then Inr disabled_manager else
     some_or (normalizeOrigins parse (wo_AllowedOrigins o')) OriginsInvalid (\<lambda>origins.
     with_limit (wo_TicketTTL o') (30 * second) minute TicketTTLLimit (\<lambda>ttl.
     with_limit (wo_HandshakeTimeout o') (5 * second) (15 * second) HandshakeLimit (\<lambda>handshake.
     with_limit (wo_IdleTimeout o') (10 * minute) hour IdleLimit (\<lambda>idle.
     with_limit (wo_AbsoluteTimeout o') hour (8 * hour) AbsoluteLimit (\<lambda>absolute.
     with_limit (wo_MaxConcurrent o') 4 64 ConcurrencyLimit (\<lambda>concurrent.
     with_limit (wo_MaxOutstandingTickets o') 128 4096 TicketLimit (\<lambda>tickets.
     with_limit (wo_MaxInputMessageBytes o') (16 * 1024) (64 * 1024) InputMessageLimit (\<lambda>input.
     with_limit (wo_MaxOutputMessageBytes o') (16 * 1024) (64 * 1024) OutputMessageLimit (\<lambda>output.
     with_limit (wo_InputBytesPerSecond o') (64 * 1024) (4 * 1024 * 1024) InputRateLimit (\<lambda>inputRate.
     with_limit (wo_OutputBytesPerSecond o') (256 * 1024) (8 * 1024 * 1024) OutputRateLimit (\<lambda>outputRate.
     with_limit (wo_ConnectTimeout o') (10 * second) (30 * second) ConnectLimit (\<lambda>connect.
     Inr \<lparr>wm_enabled = True, wm_origins = origins, wm_ticketTTL = ttl, wm_handshakeTimeout = handshake, wm_idleTimeout = idle,
       wm_absoluteTimeout = absolute, wm_maxTickets = tickets, wm_maxConsumed = tickets * 4, wm_maxInputMessageBytes = input,
       wm_maxOutputMessageBytes = output, wm_inputBytesPerSecond = inputRate, wm_outputBytesPerSecond = outputRate,
       wm_allowPrivateTargets = wo_AllowPrivateTargets o', wm_connectTimeout = connect, wm_concurrency = concurrent,
       wm_sessions = 0, wm_connections = concurrent * 2, wm_open = 0, wm_tickets = [], wm_consumed = [], wm_closed = False\<rparr>)))))))))))))"

section \<open>Tickets\<close>

definition pruneLocked :: "webSSHManager \<Rightarrow> time \<Rightarrow> webSSHManager" where
  "pruneLocked m now = m\<lparr>wm_tickets := keep (\<lambda>t. now < wt_expiresAt t) (wm_tickets m),
    wm_consumed := keep (\<lambda>e. now < e) (wm_consumed m)\<rparr>"

definition Close :: "webSSHManager \<Rightarrow> webSSHManager" where
  "Close m = (if \<not> wm_enabled m \<or> wm_closed m then m else m\<lparr>wm_closed := True, wm_tickets := []\<rparr>)"

definition validBoundID :: "string \<Rightarrow> bool" where
  "validBoundID value \<longleftrightarrow> \<not> (length value < 1 \<or> length value > 128 \<or> value \<noteq> trim_space value) \<and>
    list_all (\<lambda>r. \<not> (is_control r \<or> is_space r)) (runes value)"

definition validSSHUser :: "string \<Rightarrow> bool" where
  "validSSHUser value \<longleftrightarrow> \<not> (length value < 1 \<or> length value > 64 \<or> value \<noteq> trim_space value) \<and>
    list_all (\<lambda>r. \<not> (is_control r \<or> is_space r)) (runes value)"

definition validTerminalSize :: "terminalSize \<Rightarrow> bool" where
  "validTerminalSize sz \<longleftrightarrow> ts_Columns sz \<ge> 20 \<and> ts_Columns sz \<le> 500 \<and> ts_Rows sz \<ge> 5 \<and> ts_Rows sz \<le> 300 \<and>
    ts_WidthPixels sz \<le> 10000 \<and> ts_HeightPixels sz \<le> 10000"

text \<open>The key parsers of the SSH library: a public key line with its rest, and a private key with an optional passphrase.\<close>

record ('k, 'a) key_parsers =
  kp_authorized :: "string \<Rightarrow> ('k \<times> string) option"
  kp_private :: "string \<Rightarrow> string option \<Rightarrow> 'a option"

definition parse_signer :: "('k, 'a) key_parsers \<Rightarrow> credential \<Rightarrow> 'a option" where
  "parse_signer ps c =
    kp_private ps (cred_PrivateKeyPEM c) (if cred_Passphrase c = [] then None else Some (cred_Passphrase c))"

definition ssh_material_sizes :: "string \<Rightarrow> credential \<Rightarrow> bool" where
  "ssh_material_sizes pinned c \<longleftrightarrow> \<not> (length pinned = 0 \<or> length pinned > 16 * 1024 \<or>
    length (cred_PrivateKeyPEM c) = 0 \<or> length (cred_PrivateKeyPEM c) > 48 * 1024 \<or> length (cred_Passphrase c) > 4 * 1024)"

definition validateWebSSHTicketRequest :: "('k, 'a) key_parsers \<Rightarrow> webSSHTicketRequest \<Rightarrow> bool \<Rightarrow> bool" where
  "validateWebSSHTicketRequest ps q allowPrivate \<longleftrightarrow>
    \<not> (wq_ProtocolVersion q \<noteq> ProtocolVersion \<or> wb_Action (wq_Binding q) \<noteq> ActionWebSSH \<or>
       \<not> validBoundID (wb_PrincipalID (wq_Binding q)) \<or> \<not> validBoundID (wb_HostID (wq_Binding q)) \<or>
       \<not> validBoundID (wb_CredentialID (wq_Binding q)) \<or>
       trim_space (t_Address (wq_Target q)) = [] \<or> t_Address (wq_Target q) \<noteq> trim_space (t_Address (wq_Target q)) \<or>
       length (t_Address (wq_Target q)) > 253 \<or> t_Port (wq_Target q) < 1 \<or> t_Port (wq_Target q) > 65535 \<or>
       \<not> validSSHUser (t_User (wq_Target q)) \<or> \<not> ssh_material_sizes (wq_PinnedHostKey q) (wq_Credential q) \<or>
       \<not> validTerminalSize (wq_InitialSize q)) \<and>
    ValidateTargetLiteral (t_Address (wq_Target q)) allowPrivate = None \<and>
    ok (ParsePinnedHostKey (kp_authorized ps) (wq_PinnedHostKey q)) \<noteq> None \<and>
    parse_signer ps (wq_Credential q) \<noteq> None"

datatype ticket_error = RandomFailed | TicketCapacity | TicketCollision

definition new_webssh_ticket :: "webSSHManager \<Rightarrow> time \<Rightarrow> string \<Rightarrow> webSSHTicketRequest \<Rightarrow> webSSHTicket" where
  "new_webssh_ticket m now sessionBytes q =
    \<lparr>wt_sessionID = b64_encode sessionBytes, wt_binding = wq_Binding q, wt_target = wq_Target q,
     wt_pinnedHostKey = wq_PinnedHostKey q, wt_credential = wq_Credential q, wt_initialSize = wq_InitialSize q,
     wt_expiresAt = now + wm_ticketTTL m\<rparr>"

definition createTicket ::
    "webSSHManager \<Rightarrow> time \<Rightarrow> string option \<Rightarrow> string option \<Rightarrow> webSSHTicketRequest \<Rightarrow> string
     \<Rightarrow> webSSHManager \<times> (ticket_error + webSSHTicketResponse)" where
  "createTicket m now ticketRand sessionRand q requestID =
    (case ticketRand of None \<Rightarrow> (m, Inl RandomFailed) | Some ticketBytes \<Rightarrow>
     case sessionRand of None \<Rightarrow> (m, Inl RandomFailed) | Some sessionBytes \<Rightarrow>
     (let h = sha256 ticketBytes; e = new_webssh_ticket m now sessionBytes q; p = pruneLocked m now in
      if wm_closed p \<or> int (length (wm_tickets p)) \<ge> wm_maxTickets p \<or> int (length (wm_consumed p)) \<ge> wm_maxConsumed p
      then (p, Inl TicketCapacity)
      else if has_key (wm_tickets p) h then (p, Inl TicketCollision)
      else (p\<lparr>wm_tickets := put (wm_tickets p) h e\<rparr>,
            Inr \<lparr>wp_ProtocolVersion = ProtocolVersion, wp_RequestID = requestID, wp_Ticket = b64_encode ticketBytes,
                 wp_SessionID = wt_sessionID e, wp_ExpiresAt = wt_expiresAt e\<rparr>)))"

definition sameString :: "string \<Rightarrow> string \<Rightarrow> bool" where
  "sameString left right \<longleftrightarrow> length left = length right \<and> left = right"

definition sameBinding :: "webSSHBinding \<Rightarrow> webSSHBinding \<Rightarrow> bool" where
  "sameBinding left right \<longleftrightarrow>
    sameString (wb_PrincipalID left) (wb_PrincipalID right) \<and> sameString (wb_HostID left) (wb_HostID right) \<and>
    sameString (wb_CredentialID left) (wb_CredentialID right) \<and> sameString (wb_Action left) (wb_Action right)"

definition hello_hash :: "webSSHHelloMessage \<Rightarrow> string option" where
  "hello_hash hello =
    (case b64_decode False (hm_Ticket hello) of
      None \<Rightarrow> None
    | Some decoded \<Rightarrow> if length decoded \<noteq> 32 then None else Some (sha256 decoded))"

definition consumeTicket :: "webSSHManager \<Rightarrow> time \<Rightarrow> webSSHHelloMessage \<Rightarrow> webSSHManager \<times> (string + webSSHTicket)" where
  "consumeTicket m now hello =
    (case hello_hash hello of None \<Rightarrow> (m, Inl ''invalid_ticket'') | Some h \<Rightarrow>
     (let p = pruneLocked m now in
      case map_of (wm_tickets p) h of
        None \<Rightarrow> (p, Inl (if has_key (wm_consumed p) h then ''ticket_replayed'' else ''invalid_ticket''))
      | Some e \<Rightarrow>
          (let p' = p\<lparr>wm_tickets := del (wm_tickets p) h, wm_consumed := put (wm_consumed p) h (now + wm_ticketTTL p)\<rparr> in
           if \<not> now < wt_expiresAt e then (p', Inl ''ticket_expired'')
           else if \<not> sameString (wt_sessionID e) (hm_SessionID hello) \<or> \<not> sameBinding (wt_binding e) (hm_Binding hello) \<or>
                hm_Type hello \<noteq> WebSSHMessageHello then (p', Inl ''ticket_binding_mismatch'')
           else (p', Inr e))))"

definition beginSession :: "webSSHManager \<Rightarrow> bool" where
  "beginSession m \<longleftrightarrow> \<not> wm_closed m"

definition originAllowed :: "(string \<Rightarrow> parsed_url option) \<Rightarrow> webSSHManager \<Rightarrow> headers \<Rightarrow> bool" where
  "originAllowed parse m h =
    (case map_of h ''Origin'' of
      Some [v] \<Rightarrow> (case normalizeOrigin parse v of None \<Rightarrow> False | Some n \<Rightarrow> has_key (wm_origins m) n)
    | _ \<Rightarrow> False)"

section \<open>Rate limits\<close>

text \<open>
  The token bucket. Its numbers are \<^verbatim>\<open>float64\<close> values, rounded after every operation, as on the
  platforms where the compiler does not fuse a product and a sum.
\<close>

record byteRateLimiter =
  rl_rate :: rat
  rl_burst :: rat
  rl_tokens :: rat
  rl_last :: time

definition newByteRateLimiter :: "int \<Rightarrow> int \<Rightarrow> time \<Rightarrow> byteRateLimiter" where
  "newByteRateLimiter rate burst now =
    \<lparr>rl_rate = float64 rate, rl_burst = float64 burst, rl_tokens = float64 burst, rl_last = now\<rparr>"

definition Allow :: "byteRateLimiter \<Rightarrow> time \<Rightarrow> int \<Rightarrow> byteRateLimiter \<times> bool" where
  "Allow l now amount =
    (if amount < 0 then (l, False)
     else
       (let refilled = fl (rl_tokens l + fl (Seconds (time_sub now (rl_last l)) * rl_rate l));
            tokens = (if refilled > rl_burst l then rl_burst l else refilled);
            l' = l\<lparr>rl_tokens := tokens, rl_last := now\<rparr>
        in if float64 amount > tokens then (l', False)
           else (l'\<lparr>rl_tokens := fl (tokens - float64 amount)\<rparr>, True)))"

section \<open>Connections\<close>

text \<open>
  What a read from a WebSocket gives: an error, or a message. A message that is longer than the limit given to
  \<^verbatim>\<open>SetReadLimit\<close> is an error, as the WebSocket package documents.
\<close>

datatype frame = ReadFailed | BinaryFrame string | TextFrame string

definition read_message :: "int \<Rightarrow> frame \<Rightarrow> frame" where
  "read_message limit fr =
    (case fr of
      ReadFailed \<Rightarrow> ReadFailed
    | BinaryFrame body \<Rightarrow> if int (length body) > limit then ReadFailed else fr
    | TextFrame body \<Rightarrow> if int (length body) > limit then ReadFailed else fr)"

text \<open>The read limit \<^verbatim>\<open>handleWebSSHConnect\<close> sets.\<close>

definition connector_read_limit :: "webSSHManager \<Rightarrow> int" where
  "connector_read_limit m = wm_maxInputMessageBytes m * 2 + 4096"

text \<open>How a connection starts: it is dropped, refused with a code, or a session runs.\<close>

datatype 'pty served = Dropped | Refused string bool | Session webSSHTicket 'pty

text \<open>
  \<^verbatim>\<open>serveConnection\<close> up to the slot of a session: the connection ends, or it holds a slot and the ticket.
\<close>

definition serve_accept ::
    "(string \<Rightarrow> webSSHHelloMessage option) \<Rightarrow> webSSHManager \<Rightarrow> time \<Rightarrow> frame \<Rightarrow> webSSHManager \<times> ('pty served + webSSHTicket)" where
  "serve_accept decode m now fr =
    (case read_message (connector_read_limit m) fr of
       ReadFailed \<Rightarrow> (m, Inl Dropped) | BinaryFrame _ \<Rightarrow> (m, Inl (Refused ''invalid_hello'' False)) | TextFrame body \<Rightarrow>
     case decode body of None \<Rightarrow> (m, Inl (Refused ''invalid_hello'' False)) | Some hello \<Rightarrow>
     if hm_Type hello \<noteq> WebSSHMessageHello then (m, Inl (Refused ''invalid_hello'' False)) else
     case consumeTicket m now hello of (p, Inl code) \<Rightarrow> (p, Inl (Refused code False)) | (p, Inr t) \<Rightarrow>
     if wm_sessions p \<ge> wm_concurrency p then (p, Inl (Refused ''session_capacity'' True))
     else (p\<lparr>wm_sessions := wm_sessions p + 1\<rparr>, Inr t))"

text \<open>The slot is given back when the connection ends.\<close>

definition session_release :: "webSSHManager \<Rightarrow> webSSHManager" where
  "session_release m = m\<lparr>wm_sessions := wm_sessions m - 1\<rparr>"

text \<open>
  The rest of it up to the ready message, with the slot held. \<^term>\<open>openPTY\<close> is the terminal transport with
  the connection policy it is given.
\<close>

definition serve_open ::
    "('k, 'a) key_parsers \<Rightarrow> (('k, 'a) ssh_config \<Rightarrow> terminalSize \<Rightarrow> 'pty option) \<Rightarrow> webSSHManager \<Rightarrow> webSSHTicket \<Rightarrow> webSSHManager \<times> 'pty served" where
  "serve_open ps openPTY m t =
    (case ParsePinnedHostKey (kp_authorized ps) (wt_pinnedHostKey t) of Inl _ \<Rightarrow> (session_release m, Refused ''invalid_host_key'' False) | Inr pinned \<Rightarrow>
     case parse_signer ps (wt_credential t) of None \<Rightarrow> (session_release m, Refused ''invalid_credential'' False) | Some signer' \<Rightarrow>
     case openPTY \<lparr>cfg_Address = t_Address (wt_target t), cfg_Port = t_Port (wt_target t), cfg_User = t_User (wt_target t),
            cfg_Auth = Some signer', cfg_PinnedHostKey = Some pinned, cfg_ConnectTimeout = wm_connectTimeout m,
            cfg_CommandTimeout = 0, cfg_MaxOutputBytes = 0, cfg_AllowPrivateTargets = wm_allowPrivateTargets m\<rparr> (wt_initialSize t) of
       None \<Rightarrow> (session_release m, Refused ''ssh_connect_failed'' True)
     | Some pty \<Rightarrow> (m, Session t pty))"

record sessionEvent =
  ev_code :: string
  ev_retryable :: bool

datatype pty_request = WriteInput string | Resize terminalSize

text \<open>The decoders of client messages: the type alone, an input message, and a resize message.\<close>

record decoders =
  dc_type :: "string \<Rightarrow> string option"
  dc_input :: "string \<Rightarrow> string option"
  dc_resize :: "string \<Rightarrow> terminalSize option"

text \<open>One round of \<^verbatim>\<open>readClient\<close>, up to the request to the terminal.\<close>

definition client_frame ::
    "decoders \<Rightarrow> webSSHManager \<Rightarrow> byteRateLimiter \<Rightarrow> time \<Rightarrow> frame \<Rightarrow> byteRateLimiter \<times> (sessionEvent + pty_request)" where
  "client_frame dc m l now fr =
    (case read_message (connector_read_limit m) fr of
      ReadFailed \<Rightarrow> (l, Inl \<lparr>ev_code = ''client_closed'', ev_retryable = False\<rparr>)
    | BinaryFrame _ \<Rightarrow> (l, Inl \<lparr>ev_code = ''invalid_message'', ev_retryable = False\<rparr>)
    | TextFrame body \<Rightarrow>
        (case Allow l now (if int (length body) < 512 then 512 else int (length body)) of
          (l', False) \<Rightarrow> (l', Inl \<lparr>ev_code = ''input_rate_limit'', ev_retryable = False\<rparr>)
        | (l', True) \<Rightarrow>
            (l', some_or (dc_type dc body) \<lparr>ev_code = ''invalid_message'', ev_retryable = False\<rparr> (\<lambda>ty.
                 if ty = WebSSHMessageInput then
                   some_or (dc_input dc body) \<lparr>ev_code = ''input_too_large'', ev_retryable = False\<rparr> (\<lambda>data.
                   ensure (\<not> int (length data) > wm_maxInputMessageBytes m) \<lparr>ev_code = ''input_too_large'', ev_retryable = False\<rparr> (
                   Inr (WriteInput data)))
                 else if ty = WebSSHMessageResize then
                   some_or (dc_resize dc body) \<lparr>ev_code = ''invalid_resize'', ev_retryable = False\<rparr> (\<lambda>size.
                   ensure (validTerminalSize size) \<lparr>ev_code = ''invalid_resize'', ev_retryable = False\<rparr> (
                   Inr (Resize size)))
                 else Inl \<lparr>ev_code = ''unsupported_message'', ev_retryable = False\<rparr>))))"

text \<open>\<^verbatim>\<open>readClient\<close>: the requests the terminal got, and the event that ended the loop, if one did.\<close>

fun readClient ::
    "decoders \<Rightarrow> webSSHManager \<Rightarrow> (pty_request \<Rightarrow> bool) \<Rightarrow> byteRateLimiter \<Rightarrow> (time \<times> frame) list
     \<Rightarrow> pty_request list \<times> sessionEvent option" where
  "readClient dc m accepts l [] = ([], None)"
| "readClient dc m accepts l ((now, fr) # frs) =
    (case client_frame dc m l now fr of
      (_, Inl e) \<Rightarrow> ([], Some e)
    | (l', Inr r) \<Rightarrow>
        if accepts r then
          (case readClient dc m accepts l' frs of (rs, e) \<Rightarrow> (r # rs, e))
        else ([r], Some \<lparr>ev_code = (case r of WriteInput _ \<Rightarrow> ''ssh_input_failed'' | Resize _ \<Rightarrow> ''resize_failed''), ev_retryable = True\<rparr>))"

text \<open>What a read from the terminal gives: the bytes, and the end of the output or an error.\<close>

datatype read_end = MoreOutput | OutputEOF | OutputError

fun writeOutput :: "(string \<Rightarrow> bool) \<Rightarrow> byteRateLimiter \<Rightarrow> (time \<times> string \<times> read_end) list \<Rightarrow> webSSHMessage list \<times> sessionEvent option" where
  "writeOutput delivers l [] = ([], None)"
| "writeOutput delivers l ((now, out, en) # rs) =
    (let (l', allowed) = (if out = [] then (l, True) else Allow l now (int (length out)));
         sent = (if out = [] then [] else [WebSSHOutput out])
     in if \<not> allowed then ([], Some \<lparr>ev_code = ''output_rate_limit'', ev_retryable = False\<rparr>)
        else if out \<noteq> [] \<and> \<not> delivers out then ([], Some \<lparr>ev_code = ''client_closed'', ev_retryable = False\<rparr>)
        else case en of
          OutputEOF \<Rightarrow> (sent, Some \<lparr>ev_code = ''output_closed'', ev_retryable = False\<rparr>)
        | OutputError \<Rightarrow> (sent, Some \<lparr>ev_code = ''ssh_output_failed'', ev_retryable = True\<rparr>)
        | MoreOutput \<Rightarrow> (case writeOutput delivers l' rs of (ms, e) \<Rightarrow> (sent @ ms, e)))"

text \<open>The loop of a session: what ends it, and the last message.\<close>

datatype signal =
  InputEnded sessionEvent | OutputEnded sessionEvent | ShellExited "wait_error option" | AbsoluteDone bool | IdleTick duration

definition session_signal :: "webSSHManager \<Rightarrow> signal \<Rightarrow> webSSHMessage option option" where
  "session_signal m s =
    (case s of
      InputEnded e \<Rightarrow> Some (if ev_code e \<noteq> ''client_closed'' then Some (WebSSHError (ev_code e) (ev_retryable e)) else None)
    | OutputEnded e \<Rightarrow> Some (if ev_code e \<noteq> ''output_closed'' then Some (WebSSHError (ev_code e) (ev_retryable e)) else None)
    | ShellExited None \<Rightarrow> Some (Some (WebSSHExit 0 ''remote shell exited''))
    | ShellExited (Some (ExitError code)) \<Rightarrow> Some (Some (WebSSHExit code ''remote shell exited''))
    | ShellExited (Some (OtherWait _)) \<Rightarrow> Some (Some (WebSSHExit (-1) ''remote shell disconnected''))
    | AbsoluteDone shutdown \<Rightarrow> Some (Some (WebSSHError (if shutdown then ''connector_shutdown'' else ''absolute_timeout'') False))
    | IdleTick idle \<Rightarrow> if idle \<ge> wm_idleTimeout m then Some (Some (WebSSHError ''idle_timeout'' False)) else None)"

fun session_loop :: "webSSHManager \<Rightarrow> signal list \<Rightarrow> webSSHMessage option option" where
  "session_loop m [] = None"
| "session_loop m (s # ss) = (case session_signal m s of Some r \<Rightarrow> Some r | None \<Rightarrow> session_loop m ss)"

text \<open>\<^verbatim>\<open>writeAll\<close> on a writer with a state: whether it succeeds, and the state.\<close>

function writeAll :: "('w \<Rightarrow> string \<Rightarrow> 'w \<times> int \<times> bool) \<Rightarrow> 'w \<Rightarrow> string \<Rightarrow> 'w \<times> bool" where
  "writeAll wr w value =
    (if value = [] then (w, True)
     else case wr w value of (w', n, err) \<Rightarrow>
       if err then (w', False)
       else if n \<le> 0 \<or> n > int (length value) then (w', False)
       else writeAll wr w' (drop (nat n) value))"
  by pat_completeness auto
termination
  by (relation "measure (\<lambda>(_, _, value). length value)") auto

declare writeAll.simps [simp del]

section \<open>Lemmas\<close>

definition wf_webssh :: "webSSHManager \<Rightarrow> bool" where
  "wf_webssh m \<longleftrightarrow> wf_map (wm_tickets m) \<and> wf_map (wm_consumed m) \<and> 0 \<le> wm_maxTickets m \<and> 0 \<le> wm_maxConsumed m \<and>
    int (length (wm_tickets m)) \<le> wm_maxTickets m \<and>
    int (length (wm_tickets m)) + int (length (wm_consumed m)) \<le> wm_maxTickets m + wm_maxConsumed m"

datatype webssh_op =
  Op_Create time "string option" "string option" webSSHTicketRequest string
| Op_Consume time webSSHHelloMessage | Op_Prune time | Op_Close

fun webssh_step :: "webssh_op \<Rightarrow> webSSHManager \<Rightarrow> webSSHManager" where
  "webssh_step (Op_Create now tr sr q i) m = fst (createTicket m now tr sr q i)"
| "webssh_step (Op_Consume now hello) m = fst (consumeTicket m now hello)"
| "webssh_step (Op_Prune now) m = pruneLocked m now"
| "webssh_step Op_Close m = Close m"

fun webssh_issues :: "webssh_op \<Rightarrow> webSSHManager \<Rightarrow> (string \<times> webSSHTicket) option" where
  "webssh_issues (Op_Create now tr sr q i) m =
    (case snd (createTicket m now tr sr q i) of
      Inl _ \<Rightarrow> None
    | Inr _ \<Rightarrow> Some (sha256 (the tr), new_webssh_ticket m now (the sr) q))"
| "webssh_issues _ _ = None"

fun webssh_redeems :: "webssh_op \<Rightarrow> webSSHManager \<Rightarrow> string option" where
  "webssh_redeems (Op_Consume now hello) m =
    (case snd (consumeTicket m now hello) of Inl _ \<Rightarrow> None | Inr _ \<Rightarrow> hello_hash hello)"
| "webssh_redeems _ _ = None"

lemma prune_fields [simp]:
  "wm_maxTickets (pruneLocked m now) = wm_maxTickets m" "wm_maxConsumed (pruneLocked m now) = wm_maxConsumed m"
  "wm_ticketTTL (pruneLocked m now) = wm_ticketTTL m" "wm_closed (pruneLocked m now) = wm_closed m"
  "wm_sessions (pruneLocked m now) = wm_sessions m" "wm_concurrency (pruneLocked m now) = wm_concurrency m"
  by (simp_all add: pruneLocked_def)

lemma prune_tickets:
  "wf_map (wm_tickets m) \<Longrightarrow> map_of (wm_tickets (pruneLocked m now)) k = Some t \<longleftrightarrow> map_of (wm_tickets m) k = Some t \<and> now < wt_expiresAt t"
  by (auto simp: pruneLocked_def map_of_keep_Some)

lemma wf_prune: "wf_webssh m \<Longrightarrow> wf_webssh (pruneLocked m now)"
  using length_keep_le [of "\<lambda>t. now < wt_expiresAt t" "wm_tickets m"] length_keep_le [of "\<lambda>e. now < e" "wm_consumed m"]
  by (simp add: wf_webssh_def pruneLocked_def)

lemma createTicket_Inr:
  assumes "createTicket m now tr sr q i = (m', Inr r)"
  obtains tb sb where "tr = Some tb" "sr = Some sb"
    "m' = (pruneLocked m now)\<lparr>wm_tickets := put (wm_tickets (pruneLocked m now)) (sha256 tb) (new_webssh_ticket m now sb q)\<rparr>"
    "wm_closed m = False" "int (length (wm_tickets (pruneLocked m now))) < wm_maxTickets m"
    "int (length (wm_consumed (pruneLocked m now))) < wm_maxConsumed m" "wp_Ticket r = b64_encode tb" "wp_SessionID r = b64_encode sb"
    "wp_ExpiresAt r = now + wm_ticketTTL m"
  using assms
  by (auto simp: createTicket_def Let_def not_le new_webssh_ticket_def split: option.splits if_splits)

lemma createTicket_Inl: "createTicket m now tr sr q i = (m', Inl e) \<Longrightarrow> m' = m \<or> m' = pruneLocked m now"
  by (auto simp: createTicket_def Let_def split: option.splits if_splits)

lemma consumeTicket_cases:
  obtains "consumeTicket m now hello = (m, Inl ''invalid_ticket'')" "hello_hash hello = None"
  | h code where "hello_hash hello = Some h" "map_of (wm_tickets (pruneLocked m now)) h = None"
      "consumeTicket m now hello = (pruneLocked m now, Inl code)"
  | h e r where "hello_hash hello = Some h" "map_of (wm_tickets (pruneLocked m now)) h = Some e"
      "consumeTicket m now hello = ((pruneLocked m now)\<lparr>wm_tickets := del (wm_tickets (pruneLocked m now)) h,
        wm_consumed := put (wm_consumed (pruneLocked m now)) h (now + wm_ticketTTL m)\<rparr>, r)"
      "\<And>t. r = Inr t \<Longrightarrow> t = e \<and> now < wt_expiresAt e \<and> wt_sessionID e = hm_SessionID hello \<and> sameBinding (wt_binding e) (hm_Binding hello)"
proof (cases "hello_hash hello")
  case None
  then show ?thesis
    using that(1) by (simp add: consumeTicket_def)
next
  case (Some h)
  show ?thesis
  proof (cases "map_of (wm_tickets (pruneLocked m now)) h")
    case None
    with Some show ?thesis
      using that(2) by (simp add: consumeTicket_def Let_def)
  next
    case (Some e)
    with \<open>hello_hash hello = Some h\<close> show ?thesis
      by (intro that(3) [of h e "snd (consumeTicket m now hello)"])
        (auto simp: consumeTicket_def Let_def sameString_def split: if_splits)
  qed
qed

lemma wf_webssh_step: "wf_webssh m \<Longrightarrow> wf_webssh (webssh_step op m)"
proof (cases op)
  case (Op_Create now tr sr q i)
  assume wf: "wf_webssh m"
  obtain m' r where c: "createTicket m now tr sr q i = (m', r)"
    by (rule prod.exhaust)
  show ?thesis
  proof (cases r)
    case (Inl e)
    with c createTicket_Inl [of m now tr sr q i m' e] wf wf_prune [OF wf] Op_Create show ?thesis
      by auto
  next
    case (Inr x)
    with c have "createTicket m now tr sr q i = (m', Inr x)"
      by simp
    then show ?thesis
      using wf_prune [OF wf, of now] c Op_Create length_put_le
      by (elim createTicket_Inr) (auto simp: wf_webssh_def length_put)
  qed
next
  case (Op_Consume now hello)
  assume wf: "wf_webssh m"
  show ?thesis
  proof (cases rule: consumeTicket_cases [where m = m and now = now and hello = hello])
    case (3 h e r)
    let ?p = "pruneLocked m now"
    have "length (del (wm_tickets ?p) h) + 1 = length (wm_tickets ?p)"
      using length_del [of "wm_tickets ?p" h] 3(2) wf_prune [OF wf, of now] has_key_SomeI [OF 3(2)]
      by (cases "wm_tickets ?p") (auto simp: wf_webssh_def)
    with 3 Op_Consume wf_prune [OF wf, of now] length_put_le [of "wm_consumed ?p" h "now + wm_ticketTTL m"] show ?thesis
      by (auto simp: wf_webssh_def)
  qed (use wf wf_prune [OF wf] Op_Consume in auto)
next
  case (Op_Prune now)
  assume "wf_webssh m"
  with Op_Prune show ?thesis
    by (simp add: wf_prune)
next
  case Op_Close
  assume "wf_webssh m"
  with Op_Close show ?thesis
    by (auto simp: Close_def wf_webssh_def)
qed

interpretation webssh: ticket_store wf_webssh "\<lambda>m. map_of (wm_tickets m)" webssh_step webssh_issues webssh_redeems
proof
  fix m op
  assume "wf_webssh m"
  then show "wf_webssh (webssh_step op m)"
    by (rule wf_webssh_step)
next
  fix m op k e
  assume wf: "wf_webssh m" and held: "map_of (wm_tickets (webssh_step op m)) k = Some e"
  have pr: "map_of (wm_tickets (pruneLocked m now)) k = Some e \<Longrightarrow> map_of (wm_tickets m) k = Some e" for now
    using wf by (simp add: prune_tickets wf_webssh_def)
  show "map_of (wm_tickets m) k = Some e \<or> webssh_issues op m = Some (k, e)"
  proof (cases op)
    case (Op_Create now tr sr q i)
    obtain m' r where c: "createTicket m now tr sr q i = (m', r)"
      by (rule prod.exhaust)
    show ?thesis
    proof (cases r)
      case (Inl e')
      with c createTicket_Inl [of m now tr sr q i m' e'] held pr [of now] Op_Create show ?thesis
        by auto
    next
      case (Inr x)
      with c have "createTicket m now tr sr q i = (m', Inr x)"
        by simp
      then show ?thesis
        using held pr [of now] Op_Create c Inr by (elim createTicket_Inr) (auto split: if_splits)
    qed
  next
    case (Op_Consume now hello)
    with held pr [of now] show ?thesis
      by (cases rule: consumeTicket_cases [where m = m and now = now and hello = hello]) (auto split: if_splits)
  next
    case (Op_Prune now)
    with held pr [of now] show ?thesis
      by simp
  next
    case Op_Close
    with held show ?thesis
      by (auto simp: Close_def split: if_splits)
  qed
next
  fix m op k
  assume wf: "wf_webssh m" and red: "webssh_redeems op m = Some k"
  then obtain now hello t where op: "op = Op_Consume now hello" "snd (consumeTicket m now hello) = Inr t" "hello_hash hello = Some k"
    by (cases op) (auto split: sum.splits)
  show "map_of (wm_tickets m) k \<noteq> None"
    using op wf by (cases rule: consumeTicket_cases [where m = m and now = now and hello = hello]) (auto simp: prune_tickets wf_webssh_def)
  show "map_of (wm_tickets (webssh_step op m)) k = None"
    using op by (cases rule: consumeTicket_cases [where m = m and now = now and hello = hello]) auto
qed

subsection \<open>Rate limits\<close>

text \<open>A bucket within the limits of the configuration.\<close>

definition limiter_ok :: "byteRateLimiter \<Rightarrow> bool" where
  "limiter_ok l \<longleftrightarrow> 0 \<le> rl_tokens l \<and> rl_tokens l \<le> rl_burst l \<and> rl_burst l \<le> 2 ^ 24 \<and> 0 \<le> rl_rate l \<and> rl_rate l \<le> 2 ^ 23"

text \<open>What flows into a bucket in a period, and at most how much more after rounding.\<close>

definition gain :: "byteRateLimiter \<Rightarrow> time \<Rightarrow> time \<Rightarrow> rat" where
  "gain l t t' = of_int (t' - t) / 1000000000 * rl_rate l * (1 + 1 / 2 ^ 50)"

lemma gain_add: "gain l t u + gain l u v = gain l t v"
  by (simp add: gain_def field_simps)

lemma gain_nonneg: "limiter_ok l \<Longrightarrow> t \<le> u \<Longrightarrow> 0 \<le> gain l t u"
  by (simp add: gain_def limiter_ok_def)

lemma refill_bound:
  assumes "limiter_ok l" and "rl_last l \<le> now"
  defines "P \<equiv> fl (Seconds (time_sub now (rl_last l)) * rl_rate l)"
  shows "0 \<le> P" and "fl (rl_tokens l + P) \<le> rl_tokens l + gain l (rl_last l) now + 1 / 2 ^ 22"
proof -
  define d where "d = time_sub now (rl_last l)"
  have d: "0 \<le> d" "d < 2 ^ 63" "d \<le> now - rl_last l"
    using assms(2) by (auto simp: d_def time_sub_def)
  have ok: "0 \<le> rl_tokens l" "rl_tokens l \<le> 2 ^ 24" "0 \<le> rl_rate l" "rl_rate l \<le> 2 ^ 23"
    using assms(1) by (auto simp: limiter_ok_def)
  define T :: rat where "T = of_int (now - rl_last l) / 1000000000"
  have "of_int d / 1000000000 \<le> T"
    using d(3) by (simp add: T_def divide_right_mono flip: of_int_diff)
  with Seconds_bounds [OF d(1,2)] have S: "0 \<le> Seconds d" "Seconds d \<le> T * (1 + 1 / 2 ^ 51) + 1 / 2 ^ 98"
    by (auto elim!: order_trans)
  have SR: "0 \<le> Seconds d * rl_rate l" "Seconds d * rl_rate l \<le> T * rl_rate l * (1 + 1 / 2 ^ 51) + rl_rate l / 2 ^ 98"
    using S ok(3) mult_right_mono [OF S(2) ok(3)] by (simp_all add: algebra_simps)
  have P: "P \<le> Seconds d * rl_rate l + Seconds d * rl_rate l / 2 ^ 53 + 1 / 2 ^ 100"
    unfolding P_def d_def [symmetric] using SR(1) by (rule fl_le)
  show P0: "0 \<le> P"
    unfolding P_def d_def [symmetric] using SR(1) by (rule fl_nonneg)
  have R: "fl (rl_tokens l + P) \<le> (rl_tokens l + P) + (rl_tokens l + P) / 2 ^ 53 + 1 / 2 ^ 100"
    using ok P0 by (intro fl_le) simp
  have "0 \<le> T * rl_rate l" "gain l (rl_last l) now = T * rl_rate l * (1 + 1 / 2 ^ 50)"
    using ok(3) assms(2) by (simp_all add: T_def gain_def)
  with R P SR ok show "fl (rl_tokens l + P) \<le> rl_tokens l + gain l (rl_last l) now + 1 / 2 ^ 22"
    by (simp add: field_simps)
qed

lemma Allow_True:
  assumes "Allow l now amount = (l', True)" and "limiter_ok l" and "rl_last l \<le> now" and "1 \<le> amount"
  shows "of_int amount + rl_tokens l' \<le> rl_tokens l + gain l (rl_last l) now + 1 / 2 ^ 20"
    and "of_int amount + rl_tokens l' \<le> rl_burst l + 1 / 2 ^ 20"
    and "limiter_ok l'" and "rl_last l' = now" and "rl_rate l' = rl_rate l" and "rl_burst l' = rl_burst l"
proof -
  define R where "R = fl (rl_tokens l + fl (Seconds (time_sub now (rl_last l)) * rl_rate l))"
  define tk where "tk = (if R > rl_burst l then rl_burst l else R)"
  have run: "l' = l\<lparr>rl_tokens := fl (tk - float64 amount), rl_last := now\<rparr>" "float64 amount \<le> tk"
    using assms(1,4) by (auto simp: Allow_def Let_def R_def tk_def split: if_splits)
  have ok: "rl_burst l \<le> 2 ^ 24" "0 \<le> rl_tokens l"
    using assms(2) by (auto simp: limiter_ok_def)
  have tk: "tk \<le> R" "tk \<le> rl_burst l"
    by (simp_all add: tk_def)
  have "amount < 2 ^ 53"
  proof (rule ccontr)
    assume "\<not> amount < 2 ^ 53"
    then have "(2 :: rat) ^ 53 \<le> of_int amount"
      by (metis linorder_not_less numeral_power_le_of_int_cancel_iff)
    then have "2 ^ 52 \<le> float64 amount"
      using fl_near [of "of_int amount"] by (simp add: float64_def abs_le_iff)
    with run(2) tk(2) ok(1) show False
      by simp
  qed
  then have exact: "float64 amount = of_int amount"
    using assms(4) by (intro float64_exact) simp
  have amount: "1 \<le> (of_int amount :: rat)"
    using assms(4) by simp
  have left: "0 \<le> tk - of_int amount" "tk - of_int amount \<le> 2 ^ 24"
    using run(2) tk(2) ok(1) exact amount by simp_all
  have T': "0 \<le> rl_tokens l'" "rl_tokens l' \<le> (tk - of_int amount) + (tk - of_int amount) / 2 ^ 53 + 1 / 2 ^ 100"
    using fl_nonneg [OF left(1)] fl_le [OF left(1)] run(1) exact by simp_all
  have "(tk - of_int amount) / 2 ^ 53 + 1 / 2 ^ 100 \<le> (1 :: rat) / 2 ^ 21"
    using left(2) by (simp add: field_simps)
  with T'(2) have near: "of_int amount + rl_tokens l' \<le> tk + 1 / 2 ^ 21"
    by linarith
  have "(1 :: rat) / 2 ^ 21 + 1 / 2 ^ 22 \<le> 1 / 2 ^ 20" "(1 :: rat) / 2 ^ 21 \<le> 1 / 2 ^ 20" "(1 :: rat) / 2 ^ 21 \<le> 1"
    by simp_all
  with near tk refill_bound(2) [OF assms(2,3), folded R_def] amount
  have up: "of_int amount + rl_tokens l' \<le> rl_tokens l + gain l (rl_last l) now + 1 / 2 ^ 20"
    "of_int amount + rl_tokens l' \<le> rl_burst l + 1 / 2 ^ 20" "rl_tokens l' \<le> rl_burst l"
    by linarith+
  from up(1,2) show "of_int amount + rl_tokens l' \<le> rl_tokens l + gain l (rl_last l) now + 1 / 2 ^ 20"
    and "of_int amount + rl_tokens l' \<le> rl_burst l + 1 / 2 ^ 20"
    by this+
  from up(3) T'(1) assms(2) run(1) show "limiter_ok l'"
    by (simp add: limiter_ok_def)
  show "rl_last l' = now" "rl_rate l' = rl_rate l" "rl_burst l' = rl_burst l"
    using run(1) by simp_all
qed

text \<open>A bucket that holds the amount, and one to spare for rounding, gives it.\<close>

lemma Allow_enough:
  assumes "limiter_ok l" and "rl_last l \<le> now" and "0 \<le> amount" and "of_int amount + 1 \<le> rl_tokens l"
  obtains l' where "Allow l now amount = (l', True)" "rl_tokens l - of_int amount - 2 \<le> rl_tokens l'"
proof -
  define P where "P = fl (Seconds (time_sub now (rl_last l)) * rl_rate l)"
  define R where "R = fl (rl_tokens l + P)"
  define tk where "tk = (if R > rl_burst l then rl_burst l else R)"
  have ok: "rl_tokens l \<le> rl_burst l" "rl_burst l \<le> 2 ^ 24"
    using assms(1) by (simp_all add: limiter_ok_def)
  have a: "0 \<le> (of_int amount :: rat)"
    using assms(3) by simp
  have "(of_int amount :: rat) < of_int (2 ^ 53)"
    using assms(4) ok by simp
  then have exact: "float64 amount = of_int amount"
    using assms(3) by (intro float64_exact) (simp only: of_int_less_iff abs_of_nonneg)
  have P: "0 \<le> P"
    using refill_bound(1) [OF assms(1,2)] by (simp add: P_def)
  have "rl_tokens l + P - ((rl_tokens l + P) / 2 ^ 53 + 1 / 2 ^ 100) \<le> R"
    using fl_near [of "rl_tokens l + P"] P a assms(4) by (simp add: R_def abs_le_iff)
  then have "rl_tokens l - 1 \<le> R"
    using P ok a assms(4) by (simp add: field_simps)
  then have tk: "rl_tokens l - 1 \<le> tk" "tk \<le> 2 ^ 24"
    using ok by (auto simp: tk_def)
  have "(tk - of_int amount) - ((tk - of_int amount) / 2 ^ 53 + 1 / 2 ^ 100) \<le> fl (tk - of_int amount)"
    using fl_near [of "tk - of_int amount"] tk(1) assms(4) by (simp add: abs_le_iff)
  moreover have "(tk - of_int amount) / 2 ^ 53 + 1 / 2 ^ 100 \<le> 1"
    using tk(2) a by (simp add: field_simps)
  ultimately have left: "rl_tokens l - of_int amount - 2 \<le> fl (tk - of_int amount)"
    using tk(1) by linarith
  have run: "Allow l now amount = (l\<lparr>rl_tokens := fl (tk - of_int amount), rl_last := now\<rparr>, True)"
    using assms(3,4) tk(1) by (simp add: Allow_def Let_def exact flip: P_def R_def tk_def)
  show ?thesis
    by (rule that [OF run]) (simp add: left [simplified])
qed

definition pty_request_ok :: "webSSHManager \<Rightarrow> pty_request \<Rightarrow> bool" where
  "pty_request_ok m r \<longleftrightarrow>
    (case r of WriteInput data \<Rightarrow> int (length data) \<le> wm_maxInputMessageBytes m | Resize sz \<Rightarrow> validTerminalSize sz)"

lemma client_frame_Inr:
  assumes "client_frame dc m l now fr = (l', Inr r)"
  obtains amount where "512 \<le> amount" "Allow l now amount = (l', True)" "pty_request_ok m r"
proof -
  from assms obtain body where fr: "read_message (connector_read_limit m) fr = TextFrame body"
    by (cases "read_message (connector_read_limit m) fr") (auto simp: client_frame_def)
  let ?a = "if int (length body) < 512 then 512 else int (length body)"
  from assms fr have "Allow l now ?a = (l', True)" "pty_request_ok m r"
    by (auto simp: client_frame_def result_simps pty_request_ok_def split: prod.splits bool.splits if_splits)
  then show ?thesis
    using that [of ?a] by simp
qed

lemma readClient_bound:
  assumes "sorted (rl_last l # map fst frs)" and "\<forall>fr \<in> set frs. fst fr \<le> t" and "rl_last l \<le> t" and "limiter_ok l"
    and "readClient dc m accepts l frs = (rs, e)"
  shows "(512 - 1 / 2 ^ 20) * of_nat (length rs) \<le> rl_tokens l + gain l (rl_last l) t \<and> list_all (pty_request_ok m) rs"
  using assms
proof (induction dc m accepts l frs arbitrary: rs e rule: readClient.induct)
  case (1 dc m accepts l)
  then show ?case
    using gain_nonneg [of l "rl_last l" t] by (simp add: limiter_ok_def)
next
  case (2 dc m accepts l now fr frs)
  have now: "rl_last l \<le> now" "now \<le> t"
    using "2.prems" by auto
  note split = gain_add [of l "rl_last l" now t] and pos = gain_nonneg [OF "2.prems"(4) now(2)] gain_nonneg [OF "2.prems"(4,3)]
  show ?case
  proof (cases "client_frame dc m l now fr")
    case (Pair l' res)
    show ?thesis
    proof (cases res)
      case (Inl ev)
      with Pair "2.prems" pos show ?thesis
        by (auto simp: limiter_ok_def)
    next
      case (Inr r)
      obtain amount where a: "512 \<le> amount" "Allow l now amount = (l', True)" "pty_request_ok m r"
        using Pair Inr by (auto elim: client_frame_Inr)
      have one: "1 \<le> amount"
        using a(1) by simp
      note b = Allow_True [OF a(2) "2.prems"(4) now(1) one]
      have c: "512 \<le> (of_int amount :: rat)"
        using a(1) by simp
      have step: "512 - 1 / 2 ^ 20 + rl_tokens l' + gain l now t \<le> rl_tokens l + gain l (rl_last l) t"
        using b(1) c split by linarith
      show ?thesis
      proof (cases "accepts r")
        case False
        with Pair Inr "2.prems"(5) have "rs = [r]"
          by auto
        then show ?thesis
          using step pos(1) a(3) b(3) by (simp add: limiter_ok_def)
      next
        case True
        obtain rs' e' where rest: "readClient dc m accepts l' frs = (rs', e')"
          by (rule prod.exhaust)
        with Pair Inr True "2.prems" have rs: "rs = r # rs'"
          by auto
        have sorted: "sorted (rl_last l' # map fst frs)"
          using "2.prems"(1) b(4) by simp
        have same: "gain l' = gain l"
          by (simp add: gain_def b(5) fun_eq_iff)
        have more: "(512 - 1 / 2 ^ 20) * of_nat (length rs') \<le> rl_tokens l' + gain l now t \<and> list_all (pty_request_ok m) rs'"
          using "2.IH" [OF Pair [symmetric] Inr True sorted _ _ b(3) rest] "2.prems" now b(4) same by auto
        then have "(512 - 1 / 2 ^ 20) + (512 - 1 / 2 ^ 20) * of_nat (length rs') \<le> rl_tokens l + gain l (rl_last l) t"
          using step by linarith
        with rs a(3) more show ?thesis
          by (simp add: distrib_left)
      qed
    qed
  qed
qed

text \<open>In a period, whatever the state of the bucket at its beginning.\<close>

lemma readClient_window:
  assumes "sorted (map fst frs)" and "\<forall>fr \<in> set frs. t1 \<le> fst fr \<and> fst fr \<le> t2" and "t1 \<le> t2" and "rl_last l \<le> t1" and "limiter_ok l"
    and "readClient dc m accepts l frs = (rs, e)"
  shows "(512 - 1 / 2 ^ 20) * of_nat (length rs) \<le> rl_burst l + gain l t1 t2 \<and> list_all (pty_request_ok m) rs"
proof (cases "rs = []")
  case True
  then show ?thesis
    using assms(5) gain_nonneg [OF assms(5,3)] by (simp add: limiter_ok_def)
next
  case False
  with assms(6) obtain now fr frs' where frs: "frs = (now, fr) # frs'"
    by (cases frs) auto
  then have now: "rl_last l \<le> now" "t1 \<le> now" "now \<le> t2"
    using assms(2,4) by auto
  obtain l' r where f: "client_frame dc m l now fr = (l', Inr r)"
    using False assms(6) by (cases "client_frame dc m l now fr"; cases "snd (client_frame dc m l now fr)") (auto simp: frs)
  then obtain amount where a: "512 \<le> amount" "Allow l now amount = (l', True)" "pty_request_ok m r"
    by (rule client_frame_Inr)
  have one: "1 \<le> amount" and c: "512 \<le> (of_int amount :: rat)"
    using a(1) by simp_all
  note b = Allow_True [OF a(2) assms(5) now(1) one]
  have same: "gain l' = gain l"
    by (simp add: gain_def b(5) fun_eq_iff)
  obtain rs' where rs': "rs = r # rs'" "rs' = [] \<or> (\<exists>e'. readClient dc m accepts l' frs' = (rs', e'))"
    using assms(6) f frs by (auto split: if_splits prod.splits)
  have later: "sorted (rl_last l' # map fst frs')" "\<forall>fr \<in> set frs'. fst fr \<le> t2" "rl_last l' \<le> t2"
    using assms(1,2) frs now b(4) by auto
  have "(512 - 1 / 2 ^ 20) * of_nat (length rs') \<le> rl_tokens l' + gain l now t2 \<and> list_all (pty_request_ok m) rs'"
    using rs'(2) readClient_bound [OF later b(3)] gain_nonneg [OF assms(5) now(3)] b(3,4) same by (auto simp: limiter_ok_def)
  moreover have "gain l now t2 \<le> gain l t1 t2"
    using gain_add [of l t1 now t2] gain_nonneg [OF assms(5) now(2)] by linarith
  ultimately have "(512 - 1 / 2 ^ 20) + (512 - 1 / 2 ^ 20) * of_nat (length rs') \<le> rl_burst l + gain l t1 t2" "list_all (pty_request_ok m) rs'"
    using b(2) c by linarith+
  then show ?thesis
    using rs'(1) a(3) by (simp add: distrib_left)
qed

text \<open>After some messages the reader has ended, or it goes on with a bucket within the limits.\<close>

lemma readClient_append:
  assumes "sorted (rl_last l # map fst before)" and "\<forall>fr \<in> set before. fst fr \<le> t" and "rl_last l \<le> t" and "limiter_ok l"
    and "readClient dc m accepts l before = (rs1, e1)"
  shows "readClient dc m accepts l (before @ during) = (rs1, e1) \<or>
    (\<exists>l'. (\<exists>rs2 e2. readClient dc m accepts l' during = (rs2, e2) \<and> readClient dc m accepts l (before @ during) = (rs1 @ rs2, e2)) \<and>
      limiter_ok l' \<and> rl_last l' \<le> t \<and> rl_rate l' = rl_rate l \<and> rl_burst l' = rl_burst l)"
  using assms
proof (induction dc m accepts l before arbitrary: rs1 e1 rule: readClient.induct)
  case (1 dc m accepts l)
  obtain rs2 e2 where "readClient dc m accepts l during = (rs2, e2)"
    by (rule prod.exhaust)
  with 1 show ?case
    by auto
next
  case (2 dc m accepts l now fr frs)
  show ?case
  proof (cases "client_frame dc m l now fr")
    case (Pair l' res)
    show ?thesis
    proof (cases res)
      case (Inr r)
      obtain amount where a: "512 \<le> amount" "Allow l now amount = (l', True)"
        using Pair Inr by (auto elim: client_frame_Inr)
      have now: "rl_last l \<le> now" "1 \<le> amount"
        using "2.prems"(1) a(1) by auto
      note b = Allow_True [OF a(2) "2.prems"(4) now]
      show ?thesis
      proof (cases "accepts r")
        case True
        obtain rs' where rest: "readClient dc m accepts l' frs = (rs', e1)" "rs1 = r # rs'"
          using "2.prems"(5) Pair Inr True by (auto split: prod.splits)
        have later: "sorted (rl_last l' # map fst frs)" "\<forall>fr \<in> set frs. fst fr \<le> t" "rl_last l' \<le> t"
          using "2.prems"(1,2) b(4) by auto
        from "2.IH" [OF Pair [symmetric] Inr True later b(3) rest(1)] show ?thesis
          using Pair Inr True rest(2) b(5,6) by auto
      qed (use Pair Inr "2.prems" in auto)
    qed (use Pair "2.prems" in auto)
  qed
qed

subsection \<open>Terminal input\<close>

text \<open>If the terminal takes what it says it took, a successful \<^verbatim>\<open>writeAll\<close> has passed on the whole message.\<close>

lemma writeAll_delivers:
  assumes "\<And>w v w' n. wr w v = (w', n, False) \<Longrightarrow> 0 < n \<Longrightarrow> n \<le> int (length v) \<Longrightarrow> got w' = got w @ take (nat n) v"
    and "writeAll wr w data = (w', True)"
  shows "got w' = got w @ data"
  using assms
proof (induction wr w data rule: writeAll.induct)
  case (1 wr w data)
  show ?case
  proof (cases "data = []")
    case True
    with "1.prems"(2) show ?thesis
      by (simp add: writeAll.simps)
  next
    case False
    with "1.prems"(2) obtain u n where step: "wr w data = (u, n, False)" "0 < n" "n \<le> int (length data)"
        "writeAll wr u (drop (nat n) data) = (w', True)"
      by (subst (asm) writeAll.simps) (auto split: prod.splits if_splits)
    have "got w' = got u @ drop (nat n) data"
      by (rule "1.IH" [OF False step(1) [symmetric] refl]) (use step "1.prems"(1) in auto)
    with "1.prems"(1) [OF step(1-3)] show ?thesis
      by simp
  qed
qed

section \<open>Evaluation fixtures\<close>

definition demo_size :: terminalSize where
  "demo_size = \<lparr>ts_Columns = 80, ts_Rows = 24, ts_WidthPixels = 0, ts_HeightPixels = 0\<rparr>"

definition demo_webssh_binding :: webSSHBinding where
  "demo_webssh_binding = \<lparr>wb_PrincipalID = ''alice'', wb_HostID = ''host_1'', wb_CredentialID = ''cred_1'', wb_Action = ActionWebSSH\<rparr>"

definition demo_ticket_request :: webSSHTicketRequest where
  "demo_ticket_request = \<lparr>wq_ProtocolVersion = ProtocolVersion, wq_Binding = demo_webssh_binding,
    wq_Target = \<lparr>t_Address = ''8.8.8.8'', t_Port = 22, t_User = ''ops''\<rparr>, wq_PinnedHostKey = ''key'',
    wq_Credential = \<lparr>cred_PrivateKeyPEM = ''pem'', cred_Passphrase = []\<rparr>, wq_InitialSize = demo_size\<rparr>"

definition demo_webssh_options :: webSSHOptions where
  "demo_webssh_options = \<lparr>wo_AllowedOrigins = [''https://x''], wo_TicketTTL = 0, wo_HandshakeTimeout = 0, wo_IdleTimeout = 0,
    wo_AbsoluteTimeout = 0, wo_MaxConcurrent = 0, wo_MaxOutstandingTickets = 0, wo_MaxInputMessageBytes = 0,
    wo_MaxOutputMessageBytes = 0, wo_InputBytesPerSecond = 0, wo_OutputBytesPerSecond = 0, wo_AllowPrivateTargets = False,
    wo_ConnectTimeout = 0\<rparr>"

definition demo_parse_url :: "string \<Rightarrow> parsed_url option" where
  "demo_parse_url v = Some \<lparr>u_Scheme = ''https'', u_Host = drop 8 v, u_HasUser = False, u_Path = [], u_RawQuery = [], u_Fragment = []\<rparr>"

definition demo_webssh :: webSSHManager where
  "demo_webssh = disabled_manager\<lparr>wm_enabled := True, wm_origins := [(''https://x'', ())], wm_ticketTTL := 30 * second,
    wm_handshakeTimeout := 5 * second, wm_idleTimeout := 10 * minute, wm_absoluteTimeout := hour, wm_maxTickets := 128, wm_maxConsumed := 512,
    wm_maxInputMessageBytes := 16384, wm_maxOutputMessageBytes := 16384, wm_inputBytesPerSecond := 65536,
    wm_outputBytesPerSecond := 262144, wm_connectTimeout := 10 * second, wm_concurrency := 4, wm_connections := 8\<rparr>"

definition demo_input_decoders :: decoders where
  "demo_input_decoders = \<lparr>dc_type = (\<lambda>_. Some ''input''), dc_input = Some, dc_resize = (\<lambda>_. None)\<rparr>"

lemma demo_webssh_new: "newWebSSHManager demo_parse_url demo_webssh_options = Inr demo_webssh"
proof -
  have "normalizeOrigin demo_parse_url ''https://x'' = Some ''https://x''"
    by (simp add: normalizeOrigin_def demo_parse_url_def trim_eval contains_any_def contains_single lower_char_def is_upper_def)
  then show ?thesis
    by (simp add: newWebSSHManager_def demo_webssh_options_def normalizeOrigins_def with_limit_def demo_webssh_def
      disabled_manager_def put_def minute_def hour_def second_def)
qed

lemma new_manager_wf:
  assumes "newWebSSHManager parse o' = Inr m"
  shows "wf_webssh m \<and> wm_tickets m = [] \<and> (wm_enabled m \<longrightarrow> 0 < wm_ticketTTL m \<and> wm_ticketTTL m \<le> minute \<and>
    0 < wm_inputBytesPerSecond m \<and> wm_inputBytesPerSecond m \<le> 4 * 1024 * 1024)"
proof (cases "wo_AllowedOrigins o' = []")
  case True
  with assms have "m = disabled_manager"
    by (simp add: newWebSSHManager_def)
  then show ?thesis
    by (simp add: wf_webssh_def disabled_manager_def)
next
  case False
  from assms have "0 < wm_ticketTTL m \<and> wm_ticketTTL m \<le> minute \<and> 0 < wm_maxTickets m \<and> wm_maxConsumed m = wm_maxTickets m * 4 \<and>
      0 < wm_inputBytesPerSecond m \<and> wm_inputBytesPerSecond m \<le> 4 * 1024 * 1024 \<and> wm_tickets m = [] \<and> wm_consumed m = []"
    unfolding newWebSSHManager_def if_not_P [OF False] some_or_Inr with_limit_Inr
    by (elim exE conjE) (clarsimp simp: second_def minute_def)
  then show ?thesis
    by (simp add: wf_webssh_def)
qed

lemma webssh_step_ttl: "wm_ticketTTL (webssh_step op m) = wm_ticketTTL m"
proof (cases op)
  case (Op_Consume now hello)
  then show ?thesis
    by (cases rule: consumeTicket_cases [where m = m and now = now and hello = hello]) auto
qed (auto simp: createTicket_def Close_def Let_def split: option.splits)

lemma webssh_run_ttl: "wm_ticketTTL (fold webssh_step ops m) = wm_ticketTTL m"
  by (induction ops arbitrary: m) (auto simp: webssh_step_ttl)

section \<open>Properties\<close>

text \<open>
  C8. A ticket of the connector opens one session at most, and only the one it was issued for: when the
  redemption of a hello message succeeds after any sequence of operations on a new manager, a ticket
  for the same session and binding was issued before, less than the ticket lifetime of at most a minute
  ago; and whatever the outcome, the ticket is gone and recorded as consumed.
\<close>

theorem connector_ticket_bound:
  assumes "newWebSSHManager parse o' = Inr m0" and "wm_enabled m0" and "m = fold webssh_step ops m0"
    and "consumeTicket m now hello = (m', Inr t)"
  shows "(\<exists>before issued tb sb q i after h. ops = before @ Op_Create issued (Some tb) (Some sb) q i # after \<and>
      hello_hash hello = Some h \<and> h = sha256 tb \<and> wq_Binding q = hm_Binding hello \<and> hm_SessionID hello = b64_encode sb \<and>
      wt_target t = wq_Target q \<and> wt_credential t = wq_Credential q \<and> wt_pinnedHostKey t = wq_PinnedHostKey q \<and>
      now < issued + wm_ticketTTL m0 \<and> wm_ticketTTL m0 \<le> minute)
    \<and> count_along webssh_step (\<lambda>op m. webssh_redeems op m = hello_hash hello) ops m0
      < count_along webssh_step (\<lambda>op m. \<exists>e. webssh_issues op m = Some (the (hello_hash hello), e)) ops m0
    \<and> (\<forall>now2 < now + wm_ticketTTL m0. consumeTicket m' now2 hello = (pruneLocked m' now2, Inl ''ticket_replayed''))"
proof -
  note wf0 = new_manager_wf [OF assms(1)]
  then have wf: "wf_webssh m"
    using webssh.inv_run assms(3) by simp
  from assms(4) obtain h where h: "hello_hash hello = Some h" "map_of (wm_tickets (pruneLocked m now)) h = Some t"
      "m' = (pruneLocked m now)\<lparr>wm_tickets := del (wm_tickets (pruneLocked m now)) h,
        wm_consumed := put (wm_consumed (pruneLocked m now)) h (now + wm_ticketTTL m)\<rparr>"
      "now < wt_expiresAt t" "wt_sessionID t = hm_SessionID hello" "sameBinding (wt_binding t) (hm_Binding hello)"
    by (cases rule: consumeTicket_cases [where m = m and now = now and hello = hello]) auto
  have held: "map_of (wm_tickets (fold webssh_step ops m0)) h = Some t"
    using h(2) wf assms(3) by (simp add: prune_tickets wf_webssh_def)
  from webssh.held_was_issued [OF conjunct1 [OF wf0] held] wf0 obtain before op after
    where ops: "ops = before @ op # after" "webssh_issues op (fold webssh_step before m0) = Some (h, t)"
    by auto
  let ?m = "fold webssh_step before m0"
  from ops(2) obtain issued tr sr q i x where op: "op = Op_Create issued tr sr q i" "createTicket ?m issued tr sr q i = x"
      "\<exists>r. snd x = Inr r" "h = sha256 (the tr)" "t = new_webssh_ticket ?m issued (the sr) q"
    by (cases op) (auto split: sum.splits)
  then obtain tb sb where rand: "tr = Some tb" "sr = Some sb"
    by (metis createTicket_Inr prod.collapse)
  have binding: "wq_Binding q = hm_Binding hello"
    using h(6) op(5) by (auto simp: sameBinding_def sameString_def new_webssh_ticket_def intro!: webSSHBinding.equality)
  have "\<exists>before issued tb sb q i after h. ops = before @ Op_Create issued (Some tb) (Some sb) q i # after \<and>
      hello_hash hello = Some h \<and> h = sha256 tb \<and> wq_Binding q = hm_Binding hello \<and> hm_SessionID hello = b64_encode sb \<and>
      wt_target t = wq_Target q \<and> wt_credential t = wq_Credential q \<and> wt_pinnedHostKey t = wq_PinnedHostKey q \<and>
      now < issued + wm_ticketTTL m0 \<and> wm_ticketTTL m0 \<le> minute"
    by (intro exI [of _ before] exI [of _ issued] exI [of _ tb] exI [of _ sb] exI [of _ q] exI [of _ i] exI [of _ after] exI [of _ h])
      (use ops op rand h binding wf0 assms(2) in \<open>simp add: new_webssh_ticket_def webssh_run_ttl\<close>)
  moreover have "count_along webssh_step (\<lambda>op m. webssh_redeems op m = Some h) ops m0
      < count_along webssh_step (\<lambda>op m. \<exists>e. webssh_issues op m = Some (h, e)) ops m0"
    using webssh.redeemed_less_issued [OF conjunct1 [OF wf0], of ops h] held wf0 by simp
  moreover have "consumeTicket m' now2 hello = (pruneLocked m' now2, Inl ''ticket_replayed'')" if "now2 < now + wm_ticketTTL m0" for now2
  proof -
    have "wm_ticketTTL m = wm_ticketTTL m0"
      using assms(3) by (simp add: webssh_run_ttl)
    moreover have "map_of (wm_tickets (pruneLocked m' now2)) h = None" 
      using h(3) wf wf_prune [OF wf, of now] by (auto simp: pruneLocked_def map_of_keep wf_webssh_def)
    moreover have "has_key (wm_consumed (pruneLocked m' now2)) h" if "now2 < now + wm_ticketTTL m"
      using that h(3) wf_prune [OF wf, of now] by (auto simp: pruneLocked_def map_of_keep_Some has_key_def wf_webssh_def)
    ultimately show ?thesis
      using that h(1) by (simp add: consumeTicket_def Let_def)
  qed
  ultimately show ?thesis
    using h(1) by simp
qed

theorem connector_ticket_bound_witness:
  "\<exists>m m' t. m = fold webssh_step [Op_Create 0 (Some (replicate 32 CHR ''a'')) (Some (replicate 16 CHR ''b'')) demo_ticket_request ''r''] demo_webssh \<and>
    consumeTicket m 5 \<lparr>hm_Type = ''hello'', hm_Ticket = b64_encode (replicate 32 CHR ''a''), hm_SessionID = b64_encode (replicate 16 CHR ''b''),
      hm_Binding = demo_webssh_binding\<rparr> = (m', Inr t) \<and>
    consumeTicket m' 6 \<lparr>hm_Type = ''hello'', hm_Ticket = b64_encode (replicate 32 CHR ''a''), hm_SessionID = b64_encode (replicate 16 CHR ''b''),
      hm_Binding = demo_webssh_binding\<rparr> = (pruneLocked m' 6, Inl ''ticket_replayed'')"
proof -
  let ?op = "Op_Create 0 (Some (replicate 32 CHR ''a'')) (Some (replicate 16 CHR ''b'')) demo_ticket_request ''r''"
  let ?hello = "\<lparr>hm_Type = ''hello'', hm_Ticket = b64_encode (replicate 32 CHR ''a''), hm_SessionID = b64_encode (replicate 16 CHR ''b''),
    hm_Binding = demo_webssh_binding\<rparr>"
  define h where "h = sha256 (replicate 32 CHR ''a'')"
  have hash: "hello_hash ?hello = Some h"
    by (simp add: hello_hash_def h_def b64_decode_encode)
  obtain m' t where run: "consumeTicket (fold webssh_step [?op] demo_webssh) 5 ?hello = (m', Inr t)"
    by (simp add: consumeTicket_def hash createTicket_def Let_def pruneLocked_def demo_webssh_def disabled_manager_def keep_def put_def
      has_key_def new_webssh_ticket_def sameString_def sameBinding_def demo_ticket_request_def WebSSHMessageHello_def second_def
      flip: h_def)
  from connector_ticket_bound [OF demo_webssh_new _ refl run] have "consumeTicket m' 6 ?hello = (pruneLocked m' 6, Inl ''ticket_replayed'')"
    by (simp add: demo_webssh_def second_def)
  with run show ?thesis
    by blast
qed

text \<open>
  C33. What a client can make the connector do is bounded by the input rate, over every period of a session and
  not only from its beginning: the messages passed on to the terminal among those that arrive in the period
  are, at 512 bytes each, at most the burst of two seconds' worth and what the rate allows for the period,
  up to the rounding of the floating-point bucket, which is less than a millionth of a byte for each message
  and less than one part in a thousand million million of the allowance. Every input is within the message limit and
  every size within its range.
\<close>

theorem client_input_bounded:
  assumes "newWebSSHManager parse o' = Inr m" and "wm_enabled m" and "sorted (t0 # map fst (before @ during))" and "t0 \<le> t1" and "t1 \<le> t2"
    and "\<forall>fr \<in> set before. fst fr \<le> t1" and "\<forall>fr \<in> set during. t1 \<le> fst fr \<and> fst fr \<le> t2"
    and "l0 = newByteRateLimiter (wm_inputBytesPerSecond m) (2 * wm_inputBytesPerSecond m) t0"
    and "readClient dc m accepts l0 before = (rs1, e1)" and "readClient dc m accepts l0 (before @ during) = (rs, e)"
  shows "(512 - 1 / 2 ^ 20) * (of_nat (length rs) - of_nat (length rs1))
      \<le> 2 * of_int (wm_inputBytesPerSecond m) + of_int (t2 - t1) / 1000000000 * (of_int (wm_inputBytesPerSecond m) :: rat) * (1 + 1 / 2 ^ 50)
    \<and> list_all (pty_request_ok m) rs"
proof -
  let ?r = "wm_inputBytesPerSecond m"
  have r: "0 < ?r" "?r \<le> 4 * 1024 * 1024"
    using new_manager_wf [OF assms(1)] assms(2) by simp_all
  then have l0: "rl_rate l0 = of_int ?r" "rl_burst l0 = of_int (2 * ?r)" "rl_tokens l0 = of_int (2 * ?r)" "rl_last l0 = t0"
    by (simp_all add: assms(8) newByteRateLimiter_def float64_exact)
  have "(of_int ?r :: rat) \<le> of_int (4 * 1024 * 1024)"
    using r(2) by (simp only: of_int_le_iff)
  then have ok: "limiter_ok l0" and pos: "0 \<le> (of_int ?r :: rat)" "0 \<le> (of_int (t2 - t1) :: rat)"
    using r(1) assms(5) l0 by (simp_all add: limiter_ok_def)
  have early: "sorted (rl_last l0 # map fst before)" "rl_last l0 \<le> t1" and late: "sorted (map fst during)"
    using assms(3,4) l0 by (auto simp: sorted_append)
  have first: "list_all (pty_request_ok m) rs1"
    using readClient_bound [OF early(1) assms(6) early(2) ok assms(9)] by blast
  from readClient_append [OF early(1) assms(6) early(2) ok assms(9), of during] show ?thesis
  proof (elim disjE exE conjE)
    assume "readClient dc m accepts l0 (before @ during) = (rs1, e1)"
    then show ?thesis
      using assms(10) first pos by simp
  next
    fix l' rs2 e2
    assume l': "readClient dc m accepts l' during = (rs2, e2)" "readClient dc m accepts l0 (before @ during) = (rs1 @ rs2, e2)"
      "limiter_ok l'" "rl_last l' \<le> t1" "rl_rate l' = rl_rate l0" "rl_burst l' = rl_burst l0"
    then have "rs = rs1 @ rs2" "rl_rate l' = of_int ?r" "rl_burst l' = 2 * of_int ?r"
      using assms(10) l0 by simp_all
    with readClient_window [OF late assms(7,5) l'(4,3,1)] first show ?thesis
      by (simp add: gain_def)
  qed
qed

lemma demo_input_accepted:
  assumes "limiter_ok l" and "rl_last l \<le> now" and "513 \<le> rl_tokens l" and "length body < 512"
  obtains l' where "client_frame demo_input_decoders demo_webssh l now (TextFrame body) = (l', Inr (WriteInput body))"
    "limiter_ok l'" "rl_last l' = now" "rl_tokens l - 514 \<le> rl_tokens l'"
proof -
  obtain l' where l': "Allow l now 512 = (l', True)" "rl_tokens l - 514 \<le> rl_tokens l'"
    using Allow_enough [OF assms(1,2), of 512] assms(3) by auto
  moreover have "int (length body) < 512"
    using assms(4) by simp
  ultimately show ?thesis
    using Allow_True(3,4) [OF l'(1) assms(1,2)]
    by (intro that [of l']) (simp_all add: client_frame_def demo_webssh_def demo_input_decoders_def read_message_def connector_read_limit_def WebSSHMessageInput_def result_simps)
qed

theorem client_input_bounded_witness:
  "\<exists>rs. readClient demo_input_decoders demo_webssh (\<lambda>_. True)
      (newByteRateLimiter 65536 (2 * 65536) 0) [(7, TextFrame ''ls''), (9, TextFrame ''pwd'')] = (rs, None)
    \<and> length rs = 2 \<and> (512 - 1 / 2 ^ 20) * (of_nat (length rs) - 1) \<le> 2 * (65536 :: rat) + 2 / 1000000000 * 65536 * (1 + 1 / 2 ^ 50)"
proof -
  let ?l = "newByteRateLimiter 65536 (2 * 65536) 0"
  have l: "limiter_ok ?l" "rl_last ?l \<le> 7" "513 \<le> rl_tokens ?l" "100000 \<le> rl_tokens ?l"
    by (simp_all add: newByteRateLimiter_def limiter_ok_def float64_exact)
  obtain l' where l': "client_frame demo_input_decoders demo_webssh ?l 7 (TextFrame ''ls'') = (l', Inr (WriteInput ''ls''))"
      "limiter_ok l'" "rl_last l' = 7" "rl_tokens ?l - 514 \<le> rl_tokens l'"
    using demo_input_accepted [OF l(1-3), of "''ls''"] by auto
  then have more: "rl_last l' \<le> 9" "513 \<le> rl_tokens l'"
    using l(4) by linarith+
  obtain l'' where l'': "client_frame demo_input_decoders demo_webssh l' 9 (TextFrame ''pwd'') = (l'', Inr (WriteInput ''pwd''))"
    using demo_input_accepted [OF l'(2) more, of "''pwd''"] by auto
  have run: "readClient demo_input_decoders demo_webssh (\<lambda>_. True) ?l [(7, TextFrame ''ls'')] = ([WriteInput ''ls''], None)"
    "readClient demo_input_decoders demo_webssh (\<lambda>_. True) ?l ([(7, TextFrame ''ls'')] @ [(9, TextFrame ''pwd'')]) = ([WriteInput ''ls'', WriteInput ''pwd''], None)"
    using l'(1) l'' by simp_all
  have rate: "wm_inputBytesPerSecond demo_webssh = 65536" "wm_enabled demo_webssh"
    by (simp_all add: demo_webssh_def)
  have "(512 - 1 / 2 ^ 20) * (of_nat (length [WriteInput ''ls'', WriteInput ''pwd'']) - of_nat (length [WriteInput ''ls'']))
      \<le> 2 * of_int 65536 + of_int (10 - 8) / 1000000000 * (of_int 65536 :: rat) * (1 + 1 / 2 ^ 50)"
    using client_input_bounded [OF demo_webssh_new rate(2), where before = "[(7, TextFrame ''ls'')]" and during = "[(9, TextFrame ''pwd'')]"
        and ?t0.0 = 0 and ?t1.0 = 8 and ?t2.0 = 10 and ?l0.0 = ?l, OF _ _ _ _ _ _ run] rate(1) by simp
  then show ?thesis
    using run(2) by simp
qed

end
