(* ===== verification/Connector_Server.thy ===== *)
theory Connector_Server
  imports Webssh_Connector
begin

text \<open>
  The connector's HTTP boundary (\<^verbatim>\<open>connector/service/server.go\<close>): authentication of requests, the limits on
  bodies and on concurrent work, and the handlers of snapshots, host-key probes and WebSSH tickets. A
  response is its status with an error code or a body; texts for people are left out.
\<close>

section \<open>Requests and replies\<close>

text \<open>
  A request as the handlers see it: \<^verbatim>\<open>req_MediaType\<close> is the media type \<^verbatim>\<open>mime.ParseMediaType\<close> reads from the
  content type, none if it cannot.
\<close>

record conn_request =
  cr_Http :: http_request
  cr_Path :: string
  cr_RawQuery :: string
  cr_MediaType :: "string option"
  cr_ContentLength :: int
  cr_Body :: string

datatype 'b reply = Failed int string bool | Replied int 'b

definition HealthPath :: string where "HealthPath = ''/healthz''"
definition VersionPath :: string where "VersionPath = ''/version''"
definition RuntimeSnapshotPath :: string where "RuntimeSnapshotPath = ''/v1/actions/runtime-snapshot''"
definition HostKeyProbePath :: string where "HostKeyProbePath = ''/v1/actions/host-key-probe''"
definition WebSSHTicketPath :: string where "WebSSHTicketPath = ''/v1/webssh/tickets''"
definition WebSSHConnectPath :: string where "WebSSHConnectPath = ''/v1/webssh/connect''"
definition ActionRuntimeSnapshot :: string where "ActionRuntimeSnapshot = ''runtime_snapshot_v1''"
definition ActionHostKeyProbe :: string where "ActionHostKeyProbe = ''host_key_probe_v1''"

section \<open>Server\<close>

record server_options =
  so_KeyID :: string
  so_HMACKey :: string
  so_ServiceVersion :: string
  so_AllowPrivateTargets :: bool
  so_MaxConcurrent :: int
  so_MaxRequestBodyBytes :: int
  so_MaxOutputBytes :: int
  so_ConnectTimeout :: duration
  so_CommandTimeout :: duration
  so_AuthenticationSkew :: duration
  so_MaxTrackedNonces :: int
  so_WebSSH :: webSSHOptions

record server =
  sv_verifier :: verifier
  sv_serviceVersion :: string
  sv_allowPrivateTargets :: bool
  sv_bodyLimit :: int
  sv_outputLimit :: int
  sv_connectTimeout :: duration
  sv_commandTimeout :: duration
  sv_concurrency :: int
  sv_inUse :: int
  sv_webSSH :: webSSHManager

datatype server_error =
  VerifierError key_error | ServerConcurrency | ServerBody | ServerOutput | ServerConnect | ServerCommand
| WebSSHConfig webssh_config_error

definition New :: "(string \<Rightarrow> parsed_url option) \<Rightarrow> server_options \<Rightarrow> server_error + server" where
  "New parse o' =
    (case NewVerifier (so_KeyID o') (so_HMACKey o') (so_AuthenticationSkew o') (so_MaxTrackedNonces o') of
      Inl e \<Rightarrow> Inl (VerifierError e)
    | Inr v \<Rightarrow>
        with_limit (so_MaxConcurrent o') 8 256 ServerConcurrency (\<lambda>concurrent.
        with_limit (so_MaxRequestBodyBytes o') (64 * 1024) (1024 * 1024) ServerBody (\<lambda>body.
        with_limit (so_MaxOutputBytes o') (1024 * 1024) (4 * 1024 * 1024) ServerOutput (\<lambda>output.
        with_limit (so_ConnectTimeout o') (10 * second) (30 * second) ServerConnect (\<lambda>connect.
        with_limit (so_CommandTimeout o') (30 * second) (5 * minute) ServerCommand (\<lambda>command.
        case newWebSSHManager parse (so_WebSSH o') of
          Inl e \<Rightarrow> Inl (WebSSHConfig e)
        | Inr webSSH \<Rightarrow>
            Inr \<lparr>sv_verifier = v,
              sv_serviceVersion = (if trim_space (so_ServiceVersion o') = [] then ''dev'' else so_ServiceVersion o'),
              sv_allowPrivateTargets = so_AllowPrivateTargets o', sv_bodyLimit = body, sv_outputLimit = output,
              sv_connectTimeout = connect, sv_commandTimeout = command, sv_concurrency = concurrent, sv_inUse = 0,
              sv_webSSH = webSSH\<rparr>))))))"

definition server_Close :: "server \<Rightarrow> server" where
  "server_Close s = s\<lparr>sv_webSSH := Close (sv_webSSH s)\<rparr>"

text \<open>\<^verbatim>\<open>authenticateJSON\<close>: the verifier changes, the body is given back or an error reply.\<close>

definition authenticate_body :: "verifier \<Rightarrow> int \<Rightarrow> time \<Rightarrow> conn_request \<Rightarrow> verifier \<times> ('b reply + string)" where
  "authenticate_body v bodyLimit now r =
    (if cr_MediaType r \<noteq> Some ''application/json'' then (v, Inl (Failed 415 ''invalid_content_type'' False))
     else if cr_ContentLength r > bodyLimit then (v, Inl (Failed 413 ''request_too_large'' False))
     else if int (length (cr_Body r)) > bodyLimit then (v, Inl (Failed 413 ''request_too_large'' False))
     else case Verify v now (Some (cr_Http r)) (cr_Body r) of
        (v', Some _) \<Rightarrow> (v', Inl (Failed 401 ''unauthorized'' False))
      | (v', None) \<Rightarrow> (v', Inr (cr_Body r)))"

definition authenticateJSON :: "server \<Rightarrow> time \<Rightarrow> conn_request \<Rightarrow> server \<times> ('b reply + string)" where
  "authenticateJSON s now r =
    (case authenticate_body (sv_verifier s) (sv_bodyLimit s) now r of (v, res) \<Rightarrow> (s\<lparr>sv_verifier := v\<rparr>, res))"

definition acquire :: "server \<Rightarrow> server option" where
  "acquire s = (if sv_inUse s < sv_concurrency s then Some (s\<lparr>sv_inUse := sv_inUse s + 1\<rparr>) else None)"

definition release :: "server \<Rightarrow> server" where
  "release s = s\<lparr>sv_inUse := sv_inUse s - 1\<rparr>"

definition writeExecutionError :: "ssh_error \<Rightarrow> 'b reply" where
  "writeExecutionError err =
    (if error_class err = Canceled then Failed 408 ''request_canceled'' True
     else if error_class err = DeadlineExceeded then Failed 504 ''execution_timeout'' True
     else if is_error err ErrTargetDenied then Failed 400 ''target_denied'' False
     else if is_error err ErrHostKeyRequired then Failed 400 ''host_key_required'' False
     else if is_error err ErrHostKeyMismatch then Failed 409 ''host_key_mismatch'' False
     else if error_class err = ErrOutputLimit then Failed 422 ''output_limit'' False
     else Failed 502 ''ssh_action_failed'' True)"

definition validateRuntimeRequest :: "runtimeSnapshotRequest \<Rightarrow> bool" where
  "validateRuntimeRequest q \<longleftrightarrow>
    \<not> (rs_ProtocolVersion q \<noteq> ProtocolVersion \<or> trim_space (t_Address (rs_Target q)) = [] \<or> length (t_Address (rs_Target q)) > 253 \<or>
       t_Port (rs_Target q) < 1 \<or> t_Port (rs_Target q) > 65535 \<or> trim_space (t_User (rs_Target q)) = [] \<or> length (t_User (rs_Target q)) > 64 \<or>
       \<not> ssh_material_sizes (rs_PinnedHostKey q) (rs_Credential q))"

section \<open>Handlers\<close>

record runtimeSnapshotResponse =
  rr_ProtocolVersion :: string
  rr_RequestID :: string
  rr_Action :: string
  rr_Result :: executionResult

definition snapshot_config :: "server \<Rightarrow> runtimeSnapshotRequest \<Rightarrow> 'k \<Rightarrow> 'a \<Rightarrow> ('k, 'a) ssh_config" where
  "snapshot_config s q pinned signer' =
    \<lparr>cfg_Address = t_Address (rs_Target q), cfg_Port = t_Port (rs_Target q), cfg_User = t_User (rs_Target q),
     cfg_Auth = Some signer', cfg_PinnedHostKey = Some pinned, cfg_ConnectTimeout = sv_connectTimeout s,
     cfg_CommandTimeout = sv_commandTimeout s, cfg_MaxOutputBytes = sv_outputLimit s, cfg_AllowPrivateTargets = sv_allowPrivateTargets s\<rparr>"

text \<open>The work of \<^verbatim>\<open>handleRuntimeSnapshot\<close> between taking and giving back a slot.\<close>

definition snapshot_work ::
    "('c, 'l, 'k, 'a) network \<Rightarrow> ('k, 'a) key_parsers \<Rightarrow> (string \<Rightarrow> runtimeSnapshotRequest option) \<Rightarrow> server \<Rightarrow> string \<Rightarrow> string
     \<Rightarrow> runtimeSnapshotResponse reply" where
  "snapshot_work nw ps decode s body requestID =
    (case decode body of None \<Rightarrow> Failed 400 ''invalid_json'' False | Some q \<Rightarrow>
     if \<not> validateRuntimeRequest q then Failed 400 ''invalid_request'' False else
     case ParsePinnedHostKey (kp_authorized ps) (rs_PinnedHostKey q) of Inl _ \<Rightarrow> Failed 400 ''invalid_host_key'' False | Inr pinned \<Rightarrow>
     case parse_signer ps (rs_Credential q) of None \<Rightarrow> Failed 400 ''invalid_credential'' False | Some signer' \<Rightarrow>
     case Run nw (snapshot_config s q pinned signer') RuntimeSnapshotCommand of
       (_, Some err) \<Rightarrow> writeExecutionError err
     | (result, None) \<Rightarrow>
         Replied 200 \<lparr>rr_ProtocolVersion = ProtocolVersion, rr_RequestID = requestID, rr_Action = ActionRuntimeSnapshot,
           rr_Result = \<lparr>xr_Stdout = r_Stdout result, xr_Stderr = r_Stderr result, xr_ExitCode = r_ExitCode result,
             xr_DurationMillis = DurationMillis (r_Duration result)\<rparr>\<rparr>)"

definition handleRuntimeSnapshot ::
    "('c, 'l, 'k, 'a) network \<Rightarrow> ('k, 'a) key_parsers \<Rightarrow> (string \<Rightarrow> runtimeSnapshotRequest option) \<Rightarrow> server \<Rightarrow> time \<Rightarrow> conn_request \<Rightarrow> string
     \<Rightarrow> server \<times> runtimeSnapshotResponse reply" where
  "handleRuntimeSnapshot nw ps decode s0 now r requestID =
    (case authenticateJSON s0 now r of (s, Inl e) \<Rightarrow> (s, e) | (s, Inr body) \<Rightarrow>
     case acquire s of None \<Rightarrow> (s, Failed 429 ''concurrency_limit'' True) | Some held \<Rightarrow>
     (release held, snapshot_work nw ps decode held body requestID))"

record hostKeyProbeRequest =
  hq_ProtocolVersion :: string
  hq_Address :: string
  hq_Port :: int

record hostKeyProbeResponse =
  hp_ProtocolVersion :: string
  hp_RequestID :: string
  hp_Action :: string
  hp_Observation :: hostKeyObservation

definition probe_work ::
    "(string \<Rightarrow> int \<Rightarrow> bool \<Rightarrow> ssh_error + hostKeyObservation) \<Rightarrow> (string \<Rightarrow> hostKeyProbeRequest option) \<Rightarrow> server \<Rightarrow> string \<Rightarrow> string
     \<Rightarrow> hostKeyProbeResponse reply" where
  "probe_work probe decode s body requestID =
    (case decode body of None \<Rightarrow> Failed 400 ''invalid_json'' False | Some q \<Rightarrow>
     if hq_ProtocolVersion q \<noteq> ProtocolVersion \<or> trim_space (hq_Address q) = [] \<or> length (hq_Address q) > 253 \<or> hq_Port q < 1 \<or> hq_Port q > 65535
     then Failed 400 ''invalid_request'' False else
     case probe (hq_Address q) (hq_Port q) (sv_allowPrivateTargets s) of
       Inl err \<Rightarrow> writeExecutionError err
     | Inr obs \<Rightarrow> Replied 200 \<lparr>hp_ProtocolVersion = ProtocolVersion, hp_RequestID = requestID, hp_Action = ActionHostKeyProbe, hp_Observation = obs\<rparr>)"

definition handleHostKeyProbe ::
    "(string \<Rightarrow> int \<Rightarrow> bool \<Rightarrow> ssh_error + hostKeyObservation) \<Rightarrow> (string \<Rightarrow> hostKeyProbeRequest option) \<Rightarrow> server \<Rightarrow> time \<Rightarrow> conn_request \<Rightarrow> string
     \<Rightarrow> server \<times> hostKeyProbeResponse reply" where
  "handleHostKeyProbe probe decode s0 now r requestID =
    (case authenticateJSON s0 now r of (s, Inl e) \<Rightarrow> (s, e) | (s, Inr body) \<Rightarrow>
     case acquire s of None \<Rightarrow> (s, Failed 429 ''concurrency_limit'' True) | Some held \<Rightarrow>
     (release held, probe_work probe decode held body requestID))"

definition handleWebSSHTicket ::
    "('k, 'a) key_parsers \<Rightarrow> (string \<Rightarrow> webSSHTicketRequest option) \<Rightarrow> server \<Rightarrow> time \<Rightarrow> string option \<Rightarrow> string option \<Rightarrow> conn_request \<Rightarrow> string
     \<Rightarrow> server \<times> webSSHTicketResponse reply" where
  "handleWebSSHTicket ps decode s0 now ticketRand sessionRand r requestID =
    (if \<not> wm_enabled (sv_webSSH s0) then (s0, Failed 503 ''webssh_disabled'' False) else
     case authenticateJSON s0 now r of (s, Inl e) \<Rightarrow> (s, e) | (s, Inr body) \<Rightarrow>
     case decode body of None \<Rightarrow> (s, Failed 400 ''invalid_json'' False) | Some q \<Rightarrow>
     if \<not> validateWebSSHTicketRequest ps q (wm_allowPrivateTargets (sv_webSSH s)) then (s, Failed 400 ''invalid_webssh_ticket'' False) else
     case createTicket (sv_webSSH s) now ticketRand sessionRand q requestID of
       (m, Inl _) \<Rightarrow> (s\<lparr>sv_webSSH := m\<rparr>, Failed 429 ''ticket_capacity'' True)
     | (m, Inr response) \<Rightarrow> (s\<lparr>sv_webSSH := m\<rparr>, Replied 201 response))"

text \<open>
  \<^verbatim>\<open>handleWebSSHConnect\<close> up to the hello message: a connection slot, then a connection that may serve,
  or an error. \<^term>\<open>subprotocol\<close> is the subprotocol the upgrade negotiated, none if the upgrade failed, and
  \<^term>\<open>deadlines\<close> whether the deadlines of the connection could be cleared.
\<close>

datatype connect_outcome = ConnectRefused "unit reply" | UpgradeFailed | ConnectError string bool | Serving

definition handleWebSSHConnect ::
    "(string \<Rightarrow> parsed_url option) \<Rightarrow> server \<Rightarrow> conn_request \<Rightarrow> string option \<Rightarrow> bool \<Rightarrow> server \<times> connect_outcome" where
  "handleWebSSHConnect parse s r subprotocol deadlines =
    (let m = sv_webSSH s in
     if \<not> wm_enabled m then (s, ConnectRefused (Failed 503 ''webssh_disabled'' False))
     else if \<not> originAllowed parse m (req_Header (cr_Http r)) then (s, ConnectRefused (Failed 403 ''origin_denied'' False))
     else if wm_open m \<ge> wm_connections m then (s, ConnectRefused (Failed 429 ''websocket_capacity'' True))
     else case subprotocol of None \<Rightarrow> (s, UpgradeFailed) | Some sub \<Rightarrow>
       if \<not> deadlines then (s, ConnectError ''transport_deadline_error'' True)
       else if sub \<noteq> WebSSHSubprotocol then (s, ConnectError ''subprotocol_required'' False)
       else if \<not> beginSession m then (s, ConnectError ''connector_shutdown'' True)
       else (s\<lparr>sv_webSSH := m\<lparr>wm_open := wm_open m + 1\<rparr>\<rparr>, Serving))"

text \<open>\<^verbatim>\<open>ServeHTTP\<close>: which handler a request reaches.\<close>

datatype route = RouteError "unit reply" | RouteHealth | RouteVersion | RouteSnapshot | RouteProbe | RouteTicket | RouteConnect

definition method_route :: "conn_request \<Rightarrow> string \<Rightarrow> route \<Rightarrow> route" where
  "method_route r method target' =
    (if req_Method (cr_Http r) \<noteq> method then RouteError (Failed 405 ''method_not_allowed'' False) else target')"

definition ServeHTTP :: "conn_request \<Rightarrow> route" where
  "ServeHTTP r =
    (if cr_RawQuery r \<noteq> [] then RouteError (Failed 400 ''query_not_allowed'' False)
     else if cr_Path r = HealthPath then method_route r ''GET'' RouteHealth
     else if cr_Path r = VersionPath then method_route r ''GET'' RouteVersion
     else if cr_Path r = RuntimeSnapshotPath then method_route r ''POST'' RouteSnapshot
     else if cr_Path r = HostKeyProbePath then method_route r ''POST'' RouteProbe
     else if cr_Path r = WebSSHTicketPath then method_route r ''POST'' RouteTicket
     else if cr_Path r = WebSSHConnectPath then method_route r ''GET'' RouteConnect
     else RouteError (Failed 404 ''not_found'' False))"

definition actions :: "server \<Rightarrow> string list" where
  "actions s = [ActionRuntimeSnapshot, ActionHostKeyProbe] @ (if wm_enabled (sv_webSSH s) then [ActionWebSSH] else [])"

section \<open>Lemmas\<close>

lemma authenticate_body_Inr:
  assumes "authenticate_body v bodyLimit now r = (v', Inr body)"
  shows "body = cr_Body r \<and> int (length body) \<le> bodyLimit \<and> Verify v now (Some (cr_Http r)) body = (v', None)"
  using assms by (auto simp: authenticate_body_def split: if_splits prod.splits option.splits)

lemma authenticateJSON_Inr:
  assumes "authenticateJSON s now r = (s', Inr body)"
  shows "body = cr_Body r \<and> int (length body) \<le> sv_bodyLimit s \<and>
    Verify (sv_verifier s) now (Some (cr_Http r)) body = (sv_verifier s', None) \<and> s' = s\<lparr>sv_verifier := sv_verifier s'\<rparr>"
  using assms by (auto simp: authenticateJSON_def dest!: authenticate_body_Inr split: prod.splits)

lemma release_acquire: "acquire s = Some held \<Longrightarrow> release held = s"
  by (auto simp: acquire_def release_def split: if_splits)

lemma snapshot_work_Replied:
  assumes "snapshot_work nw ps decode s body requestID = Replied code resp"
  obtains q pinned signer' result where "decode body = Some q" "validateRuntimeRequest q"
    "ParsePinnedHostKey (kp_authorized ps) (rs_PinnedHostKey q) = Inr pinned" "parse_signer ps (rs_Credential q) = Some signer'"
    "Run nw (snapshot_config s q pinned signer') RuntimeSnapshotCommand = (result, None)" "code = 200"
    "xr_Stdout (rr_Result resp) = r_Stdout result" "xr_Stderr (rr_Result resp) = r_Stderr result" "xr_ExitCode (rr_Result resp) = r_ExitCode result"
  using assms
  by (auto simp: snapshot_work_def writeExecutionError_def split: option.splits sum.splits prod.splits if_splits)

definition signed_by :: "verifier \<Rightarrow> time \<Rightarrow> http_request \<Rightarrow> string \<Rightarrow> bool" where
  "signed_by v now request body \<longleftrightarrow> (\<exists>timestamp nonce signature t.
    singleHeader (req_Header request) HeaderTimestamp = Some timestamp \<and> singleHeader (req_Header request) HeaderNonce = Some nonce \<and>
    singleHeader (req_Header request) HeaderSignature = Some signature \<and>
    b64_decode False signature = Some (computeMAC (vf_key v) (canonicalRequest (req_Method request) (req_URI request) (vf_keyID v) timestamp nonce body)) \<and>
    request_time request = Some t \<and> \<bar>now - t\<bar> \<le> vf_maxSkew v)"

lemma Verify_signed:
  assumes "Verify v now (Some request) body = (v', None)"
  shows "signed_by v now request body"
proof -
  have "snd (Verify v now (Some request) body) = None"
    using assms by simp
  then obtain k where "check_request v now (Some request) body = Inr k"
    by (auto simp: Verify_accepts)
  then show ?thesis
    by (auto simp: check_request_def signed_by_def request_time_def result_simps not_less abs_le_iff)
qed

section \<open>Evaluation fixtures\<close>

definition demo_server :: server where
  "demo_server = \<lparr>sv_verifier = demo_verifier, sv_serviceVersion = ''dev'', sv_allowPrivateTargets = False, sv_bodyLimit = 65536,
    sv_outputLimit = 1048576, sv_connectTimeout = 10 * second, sv_commandTimeout = 30 * second, sv_concurrency = 8, sv_inUse = 0,
    sv_webSSH = disabled_manager\<rparr>"

definition demo_conn_request :: conn_request where
  "demo_conn_request = \<lparr>cr_Http = demo_signed, cr_Path = RuntimeSnapshotPath, cr_RawQuery = [], cr_MediaType = Some ''application/json'',
    cr_ContentLength = 2, cr_Body = ''{}''\<rparr>"

definition demo_parsers :: "(string, unit) key_parsers" where
  "demo_parsers = \<lparr>kp_authorized = (\<lambda>_. Some (''key'', [])), kp_private = (\<lambda>_ _. Some ())\<rparr>"

definition demo_snapshot_request :: runtimeSnapshotRequest where
  "demo_snapshot_request = \<lparr>rs_ProtocolVersion = ProtocolVersion, rs_Target = \<lparr>t_Address = ''8.8.8.8'', t_Port = 22, t_User = ''ops''\<rparr>,
    rs_PinnedHostKey = ''key'', rs_Credential = \<lparr>cred_PrivateKeyPEM = ''pem'', cred_Passphrase = []\<rparr>\<rparr>"

lemma demo_verified: "Verify demo_verifier (31 * second) (Some demo_signed) ''{}'' = (fst (Verify demo_verifier (31 * second) (Some demo_signed) ''{}''), None)"
proof -
  have "snd (Verify demo_verifier (31 * second) (Some demo_signed) ''{}'') = None"
    using demo_check(1) [of "31 * second"] by (simp add: Verify_accepts second_def demo_verifier_def keep_def has_key_def)
  then show ?thesis
    by (metis prod.collapse)
qed

lemma RuntimeSnapshot_script: "trim_space (c_script RuntimeSnapshotCommand) \<noteq> []"
proof -
  obtain s where s: "c_script RuntimeSnapshotCommand = (''LC_ALL=C'' @ s @ ''true'') @ [CHR 0x0A]"
    unfolding RuntimeSnapshotCommand_def by (simp del: append.simps)
  show ?thesis
    unfolding s by (subst trim_space_newline) (simp_all add: char_eval)
qed

section \<open>Properties\<close>

text \<open>
  What a snapshot that is reported as successful did: it reached the address the target of the request
  resolves to, in a handshake in which the server showed the key the request pinned and the client used the
  credential of the request, and its output is what the snapshot command wrote in that session.
\<close>

definition snapshot_session ::
    "('c, 'l, 'k, 'a) network \<Rightarrow> ('k, 'a) key_parsers \<Rightarrow> server \<Rightarrow> runtimeSnapshotRequest \<Rightarrow> executionResult \<Rightarrow> bool" where
  "snapshot_session nw ps s q result \<longleftrightarrow> (\<exists>pinned signer' ip conn key l.
    ParsePinnedHostKey (kp_authorized ps) (rs_PinnedHostKey q) = Inr pinned \<and> parse_signer ps (rs_Credential q) = Some signer'
    \<and> resolveTarget (nw_lookup nw) (t_Address (rs_Target q)) (sv_allowPrivateTargets s) = Inr ip \<and> targetAllowed ip (sv_allowPrivateTargets s)
    \<and> nw_dial nw ip (t_Port (rs_Target q)) = Inr conn
    \<and> nw_handshake nw conn (join_host_port (t_Address (rs_Target q)) (t_Port (rs_Target q))) (t_User (rs_Target q)) (Some signer')
        (PinnedHostKeyCallback (nw_marshal nw) (Some pinned)) = (Some key, Inr l)
    \<and> nw_marshal nw key = nw_marshal nw pinned
    \<and> (let ws = se_writes (nw_session nw l (c_script RuntimeSnapshotCommand) (if sv_commandTimeout s \<le> 0 then 30 * second else sv_commandTimeout s)
             (if sv_outputLimit s \<le> 0 then 2 ^ 20 else sv_outputLimit s))
       in xr_Stdout result = stream_output Stdout ws \<and> xr_Stderr result = stream_output Stderr ws)
    \<and> xr_ExitCode result = 0)"

lemma snapshot_work_session:
  assumes "honours_callback nw" and "reports_copy_errors nw" and "snapshot_work nw ps decode s body requestID = Replied code resp"
  shows "code = 200 \<and> (\<exists>q. decode body = Some q \<and> validateRuntimeRequest q \<and> snapshot_session nw ps s q (rr_Result resp))"
proof -
  obtain q pinned signer' result where q: "decode body = Some q" "validateRuntimeRequest q"
      "ParsePinnedHostKey (kp_authorized ps) (rs_PinnedHostKey q) = Inr pinned" "parse_signer ps (rs_Credential q) = Some signer'"
      "Run nw (snapshot_config s q pinned signer') RuntimeSnapshotCommand = (result, None)" "code = 200"
      "xr_Stdout (rr_Result resp) = r_Stdout result" "xr_Stderr (rr_Result resp) = r_Stderr result" "xr_ExitCode (rr_Result resp) = r_ExitCode result"
    using assms(3) by (rule snapshot_work_Replied)
  from Run_success_resolved [OF assms(1,2) q(5)] q(3,4,7-) have "snapshot_session nw ps s q (rr_Result resp)"
    unfolding snapshot_session_def by (auto simp: snapshot_config_def run_defaults_def Let_def)
  with q show ?thesis
    by blast
qed

text \<open>
  C15. A snapshot is taken only for a fresh request signed with the shared key, within the body limit; a
  successful reply carries exactly what the fixed snapshot command wrote to its two streams, in a session with
  the address the requested target resolves to and the policy admits, opened in a handshake where the server
  showed the key the request pinned and the client used the credential of the request. Whatever the outcome,
  the slot is given back and the nonces alone change.
\<close>

theorem snapshot_reply_authentic:
  assumes "honours_callback nw" and "reports_copy_errors nw"
    and "handleRuntimeSnapshot nw ps decode s now r requestID = (s', reply)"
  shows "s' = s\<lparr>sv_verifier := sv_verifier s'\<rparr> \<and>
    (\<forall>code resp. reply = Replied code resp \<longrightarrow>
      code = 200 \<and> signed_by (sv_verifier s) now (cr_Http r) (cr_Body r) \<and> int (length (cr_Body r)) \<le> sv_bodyLimit s \<and>
      (\<exists>q pinned signer' ip conn key l. decode (cr_Body r) = Some q \<and> validateRuntimeRequest q
        \<and> ParsePinnedHostKey (kp_authorized ps) (rs_PinnedHostKey q) = Inr pinned \<and> parse_signer ps (rs_Credential q) = Some signer'
        \<and> resolveTarget (nw_lookup nw) (t_Address (rs_Target q)) (sv_allowPrivateTargets s) = Inr ip \<and> targetAllowed ip (sv_allowPrivateTargets s)
        \<and> nw_dial nw ip (t_Port (rs_Target q)) = Inr conn
        \<and> nw_handshake nw conn (join_host_port (t_Address (rs_Target q)) (t_Port (rs_Target q))) (t_User (rs_Target q)) (Some signer')
            (PinnedHostKeyCallback (nw_marshal nw) (Some pinned)) = (Some key, Inr l)
        \<and> nw_marshal nw key = nw_marshal nw pinned
        \<and> (let ws = se_writes (nw_session nw l (c_script RuntimeSnapshotCommand) (if sv_commandTimeout s \<le> 0 then 30 * second else sv_commandTimeout s)
                 (if sv_outputLimit s \<le> 0 then 2 ^ 20 else sv_outputLimit s))
           in xr_Stdout (rr_Result resp) = stream_output Stdout ws \<and> xr_Stderr (rr_Result resp) = stream_output Stderr ws)
        \<and> xr_ExitCode (rr_Result resp) = 0))"
proof (cases "authenticateJSON s now r :: server \<times> (runtimeSnapshotResponse reply + string)")
  case (Pair s1 res)
  show ?thesis
  proof (cases res)
    case (Inl e)
    with Pair assms(3) show ?thesis
      by (auto simp: handleRuntimeSnapshot_def authenticateJSON_def authenticate_body_def split: prod.splits if_splits option.splits)
  next
    case (Inr body)
    note auth = authenticateJSON_Inr [OF Pair [unfolded Inr]]
    show ?thesis
    proof (cases "acquire s1")
      case None
      with Pair Inr assms(3) auth show ?thesis
        by (auto simp: handleRuntimeSnapshot_def)
    next
      case (Some held)
      have s1: "s1 = s\<lparr>sv_verifier := sv_verifier s1\<rparr>"
        using auth by blast
      have held: "s' = s1" "reply = snapshot_work nw ps decode held body requestID"
        using release_acquire [OF Some] Some Pair Inr assms(3) by (auto simp: handleRuntimeSnapshot_def)
      have "held = s\<lparr>sv_verifier := sv_verifier s1, sv_inUse := sv_inUse s + 1\<rparr>"
        using Some by (subst (asm) s1) (auto simp: acquire_def split: if_splits)
      then have same: "snapshot_session nw ps held = snapshot_session nw ps s"
        by (simp add: fun_eq_iff snapshot_session_def)
      have "signed_by (sv_verifier s) now (cr_Http r) (cr_Body r)"
        using auth Verify_signed by auto
      moreover have "code = 200 \<and> (\<exists>q. decode body = Some q \<and> validateRuntimeRequest q \<and> snapshot_session nw ps s q (rr_Result resp))"
        if "reply = Replied code resp" for code resp
        using snapshot_work_session [OF assms(1,2)] that held(2) same by metis
      ultimately show ?thesis
        using auth held(1) s1 unfolding snapshot_session_def by blast
    qed
  qed
qed

theorem snapshot_reply_authentic_witness:
  "\<exists>s' resp. handleRuntimeSnapshot (demo_network ''key'' [(Stdout, ''ok'')]) demo_parsers (\<lambda>_. Some demo_snapshot_request) demo_server
      (31 * second) demo_conn_request ''r'' = (s', Replied 200 resp) \<and> signed_by demo_verifier (31 * second) demo_signed ''{}''"
proof -
  have trims: "trim_space ''8.8.8.8'' = ''8.8.8.8''" "trim_space ''ops'' = ''ops''" "trim_space [] = []"
    by (simp_all add: trim_eval)
  have run: "\<exists>r. Run (demo_network ''key'' [(Stdout, ''ok'')]) (snapshot_config held demo_snapshot_request ''key'' ()) RuntimeSnapshotCommand = (r, None)"
    if "held = demo_server\<lparr>sv_verifier := v, sv_inUse := n\<rparr>" for held v n
    using that RuntimeSnapshot_script
    by (simp add: Run_def validateConfig_def snapshot_config_def demo_snapshot_request_def trims run_defaults_def resolveTarget_def demo_address
      demo_address_allowed demo_network_def runSession_def PinnedHostKeyCallback_def Let_def write_all_def Write_def newOutputBudget_def
      demo_server_def RuntimeSnapshotCommand_def [THEN arg_cong [of _ _ c_id]] CommandRuntimeSnapshot_def)
  have acq: "acquire (demo_server\<lparr>sv_verifier := v\<rparr>) = Some (demo_server\<lparr>sv_verifier := v, sv_inUse := 1\<rparr>)" for v
    by (simp add: acquire_def demo_server_def)
  have auth: "authenticateJSON demo_server (31 * second) demo_conn_request =
      (demo_server\<lparr>sv_verifier := fst (Verify demo_verifier (31 * second) (Some demo_signed) ''{}'')\<rparr>, Inr ''{}'' :: runtimeSnapshotResponse reply + string)"
    using demo_verified by (auto simp: authenticateJSON_def authenticate_body_def demo_conn_request_def demo_server_def split: prod.splits)
  have valid: "validateRuntimeRequest demo_snapshot_request"
    by (simp add: validateRuntimeRequest_def demo_snapshot_request_def trims ssh_material_sizes_def)
  obtain s' resp where h: "handleRuntimeSnapshot (demo_network ''key'' [(Stdout, ''ok'')]) demo_parsers (\<lambda>_. Some demo_snapshot_request) demo_server
      (31 * second) demo_conn_request ''r'' = (s', Replied 200 resp)"
    using run [OF refl, where v = "fst (Verify demo_verifier (31 * second) (Some demo_signed) ''{}'')" and n = 1]
    by (auto simp: handleRuntimeSnapshot_def auth acq snapshot_work_def valid ParsePinnedHostKey_def demo_parsers_def parse_signer_def trims)
  from snapshot_reply_authentic [OF demo_network_honest h] h show ?thesis
    by (auto simp: demo_server_def demo_conn_request_def)
qed

end
