(* ===== verification/Runbook_Service.thy ===== *)
theory Runbook_Service
  imports Connector_Server
begin

text \<open>
  The connector's runbook endpoints (\<^verbatim>\<open>connector/service/runbook_handler.go\<close> and \<^verbatim>\<open>runbook_ledger.go\<close>): the
  digest that binds an approval to a target, the checks before an execution, the ledger that starts a job
  once, and the execution itself. An execution begins and finishes in two steps, so that others can come
  in between.
\<close>

section \<open>Ledger\<close>

datatype ledgerState = RunbookInProgress | RunbookCompleted

record ledgerEntry =
  le_scope :: string
  le_state :: ledgerState
  le_startedAt :: time
  le_response :: "runbookExecuteResponse option"

record runbookLedger =
  lg_entries :: "(string, ledgerEntry) gomap"
  lg_max :: int

datatype runbookClaim = ClaimNew | ClaimReplay | ClaimConflict | ClaimInProgress | ClaimFull

definition newRunbookLedger :: "int \<Rightarrow> runbookLedger" where
  "newRunbookLedger maxEntries = \<lparr>lg_entries = [], lg_max = (if maxEntries \<le> 0 then 10000 else maxEntries)\<rparr>"

text \<open>The search for the oldest completed job; the empty job identifier stands for none, as in the source.\<close>

definition oldest_step :: "string \<times> time \<Rightarrow> string \<times> ledgerEntry \<Rightarrow> string \<times> time" where
  "oldest_step acc je =
    (if le_state (snd je) = RunbookCompleted \<and> (fst acc = [] \<or> le_startedAt (snd je) < snd acc)
     then (fst je, le_startedAt (snd je)) else acc)"

definition oldest_completed :: "(string, ledgerEntry) gomap \<Rightarrow> string" where
  "oldest_completed es = fst (foldl oldest_step ([], zero_time) es)"

definition claim :: "runbookLedger \<Rightarrow> string \<Rightarrow> string \<Rightarrow> time \<Rightarrow> runbookLedger \<times> runbookClaim \<times> runbookExecuteResponse option" where
  "claim l jobID scope now =
    (case map_of (lg_entries l) jobID of
      Some e \<Rightarrow>
        if le_scope e \<noteq> scope then (l, ClaimConflict, None)
        else if le_state e = RunbookInProgress then (l, ClaimInProgress, None)
        else (l, ClaimReplay, le_response e)
    | None \<Rightarrow>
        (let fresh = \<lparr>le_scope = scope, le_state = RunbookInProgress, le_startedAt = now, le_response = None\<rparr> in
         if int (length (lg_entries l)) \<ge> lg_max l then
           (let oldestJob = oldest_completed (lg_entries l) in
            if oldestJob = [] then (l, ClaimFull, None)
            else (l\<lparr>lg_entries := put (del (lg_entries l) oldestJob) jobID fresh\<rparr>, ClaimNew, None))
         else (l\<lparr>lg_entries := put (lg_entries l) jobID fresh\<rparr>, ClaimNew, None)))"

definition complete :: "runbookLedger \<Rightarrow> string \<Rightarrow> string \<Rightarrow> runbookExecuteResponse \<Rightarrow> runbookLedger" where
  "complete l jobID scope response =
    (case map_of (lg_entries l) jobID of
      None \<Rightarrow> l
    | Some e \<Rightarrow>
        if le_scope e \<noteq> scope \<or> le_state e \<noteq> RunbookInProgress then l
        else l\<lparr>lg_entries := put (lg_entries l) jobID (e\<lparr>le_state := RunbookCompleted, le_response := Some response\<rparr>)\<rparr>)"

section \<open>Handler\<close>

record runbookOptions =
  ro_KeyID :: string
  ro_HMACKey :: string
  ro_MutationsEnabled :: bool
  ro_AllowPrivateTargets :: bool
  ro_MaxConcurrent :: int
  ro_MaxRequestBodyBytes :: int
  ro_MaxOutputBytes :: int
  ro_ConnectTimeout :: duration
  ro_MaxTrackedNonces :: int
  ro_MaxIdempotencyJobs :: int
  ro_AuthenticationSkew :: duration

record runbookHandler =
  rh_verifier :: verifier
  rh_mutationsEnabled :: bool
  rh_allowPrivateTargets :: bool
  rh_bodyLimit :: int
  rh_outputLimit :: int
  rh_connectTimeout :: duration
  rh_concurrency :: int
  rh_inUse :: int
  rh_ledger :: runbookLedger

definition maxApprovalLifetime :: duration where "maxApprovalLifetime = 15 * minute"
definition maxEmergencyLifetime :: duration where "maxEmergencyLifetime = 4 * hour"

definition NewRunbookHandler :: "runbookOptions \<Rightarrow> server_error + runbookHandler" where
  "NewRunbookHandler o' =
    (case NewVerifier (ro_KeyID o') (ro_HMACKey o') (ro_AuthenticationSkew o') (ro_MaxTrackedNonces o') of
      Inl e \<Rightarrow> Inl (VerifierError e)
    | Inr v \<Rightarrow>
        with_limit (ro_MaxConcurrent o') 4 32 ServerConcurrency (\<lambda>concurrent.
        with_limit (ro_MaxRequestBodyBytes o') (128 * 1024) (1024 * 1024) ServerBody (\<lambda>body.
        with_limit (ro_MaxOutputBytes o') (1024 * 1024) (4 * 1024 * 1024) ServerOutput (\<lambda>output.
        with_limit (ro_ConnectTimeout o') (10 * second) (30 * second) ServerConnect (\<lambda>connect.
        Inr \<lparr>rh_verifier = v, rh_mutationsEnabled = ro_MutationsEnabled o', rh_allowPrivateTargets = ro_AllowPrivateTargets o',
          rh_bodyLimit = body, rh_outputLimit = output, rh_connectTimeout = connect, rh_concurrency = concurrent, rh_inUse = 0,
          rh_ledger = newRunbookLedger (ro_MaxIdempotencyJobs o')\<rparr>)))))"

definition RunbookPreviewPath :: string where "RunbookPreviewPath = ''/v1/runbooks/preview''"
definition RunbookExecutePath :: string where "RunbookExecutePath = ''/v1/runbooks/execute''"
definition ActionRunbookPreview :: string where "ActionRunbookPreview = ''runbook_preview_v1''"
definition ActionRunbookExecute :: string where "ActionRunbookExecute = ''runbook_execute_v1''"

text \<open>\<^verbatim>\<open>Wrap\<close>: which requests the handler takes.\<close>

datatype wrap_route = PassOn | WrapError "unit reply" | ToPreview | ToExecute

definition Wrap :: "conn_request \<Rightarrow> wrap_route" where
  "Wrap r =
    (if cr_Path r \<noteq> RunbookPreviewPath \<and> cr_Path r \<noteq> RunbookExecutePath then PassOn
     else if cr_RawQuery r \<noteq> [] then WrapError (Failed 400 ''query_not_allowed'' False)
     else if req_Method (cr_Http r) \<noteq> ''POST'' then WrapError (Failed 405 ''method_not_allowed'' False)
     else if cr_Path r = RunbookPreviewPath then ToPreview else ToExecute)"

section \<open>Validation\<close>

definition alnum_rune :: "nat \<Rightarrow> bool" where
  "alnum_rune r \<longleftrightarrow> 97 \<le> r \<and> r \<le> 122 \<or> 65 \<le> r \<and> r \<le> 90 \<or> 48 \<le> r \<and> r \<le> 57"

text \<open>The punctuation admitted after the first character: \<^verbatim>\<open>.\<close>, \<^verbatim>\<open>_\<close>, \<^verbatim>\<open>:\<close> and \<^verbatim>\<open>-\<close>.\<close>

definition id_rune :: "nat \<Rightarrow> bool" where
  "id_rune r \<longleftrightarrow> alnum_rune r \<or> r = 46 \<or> r = 95 \<or> r = 58 \<or> r = 45"

definition validIdentifier :: "string \<Rightarrow> nat \<Rightarrow> bool" where
  "validIdentifier v most \<longleftrightarrow> \<not> (length v < 1 \<or> length v > most \<or> v \<noteq> trim_space v) \<and>
    (case runes v of [] \<Rightarrow> True | r # rs \<Rightarrow> alnum_rune r \<and> list_all id_rune rs)"

definition fingerprint_rune :: "nat \<Rightarrow> bool" where
  "fingerprint_rune r \<longleftrightarrow> alnum_rune r \<or> r = 43 \<or> r = 47 \<or> r = 45 \<or> r = 95"

definition validSSHFingerprint :: "string \<Rightarrow> bool" where
  "validSSHFingerprint v \<longleftrightarrow> \<not> (\<not> has_prefix v ''SHA256:'' \<or> length v < 20 \<or> length v > 96) \<and>
    list_all fingerprint_rune (runes (trim_prefix v ''SHA256:''))"

definition validReason :: "string \<Rightarrow> bool" where
  "validReason v \<longleftrightarrow> \<not> (length v < 8 \<or> length v > 500 \<or> v \<noteq> trim_space v) \<and> list_all (\<lambda>r. \<not> is_control r) (runes v)"

definition validateBoundTarget :: "runbookBinding \<Rightarrow> bool" where
  "validateBoundTarget b \<longleftrightarrow>
    \<not> (trim_space (t_Address (rb_Target b)) = [] \<or> t_Address (rb_Target b) \<noteq> trim_space (t_Address (rb_Target b)) \<or>
       length (t_Address (rb_Target b)) > 253 \<or> t_Port (rb_Target b) < 1 \<or> t_Port (rb_Target b) > 65535 \<or>
       trim_space (t_User (rb_Target b)) = [] \<or> t_User (rb_Target b) \<noteq> trim_space (t_User (rb_Target b)) \<or>
       length (t_User (rb_Target b)) > 64 \<or> \<not> validSSHFingerprint (rb_PinnedHostKeySHA256 b) \<or>
       \<not> validSSHFingerprint (rb_CredentialPublicKeySHA256 b)) \<and>
    list_all (\<lambda>r. \<not> is_control r) (runes (t_Address (rb_Target b) @ t_User (rb_Target b)))"

text \<open>The fields of the bound digest, after the digest of the plan's scope.\<close>

definition bound_fields :: "string \<Rightarrow> runbookBinding \<Rightarrow> string list" where
  "bound_fields baseDigest b =
    [baseDigest, t_Address (rb_Target b), format_int (t_Port (rb_Target b)), t_User (rb_Target b),
     rb_PinnedHostKeySHA256 b, rb_CredentialPublicKeySHA256 b]"

definition bound_digest :: "string \<Rightarrow> runbookBinding \<Rightarrow> string" where
  "bound_digest baseDigest b = hex_encode (sha256 (join [CHR 0x0A] (bound_fields baseDigest b)))"

datatype bound_error = BoundIdentifiers | BoundTarget | BoundPlan runbook_error

definition buildBoundPlan :: "string \<Rightarrow> runbookBinding \<Rightarrow> bound_error + plan \<times> string" where
  "buildBoundPlan protocolVersion b =
    ensure (\<not> (protocolVersion \<noteq> ProtocolVersion \<or> \<not> validIdentifier (rb_HostID b) 128 \<or> \<not> validIdentifier (rb_JobID b) 128)) BoundIdentifiers (
    ensure (validateBoundTarget b) BoundTarget (
    case Build (ra_ID (rb_Action b)) (ra_Version (rb_Action b)) (rb_Parameters b) of Inl e \<Rightarrow> Inl (BoundPlan e) | Inr pl \<Rightarrow>
    case ScopeDigest (rb_HostID b) (rb_JobID b) pl of Inl e \<Rightarrow> Inl (BoundPlan e) | Inr baseDigest \<Rightarrow>
    Inr (pl, bound_digest baseDigest b)))"

definition validateApproval :: "runbookExecuteRequest \<Rightarrow> rb_definition \<Rightarrow> string \<Rightarrow> time \<Rightarrow> bool" where
  "validateApproval q d digest now \<longleftrightarrow>
    (let ap = eq_Approval q; b = eq_Binding q; em = eq_Emergency q in
     \<not> (ap_Decision ap \<noteq> ''approved'' \<or> ap_Action ap \<noteq> rb_Action b \<or> ap_HostID ap \<noteq> rb_HostID b \<or> ap_JobID ap \<noteq> rb_JobID b \<or>
        ap_ScopeDigest ap \<noteq> digest) \<and>
     \<not> (is_zero_time (ap_ApprovedAt ap) \<or> is_zero_time (ap_ExpiresAt ap) \<or> ap_ApprovedAt ap > now + 30 * second \<or>
        ap_ApprovedAt ap < now - maxApprovalLifetime \<or> \<not> ap_ExpiresAt ap > now \<or>
        ap_ExpiresAt ap > ap_ApprovedAt ap + maxApprovalLifetime) \<and>
     validReason (eq_Reason q) \<and>
     (if df_Emergency d then
        \<not> (\<not> validIdentifier (eg_IncidentID em) 128 \<or> is_zero_time (eg_ExpiresAt em) \<or> \<not> eg_ExpiresAt em > now \<or>
           eg_ExpiresAt em > now + maxEmergencyLifetime)
      else \<not> (eg_IncidentID em \<noteq> [] \<or> \<not> is_zero_time (eg_ExpiresAt em))))"

text \<open>\<^term>\<open>fpk\<close> and \<^term>\<open>fps\<close> are the fingerprints of a public key and of a signer's public key.\<close>

definition validateRunbookSSHMaterial ::
    "('k, 'a) key_parsers \<Rightarrow> ('k \<Rightarrow> string) \<Rightarrow> ('a \<Rightarrow> string) \<Rightarrow> runbookExecuteRequest \<Rightarrow> ('k \<times> 'a) option" where
  "validateRunbookSSHMaterial ps fpk fps q =
    (if \<not> ssh_material_sizes (eq_PinnedHostKey q) (eq_Credential q) then None else
     case ParsePinnedHostKey (kp_authorized ps) (eq_PinnedHostKey q) of Inl _ \<Rightarrow> None | Inr pinned \<Rightarrow>
     if fpk pinned \<noteq> rb_PinnedHostKeySHA256 (eq_Binding q) then None else
     case parse_signer ps (eq_Credential q) of None \<Rightarrow> None | Some signer' \<Rightarrow>
     if fps signer' \<noteq> rb_CredentialPublicKeySHA256 (eq_Binding q) then None else Some (pinned, signer'))"

section \<open>Endpoints\<close>

definition authenticateRunbook :: "runbookHandler \<Rightarrow> time \<Rightarrow> conn_request \<Rightarrow> runbookHandler \<times> ('b reply + string)" where
  "authenticateRunbook h now r =
    (case authenticate_body (rh_verifier h) (rh_bodyLimit h) now r of (v, res) \<Rightarrow> (h\<lparr>rh_verifier := v\<rparr>, res))"

definition runbook_acquire :: "runbookHandler \<Rightarrow> runbookHandler option" where
  "runbook_acquire h = (if rh_inUse h < rh_concurrency h then Some (h\<lparr>rh_inUse := rh_inUse h + 1\<rparr>) else None)"

definition runbook_release :: "runbookHandler \<Rightarrow> runbookHandler" where
  "runbook_release h = h\<lparr>rh_inUse := rh_inUse h - 1\<rparr>"

definition step_preview :: "step \<Rightarrow> runbookStepPreview" where
  "step_preview s = \<lparr>sp_ID = s_id s, sp_Phase = phase_name (s_phase s), sp_Description = s_description s,
    sp_TimeoutSeconds = s_timeout s div second\<rparr>"

definition handlePreview ::
    "(string \<Rightarrow> runbookPreviewRequest option) \<Rightarrow> runbookHandler \<Rightarrow> time \<Rightarrow> conn_request \<Rightarrow> string \<Rightarrow> runbookHandler \<times> runbookPreviewResponse reply" where
  "handlePreview decode h0 now r requestID =
    (case authenticateRunbook h0 now r of (h, Inl e) \<Rightarrow> (h, e) | (h, Inr body) \<Rightarrow>
     case decode body of None \<Rightarrow> (h, Failed 400 ''invalid_json'' False) | Some q \<Rightarrow>
     case buildBoundPlan (pq_ProtocolVersion q) (pq_Binding q) of Inl _ \<Rightarrow> (h, Failed 400 ''invalid_runbook'' False) | Inr (pl, digest) \<Rightarrow>
     (h, Replied 200 \<lparr>pr_ProtocolVersion = ProtocolVersion, pr_RequestID = requestID, pr_Action = ActionRunbookPreview,
        pr_CatalogVersion = CatalogVersion, pr_Binding = pq_Binding q, pr_ScopeDigest = digest, pr_Title = df_Title (p_definition pl),
        pr_Mutating = df_Mutating (p_definition pl), pr_Emergency = df_Emergency (p_definition pl),
        pr_ExecutionEnabled = (\<not> df_Mutating (p_definition pl) \<or> rh_mutationsEnabled h),
        pr_RetryPolicy = df_RetryPolicy (p_definition pl), pr_Steps = map step_preview (p_steps pl)\<rparr>))"

text \<open>An execution that has begun: its request, plan, digest and key material.\<close>

record ('k, 'a) pending =
  pe_Request :: runbookExecuteRequest
  pe_Plan :: plan
  pe_Digest :: string
  pe_RequestID :: string
  pe_Pinned :: 'k
  pe_Signer :: 'a

text \<open>\<^verbatim>\<open>handleExecute\<close> with a slot, from the decoded body to the claim; a reply, or an execution to run.\<close>

definition execute_checks ::
    "('k, 'a) key_parsers \<Rightarrow> ('k \<Rightarrow> string) \<Rightarrow> ('a \<Rightarrow> string) \<Rightarrow> (string \<Rightarrow> runbookExecuteRequest option)
     \<Rightarrow> runbookHandler \<Rightarrow> time \<Rightarrow> string \<Rightarrow> string \<Rightarrow> runbookHandler \<times> (runbookExecuteResponse reply + ('k, 'a) pending)" where
  "execute_checks ps fpk fps decode h now body requestID =
    (case decode body of None \<Rightarrow> (h, Inl (Failed 400 ''invalid_json'' False)) | Some q \<Rightarrow>
     case buildBoundPlan (eq_ProtocolVersion q) (eq_Binding q) of Inl _ \<Rightarrow> (h, Inl (Failed 400 ''invalid_runbook'' False)) | Inr (pl, digest) \<Rightarrow>
     if df_Mutating (p_definition pl) \<and> \<not> rh_mutationsEnabled h then (h, Inl (Failed 403 ''mutations_disabled'' False)) else
     if \<not> validateApproval q (p_definition pl) digest now then (h, Inl (Failed 403 ''approval_invalid'' False)) else
     case validateRunbookSSHMaterial ps fpk fps q of None \<Rightarrow> (h, Inl (Failed 400 ''ssh_material_invalid'' False)) | Some (pinned, signer') \<Rightarrow>
     case claim (rh_ledger h) (rb_JobID (eq_Binding q)) digest now of (l, c, replay) \<Rightarrow>
     (h\<lparr>rh_ledger := l\<rparr>,
      case c of
        ClaimReplay \<Rightarrow> Inl (case replay of Some resp \<Rightarrow> Replied 200 (resp\<lparr>er_RequestID := requestID, er_IdempotentReplay := True\<rparr>)
                                   | None \<Rightarrow> Failed 500 ''internal_error'' False)
      | ClaimConflict \<Rightarrow> Inl (Failed 409 ''job_scope_conflict'' False)
      | ClaimInProgress \<Rightarrow> Inl (Failed 409 ''job_in_progress'' False)
      | ClaimFull \<Rightarrow> Inl (Failed 503 ''idempotency_capacity'' False)
      | ClaimNew \<Rightarrow> Inr \<lparr>pe_Request = q, pe_Plan = pl, pe_Digest = digest, pe_RequestID = requestID, pe_Pinned = pinned, pe_Signer = signer'\<rparr>))"

definition begin_execute ::
    "('k, 'a) key_parsers \<Rightarrow> ('k \<Rightarrow> string) \<Rightarrow> ('a \<Rightarrow> string) \<Rightarrow> (string \<Rightarrow> runbookExecuteRequest option)
     \<Rightarrow> runbookHandler \<Rightarrow> time \<Rightarrow> conn_request \<Rightarrow> string \<Rightarrow> runbookHandler \<times> (runbookExecuteResponse reply + ('k, 'a) pending)" where
  "begin_execute ps fpk fps decode h0 now r requestID =
    (case authenticateRunbook h0 now r of (h, Inl e) \<Rightarrow> (h, Inl e) | (h, Inr body) \<Rightarrow>
     case runbook_acquire h of None \<Rightarrow> (h, Inl (Failed 429 ''runbook_concurrency_limit'' True)) | Some held \<Rightarrow>
     case execute_checks ps fpk fps decode held now body requestID of
       (h', Inl reply) \<Rightarrow> (runbook_release h', Inl reply)
     | (h', Inr p) \<Rightarrow> (h', Inr p))"

definition runbook_config :: "runbookHandler \<Rightarrow> ('k, 'a) pending \<Rightarrow> ('k, 'a) ssh_config" where
  "runbook_config h p =
    (let t = rb_Target (eq_Binding (pe_Request p)) in
     \<lparr>cfg_Address = t_Address t, cfg_Port = t_Port t, cfg_User = t_User t, cfg_Auth = Some (pe_Signer p),
      cfg_PinnedHostKey = Some (pe_Pinned p), cfg_ConnectTimeout = rh_connectTimeout h, cfg_CommandTimeout = 0,
      cfg_MaxOutputBytes = rh_outputLimit h, cfg_AllowPrivateTargets = rh_allowPrivateTargets h\<rparr>)"

definition total_timeout :: "runbookHandler \<Rightarrow> plan \<Rightarrow> duration" where
  "total_timeout h pl =
    (let total = 5 * second + sum_list (map (\<lambda>s. rh_connectTimeout h + s_timeout s) (p_steps pl))
     in if total > 5 * minute then 5 * minute else total)"

fun state_name :: "stepState \<Rightarrow> string" where
  "state_name StepSucceeded = ''succeeded''"
| "state_name StepFailed = ''failed''"
| "state_name StepCanceled = ''canceled''"

definition step_response :: "stepResult \<Rightarrow> runbookStepResult" where
  "step_response s = \<lparr>sr_ID = res_ID s, sr_Phase = phase_name (res_Phase s), sr_State = state_name (res_State s), sr_Stdout = res_Stdout s,
    sr_Stderr = res_Stderr s, sr_ExitCode = res_ExitCode s, sr_DurationMillis = DurationMillis (res_Duration s), sr_ErrorCode = res_ErrorCode s\<rparr>"

text \<open>
  The rest of \<^verbatim>\<open>handleExecute\<close>. The runner is given the time limit of the whole execution, the connection
  policy and the step, and reports the outcome of the step.
\<close>

definition finish_execute ::
    "(duration \<Rightarrow> ('k, 'a) ssh_config \<Rightarrow> step \<Rightarrow> step_outcome) \<Rightarrow> runbookHandler \<Rightarrow> ('k, 'a) pending \<Rightarrow> runbookHandler \<times> runbookExecuteResponse reply" where
  "finish_execute runner h p =
    (let b = eq_Binding (pe_Request p);
         x = (case Execute (Some (runner (total_timeout h (pe_Plan p)) (runbook_config h p))) (pe_Plan p) of
                Inr x \<Rightarrow> x
              | Inl _ \<Rightarrow> \<lparr>x_Status = ''failed'', x_Steps = [], x_Stopped = True\<rparr>);
         response = \<lparr>er_ProtocolVersion = ProtocolVersion, er_RequestID = pe_RequestID p, er_Action = ActionRunbookExecute,
           er_CatalogVersion = CatalogVersion, er_Binding = b, er_ScopeDigest = pe_Digest p, er_Status = x_Status x, er_Stopped = x_Stopped x,
           er_Retryable = False, er_IdempotentReplay = False, er_Steps = map step_response (x_Steps x)\<rparr>
     in (runbook_release (h\<lparr>rh_ledger := complete (rh_ledger h) (rb_JobID b) (pe_Digest p) response\<rparr>), Replied 200 response))"

definition handleExecute ::
    "('k, 'a) key_parsers \<Rightarrow> ('k \<Rightarrow> string) \<Rightarrow> ('a \<Rightarrow> string) \<Rightarrow> (string \<Rightarrow> runbookExecuteRequest option)
     \<Rightarrow> (duration \<Rightarrow> ('k, 'a) ssh_config \<Rightarrow> step \<Rightarrow> step_outcome)
     \<Rightarrow> runbookHandler \<Rightarrow> time \<Rightarrow> conn_request \<Rightarrow> string \<Rightarrow> runbookHandler \<times> runbookExecuteResponse reply" where
  "handleExecute ps fpk fps decode runner h now r requestID =
    (case begin_execute ps fpk fps decode h now r requestID of
      (h', Inl reply) \<Rightarrow> (h', reply)
    | (h', Inr p) \<Rightarrow> finish_execute runner h' p)"

section \<open>Interleavings\<close>

definition pending_job :: "('k, 'a) pending \<Rightarrow> string" where
  "pending_job p = rb_JobID (eq_Binding (pe_Request p))"

text \<open>
  The states of the service: the handler, the executions that have begun, and the jobs started so far.
  Requests for previews and executions may arrive at any time, and a pending execution may finish at any
  time.
\<close>

type_synonym ('k, 'a) service_state = "runbookHandler \<times> ('k, 'a) pending list \<times> string list"

inductive service_step ::
    "('k, 'a) key_parsers \<Rightarrow> ('k \<Rightarrow> string) \<Rightarrow> ('a \<Rightarrow> string) \<Rightarrow> (string \<Rightarrow> runbookPreviewRequest option) \<Rightarrow> (string \<Rightarrow> runbookExecuteRequest option)
     \<Rightarrow> (duration \<Rightarrow> ('k, 'a) ssh_config \<Rightarrow> step \<Rightarrow> step_outcome) \<Rightarrow> ('k, 'a) service_state \<Rightarrow> ('k, 'a) service_state \<Rightarrow> bool"
  for ps fpk fps decodeP decodeE runner where
  Preview: "handlePreview decodeP h now r i = (h', reply) \<Longrightarrow>
    service_step ps fpk fps decodeP decodeE runner (h, pend, started) (h', pend, started)"
| Refuse: "begin_execute ps fpk fps decodeE h now r i = (h', Inl reply) \<Longrightarrow>
    service_step ps fpk fps decodeP decodeE runner (h, pend, started) (h', pend, started)"
| Start: "begin_execute ps fpk fps decodeE h now r i = (h', Inr p) \<Longrightarrow>
    service_step ps fpk fps decodeP decodeE runner (h, pend, started) (h', p # pend, pending_job p # started)"
| Finish: "p \<in> set pend \<Longrightarrow> finish_execute runner h p = (h', reply) \<Longrightarrow>
    service_step ps fpk fps decodeP decodeE runner (h, pend, started) (h', remove1 p pend, started)"

section \<open>Lemmas\<close>

subsection \<open>The ledger\<close>

lemma oldest_completed_entry:
  "oldest_completed es = [] \<or> (\<exists>e. (oldest_completed es, e) \<in> set es \<and> le_state e = RunbookCompleted)"
proof -
  have "fst (foldl oldest_step acc es) = fst acc \<or> (\<exists>e. (fst (foldl oldest_step acc es), e) \<in> set es \<and> le_state e = RunbookCompleted)" for acc
  proof (induction es arbitrary: acc)
    case (Cons je es)
    have "fst (oldest_step acc je) = fst acc \<or> fst (oldest_step acc je) = fst je \<and> le_state (snd je) = RunbookCompleted"
      by (simp add: oldest_step_def)
    with Cons [of "oldest_step acc je"] show ?case
      by (cases je) auto
  qed simp
  from this [of "([], zero_time)"] show ?thesis
    by (auto simp: oldest_completed_def)
qed

lemma oldest_completed_lookup:
  assumes "wf_map es" and "oldest_completed es \<noteq> []"
  shows "\<exists>e. map_of es (oldest_completed es) = Some e \<and> le_state e = RunbookCompleted"
  using oldest_completed_entry [of es] assms by (auto simp: wf_map_def)

lemma wf_map_length: "wf_map m \<Longrightarrow> length m = card (dom (map_of m))"
  unfolding wf_map_def dom_map_of_conv_image_fst by (metis distinct_card length_map set_map)

definition wf_ledger :: "runbookLedger \<Rightarrow> bool" where
  "wf_ledger l \<longleftrightarrow> wf_map (lg_entries l) \<and> 0 < lg_max l \<and> int (length (lg_entries l)) \<le> lg_max l"

definition in_progress :: "runbookLedger \<Rightarrow> string \<Rightarrow> string option" where
  "in_progress l j = (case map_of (lg_entries l) j of None \<Rightarrow> None | Some e \<Rightarrow> if le_state e = RunbookInProgress then Some (le_scope e) else None)"

lemma claim_other: "claim l j scope now = (l', c, resp) \<Longrightarrow> c \<noteq> ClaimNew \<Longrightarrow> l' = l"
  by (auto simp: claim_def Let_def split: option.splits if_splits)

lemma claim_new:
  assumes "claim l j scope now = (l', ClaimNew, resp)" and "wf_ledger l"
  shows "wf_ledger l'" and "lg_max l' = lg_max l" and "map_of (lg_entries l) j = None"
    and "in_progress l' = (in_progress l)(j := Some scope)"
    and "int (length (lg_entries l)) < lg_max l \<Longrightarrow> dom (map_of (lg_entries l')) = insert j (dom (map_of (lg_entries l)))"
proof -
  let ?fresh = "\<lparr>le_scope = scope, le_state = RunbookInProgress, le_startedAt = now, le_response = None\<rparr>"
  let ?o = "oldest_completed (lg_entries l)"
  from assms(1) show none: "map_of (lg_entries l) j = None"
    by (auto simp: claim_def split: option.splits if_splits)
  from assms(1) none consider
      (room) "int (length (lg_entries l)) < lg_max l" "l' = l\<lparr>lg_entries := put (lg_entries l) j ?fresh\<rparr>"
    | (full) "lg_max l \<le> int (length (lg_entries l))" "?o \<noteq> []" "l' = l\<lparr>lg_entries := put (del (lg_entries l) ?o) j ?fresh\<rparr>"
    by (force simp: claim_def Let_def split: if_splits)
  then have "wf_ledger l' \<and> lg_max l' = lg_max l \<and> in_progress l' = (in_progress l)(j := Some scope) \<and>
      (int (length (lg_entries l)) < lg_max l \<longrightarrow> dom (map_of (lg_entries l')) = insert j (dom (map_of (lg_entries l))))"
  proof cases
    case room
    with assms(2) none show ?thesis
      by (auto simp: wf_ledger_def in_progress_def length_put has_key_def)
  next
    case full
    obtain e where e: "map_of (lg_entries l) ?o = Some e" "le_state e = RunbookCompleted"
      using oldest_completed_lookup full(2) assms(2) by (auto simp: wf_ledger_def)
    then have "length (del (lg_entries l) ?o) + 1 = length (lg_entries l)"
      using assms(2) has_key_SomeI [OF e(1)] length_del [of "lg_entries l" ?o]
      by (cases "lg_entries l") (auto simp: wf_ledger_def)
    with full e none assms(2) length_put_le [of "del (lg_entries l) ?o" j ?fresh] show ?thesis
      by (auto simp: wf_ledger_def in_progress_def)
  qed
  then show "wf_ledger l'" "lg_max l' = lg_max l" "in_progress l' = (in_progress l)(j := Some scope)"
      "int (length (lg_entries l)) < lg_max l \<Longrightarrow> dom (map_of (lg_entries l')) = insert j (dom (map_of (lg_entries l)))"
    by blast+
qed

lemma complete_claimed:
  assumes "in_progress l j = Some scope" and "wf_ledger l"
  shows "wf_ledger (complete l j scope resp)" and "lg_max (complete l j scope resp) = lg_max l"
    and "in_progress (complete l j scope resp) = (in_progress l)(j := None)"
    and "dom (map_of (lg_entries (complete l j scope resp))) = dom (map_of (lg_entries l))"
proof -
  obtain e where e: "map_of (lg_entries l) j = Some e" "le_state e = RunbookInProgress" "le_scope e = scope"
    using assms(1) by (auto simp: in_progress_def split: option.splits if_splits)
  then have "complete l j scope resp =
      l\<lparr>lg_entries := put (lg_entries l) j (e\<lparr>le_state := RunbookCompleted, le_response := Some resp\<rparr>)\<rparr>"
    by (simp add: complete_def)
  with e assms(2) show "wf_ledger (complete l j scope resp)" "lg_max (complete l j scope resp) = lg_max l"
      "in_progress (complete l j scope resp) = (in_progress l)(j := None)"
      "dom (map_of (lg_entries (complete l j scope resp))) = dom (map_of (lg_entries l))"
    by (auto simp: wf_ledger_def in_progress_def length_put has_key_def split: if_splits)
qed

text \<open>A completed job is answered from the record, without a new start.\<close>

lemma claim_after_complete:
  assumes "in_progress l j = Some scope"
  shows "claim (complete l j scope resp) j scope now = (complete l j scope resp, ClaimReplay, Some resp)"
    and "scope' \<noteq> scope \<Longrightarrow> claim (complete l j scope resp) j scope' now = (complete l j scope resp, ClaimConflict, None)"
  using assms by (auto simp: in_progress_def complete_def claim_def split: option.splits if_splits)

subsection \<open>The endpoints\<close>

lemma authenticateRunbook_fields:
  "authenticateRunbook h now r = (h', res) \<Longrightarrow> h' = h\<lparr>rh_verifier := rh_verifier h'\<rparr>"
  by (auto simp: authenticateRunbook_def split: prod.splits)

lemma authenticateRunbook_Inr:
  assumes "authenticateRunbook h now r = (h', Inr body)"
  shows "body = cr_Body r \<and> int (length body) \<le> rh_bodyLimit h \<and> Verify (rh_verifier h) now (Some (cr_Http r)) body = (rh_verifier h', None)"
  using assms by (auto simp: authenticateRunbook_def dest!: authenticate_body_Inr split: prod.splits)

lemma execute_checks_Inl: "execute_checks ps fpk fps decode h now body i = (h', Inl reply) \<Longrightarrow> h' = h"
  by (auto simp: execute_checks_def dest!: claim_other split: option.splits sum.splits if_splits prod.splits runbookClaim.splits)

lemma execute_checks_Inr:
  assumes "execute_checks ps fpk fps decode h now body i = (h', Inr p)"
  shows "decode body = Some (pe_Request p) \<and>
    buildBoundPlan (eq_ProtocolVersion (pe_Request p)) (eq_Binding (pe_Request p)) = Inr (pe_Plan p, pe_Digest p) \<and>
    (df_Mutating (p_definition (pe_Plan p)) \<longrightarrow> rh_mutationsEnabled h) \<and>
    validateApproval (pe_Request p) (p_definition (pe_Plan p)) (pe_Digest p) now \<and>
    validateRunbookSSHMaterial ps fpk fps (pe_Request p) = Some (pe_Pinned p, pe_Signer p) \<and>
    (\<exists>l resp. claim (rh_ledger h) (pending_job p) (pe_Digest p) now = (l, ClaimNew, resp) \<and> h' = h\<lparr>rh_ledger := l\<rparr>)"
  using assms
  by (auto simp: execute_checks_def pending_job_def split: option.splits sum.splits if_splits prod.splits runbookClaim.splits)

lemma begin_execute_Inl:
  assumes "begin_execute ps fpk fps decode h now r i = (h', Inl reply)"
  shows "rh_ledger h' = rh_ledger h \<and> rh_inUse h' = rh_inUse h \<and> rh_concurrency h' = rh_concurrency h"
  using assms
  by (auto simp: begin_execute_def authenticateRunbook_def runbook_acquire_def runbook_release_def dest!: execute_checks_Inl
    split: prod.splits sum.splits option.splits if_splits)

lemma begin_execute_Inr:
  assumes "begin_execute ps fpk fps decode h now r i = (h', Inr p)"
  obtains v l resp where "Verify (rh_verifier h) now (Some (cr_Http r)) (cr_Body r) = (v, None)" "int (length (cr_Body r)) \<le> rh_bodyLimit h"
    "rh_inUse h < rh_concurrency h" "decode (cr_Body r) = Some (pe_Request p)"
    "buildBoundPlan (eq_ProtocolVersion (pe_Request p)) (eq_Binding (pe_Request p)) = Inr (pe_Plan p, pe_Digest p)"
    "df_Mutating (p_definition (pe_Plan p)) \<longrightarrow> rh_mutationsEnabled h"
    "validateApproval (pe_Request p) (p_definition (pe_Plan p)) (pe_Digest p) now"
    "validateRunbookSSHMaterial ps fpk fps (pe_Request p) = Some (pe_Pinned p, pe_Signer p)"
    "claim (rh_ledger h) (pending_job p) (pe_Digest p) now = (l, ClaimNew, resp)"
    "h' = h\<lparr>rh_verifier := v, rh_inUse := rh_inUse h + 1, rh_ledger := l\<rparr>"
proof -
  from assms obtain h1 body held where b: "authenticateRunbook h now r = (h1, Inr body :: runbookExecuteResponse reply + string)"
      "runbook_acquire h1 = Some held" "execute_checks ps fpk fps decode held now body i = (h', Inr p)"
    by (auto simp: begin_execute_def split: prod.splits sum.splits option.splits)
  have held: "held = h\<lparr>rh_verifier := rh_verifier h1, rh_inUse := rh_inUse h + 1\<rparr>" "rh_inUse h < rh_concurrency h"
    using authenticateRunbook_fields [OF b(1)] b(2)
    by (metis (no_types, lifting) option.distinct(1) option.inject runbook_acquire_def runbookHandler.select_convs(7, 8)
      runbookHandler.surjective runbookHandler.update_convs(1, 8))+
  note c = execute_checks_Inr [OF b(3)]
  then obtain l resp where l: "claim (rh_ledger held) (pending_job p) (pe_Digest p) now = (l, ClaimNew, resp)" "h' = held\<lparr>rh_ledger := l\<rparr>"
    by blast
  from authenticateRunbook_Inr [OF b(1)] held c l show ?thesis
    by (intro that [of "rh_verifier h1" l resp]) auto
qed

subsection \<open>The invariant of the service\<close>

definition service_inv :: "('k, 'a) service_state \<Rightarrow> bool" where
  "service_inv st \<longleftrightarrow>
    (case st of (h, pend, started) \<Rightarrow>
      wf_ledger (rh_ledger h) \<and> distinct (map pending_job pend) \<and>
      in_progress (rh_ledger h) = map_of (map (\<lambda>p. (pending_job p, pe_Digest p)) pend) \<and>
      rh_inUse h = int (length pend) \<and> rh_inUse h \<le> rh_concurrency h \<and>
      (int (length started) \<le> lg_max (rh_ledger h) \<longrightarrow> distinct started \<and> set started = dom (map_of (lg_entries (rh_ledger h)))))"

lemma new_handler_inv: "NewRunbookHandler o' = Inr h \<Longrightarrow> service_inv (h, [], [])"
  by (auto simp: NewRunbookHandler_def service_inv_def newRunbookLedger_def wf_ledger_def in_progress_def result_simps
    split: sum.splits)

lemma service_inv_start:
  assumes "service_inv (h, pend, started)" and "begin_execute ps fpk fps decode h now r i = (h', Inr p)"
  shows "service_inv (h', p # pend, pending_job p # started)"
proof -
  from assms(2) obtain v l resp where b: "rh_inUse h < rh_concurrency h"
      "claim (rh_ledger h) (pending_job p) (pe_Digest p) now = (l, ClaimNew, resp)"
      "h' = h\<lparr>rh_verifier := v, rh_inUse := rh_inUse h + 1, rh_ledger := l\<rparr>"
    by (rule begin_execute_Inr)
  have inv: "wf_ledger (rh_ledger h)" "in_progress (rh_ledger h) = map_of (map (\<lambda>p. (pending_job p, pe_Digest p)) pend)"
      "int (length started) \<le> lg_max (rh_ledger h) \<longrightarrow> distinct started \<and> set started = dom (map_of (lg_entries (rh_ledger h)))"
    using assms(1) by (auto simp: service_inv_def)
  note new = claim_new [OF b(2) inv(1)]
  have "in_progress (rh_ledger h) (pending_job p) = None"
    using new(3) by (simp add: in_progress_def)
  then have fresh: "pending_job p \<notin> pending_job ` set pend"
    by (auto simp: inv(2) map_of_eq_None_iff comp_def image_image)
  have "distinct (pending_job p # started) \<and> set (pending_job p # started) = dom (map_of (lg_entries l))"
    if "int (length (pending_job p # started)) \<le> lg_max l"
  proof -
    have "distinct started" "set started = dom (map_of (lg_entries (rh_ledger h)))"
      using inv(3) that new(2) by auto
    moreover from this have "length (lg_entries (rh_ledger h)) = length started"
      using inv(1) wf_map_length [of "lg_entries (rh_ledger h)"] distinct_card [of started] by (simp add: wf_ledger_def)
    ultimately show ?thesis
      using new(2, 3, 5) that by auto
  qed
  with assms(1) b new fresh show ?thesis
    by (auto simp: service_inv_def inv(2))
qed

lemma map_of_remove1:
  assumes "distinct (map f xs)" and "p \<in> set xs"
  shows "map_of (map (\<lambda>x. (f x, g x)) (remove1 p xs)) = (map_of (map (\<lambda>x. (f x, g x)) xs))(f p := None)"
  using assms
proof (induction xs)
  case (Cons x xs)
  show ?case
  proof (cases "x = p")
    case True
    with Cons.prems(1) have "map_of (map (\<lambda>x. (f x, g x)) xs) (f p) = None"
      by (auto simp: map_of_eq_None_iff)
    with True show ?thesis
      by (auto simp: fun_eq_iff)
  next
    case False
    moreover have "f x \<noteq> f p"
      using Cons.prems False by auto
    ultimately show ?thesis
      using Cons by (auto simp: fun_eq_iff)
  qed
qed simp

lemma service_inv_finish:
  assumes "service_inv (h, pend, started)" and "p \<in> set pend" and "finish_execute runner h p = (h', reply)"
  shows "service_inv (h', remove1 p pend, started)"
proof -
  from assms(3) obtain resp where h': "h' = runbook_release (h\<lparr>rh_ledger := complete (rh_ledger h) (pending_job p) (pe_Digest p) resp\<rparr>)"
    by (auto simp: finish_execute_def Let_def pending_job_def)
  have inv: "wf_ledger (rh_ledger h)" "distinct (map pending_job pend)"
      "in_progress (rh_ledger h) = map_of (map (\<lambda>p. (pending_job p, pe_Digest p)) pend)" "rh_inUse h = int (length pend)"
    using assms(1) by (auto simp: service_inv_def)
  have "in_progress (rh_ledger h) (pending_job p) = Some (pe_Digest p)"
    unfolding inv(3) using inv(2) assms(2) by (intro map_of_is_SomeI) (auto simp: comp_def)
  note compl = complete_claimed [OF this inv(1), of resp]
  have "distinct (map pending_job (remove1 p pend))"
    using inv(2) by (metis distinct_map distinct_remove1 inj_on_subset set_remove1_subset)
  moreover have "length pend = Suc (length (remove1 p pend))"
    using assms(2) length_pos_if_in_set [of p pend] by (simp add: length_remove1)
  ultimately show ?thesis
    using assms(1, 2) compl map_of_remove1 [OF inv(2) assms(2), of pe_Digest] inv(3, 4)
    by (auto simp: service_inv_def h' runbook_release_def)
qed

lemma service_inv_step:
  assumes "service_step ps fpk fps decodeP decodeE runner st st'" and "service_inv st"
  shows "service_inv st'"
  using assms
proof (induction rule: service_step.induct)
  case (Preview h now r i h' reply pend started)
  then have "rh_ledger h' = rh_ledger h \<and> rh_inUse h' = rh_inUse h \<and> rh_concurrency h' = rh_concurrency h"
    by (auto simp: handlePreview_def authenticateRunbook_def split: prod.splits sum.splits option.splits)
  with Preview.prems show ?case
    by (simp add: service_inv_def)
next
  case (Refuse h now r i h' reply pend started)
  with begin_execute_Inl [OF Refuse.hyps] show ?case
    by (simp add: service_inv_def)
next
  case (Start h now r i h' p pend started)
  then show ?case
    by (auto intro: service_inv_start)
next
  case (Finish p pend h h' reply started)
  then show ?case
    by (auto intro: service_inv_finish)
qed

lemma service_inv_reachable:
  "(service_step ps fpk fps decodeP decodeE runner)\<^sup>*\<^sup>* st st' \<Longrightarrow> service_inv st \<Longrightarrow> service_inv st'"
  by (induction rule: rtranclp_induct) (auto intro: service_inv_step)

subsection \<open>The bound digest\<close>

lemma no_control_no_newline: "list_all (\<lambda>r. \<not> is_control r) (runes s) \<Longrightarrow> CHR 0x0A \<notin> set s"
  using ascii_byte_is_rune [of "CHR 0x0A" s] by (force simp: list_all_iff is_control_def byte_def)

lemma identifier_no_newline: "validIdentifier v n \<Longrightarrow> CHR 0x0A \<notin> set v"
  using ascii_byte_is_rune [of "CHR 0x0A" v]
  by (force simp: validIdentifier_def list_all_iff id_rune_def alnum_rune_def byte_def split: list.splits)

lemma fingerprint_no_newline:
  assumes "validSSHFingerprint v"
  shows "CHR 0x0A \<notin> set v"
proof -
  obtain w where v: "v = ''SHA256:'' @ w"
    using assms by (auto simp: validSSHFingerprint_def has_prefix_def) (metis append_take_drop_id append_Cons append_Nil)
  have "CHR 0x0A \<notin> set w"
    using assms ascii_byte_is_rune [of "CHR 0x0A" w]
    by (force simp: v validSSHFingerprint_def list_all_iff fingerprint_rune_def alnum_rune_def byte_def trim_prefix_def has_prefix_def)
  then show ?thesis
    by (simp add: v)
qed

lemma buildBoundPlan_Inr:
  assumes "buildBoundPlan v b = Inr (pl, digest)"
  shows "validIdentifier (rb_HostID b) 128 \<and> validIdentifier (rb_JobID b) 128 \<and> validateBoundTarget b \<and>
    Build (ra_ID (rb_Action b)) (ra_Version (rb_Action b)) (rb_Parameters b) = Inr pl \<and>
    digest = bound_digest (hex_encode (sha256 (join [CHR 0x0A] (scope_fields (rb_HostID b) (rb_JobID b) pl)))) b"
  using assms
  by (auto simp: buildBoundPlan_def result_simps ScopeDigest_def split: sum.splits)

lemma bound_fields_clean:
  assumes "validateBoundTarget b"
  shows "list_all (\<lambda>f. CHR 0x0A \<notin> set f) (bound_fields (hex_encode d) b)"
proof -
  have "CHR 0x0A \<notin> set (t_Address (rb_Target b) @ t_User (rb_Target b))"
    using assms by (intro no_control_no_newline) (simp add: validateBoundTarget_def)
  with assms fingerprint_no_newline show ?thesis
    by (auto simp: bound_fields_def hex_no_newline format_int_no_newline validateBoundTarget_def)
qed

subsection \<open>Draining\<close>

definition recorded :: "runbookLedger \<Rightarrow> ('k, 'a) pending \<Rightarrow> bool" where
  "recorded l p \<longleftrightarrow> (\<exists>e resp. map_of (lg_entries l) (pending_job p) = Some e \<and> le_scope e = pe_Digest p \<and> le_state e = RunbookCompleted \<and>
    le_response e = Some resp \<and> er_Binding resp = eq_Binding (pe_Request p))"

lemma finish_records:
  assumes "in_progress (rh_ledger h) (pending_job p) = Some (pe_Digest p)" and "finish_execute runner h p = (h', reply)"
  shows "recorded (rh_ledger h') p" and "recorded (rh_ledger h) q \<Longrightarrow> pending_job q \<noteq> pending_job p \<Longrightarrow> recorded (rh_ledger h') q"
  using assms
  by (auto simp: finish_execute_def Let_def recorded_def complete_def in_progress_def pending_job_def runbook_release_def
    split: option.splits if_splits)

lemma drain_all:
  assumes "service_inv (h, pend, started)" and "\<forall>q \<in> Q. recorded (rh_ledger h) q \<and> pending_job q \<notin> pending_job ` set pend"
  shows "\<exists>h'. (service_step ps fpk fps decodeP decodeE runner)\<^sup>*\<^sup>* (h, pend, started) (h', [], started) \<and> rh_inUse h' = 0 \<and>
    (\<forall>q \<in> Q \<union> set pend. recorded (rh_ledger h') q)"
  using assms
proof (induction pend arbitrary: h Q)
  case Nil
  then show ?case
    by (auto simp: service_inv_def)
next
  case (Cons p pend)
  obtain h1 reply where f: "finish_execute runner h p = (h1, reply)"
    by (rule prod.exhaust)
  have claimed: "in_progress (rh_ledger h) (pending_job p) = Some (pe_Digest p)" and fresh: "pending_job p \<notin> pending_job ` set pend"
    using Cons.prems(1) by (auto simp: service_inv_def)
  have step: "service_step ps fpk fps decodeP decodeE runner (h, p # pend, started) (h1, pend, started)"
    using service_step.Finish [OF _ f, of "p # pend"] by simp
  have inv: "service_inv (h1, pend, started)"
    using service_inv_step [OF step Cons.prems(1)] .
  have "\<forall>q \<in> insert p Q. recorded (rh_ledger h1) q \<and> pending_job q \<notin> pending_job ` set pend"
    using Cons.prems(2) finish_records [OF claimed f] fresh by auto
  from Cons.IH [OF inv this] step show ?case
    by (auto intro: converse_rtranclp_into_rtranclp)
qed

lemma drain:
  assumes "service_inv (h, pend, started)"
  shows "\<exists>h'. (service_step ps fpk fps decodeP decodeE runner)\<^sup>*\<^sup>* (h, pend, started) (h', [], started) \<and> rh_inUse h' = 0 \<and>
    (\<forall>p \<in> set pend. \<forall>now. \<exists>resp. claim (rh_ledger h') (pending_job p) (pe_Digest p) now = (rh_ledger h', ClaimReplay, Some resp)
      \<and> er_Binding resp = eq_Binding (pe_Request p))"
proof -
  obtain h' where h': "(service_step ps fpk fps decodeP decodeE runner)\<^sup>*\<^sup>* (h, pend, started) (h', [], started)" "rh_inUse h' = 0"
      "\<forall>q \<in> set pend. recorded (rh_ledger h') q"
    using drain_all [OF assms, of "{}" ps fpk fps decodeP decodeE runner] by auto
  moreover have "\<exists>resp. claim (rh_ledger h') (pending_job p) (pe_Digest p) now = (rh_ledger h', ClaimReplay, Some resp)
      \<and> er_Binding resp = eq_Binding (pe_Request p)" if "p \<in> set pend" for p now
    using h'(3) that by (force simp: recorded_def claim_def)
  ultimately show ?thesis
    by blast
qed

section \<open>Evaluation fixtures\<close>

definition demo_fingerprint :: string where
  "demo_fingerprint = ''SHA256:abcdefghijklmnop''"

definition demo_binding :: runbookBinding where
  "demo_binding = \<lparr>rb_Action = \<lparr>ra_ID = ActionCapabilities, ra_Version = 1\<rparr>, rb_HostID = ''host1'', rb_JobID = ''job1'',
    rb_Target = \<lparr>t_Address = ''8.8.8.8'', t_Port = 22, t_User = ''ops''\<rparr>, rb_PinnedHostKeySHA256 = demo_fingerprint,
    rb_CredentialPublicKeySHA256 = demo_fingerprint, rb_Parameters = no_parameters\<rparr>"

definition demo_digest :: string where
  "demo_digest = snd (projr (buildBoundPlan ProtocolVersion demo_binding))"

definition demo_execute_request :: runbookExecuteRequest where
  "demo_execute_request = \<lparr>eq_ProtocolVersion = ProtocolVersion, eq_Binding = demo_binding,
    eq_Approval = \<lparr>ap_Decision = ''approved'', ap_Action = rb_Action demo_binding, ap_HostID = ''host1'', ap_JobID = ''job1'',
      ap_ScopeDigest = demo_digest, ap_ApprovedAt = 20 * second, ap_ExpiresAt = 40 * second\<rparr>,
    eq_Emergency = \<lparr>eg_IncidentID = [], eg_ExpiresAt = zero_time\<rparr>, eq_Reason = ''inspection'', eq_PinnedHostKey = ''key'',
    eq_Credential = \<lparr>cred_PrivateKeyPEM = ''pem'', cred_Passphrase = []\<rparr>\<rparr>"

definition demo_runbook_options :: runbookOptions where
  "demo_runbook_options = \<lparr>ro_KeyID = ''k1'', ro_HMACKey = replicate 32 (CHR ''s''), ro_MutationsEnabled = False,
    ro_AllowPrivateTargets = False, ro_MaxConcurrent = 0, ro_MaxRequestBodyBytes = 0, ro_MaxOutputBytes = 0, ro_ConnectTimeout = 0,
    ro_MaxTrackedNonces = 0, ro_MaxIdempotencyJobs = 0, ro_AuthenticationSkew = 0\<rparr>"

definition demo_handler :: runbookHandler where
  "demo_handler = \<lparr>rh_verifier = demo_verifier, rh_mutationsEnabled = False, rh_allowPrivateTargets = False, rh_bodyLimit = 131072,
    rh_outputLimit = 1048576, rh_connectTimeout = 10 * second, rh_concurrency = 4, rh_inUse = 0,
    rh_ledger = \<lparr>lg_entries = [], lg_max = 10000\<rparr>\<rparr>"

definition demo_runner :: "duration \<Rightarrow> (string, unit) ssh_config \<Rightarrow> step \<Rightarrow> step_outcome" where
  "demo_runner _ cfg = ssh_runner (demo_network ''key'' [(Stdout, ''ok'')]) cfg (\<lambda>_. 1) (\<lambda>_. False)"

lemma demo_handler_new: "NewRunbookHandler demo_runbook_options = Inr demo_handler"
  using demo_paired
  by (simp add: NewRunbookHandler_def NewVerifier_def demo_runbook_options_def with_limit_def demo_handler_def newRunbookLedger_def
    paired_def demo_signer_def demo_verifier_def defaultMaxSkew_def defaultNonces_def minute_def second_def)

lemma demo_bound_plan:
  obtains pl where "buildBoundPlan ProtocolVersion demo_binding = Inr (pl, demo_digest)"
    "Build ActionCapabilities 1 no_parameters = Inr pl" "df_Mutating (p_definition pl) = False" "df_Emergency (p_definition pl) = False"
proof -
  have ids: "validIdentifier ''host1'' 128" "validIdentifier ''job1'' 128" "validSSHFingerprint demo_fingerprint"
    by (simp_all add: validIdentifier_def validSSHFingerprint_def demo_fingerprint_def trim_eval runes_ascii_Cons byte_def alnum_rune_def
      id_rune_def fingerprint_rune_def trim_prefix_def has_prefix_def)
  have target: "validateBoundTarget demo_binding"
    using ids by (simp add: validateBoundTarget_def demo_binding_def trim_eval runes_ascii_Cons is_control_def)
  obtain pl where pl: "Build ActionCapabilities 1 no_parameters = Inr pl" "df_Mutating (p_definition pl) = False" "df_Emergency (p_definition pl) = False"
    by (simp add: Build_def definitions_def catalog_entry_def action_names buildSteps_def)
  obtain sd where "ScopeDigest ''host1'' ''job1'' pl = Inr sd"
    using Build_fields [OF pl(1)] by (simp add: ScopeDigest_def)
  then obtain d where d: "buildBoundPlan ProtocolVersion demo_binding = Inr (pl, d)"
    using ids pl target by (auto simp: buildBoundPlan_def demo_binding_def)
  then have "d = demo_digest"
    by (simp add: demo_digest_def)
  with d pl that show ?thesis
    by simp
qed

lemma demo_begin:
  obtains h' p where "begin_execute demo_parsers (\<lambda>_. demo_fingerprint) (\<lambda>_. demo_fingerprint) (\<lambda>_. Some demo_execute_request) demo_handler
      (31 * second) demo_conn_request ''r'' = (h', Inr p)"
    "pending_job p = ''job1''" "Build ActionCapabilities 1 no_parameters = Inr (pe_Plan p)" "pe_Pinned p = ''key''" "pe_Request p = demo_execute_request"
    "rh_outputLimit h' = 1048576" "rh_allowPrivateTargets h' = False" "rh_connectTimeout h' = 10 * second"
proof -
  obtain pl where pl: "buildBoundPlan ProtocolVersion demo_binding = Inr (pl, demo_digest)"
    "Build ActionCapabilities 1 no_parameters = Inr pl" "df_Mutating (p_definition pl) = False" "df_Emergency (p_definition pl) = False"
    by (rule demo_bound_plan)
  have reason: "validReason ''inspection''"
    by (simp add: validReason_def trim_eval runes_ascii_Cons is_control_def)
  have approval: "validateApproval demo_execute_request (p_definition pl) demo_digest (31 * second)"
    using pl(4) reason by (simp add: validateApproval_def demo_execute_request_def Let_def is_zero_time_def zero_time_def second_def minute_def
      maxApprovalLifetime_def demo_binding_def)
  have material: "validateRunbookSSHMaterial demo_parsers (\<lambda>_. demo_fingerprint) (\<lambda>_. demo_fingerprint) demo_execute_request = Some (''key'', ())"
    by (simp add: validateRunbookSSHMaterial_def demo_execute_request_def ssh_material_sizes_def ParsePinnedHostKey_def demo_parsers_def
      parse_signer_def demo_binding_def trim_eval)
  let ?v = "fst (Verify demo_verifier (31 * second) (Some demo_signed) ''{}'')"
  have auth: "authenticateRunbook demo_handler (31 * second) demo_conn_request =
      (demo_handler\<lparr>rh_verifier := ?v\<rparr>, Inr ''{}'' :: runbookExecuteResponse reply + string)"
    using demo_verified by (auto simp: authenticateRunbook_def authenticate_body_def demo_conn_request_def demo_handler_def split: prod.splits)
  have request: "eq_ProtocolVersion demo_execute_request = ProtocolVersion" "eq_Binding demo_execute_request = demo_binding"
      "rb_JobID demo_binding = ''job1''"
    by (simp_all add: demo_execute_request_def demo_binding_def)
  define p where "p = \<lparr>pe_Request = demo_execute_request, pe_Plan = pl, pe_Digest = demo_digest, pe_RequestID = ''r'', pe_Pinned = ''key'', pe_Signer = ()\<rparr>"
  define h' where "h' = demo_handler\<lparr>rh_verifier := ?v, rh_inUse := 1, rh_ledger := \<lparr>lg_entries = put [] ''job1''
    \<lparr>le_scope = demo_digest, le_state = RunbookInProgress, le_startedAt = 31 * second, le_response = None\<rparr>, lg_max = 10000\<rparr>\<rparr>"
  have "begin_execute demo_parsers (\<lambda>_. demo_fingerprint) (\<lambda>_. demo_fingerprint) (\<lambda>_. Some demo_execute_request) demo_handler
      (31 * second) demo_conn_request ''r'' = (h', Inr p)"
    by (simp add: begin_execute_def auth runbook_acquire_def execute_checks_def request pl approval material claim_def p_def h'_def)
      (simp add: demo_handler_def)
  with pl request show ?thesis
    by (intro that [of h' p]) (simp_all add: p_def h'_def pending_job_def demo_handler_def)
qed

section \<open>Properties\<close>

text \<open>
  C34. An approval holds for one operation on one target. Unless SHA-256 collides on the strings at hand,
  two accepted bindings with the same digest are the same: action, parameters, host, job, address, port,
  user, host key and credential.
\<close>

theorem bound_digest_binds:
  assumes "buildBoundPlan v b = Inr (pl, digest)" and "buildBoundPlan v' b' = Inr (pl', digest)"
    and "\<forall>f \<in> {\<lambda>b pl. join [CHR 0x0A] (scope_fields (rb_HostID b) (rb_JobID b) pl),
               \<lambda>b pl. join [CHR 0x0A] (bound_fields (hex_encode (sha256 (join [CHR 0x0A] (scope_fields (rb_HostID b) (rb_JobID b) pl)))) b)}.
      sha256 (f b pl) = sha256 (f b' pl') \<longrightarrow> f b pl = f b' pl'"
  shows "b = b' \<and> pl = pl'"
proof -
  note one = buildBoundPlan_Inr [OF assms(1)] and two = buildBoundPlan_Inr [OF assms(2)]
  let ?s = "\<lambda>b pl. join [CHR 0x0A] (scope_fields (rb_HostID b) (rb_JobID b) pl)"
  let ?f = "\<lambda>b pl. bound_fields (hex_encode (sha256 (?s b pl))) b"
  have "sha256 (join [CHR 0x0A] (?f b pl)) = sha256 (join [CHR 0x0A] (?f b' pl'))"
    using one two by (auto simp: bound_digest_def hex_encode_inj)
  then have "join [CHR 0x0A] (?f b pl) = join [CHR 0x0A] (?f b' pl')"
    using assms(3) by simp
  moreover have "length (?f b pl) = length (?f b' pl')"
    by (simp add: bound_fields_def)
  ultimately have "?f b pl = ?f b' pl'"
    by (rule join_inj) (use one two bound_fields_clean in blast)+
  then have target: "rb_Target b = rb_Target b'" "rb_PinnedHostKeySHA256 b = rb_PinnedHostKeySHA256 b'"
      "rb_CredentialPublicKeySHA256 b = rb_CredentialPublicKeySHA256 b'" "sha256 (?s b pl) = sha256 (?s b' pl')"
    by (auto simp: bound_fields_def format_int_inj hex_encode_inj intro!: target.equality)
  then have "?s b pl = ?s b' pl'"
    using assms(3) by simp
  with one two identifier_no_newline
  have "rb_HostID b = rb_HostID b' \<and> rb_JobID b = rb_JobID b' \<and> ra_ID (rb_Action b) = ra_ID (rb_Action b') \<and> rb_Parameters b = rb_Parameters b' \<and> pl = pl'"
    using scope_fields_inj [of "ra_ID (rb_Action b)" "ra_Version (rb_Action b)" "rb_Parameters b" pl
        "ra_ID (rb_Action b')" "ra_Version (rb_Action b')" "rb_Parameters b'" pl' "rb_HostID b" "rb_JobID b" "rb_HostID b'" "rb_JobID b'"]
    by blast
  moreover have "ra_Version (rb_Action b) = ra_Version (rb_Action b')"
    using one two Build_fields by metis
  ultimately show ?thesis
    using target by (auto intro!: runbookBinding.equality runbookActionRef.equality)
qed

theorem bound_digest_binds_witness:
  "\<exists>pl. buildBoundPlan ProtocolVersion demo_binding = Inr (pl, demo_digest) \<and> demo_binding = demo_binding \<and> pl = pl"
proof -
  obtain pl where pl: "buildBoundPlan ProtocolVersion demo_binding = Inr (pl, demo_digest)"
    by (rule demo_bound_plan)
  from bound_digest_binds [OF pl pl] pl show ?thesis
    by blast
qed

text \<open>
  C3. However requests and executions interleave, no job runs twice at the same time, no more jobs run
  than the limit admits, the ledger never exceeds its capacity, and until that many jobs have been
  started no job is started a second time.
\<close>

theorem job_never_started_twice:
  assumes "NewRunbookHandler o' = Inr h0"
    and "(service_step ps fpk fps decodeP decodeE runner)\<^sup>*\<^sup>* (h0, [], []) (h, pend, started)"
  shows "distinct (map pending_job pend) \<and> int (length pend) \<le> rh_concurrency h
    \<and> int (length (lg_entries (rh_ledger h))) \<le> lg_max (rh_ledger h)
    \<and> (\<forall>p \<in> set pend. in_progress (rh_ledger h) (pending_job p) = Some (pe_Digest p))
    \<and> (int (length started) \<le> lg_max (rh_ledger h) \<longrightarrow> distinct started)"
proof -
  have inv: "service_inv (h, pend, started)"
    using service_inv_reachable [OF assms(2) new_handler_inv [OF assms(1)]] .
  then have "in_progress (rh_ledger h) (pending_job p) = Some (pe_Digest p)" if "p \<in> set pend" for p
    using that by (auto simp: service_inv_def comp_def intro!: map_of_is_SomeI)
  with inv show ?thesis
    by (auto simp: service_inv_def wf_ledger_def)
qed

theorem job_never_started_twice_witness:
  "\<exists>h p. (service_step demo_parsers (\<lambda>_. demo_fingerprint) (\<lambda>_. demo_fingerprint) (\<lambda>_. None) (\<lambda>_. Some demo_execute_request) demo_runner)\<^sup>*\<^sup>*
      (demo_handler, [], []) (h, [p], [''job1'']) \<and> distinct (map pending_job [p])"
proof -
  obtain h' p where b: "begin_execute demo_parsers (\<lambda>_. demo_fingerprint) (\<lambda>_. demo_fingerprint) (\<lambda>_. Some demo_execute_request) demo_handler
      (31 * second) demo_conn_request ''r'' = (h', Inr p)" "pending_job p = ''job1''"
    by (rule demo_begin)
  from service_step.Start [OF b(1), where pend = "[]" and started = "[]"] b(2)
  have run: "(service_step demo_parsers (\<lambda>_. demo_fingerprint) (\<lambda>_. demo_fingerprint) (\<lambda>_. None) (\<lambda>_. Some demo_execute_request) demo_runner)\<^sup>*\<^sup>*
      (demo_handler, [], []) (h', [p], [''job1''])"
    by auto
  from job_never_started_twice [OF demo_handler_new run] run show ?thesis
    by blast
qed

text \<open>
  C18. No slot and no job is lost: from every state the service reaches, letting the pending executions
  finish leads to a state without pending executions in which every slot is free and every job that was
  pending is answered from the record of its execution.
\<close>

theorem service_drains:
  assumes "NewRunbookHandler o' = Inr h0"
    and "(service_step ps fpk fps decodeP decodeE runner)\<^sup>*\<^sup>* (h0, [], []) (h, pend, started)"
  shows "\<exists>h'. (service_step ps fpk fps decodeP decodeE runner)\<^sup>*\<^sup>* (h, pend, started) (h', [], started) \<and> rh_inUse h' = 0
    \<and> (\<forall>p \<in> set pend. \<forall>now. \<exists>resp. claim (rh_ledger h') (pending_job p) (pe_Digest p) now = (rh_ledger h', ClaimReplay, Some resp)
        \<and> er_Binding resp = eq_Binding (pe_Request p))"
proof -
  have "service_inv (h, pend, started)"
    using service_inv_reachable [OF assms(2) new_handler_inv [OF assms(1)]] .
  then show ?thesis
    by (rule drain)
qed

theorem service_drains_witness:
  "\<exists>h h' p. (service_step demo_parsers (\<lambda>_. demo_fingerprint) (\<lambda>_. demo_fingerprint) (\<lambda>_. None) (\<lambda>_. Some demo_execute_request) demo_runner)\<^sup>*\<^sup>*
      (h, [p], [''job1'']) (h', [], [''job1'']) \<and> rh_inUse h' = 0"
proof -
  obtain h' p where b: "begin_execute demo_parsers (\<lambda>_. demo_fingerprint) (\<lambda>_. demo_fingerprint) (\<lambda>_. Some demo_execute_request) demo_handler
      (31 * second) demo_conn_request ''r'' = (h', Inr p)" "pending_job p = ''job1''"
    by (rule demo_begin)
  from service_step.Start [OF b(1), where pend = "[]" and started = "[]"] b(2)
  have run: "(service_step demo_parsers (\<lambda>_. demo_fingerprint) (\<lambda>_. demo_fingerprint) (\<lambda>_. None) (\<lambda>_. Some demo_execute_request) demo_runner)\<^sup>*\<^sup>*
      (demo_handler, [], []) (h', [p], [''job1''])"
    by auto
  from service_drains [OF demo_handler_new run] show ?thesis
    by blast
qed

end
