(* ===== verification/Connector_Client.thy ===== *)
theory Connector_Client
  imports Runbook_Service
begin

text \<open>
  The control plane's client of the connector (\<^verbatim>\<open>connector-protocol/client.go\<close>, \<^verbatim>\<open>runbook_client.go\<close>): where it
  may send credentials, how it signs a request and what it accepts as a response. URL parsing, JSON and
  the HTTP transport are arguments.
\<close>

section \<open>Endpoints\<close>

text \<open>\<^verbatim>\<open>url.URL\<close>'s split of its host into name and port, and the path functions used.\<close>

definition valid_optional_port :: "string \<Rightarrow> bool" where
  "valid_optional_port p \<longleftrightarrow> p = [] \<or> hd p = CHR '':'' \<and> list_all is_digit (tl p)"

definition split_host_port :: "string \<Rightarrow> string \<times> string" where
  "split_host_port hp =
    (let tail = rev (takeWhile (\<lambda>c. c \<noteq> CHR '':'') (rev hp));
         (host, port) = (if CHR '':'' \<in> set hp \<and> valid_optional_port (CHR '':'' # tail)
                         then (take (length hp - Suc (length tail)) hp, tail) else (hp, []))
     in (if has_prefix host ''['' \<and> has_suffix host '']'' then tl (butlast host) else host, port))"

definition url_hostname :: "parsed_url \<Rightarrow> string" where
  "url_hostname u = fst (split_host_port (u_Host u))"

definition url_port :: "parsed_url \<Rightarrow> string" where
  "url_port u = snd (split_host_port (u_Host u))"

definition is_abs :: "string \<Rightarrow> bool" where
  "is_abs p \<longleftrightarrow> has_prefix p ''/''"

fun clean_step :: "string list \<Rightarrow> string \<Rightarrow> string list" where
  "clean_step parts part =
    (if part = [] \<or> part = ''.'' then parts else if part = ''..'' then butlast parts else parts @ [part])"

text \<open>\<^verbatim>\<open>filepath.Clean\<close> of an absolute path.\<close>

definition clean_abs :: "string \<Rightarrow> string" where
  "clean_abs p = ''/'' @ join ''/'' (foldl clean_step [] (split_on (CHR ''/'') p))"

definition trim_right_slash :: "string \<Rightarrow> string" where
  "trim_right_slash s = rev (dropWhile (\<lambda>c. c = CHR ''/'') (rev s))"

section \<open>Client\<close>

record clientConfig =
  cc_BaseURL :: string
  cc_UnixSocket :: string
  cc_KeyID :: string
  cc_Key :: string
  cc_Timeout :: duration
  cc_MaxResponseBytes :: int

text \<open>The client; its transport dials the socket if there is one.\<close>

record conn_client =
  cl_baseURL :: string
  cl_socket :: "string option"
  cl_timeout :: duration
  cl_signer :: signer
  cl_maxResponseBytes :: int

datatype client_error =
  ResponseLimitTooLarge | SignerInvalid key_error | EndpointsExclusive | SocketNotAbsolute
| BaseNotLoopbackHTTP | BaseHasExtras | BaseHostNotLoopback | BasePortMissing

definition validateLoopbackBaseURL :: "(string \<Rightarrow> parsed_url option) \<Rightarrow> string \<Rightarrow> client_error option" where
  "validateLoopbackBaseURL parse value =
    (case parse value of None \<Rightarrow> Some BaseNotLoopbackHTTP | Some u \<Rightarrow>
     if u_Scheme u \<noteq> ''http'' \<or> u_Host u = [] then Some BaseNotLoopbackHTTP
     else if u_HasUser u \<or> u_Path u \<noteq> [] \<or> u_RawQuery u \<noteq> [] \<or> u_Fragment u \<noteq> [] then Some BaseHasExtras
     else case ParseAddr (url_hostname u) of
       None \<Rightarrow> Some BaseHostNotLoopback
     | Some address \<Rightarrow>
         if \<not> IsLoopback address then Some BaseHostNotLoopback
         else if url_port u = [] then Some BasePortMissing else None)"

definition NewClient :: "(string \<Rightarrow> parsed_url option) \<Rightarrow> clientConfig \<Rightarrow> client_error + conn_client" where
  "NewClient parse cfg =
    (let timeout = (if cc_Timeout cfg \<le> 0 then 100 * second else cc_Timeout cfg);
         baseURL = trim_right_slash (cc_BaseURL cfg)
     in with_limit (cc_MaxResponseBytes cfg) (3 * 2 ^ 20) (16 * 2 ^ 20) ResponseLimitTooLarge (\<lambda>limit'.
        case NewSigner (cc_KeyID cfg) (cc_Key cfg) of Inl e \<Rightarrow> Inl (SignerInvalid e) | Inr s \<Rightarrow>
        if cc_UnixSocket cfg \<noteq> [] then
          ensure (cc_BaseURL cfg = []) EndpointsExclusive (
          ensure (is_abs (cc_UnixSocket cfg)) SocketNotAbsolute (
          Inr \<lparr>cl_baseURL = ''http://connector.local'', cl_socket = Some (clean_abs (cc_UnixSocket cfg)), cl_timeout = timeout,
            cl_signer = s, cl_maxResponseBytes = limit'\<rparr>))
        else
          no_error (validateLoopbackBaseURL parse baseURL) (
          Inr \<lparr>cl_baseURL = baseURL, cl_socket = None, cl_timeout = timeout, cl_signer = s, cl_maxResponseBytes = limit'\<rparr>)))"

section \<open>Calls\<close>

datatype call_error =
  EncodeRequest | CreateRequest | SignRequest sign_error | CallConnector | ReadResponse | ResponseTooLarge
| RemoteError int string bool | DecodeResponse

text \<open>
  What the transport gives for a request to the client's endpoint: nothing if the call fails, otherwise
  the status and the body, or no body if reading it fails.
\<close>

type_synonym transport = "conn_client \<Rightarrow> http_request \<Rightarrow> string \<Rightarrow> (int \<times> string option) option"

definition client_do ::
    "(string \<Rightarrow> (string \<times> bool) option) \<Rightarrow> (string \<Rightarrow> 'r option) \<Rightarrow> conn_client \<Rightarrow> (int \<times> string option) option \<Rightarrow> call_error + 'r" where
  "client_do decodeError decode c response =
    some_or response CallConnector (\<lambda>(status, body').
    some_or body' ReadResponse (\<lambda>body.
    ensure (\<not> int (length body) > cl_maxResponseBytes c) ResponseTooLarge (
    if status < 200 \<or> status \<ge> 300 then
      (case decodeError body of
         None \<Rightarrow> Inl (RemoteError status ''invalid_error_response'' False)
       | Some (code, retryable) \<Rightarrow> Inl (RemoteError status code retryable))
    else some_or (decode body) DecodeResponse Inr)))"

text \<open>
  The request \<^verbatim>\<open>post\<close> builds. The base URL of a client has no path, so that the path of the call is the
  request URI, which the signature covers.
\<close>

definition post_request :: "string \<Rightarrow> http_request" where
  "post_request path = \<lparr>req_Method = ''POST'', req_URI = path,
    req_Header = [(''Content-Type'', [''application/json'']), (''Accept'', [''application/json''])]\<rparr>"

definition post ::
    "(string \<Rightarrow> (string \<times> bool) option) \<Rightarrow> ('q \<Rightarrow> string option) \<Rightarrow> (string \<Rightarrow> 'r option) \<Rightarrow> (string \<Rightarrow> parsed_url option) \<Rightarrow> transport
     \<Rightarrow> conn_client \<Rightarrow> time \<Rightarrow> string option \<Rightarrow> string \<Rightarrow> 'q \<Rightarrow> call_error + 'r" where
  "post decodeError encode decode parse tr c now rand path payload =
    some_or (encode payload) EncodeRequest (\<lambda>body.
    some_or (parse (cl_baseURL c @ path)) CreateRequest (\<lambda>_.
    case Sign (cl_signer c) now rand (Some (post_request path)) body of
      Inl e \<Rightarrow> Inl (SignRequest e)
    | Inr request \<Rightarrow> client_do decodeError decode c (tr c request body)))"

definition get ::
    "(string \<Rightarrow> (string \<times> bool) option) \<Rightarrow> (string \<Rightarrow> 'r option) \<Rightarrow> (string \<Rightarrow> parsed_url option) \<Rightarrow> transport
     \<Rightarrow> conn_client \<Rightarrow> string \<Rightarrow> call_error + 'r" where
  "get decodeError decode parse tr c path =
    some_or (parse (cl_baseURL c @ path)) CreateRequest (\<lambda>_.
    client_do decodeError decode c (tr c \<lparr>req_Method = ''GET'', req_URI = path, req_Header = [(''Accept'', [''application/json''])]\<rparr> []))"

text \<open>
  The five calls: each sets the protocol version of its request and posts it to its path. \<open>pc_encode\<close> and
  \<open>pc_decode\<close> are the JSON of the request and of the response.
\<close>

record ('q, 'r) json_codec =
  pc_encode :: "'q \<Rightarrow> string option"
  pc_decode :: "string \<Rightarrow> 'r option"
  pc_error :: "string \<Rightarrow> (string \<times> bool) option"

definition client_call ::
    "string \<Rightarrow> ('q, 'r) json_codec \<Rightarrow> (string \<Rightarrow> parsed_url option) \<Rightarrow> transport \<Rightarrow> conn_client \<Rightarrow> time \<Rightarrow> string option \<Rightarrow> 'q
     \<Rightarrow> call_error + 'r" where
  "client_call path pc parse tr c now rand q = post (pc_error pc) (pc_encode pc) (pc_decode pc) parse tr c now rand path q"

definition RuntimeSnapshot ::
    "(runtimeSnapshotRequest, runtimeSnapshotResponse) json_codec \<Rightarrow> (string \<Rightarrow> parsed_url option) \<Rightarrow> transport \<Rightarrow> conn_client \<Rightarrow> time
     \<Rightarrow> string option \<Rightarrow> runtimeSnapshotRequest \<Rightarrow> call_error + runtimeSnapshotResponse" where
  "RuntimeSnapshot pc parse tr c now rand q =
    client_call RuntimeSnapshotPath pc parse tr c now rand (q\<lparr>rs_ProtocolVersion := ProtocolVersion\<rparr>)"

definition client_ProbeHostKey ::
    "(hostKeyProbeRequest, hostKeyProbeResponse) json_codec \<Rightarrow> (string \<Rightarrow> parsed_url option) \<Rightarrow> transport \<Rightarrow> conn_client \<Rightarrow> time
     \<Rightarrow> string option \<Rightarrow> hostKeyProbeRequest \<Rightarrow> call_error + hostKeyProbeResponse" where
  "client_ProbeHostKey pc parse tr c now rand q =
    client_call HostKeyProbePath pc parse tr c now rand (q\<lparr>hq_ProtocolVersion := ProtocolVersion\<rparr>)"

definition WebSSHTicket ::
    "(webSSHTicketRequest, webSSHTicketResponse) json_codec \<Rightarrow> (string \<Rightarrow> parsed_url option) \<Rightarrow> transport \<Rightarrow> conn_client \<Rightarrow> time
     \<Rightarrow> string option \<Rightarrow> webSSHTicketRequest \<Rightarrow> call_error + webSSHTicketResponse" where
  "WebSSHTicket pc parse tr c now rand q =
    client_call WebSSHTicketPath pc parse tr c now rand (q\<lparr>wq_ProtocolVersion := ProtocolVersion\<rparr>)"

definition PreviewRunbook ::
    "(runbookPreviewRequest, runbookPreviewResponse) json_codec \<Rightarrow> (string \<Rightarrow> parsed_url option) \<Rightarrow> transport \<Rightarrow> conn_client \<Rightarrow> time
     \<Rightarrow> string option \<Rightarrow> runbookPreviewRequest \<Rightarrow> call_error + runbookPreviewResponse" where
  "PreviewRunbook pc parse tr c now rand q =
    client_call RunbookPreviewPath pc parse tr c now rand (q\<lparr>pq_ProtocolVersion := ProtocolVersion\<rparr>)"

definition ExecuteRunbook ::
    "(runbookExecuteRequest, runbookExecuteResponse) json_codec \<Rightarrow> (string \<Rightarrow> parsed_url option) \<Rightarrow> transport \<Rightarrow> conn_client \<Rightarrow> time
     \<Rightarrow> string option \<Rightarrow> runbookExecuteRequest \<Rightarrow> call_error + runbookExecuteResponse" where
  "ExecuteRunbook pc parse tr c now rand q =
    client_call RunbookExecutePath pc parse tr c now rand (q\<lparr>eq_ProtocolVersion := ProtocolVersion\<rparr>)"

section \<open>Lemmas\<close>

text \<open>Credentials go to a Unix socket or to a loopback address only.\<close>

lemma NewClient_local:
  assumes "NewClient parse cfg = Inr c"
  shows "(\<exists>p. cl_socket c = Some p \<and> has_prefix p ''/'') \<or>
    cl_socket c = None \<and> (\<exists>u a. parse (cl_baseURL c) = Some u \<and> u_Scheme u = ''http'' \<and> ParseAddr (url_hostname u) = Some a \<and> IsLoopback a)"
    and "0 < cl_maxResponseBytes c" "cl_maxResponseBytes c \<le> 16 * 2 ^ 20"
    and "validateKey (sg_keyID (cl_signer c)) (sg_key (cl_signer c)) = None"
proof -
  have prefix: "has_prefix (clean_abs p) ''/''" for p
    by (simp add: clean_abs_def has_prefix_def)
  from assms obtain s limit' where c: "NewSigner (cc_KeyID cfg) (cc_Key cfg) = Inr s" "cl_signer c = s" "cl_maxResponseBytes c = limit'"
      "0 < limit'" "limit' \<le> 16 * 2 ^ 20"
      "cl_socket c = Some (clean_abs (cc_UnixSocket cfg)) \<or> cl_socket c = None \<and> validateLoopbackBaseURL parse (cl_baseURL c) = None"
    by (auto simp: NewClient_def Let_def result_simps split: sum.splits if_splits)
  from c(6) prefix show "(\<exists>p. cl_socket c = Some p \<and> has_prefix p ''/'') \<or>
    cl_socket c = None \<and> (\<exists>u a. parse (cl_baseURL c) = Some u \<and> u_Scheme u = ''http'' \<and> ParseAddr (url_hostname u) = Some a \<and> IsLoopback a)"
    by (auto simp: validateLoopbackBaseURL_def split: option.splits if_splits)
  from c show "0 < cl_maxResponseBytes c" "cl_maxResponseBytes c \<le> 16 * 2 ^ 20"
    by simp_all
  from c(1) show "validateKey (sg_keyID (cl_signer c)) (sg_key (cl_signer c)) = None"
    unfolding c(2) by (auto simp: NewSigner_def split: option.splits)
qed

lemma post_Inr:
  assumes "post de en dec parse tr c now rand path q = Inr r"
  obtains body request status reply nb where "en q = Some body" "rand = Some nb"
    "Sign (cl_signer c) now (Some nb) (Some (post_request path)) body = Inr request"
    "tr c request body = Some (status, Some reply)" "200 \<le> status" "status < 300" "dec reply = Some r"
proof -
  from assms obtain body where body: "en q = Some body"
      "(case Sign (cl_signer c) now rand (Some (post_request path)) body of
         Inl e \<Rightarrow> Inl (SignRequest e) | Inr request \<Rightarrow> client_do de dec c (tr c request body)) = Inr r"
    by (simp add: post_def result_simps) blast
  then obtain request where b: "en q = Some body" "Sign (cl_signer c) now rand (Some (post_request path)) body = Inr request"
      "client_do de dec c (tr c request body) = Inr r"
    by (cases "Sign (cl_signer c) now rand (Some (post_request path)) body") simp_all
  obtain nb where nb: "rand = Some nb"
    using b(2) by (cases rand) (simp_all add: Sign_def)
  from b(3) obtain status reply where "tr c request body = Some (status, Some reply)" "200 \<le> status" "status < 300" "dec reply = Some r"
    by (auto simp: client_do_def result_simps split: if_splits option.splits)
  with b nb show ?thesis
    by (intro that) auto
qed

end
