(* ===== verification/Webssh_Gateway.thy ===== *)
theory Webssh_Gateway
  imports Connector_Client "HOL-Library.Char_ord" "HOL-Library.List_Lexorder"
begin

text \<open>
  The control plane's WebSSH gateway (\<^verbatim>\<open>websshgateway\<close>): browser tickets and their exchange for connector
  tickets, the WebSocket handshake with the browser, and the relay between browser and connector.
  The connector, the authorizer, JSON and URL parsing, the clock and the random source are arguments.
\<close>

section \<open>Data\<close>

definition ConnectPath :: string where
  "ConnectPath = ''/api/v1/webssh/connect''"

record binding =
  bi_PrincipalID :: string
  bi_SessionID :: string
  bi_Roles :: "string list"
  bi_HostID :: string
  bi_CredentialID :: string
  bi_Action :: string

record issueRequest =
  iq_Binding :: binding
  iq_Target :: target
  iq_PinnedHostKey :: string
  iq_Credential :: credential
  iq_InitialSize :: terminalSize
  iq_Reason :: string

record issueResponse =
  ir_ProtocolVersion :: string
  ir_Ticket :: string
  ir_ConnectionID :: string
  ir_ExpiresAt :: time
  ir_WebSocketURL :: string

record helloMessage =
  he_Type :: string
  he_Ticket :: string
  he_ConnectionID :: string
  he_Binding :: binding

record authorization =
  az_Binding :: binding
  az_Reason :: string

record gw_auditEvent =
  ga_At :: time
  ga_Event :: string
  ga_Authorization :: authorization
  ga_ConnectionID :: string
  ga_DisconnectType :: string

record gw_config =
  gc_PublicWebSocketURL :: string
  gc_Development :: bool
  gc_AllowedOrigins :: "string list"
  gc_ConnectorBaseURL :: string
  gc_ConnectorUnixSocket :: string
  gc_ConnectorOrigin :: string
  gc_TicketTTL :: duration
  gc_HandshakeTimeout :: duration
  gc_ConnectorDialTimeout :: duration
  gc_AuthorizationTimeout :: duration
  gc_AuthorizationInterval :: duration
  gc_IdleTimeout :: duration
  gc_AbsoluteTimeout :: duration
  gc_WriteTimeout :: duration
  gc_MaxConcurrent :: int
  gc_MaxOutstandingTickets :: int
  gc_MaxInputMessageBytes :: int
  gc_MaxOutputMessageBytes :: int
  gc_InputBytesPerSecond :: int
  gc_OutputBytesPerSecond :: int

record browserTicket =
  bt_connectionID :: string
  bt_binding :: binding
  bt_reason :: string
  bt_upstreamTicket :: string
  bt_upstreamSession :: string
  bt_connectorBinding :: webSSHBinding
  bt_expiresAt :: time

text \<open>The active sessions are the keys of a map, as the pointers to them are in the code.\<close>

record broker =
  gb_config :: gw_config
  gb_origins :: "(string, unit) gomap"
  gb_publicURL :: string
  gb_upstreamURL :: string
  gb_closed :: bool
  gb_issuing :: int
  gb_tickets :: "(string, browserTicket) gomap"
  gb_consumed :: "(string, time) gomap"
  gb_active :: "(nat, unit) gomap"
  gb_connSlots :: int

section \<open>Validation\<close>

definition validID :: "string \<Rightarrow> bool" where
  "validID value \<longleftrightarrow> \<not> (length value < 1 \<or> length value > 128 \<or> value \<noteq> trim_space value) \<and>
    list_all (\<lambda>r. \<not> (is_control r \<or> is_space r)) (runes value)"

fun adjacent_equal :: "string list \<Rightarrow> bool" where
  "adjacent_equal (a # b # xs) \<longleftrightarrow> b = a \<or> adjacent_equal (b # xs)"
| "adjacent_equal _ \<longleftrightarrow> False"

definition normalizeBinding :: "binding \<Rightarrow> binding option" where
  "normalizeBinding b =
    (if \<not> validID (bi_PrincipalID b) \<or> \<not> validID (bi_SessionID b) \<or> \<not> validID (bi_HostID b) \<or> \<not> validID (bi_CredentialID b) \<or>
        bi_Action b \<noteq> ActionWebSSH then None
     else if bi_Roles b = [] \<or> length (bi_Roles b) > 32 then None
     else if \<not> list_all validID (bi_Roles b) then None
     else let roles = sort (bi_Roles b) in
       if adjacent_equal roles then None else Some (b\<lparr>bi_Roles := roles\<rparr>))"

definition gw_validateReason :: "string \<Rightarrow> bool" where
  "gw_validateReason value \<longleftrightarrow> \<not> (value = [] \<or> length value > 500 \<or> value \<noteq> trim_space value) \<and>
    list_all (\<lambda>r. \<not> (is_control r \<and> r \<noteq> 9)) (runes value)"

definition validateIssueRequest :: "issueRequest \<Rightarrow> bool" where
  "validateIssueRequest q \<longleftrightarrow>
    normalizeBinding (iq_Binding q) \<noteq> None \<and> gw_validateReason (iq_Reason q) \<and>
    \<not> (trim_space (t_Address (iq_Target q)) = [] \<or> t_Address (iq_Target q) \<noteq> trim_space (t_Address (iq_Target q)) \<or>
       length (t_Address (iq_Target q)) > 253 \<or> t_Port (iq_Target q) < 1 \<or> t_Port (iq_Target q) > 65535 \<or>
       \<not> validID (t_User (iq_Target q)) \<or> length (iq_PinnedHostKey q) = 0 \<or> length (iq_PinnedHostKey q) > 16 * 1024 \<or>
       length (cred_PrivateKeyPEM (iq_Credential q)) = 0 \<or> length (cred_PrivateKeyPEM (iq_Credential q)) > 48 * 1024 \<or>
       length (cred_Passphrase (iq_Credential q)) > 4 * 1024 \<or> \<not> validTerminalSize (iq_InitialSize q))"

definition gw_sameBinding :: "binding \<Rightarrow> binding \<Rightarrow> bool" where
  "gw_sameBinding left right \<longleftrightarrow>
    \<not> (bi_PrincipalID left \<noteq> bi_PrincipalID right \<or> bi_SessionID left \<noteq> bi_SessionID right \<or> bi_HostID left \<noteq> bi_HostID right \<or>
       bi_CredentialID left \<noteq> bi_CredentialID right \<or> bi_Action left \<noteq> bi_Action right \<or>
       length (bi_Roles left) \<noteq> length (bi_Roles right)) \<and>
    list_all2 (=) (bi_Roles left) (bi_Roles right)"

definition isLoopbackHost :: "string \<Rightarrow> bool" where
  "isLoopbackHost host = (case ParseAddr host of None \<Rightarrow> False | Some a \<Rightarrow> IsLoopback a)"

definition normalizeHTTPOrigin :: "(string \<Rightarrow> parsed_url option) \<Rightarrow> string \<Rightarrow> bool \<Rightarrow> string option" where
  "normalizeHTTPOrigin parse value development =
    (if value = [] \<or> value \<noteq> trim_space value \<or> contains_any value ''*?,'' then None else
     case parse value of None \<Rightarrow> None | Some u \<Rightarrow>
     if u_Host u = [] \<or> u_HasUser u \<or> u_Path u \<noteq> [] \<or> u_RawQuery u \<noteq> [] \<or> u_Fragment u \<noteq> [] then None
     else if u_Scheme u = ''https'' then Some (''https://'' @ map lower_char (u_Host u))
     else if u_Scheme u \<noteq> ''http'' \<or> \<not> development \<or> \<not> isLoopbackHost (url_hostname u) then None
     else Some (''http://'' @ map lower_char (u_Host u)))"

fun gw_origin_loop :: "(string \<Rightarrow> parsed_url option) \<Rightarrow> bool \<Rightarrow> string list \<Rightarrow> (string, unit) gomap \<Rightarrow> (string, unit) gomap option" where
  "gw_origin_loop parse development [] result = Some result"
| "gw_origin_loop parse development (v # vs) result =
    (case normalizeHTTPOrigin parse v development of None \<Rightarrow> None | Some n \<Rightarrow> gw_origin_loop parse development vs (put result n ()))"

definition gw_normalizeOrigins :: "(string \<Rightarrow> parsed_url option) \<Rightarrow> string list \<Rightarrow> bool \<Rightarrow> (string, unit) gomap option" where
  "gw_normalizeOrigins parse vs development =
    (case gw_origin_loop parse development vs [] of None \<Rightarrow> None | Some result \<Rightarrow> if result = [] then None else Some result)"

text \<open>\<^term>\<open>render\<close> is the text of the parsed URL.\<close>

definition validatePublicWebSocketURL :: "(string \<Rightarrow> parsed_url option) \<Rightarrow> (string \<Rightarrow> string) \<Rightarrow> string \<Rightarrow> bool \<Rightarrow> string option" where
  "validatePublicWebSocketURL parse render value development =
    (case parse value of None \<Rightarrow> None | Some u \<Rightarrow>
     if u_Host u = [] \<or> u_HasUser u \<or> u_RawQuery u \<noteq> [] \<or> u_Fragment u \<noteq> [] \<or> u_Path u \<noteq> ConnectPath then None
     else if u_Scheme u = ''wss'' then Some (render value)
     else if u_Scheme u \<noteq> ''ws'' \<or> \<not> development \<or> \<not> isLoopbackHost (url_hostname u) then None
     else Some (render value))"

definition newUpstreamTransport :: "(string \<Rightarrow> parsed_url option) \<Rightarrow> gw_config \<Rightarrow> string option" where
  "newUpstreamTransport parse cfg =
    (if normalizeHTTPOrigin parse (gc_ConnectorOrigin cfg) (gc_Development cfg) = None then None else
     let upstream = (\<lambda>base. ''ws'' @ trim_prefix base ''http'' @ WebSSHConnectPath) in
     if gc_ConnectorUnixSocket cfg \<noteq> [] then
       (if gc_ConnectorBaseURL cfg \<noteq> [] \<or> \<not> is_abs (gc_ConnectorUnixSocket cfg) then None else Some (upstream ''http://connector.local''))
     else
       (let base = trim_right_slash (gc_ConnectorBaseURL cfg) in
        case parse base of None \<Rightarrow> None | Some u \<Rightarrow>
        if u_Scheme u \<noteq> ''http'' \<or> u_Host u = [] \<or> u_HasUser u \<or> u_Path u \<noteq> [] \<or> u_RawQuery u \<noteq> [] \<or> u_Fragment u \<noteq> [] \<or> url_port u = []
        then None
        else if \<not> isLoopbackHost (url_hostname u) then None else Some (upstream base)))"

section \<open>Broker\<close>

definition set_default :: "int \<Rightarrow> int \<Rightarrow> int" where
  "set_default value fallback = (if value \<le> 0 then fallback else value)"

datatype gw_error = GwTimeouts | GwCapacity | GwOrigins | GwPublicURL | GwUpstream

definition applyConfigDefaults :: "gw_config \<Rightarrow> gw_error + gw_config" where
  "applyConfigDefaults c0 =
    (let c = c0\<lparr>
       gc_TicketTTL := set_default (gc_TicketTTL c0) (20 * second),
       gc_HandshakeTimeout := set_default (gc_HandshakeTimeout c0) (5 * second),
       gc_ConnectorDialTimeout := set_default (gc_ConnectorDialTimeout c0) (5 * second),
       gc_AuthorizationTimeout := set_default (gc_AuthorizationTimeout c0) (2 * second),
       gc_AuthorizationInterval := set_default (gc_AuthorizationInterval c0) (5 * second),
       gc_IdleTimeout := set_default (gc_IdleTimeout c0) (10 * minute),
       gc_AbsoluteTimeout := set_default (gc_AbsoluteTimeout c0) hour,
       gc_WriteTimeout := set_default (gc_WriteTimeout c0) (5 * second),
       gc_MaxConcurrent := set_default (gc_MaxConcurrent c0) 4,
       gc_MaxOutstandingTickets := set_default (gc_MaxOutstandingTickets c0) 128,
       gc_MaxInputMessageBytes := set_default (gc_MaxInputMessageBytes c0) (16 * 1024),
       gc_MaxOutputMessageBytes := set_default (gc_MaxOutputMessageBytes c0) (16 * 1024),
       gc_InputBytesPerSecond := set_default (gc_InputBytesPerSecond c0) (64 * 1024),
       gc_OutputBytesPerSecond := set_default (gc_OutputBytesPerSecond c0) (256 * 1024)\<rparr>
     in ensure (\<not> (gc_TicketTTL c > 30 * second \<or> gc_HandshakeTimeout c > 15 * second \<or> gc_ConnectorDialTimeout c > 30 * second \<or>
          gc_AuthorizationTimeout c > 5 * second \<or> gc_AuthorizationInterval c > 5 * second \<or> gc_IdleTimeout c > hour \<or>
          gc_AbsoluteTimeout c > 8 * hour \<or> gc_AbsoluteTimeout c < gc_IdleTimeout c \<or> gc_WriteTimeout c > 10 * second)) GwTimeouts (
        ensure (\<not> (gc_MaxConcurrent c > 64 \<or> gc_MaxOutstandingTickets c > 4096 \<or> gc_MaxInputMessageBytes c > 64 * 1024 \<or>
          gc_MaxOutputMessageBytes c > 64 * 1024 \<or> gc_InputBytesPerSecond c > 4 * 1024 * 1024 \<or>
          gc_OutputBytesPerSecond c > 8 * 1024 * 1024)) GwCapacity (
        Inr c)))"

definition gw_New :: "(string \<Rightarrow> parsed_url option) \<Rightarrow> (string \<Rightarrow> string) \<Rightarrow> gw_config \<Rightarrow> gw_error + broker" where
  "gw_New parse render config =
    (case applyConfigDefaults config of Inl e \<Rightarrow> Inl e | Inr c \<Rightarrow>
     some_or (gw_normalizeOrigins parse (gc_AllowedOrigins c) (gc_Development c)) GwOrigins (\<lambda>origins.
     some_or (validatePublicWebSocketURL parse render (gc_PublicWebSocketURL c) (gc_Development c)) GwPublicURL (\<lambda>publicURL.
     some_or (newUpstreamTransport parse c) GwUpstream (\<lambda>upstreamURL.
     Inr \<lparr>gb_config = c, gb_origins = origins, gb_publicURL = publicURL, gb_upstreamURL = upstreamURL, gb_closed = False, gb_issuing = 0,
       gb_tickets = [], gb_consumed = [], gb_active = [], gb_connSlots = 0\<rparr>))))"

definition gw_pruneLocked :: "broker \<Rightarrow> time \<Rightarrow> broker" where
  "gw_pruneLocked b now = b\<lparr>gb_tickets := keep (\<lambda>t. now < bt_expiresAt t) (gb_tickets b),
    gb_consumed := keep (\<lambda>e. now < e) (gb_consumed b)\<rparr>"

definition reserveTicket :: "broker \<Rightarrow> time \<Rightarrow> broker \<times> bool" where
  "reserveTicket b now =
    (let p = gw_pruneLocked b now in
     if gb_closed p \<or> int (length (gb_tickets p)) + gb_issuing p \<ge> gc_MaxOutstandingTickets (gb_config p) then (p, False)
     else (p\<lparr>gb_issuing := gb_issuing p + 1\<rparr>, True))"

definition releaseTicketReservation :: "broker \<Rightarrow> broker" where
  "releaseTicketReservation b = (if gb_issuing b > 0 then b\<lparr>gb_issuing := gb_issuing b - 1\<rparr> else b)"

definition storeTicket :: "broker \<Rightarrow> time \<Rightarrow> string \<Rightarrow> browserTicket \<Rightarrow> broker \<times> bool" where
  "storeTicket b now h t =
    (let p = gw_pruneLocked b now in
     if gb_closed p \<or> int (length (gb_tickets p)) \<ge> gc_MaxOutstandingTickets (gb_config p) \<or>
        int (length (gb_consumed p)) \<ge> gc_MaxOutstandingTickets (gb_config p) * 4 then (p, False)
     else if has_key (gb_tickets p) h then (p, False)
     else (p\<lparr>gb_tickets := put (gb_tickets p) h t\<rparr>, True))"

definition gw_Close :: "broker \<Rightarrow> broker" where
  "gw_Close b = (if gb_closed b then b else b\<lparr>gb_closed := True, gb_tickets := []\<rparr>)"

definition gw_audit :: "time \<Rightarrow> authorization \<Rightarrow> string \<Rightarrow> string \<Rightarrow> string \<Rightarrow> gw_auditEvent" where
  "gw_audit now az event disconnectType connectionID =
    \<lparr>ga_At = now, ga_Event = event, ga_Authorization = az, ga_ConnectionID = connectionID, ga_DisconnectType = disconnectType\<rparr>"

section \<open>Issuing tickets\<close>

datatype issue_error = ErrInvalidRequest | ErrUnauthorized | ErrCapacity | ErrConnector | RandomnessFailed

text \<open>An issue that holds a reservation: the canonical binding and the request.\<close>

record pending_issue =
  pi_binding :: binding
  pi_request :: issueRequest

definition issue_authorization :: "pending_issue \<Rightarrow> authorization" where
  "issue_authorization p = \<lparr>az_Binding = pi_binding p, az_Reason = iq_Reason (pi_request p)\<rparr>"

text \<open>\<^verbatim>\<open>Issue\<close> up to the reservation; \<^term>\<open>authz\<close> is the authorizer's answer within its time limit.\<close>

definition issue_begin :: "(authorization \<Rightarrow> bool) \<Rightarrow> broker \<Rightarrow> time \<Rightarrow> issueRequest \<Rightarrow> broker \<times> gw_auditEvent list \<times> (issue_error + pending_issue)" where
  "issue_begin authz b now q =
    (if \<not> validateIssueRequest q then (b, [], Inl ErrInvalidRequest) else
     case normalizeBinding (iq_Binding q) of None \<Rightarrow> (b, [], Inl ErrInvalidRequest) | Some bound \<Rightarrow>
     let p = \<lparr>pi_binding = bound, pi_request = q\<lparr>iq_Binding := bound\<rparr>\<rparr>; az = issue_authorization p in
     if \<not> authz az then (b, [gw_audit now az ''issue_denied'' ''authorization_denied'' []], Inl ErrUnauthorized)
     else case reserveTicket b now of
       (b', False) \<Rightarrow> (b', [], Inl ErrCapacity)
     | (b', True) \<Rightarrow> (b', [], Inr p))"

definition connector_request :: "pending_issue \<Rightarrow> webSSHTicketRequest" where
  "connector_request p =
    \<lparr>wq_ProtocolVersion = [],
     wq_Binding = \<lparr>wb_PrincipalID = bi_PrincipalID (pi_binding p), wb_HostID = bi_HostID (pi_binding p),
       wb_CredentialID = bi_CredentialID (pi_binding p), wb_Action = ActionWebSSH\<rparr>,
     wq_Target = iq_Target (pi_request p), wq_PinnedHostKey = iq_PinnedHostKey (pi_request p),
     wq_Credential = iq_Credential (pi_request p), wq_InitialSize = iq_InitialSize (pi_request p)\<rparr>"

definition decodes_to :: "string \<Rightarrow> nat \<Rightarrow> bool" where
  "decodes_to s n = (case b64_decode False s of None \<Rightarrow> False | Some d \<Rightarrow> length d = n)"

definition validateConnectorResponse :: "webSSHTicketResponse \<Rightarrow> time \<Rightarrow> bool" where
  "validateConnectorResponse r now \<longleftrightarrow>
    \<not> (wp_ProtocolVersion r \<noteq> ProtocolVersion \<or> \<not> wp_ExpiresAt r > now \<or> wp_ExpiresAt r > now + minute) \<and>
    decodes_to (wp_Ticket r) 32 \<and> decodes_to (wp_SessionID r) 16"

text \<open>
  What the rest of \<^verbatim>\<open>Issue\<close> draws: the connector's response, the two random values, and the instants of the
  check of the response, of the expiry and of the store.
\<close>

record issue_draw =
  dr_response :: "webSSHTicketResponse option"
  dr_browserRaw :: "string option"
  dr_connectionRaw :: "string option"
  dr_checked :: time
  dr_now :: time
  dr_stored :: time

text \<open>The ticket and its hash, with the value for the browser.\<close>

definition new_ticket :: "broker \<Rightarrow> pending_issue \<Rightarrow> issue_draw \<Rightarrow> issue_error + string \<times> string \<times> browserTicket" where
  "new_ticket b p d =
    some_or (dr_response d) ErrConnector (\<lambda>r.
    ensure (validateConnectorResponse r (dr_checked d)) ErrConnector (
    some_or (dr_browserRaw d) RandomnessFailed (\<lambda>browserRaw.
    some_or (dr_connectionRaw d) RandomnessFailed (\<lambda>connectionRaw.
    let own = dr_now d + gc_TicketTTL (gb_config b);
        expiresAt = (if wp_ExpiresAt r < own then wp_ExpiresAt r else own)
    in ensure (expiresAt > dr_now d) ErrConnector (
       Inr (sha256 browserRaw, b64_encode browserRaw,
         \<lparr>bt_connectionID = b64_encode connectionRaw, bt_binding = pi_binding p, bt_reason = iq_Reason (pi_request p),
          bt_upstreamTicket = wp_Ticket r, bt_upstreamSession = wp_SessionID r,
          bt_connectorBinding = wq_Binding (connector_request p), bt_expiresAt = expiresAt\<rparr>))))))"

text \<open>\<^verbatim>\<open>Issue\<close> from the connector's answer to the response, the reservation still held.\<close>

definition issue_finish :: "broker \<Rightarrow> pending_issue \<Rightarrow> issue_draw \<Rightarrow> broker \<times> gw_auditEvent list \<times> (issue_error + issueResponse)" where
  "issue_finish b p d =
    (case new_ticket b p d of
      Inl e \<Rightarrow> (b, if dr_response d = None then [gw_audit (dr_checked d) (issue_authorization p) ''issue_failed'' ''connector_ticket_failed'' []] else [], Inl e)
    | Inr (h, value', t) \<Rightarrow>
        (case storeTicket b (dr_stored d) h t of
          (b', False) \<Rightarrow> (b', [], Inl ErrCapacity)
        | (b', True) \<Rightarrow>
            (b', [gw_audit (dr_stored d) (issue_authorization p) ''issued'' [] (bt_connectionID t)],
             Inr \<lparr>ir_ProtocolVersion = ''v1'', ir_Ticket = value', ir_ConnectionID = bt_connectionID t, ir_ExpiresAt = bt_expiresAt t,
                  ir_WebSocketURL = gb_publicURL b\<rparr>)))"

text \<open>\<^verbatim>\<open>Issue\<close>, with nothing in between.\<close>

definition Issue ::
    "(authorization \<Rightarrow> bool) \<Rightarrow> (webSSHTicketRequest \<Rightarrow> issue_draw) \<Rightarrow> broker \<Rightarrow> time \<Rightarrow> issueRequest option
     \<Rightarrow> broker \<times> gw_auditEvent list \<times> (issue_error + issueResponse)" where
  "Issue authz connector b now q' =
    (case q' of None \<Rightarrow> (b, [], Inl ErrInvalidRequest) | Some q \<Rightarrow>
     case issue_begin authz b now q of
       (b', es, Inl e) \<Rightarrow> (b', es, Inl e)
     | (b', es, Inr p) \<Rightarrow>
         (case issue_finish b' p (connector (connector_request p)) of
           (b'', es', r) \<Rightarrow> (releaseTicketReservation b'', es @ es', r)))"

section \<open>Redeeming tickets\<close>

definition gw_hello_hash :: "helloMessage \<Rightarrow> string option" where
  "gw_hello_hash hello =
    (case b64_decode False (he_Ticket hello) of
      None \<Rightarrow> None | Some decoded \<Rightarrow> if length decoded \<noteq> 32 then None else Some (sha256 decoded))"

definition gw_consumeTicket :: "broker \<Rightarrow> time \<Rightarrow> helloMessage \<Rightarrow> broker \<times> (string + browserTicket)" where
  "gw_consumeTicket b now hello =
    (case gw_hello_hash hello of None \<Rightarrow> (b, Inl ''invalid_ticket'') | Some h \<Rightarrow>
     let p = gw_pruneLocked b now in
     case map_of (gb_tickets p) h of
       None \<Rightarrow> (p, Inl (if has_key (gb_consumed p) h then ''ticket_replayed'' else ''invalid_ticket''))
     | Some e \<Rightarrow>
         (let p' = p\<lparr>gb_tickets := del (gb_tickets p) h, gb_consumed := put (gb_consumed p) h (now + gc_TicketTTL (gb_config p))\<rparr> in
          if \<not> bt_expiresAt e > now then (p', Inl ''ticket_expired'')
          else case normalizeBinding (he_Binding hello) of
            None \<Rightarrow> (p', Inl ''ticket_binding_mismatch'')
          | Some bound \<Rightarrow>
              if he_ConnectionID hello \<noteq> bt_connectionID e \<or> he_Type hello \<noteq> ''hello'' \<or> \<not> gw_sameBinding (bt_binding e) bound
              then (p', Inl ''ticket_binding_mismatch'') else (p', Inr e)))"

section \<open>Connections\<close>

definition gw_originAllowed :: "(string \<Rightarrow> parsed_url option) \<Rightarrow> broker \<Rightarrow> headers \<Rightarrow> bool" where
  "gw_originAllowed parse b h =
    (case map_of h ''Origin'' of
      Some [v] \<Rightarrow> (case normalizeHTTPOrigin parse v (gc_Development (gb_config b)) of None \<Rightarrow> False | Some n \<Rightarrow> has_key (gb_origins b) n)
    | _ \<Rightarrow> False)"

definition hasSubprotocol :: "string list \<Rightarrow> string \<Rightarrow> bool" where
  "hasSubprotocol vs required \<longleftrightarrow> list_ex (\<lambda>v. list_ex (\<lambda>candidate. trim_space candidate = required) (split_on (CHR '','') v)) vs"

definition beginHandler :: "broker \<Rightarrow> bool" where
  "beginHandler b \<longleftrightarrow> \<not> gb_closed b"

definition registerSession :: "broker \<Rightarrow> nat \<Rightarrow> broker option" where
  "registerSession b s = (if gb_closed b then None else Some (b\<lparr>gb_active := put (gb_active b) s ()\<rparr>))"

definition unregisterSession :: "broker \<Rightarrow> nat \<Rightarrow> broker" where
  "unregisterSession b s = b\<lparr>gb_active := del (gb_active b) s\<rparr>"

text \<open>
  \<^verbatim>\<open>ServeHTTP\<close> up to the session. \<^term>\<open>accepted\<close> is the subprotocol the upgrade negotiated, none if it failed. A
  connection slot is held while the session runs and given back on every other way out.
\<close>

datatype gw_outcome = GwNotFound | GwRefused int string | GwUpgradeFailed | GwClosed string | GwServing

definition gw_ServeHTTP ::
    "(string \<Rightarrow> parsed_url option) \<Rightarrow> broker \<Rightarrow> nat \<Rightarrow> conn_request \<Rightarrow> bool \<Rightarrow> string option \<Rightarrow> broker \<times> gw_outcome" where
  "gw_ServeHTTP parse b session r fragment accepted =
    (if cr_Path r \<noteq> ConnectPath then (b, GwNotFound)
     else if req_Method (cr_Http r) \<noteq> ''GET'' then (b, GwRefused 405 ''method_not_allowed'')
     else if cr_RawQuery r \<noteq> [] \<or> fragment then (b, GwRefused 400 ''query_not_allowed'')
     else if \<not> gw_originAllowed parse b (req_Header (cr_Http r)) then (b, GwRefused 403 ''origin_denied'')
     else if \<not> hasSubprotocol (case map_of (req_Header (cr_Http r)) ''Sec-Websocket-Protocol'' of None \<Rightarrow> [] | Some vs \<Rightarrow> vs) WebSSHSubprotocol
       then (b, GwRefused 400 ''subprotocol_required'')
     else if \<not> beginHandler b then (b, GwRefused 503 ''gateway_shutdown'')
     else if gb_connSlots b \<ge> gc_MaxConcurrent (gb_config b) then (b, GwRefused 429 ''session_capacity'')
     else case accepted of
       None \<Rightarrow> (b, GwUpgradeFailed)
     | Some sub \<Rightarrow>
         if sub \<noteq> WebSSHSubprotocol then (b, GwClosed ''subprotocol required'')
         else case registerSession b session of
           None \<Rightarrow> (b, GwClosed ''gateway shutdown'')
         | Some b' \<Rightarrow> (b'\<lparr>gb_connSlots := gb_connSlots b' + 1\<rparr>, GwServing))"

text \<open>The deferred actions of \<^verbatim>\<open>ServeHTTP\<close> after a session.\<close>

definition gw_session_end :: "broker \<Rightarrow> nat \<Rightarrow> broker" where
  "gw_session_end b session = (unregisterSession b session)\<lparr>gb_connSlots := gb_connSlots b - 1\<rparr>"

text \<open>How dialling the connector ends: no connection, or the subprotocol and whether the hello was written.\<close>

datatype dial_result = NoDial | Dialed string bool

text \<open>How a session starts: it is dropped, refused with a code, or relays with the ticket.\<close>

datatype gw_served = GwDropped | GwError string bool | GwRelay browserTicket webSSHHelloMessage

definition connector_hello :: "browserTicket \<Rightarrow> webSSHHelloMessage" where
  "connector_hello t = \<lparr>hm_Type = WebSSHMessageHello, hm_Ticket = bt_upstreamTicket t, hm_SessionID = bt_upstreamSession t,
    hm_Binding = bt_connectorBinding t\<rparr>"

definition ticket_authorization :: "browserTicket \<Rightarrow> authorization" where
  "ticket_authorization t = \<lparr>az_Binding = bt_binding t, az_Reason = bt_reason t\<rparr>"

text \<open>
  \<^verbatim>\<open>serveSession\<close> up to the relay, from what the first read gives: a message longer than the read
  limit is a failed read.
\<close>

definition serveSession_start ::
    "(string \<Rightarrow> helloMessage option) \<Rightarrow> (authorization \<Rightarrow> bool) \<Rightarrow> dial_result \<Rightarrow> broker \<Rightarrow> time \<Rightarrow> frame
     \<Rightarrow> broker \<times> gw_auditEvent list \<times> gw_served" where
  "serveSession_start decode authz dial b now fr =
    (case fr of ReadFailed \<Rightarrow> (b, [], GwDropped) | BinaryFrame _ \<Rightarrow> (b, [], GwError ''invalid_hello'' False) | TextFrame body \<Rightarrow>
     case decode body of None \<Rightarrow> (b, [], GwError ''invalid_hello'' False) | Some hello \<Rightarrow>
     if he_Type hello \<noteq> ''hello'' then (b, [], GwError ''invalid_hello'' False) else
     case gw_consumeTicket b now hello of (b', Inl code) \<Rightarrow> (b', [], GwError code False) | (b', Inr t) \<Rightarrow>
     let az = ticket_authorization t; ended = (\<lambda>why. [gw_audit now az ''disconnected'' why (bt_connectionID t)]) in
     if \<not> authz az then (b', ended ''authorization_denied'', GwError ''authorization_denied'' False) else
     case dial of
       NoDial \<Rightarrow> (b', ended ''connector_unavailable'', GwError ''connector_unavailable'' True)
     | Dialed sub sent \<Rightarrow>
         if sub \<noteq> WebSSHSubprotocol then (b', ended ''connector_protocol_error'', GwError ''connector_protocol_error'' False)
         else if \<not> sent then (b', ended ''connector_handshake_failed'', GwError ''connector_unavailable'' True)
         else (b', [gw_audit now az ''connected'' [] (bt_connectionID t)], GwRelay t (connector_hello t)))"

section \<open>Relay\<close>

record proxyResult =
  px_disconnectType :: string
  px_code :: string
  px_retryable :: bool
  px_sendError :: bool

definition quiet_result :: "string \<Rightarrow> proxyResult" where
  "quiet_result ty = \<lparr>px_disconnectType = ty, px_code = [], px_retryable = False, px_sendError = False\<rparr>"

definition error_result :: "string \<Rightarrow> string \<Rightarrow> bool \<Rightarrow> proxyResult" where
  "error_result ty code retryable = \<lparr>px_disconnectType = ty, px_code = code, px_retryable = retryable, px_sendError = True\<rparr>"

text \<open>The bucket of this package is the one of the connector.\<close>

definition newRateLimiter :: "int \<Rightarrow> int \<Rightarrow> time \<Rightarrow> byteRateLimiter" where
  "newRateLimiter rate burst now =
    \<lparr>rl_rate = float64 rate, rl_burst = float64 burst, rl_tokens = float64 burst, rl_last = now\<rparr>"

definition allow :: "byteRateLimiter \<Rightarrow> time \<Rightarrow> int \<Rightarrow> byteRateLimiter \<times> bool" where
  "allow l now amount =
    (if amount < 0 then (l, False)
     else
       (let refilled = fl (rl_tokens l + fl (Seconds (time_sub now (rl_last l)) * rl_rate l));
            tokens = (if refilled > rl_burst l then rl_burst l else refilled);
            l' = l\<lparr>rl_tokens := tokens, rl_last := now\<rparr>
        in if float64 amount > tokens then (l', False)
           else (l'\<lparr>rl_tokens := fl (tokens - float64 amount)\<rparr>, True)))"

text \<open>The read limits \<^verbatim>\<open>ServeHTTP\<close> and \<^verbatim>\<open>serveSession\<close> set on the two connections.\<close>

definition browser_read_limit :: "gw_config \<Rightarrow> int" where
  "browser_read_limit c = gc_MaxInputMessageBytes c * 2 + 8192"

definition upstream_read_limit :: "gw_config \<Rightarrow> int" where
  "upstream_read_limit c = gc_MaxOutputMessageBytes c * 2 + 8192"

text \<open>Whether a message of the browser may be passed on.\<close>

definition browser_message_valid :: "decoders \<Rightarrow> gw_config \<Rightarrow> string \<Rightarrow> bool" where
  "browser_message_valid dc c body =
    (case dc_type dc body of
      None \<Rightarrow> False
    | Some ty \<Rightarrow>
        if ty = WebSSHMessageInput then (case dc_input dc body of None \<Rightarrow> False | Some data \<Rightarrow> int (length data) \<le> gc_MaxInputMessageBytes c)
        else if ty = WebSSHMessageResize then (case dc_resize dc body of None \<Rightarrow> False | Some sz \<Rightarrow> validTerminalSize sz)
        else False)"

text \<open>
  \<^verbatim>\<open>proxyBrowserToConnector\<close> on the frames the browser sends; \<^term>\<open>writes\<close> says whether a write to the
  connector succeeds. The result is what was passed on, and how the loop ended, if it did.
\<close>

fun proxyBrowserToConnector ::
    "decoders \<Rightarrow> gw_config \<Rightarrow> (string \<Rightarrow> bool) \<Rightarrow> byteRateLimiter \<Rightarrow> (time \<times> frame) list \<Rightarrow> string list \<times> proxyResult option" where
  "proxyBrowserToConnector dc c writes l [] = ([], None)"
| "proxyBrowserToConnector dc c writes l ((now, fr) # frs) =
    (case read_message (browser_read_limit c) fr of
      ReadFailed \<Rightarrow> ([], Some (quiet_result ''client_closed''))
    | BinaryFrame _ \<Rightarrow> ([], Some (error_result ''invalid_client_message'' ''invalid_message'' False))
    | TextFrame body \<Rightarrow>
        (case allow l now (int (length body)) of
          (l', False) \<Rightarrow> ([], Some (error_result ''input_rate_limit'' ''input_rate_limit'' False))
        | (l', True) \<Rightarrow>
            if \<not> browser_message_valid dc c body then ([], Some (error_result ''invalid_client_message'' ''invalid_message'' False))
            else if \<not> writes body then ([], Some (error_result ''connector_closed'' ''connector_closed'' True))
            else (case proxyBrowserToConnector dc c writes l' frs of (sent, res) \<Rightarrow> (body # sent, res))))"

text \<open>The decoders of connector messages: the type, and the bodies of the four kinds.\<close>

record up_decoders =
  ud_type :: "string \<Rightarrow> string option"
  ud_ready :: "string \<Rightarrow> (string \<times> terminalSize) option"
  ud_output :: "string \<Rightarrow> string option"
  ud_exit :: "string \<Rightarrow> (int \<times> string) option"
  ud_error :: "string \<Rightarrow> (string \<times> string) option"

text \<open>What the browser is sent: a message of the connector as it is, or the rewritten ready message.\<close>

datatype to_browser = SentReady string terminalSize | SentRaw string

text \<open>The verdict on one message, given whether the session is ready: refused, the ready message, or relayed, perhaps as the last.\<close>

datatype up_verdict = UpInvalid | UpReady terminalSize | UpRelay bool

definition connector_message :: "up_decoders \<Rightarrow> gw_config \<Rightarrow> browserTicket \<Rightarrow> bool \<Rightarrow> string \<Rightarrow> up_verdict" where
  "connector_message ud c t ready body =
    (case ud_type ud body of
      None \<Rightarrow> UpInvalid
    | Some ty \<Rightarrow>
        if ty = ''ready'' then
          (case ud_ready ud body of
            None \<Rightarrow> UpInvalid
          | Some (sid, sz) \<Rightarrow> if \<not> ready \<and> sid = bt_upstreamSession t \<and> validTerminalSize sz then UpReady sz else UpInvalid)
        else if ty = ''output'' then
          (case ud_output ud body of
            None \<Rightarrow> UpInvalid
          | Some data \<Rightarrow> if ready \<and> int (length data) \<le> gc_MaxOutputMessageBytes c then UpRelay False else UpInvalid)
        else if ty = ''exit'' then (if ready \<and> ud_exit ud body \<noteq> None then UpRelay True else UpInvalid)
        else if ty = ''error'' then
          (case ud_error ud body of
            None \<Rightarrow> UpInvalid
          | Some (code, message) \<Rightarrow> if length code \<le> 128 \<and> length message \<le> 512 then UpRelay True else UpInvalid)
        else UpInvalid)"

fun proxyConnectorToBrowser ::
    "up_decoders \<Rightarrow> gw_config \<Rightarrow> browserTicket \<Rightarrow> (to_browser \<Rightarrow> bool) \<Rightarrow> bool \<Rightarrow> byteRateLimiter \<Rightarrow> (time \<times> frame) list
     \<Rightarrow> to_browser list \<times> proxyResult option" where
  "proxyConnectorToBrowser ud c t delivers ready l [] = ([], None)"
| "proxyConnectorToBrowser ud c t delivers ready l ((now, fr) # frs) =
    (case read_message (upstream_read_limit c) fr of
      ReadFailed \<Rightarrow> ([], Some (error_result ''connector_closed'' ''connector_closed'' True))
    | BinaryFrame _ \<Rightarrow> ([], Some (error_result ''connector_protocol_error'' ''connector_protocol_error'' False))
    | TextFrame body \<Rightarrow>
        (case allow l now (int (length body)) of
          (l', False) \<Rightarrow> ([], Some (error_result ''connector_protocol_error'' ''connector_protocol_error'' False))
        | (l', True) \<Rightarrow>
            (case connector_message ud c t ready body of
              UpInvalid \<Rightarrow> ([], Some (error_result ''connector_protocol_error'' ''connector_protocol_error'' False))
            | UpReady sz \<Rightarrow>
                if \<not> delivers (SentReady (bt_connectionID t) sz) then ([], Some (quiet_result ''client_closed''))
                else (case proxyConnectorToBrowser ud c t delivers True l' frs of (sent, res) \<Rightarrow> (SentReady (bt_connectionID t) sz # sent, res))
            | UpRelay terminal \<Rightarrow>
                if \<not> delivers (SentRaw body) then ([], Some (quiet_result ''client_closed''))
                else if terminal then ([SentRaw body], Some (quiet_result ''remote_exit''))
                else (case proxyConnectorToBrowser ud c t delivers ready l' frs of (sent, res) \<Rightarrow> (SentRaw body # sent, res)))))"

text \<open>
  The loop of \<^verbatim>\<open>serveSession\<close>: the result of a relay, a tick of the authorization timer with the
  authorizer's answer, a tick of the idle timer with the time since the last activity, or the end of the
  session's context, by the gateway's shutdown or by its time limit. A signal that ends the session gives
  the type of the disconnect and the error sent to the browser, if one is.
\<close>

datatype gw_signal = RelayEnded proxyResult | AuthorizationTick bool | GwIdleTick duration | ContextDone bool

definition gw_session_signal :: "gw_config \<Rightarrow> gw_signal \<Rightarrow> (string \<times> (string \<times> bool) option) option" where
  "gw_session_signal c s =
    (case s of
      RelayEnded r \<Rightarrow> Some (px_disconnectType r, if px_sendError r then Some (px_code r, px_retryable r) else None)
    | AuthorizationTick allowed \<Rightarrow> if \<not> allowed then Some (''authorization_revoked'', Some (''authorization_revoked'', False)) else None
    | GwIdleTick idle \<Rightarrow> if idle \<ge> gc_IdleTimeout c then Some (''idle_timeout'', Some (''idle_timeout'', False)) else None
    | ContextDone shutdown \<Rightarrow> Some (if shutdown then ''gateway_shutdown'' else ''absolute_timeout'', None))"

fun gw_session_loop :: "gw_config \<Rightarrow> gw_signal list \<Rightarrow> (string \<times> (string \<times> bool) option) option" where
  "gw_session_loop c [] = None"
| "gw_session_loop c (s # ss) = (case gw_session_signal c s of Some r \<Rightarrow> Some r | None \<Rightarrow> gw_session_loop c ss)"

text \<open>The end of a session, with its entry in the audit log.\<close>

definition gw_session_audit :: "time \<Rightarrow> browserTicket \<Rightarrow> string \<times> (string \<times> bool) option \<Rightarrow> gw_auditEvent" where
  "gw_session_audit now t r = gw_audit now (ticket_authorization t) ''disconnected'' (fst r) (bt_connectionID t)"

section \<open>Interleavings\<close>

text \<open>
  The operations on the broker's tickets, as they interleave: an issue begins, finishes with what it drew,
  and gives its reservation back, each in its own critical section; tickets are redeemed and pruned; the
  broker is closed. The state keeps the issues that hold a reservation and have not stored a ticket, and
  the number of those that have finished but still hold it.
\<close>

record gw_state =
  gs_broker :: broker
  gs_pending :: "pending_issue list"
  gs_finishing :: nat

datatype gw_op =
  G_Begin time "authorization \<Rightarrow> bool" issueRequest | G_Finish nat issue_draw | G_Release
| G_Consume time helloMessage | G_Prune time | G_Close

fun gw_step :: "gw_op \<Rightarrow> gw_state \<Rightarrow> gw_state" where
  "gw_step (G_Begin now authz q) s =
    (case issue_begin authz (gs_broker s) now q of
      (b, _, Inl _) \<Rightarrow> s\<lparr>gs_broker := b\<rparr>
    | (b, _, Inr p) \<Rightarrow> s\<lparr>gs_broker := b, gs_pending := gs_pending s @ [p]\<rparr>)"
| "gw_step (G_Finish k d) s =
    (if k < length (gs_pending s) then
       s\<lparr>gs_broker := fst (issue_finish (gs_broker s) (gs_pending s ! k) d),
         gs_pending := take k (gs_pending s) @ drop (Suc k) (gs_pending s), gs_finishing := Suc (gs_finishing s)\<rparr>
     else s)"
| "gw_step G_Release s =
    (if 0 < gs_finishing s then s\<lparr>gs_broker := releaseTicketReservation (gs_broker s), gs_finishing := gs_finishing s - 1\<rparr> else s)"
| "gw_step (G_Consume now hello) s = s\<lparr>gs_broker := fst (gw_consumeTicket (gs_broker s) now hello)\<rparr>"
| "gw_step (G_Prune now) s = s\<lparr>gs_broker := gw_pruneLocked (gs_broker s) now\<rparr>"
| "gw_step G_Close s = s\<lparr>gs_broker := gw_Close (gs_broker s)\<rparr>"

definition gw_start :: "broker \<Rightarrow> gw_state" where
  "gw_start b = \<lparr>gs_broker = b, gs_pending = [], gs_finishing = 0\<rparr>"

fun gw_issues :: "gw_op \<Rightarrow> gw_state \<Rightarrow> (string \<times> browserTicket) option" where
  "gw_issues (G_Finish k d) s =
    (if k < length (gs_pending s) then
       (case snd (snd (issue_finish (gs_broker s) (gs_pending s ! k) d)) of
         Inl _ \<Rightarrow> None
       | Inr _ \<Rightarrow> (case new_ticket (gs_broker s) (gs_pending s ! k) d of Inl _ \<Rightarrow> None | Inr (h, _, t) \<Rightarrow> Some (h, t)))
     else None)"
| "gw_issues _ _ = None"

fun gw_redeems :: "gw_op \<Rightarrow> gw_state \<Rightarrow> string option" where
  "gw_redeems (G_Consume now hello) s =
    (case snd (gw_consumeTicket (gs_broker s) now hello) of Inl _ \<Rightarrow> None | Inr _ \<Rightarrow> gw_hello_hash hello)"
| "gw_redeems _ _ = None"

section \<open>Lemmas\<close>

subsection \<open>Bindings\<close>

lemma adjacent_equal_sorted: "sorted xs \<Longrightarrow> \<not> adjacent_equal xs \<longleftrightarrow> distinct xs"
  by (induction xs rule: adjacent_equal.induct) (auto simp: order.antisym)

text \<open>A canonical binding: what \<^verbatim>\<open>normalizeBinding\<close> gives, whatever the order of the roles.\<close>

lemma normalizeBinding_Some:
  assumes "normalizeBinding b = Some b'"
  shows "b' = b\<lparr>bi_Roles := sort (bi_Roles b)\<rparr>" "distinct (bi_Roles b)" "bi_Action b = ActionWebSSH"
  using assms by (auto simp: normalizeBinding_def Let_def adjacent_equal_sorted list_all_iff split: if_splits)

lemma gw_sameBinding_iff: "gw_sameBinding a b \<longleftrightarrow> a = b"
  by (auto simp: gw_sameBinding_def list_all2_eq [symmetric] intro!: binding.equality)

subsection \<open>The operations on tickets\<close>

lemma gw_prune_fields [simp]:
  "gb_config (gw_pruneLocked b now) = gb_config b" "gb_closed (gw_pruneLocked b now) = gb_closed b"
  "gb_issuing (gw_pruneLocked b now) = gb_issuing b" "gb_publicURL (gw_pruneLocked b now) = gb_publicURL b"
  by (simp_all add: gw_pruneLocked_def)

lemma gw_prune_tickets:
  "wf_map (gb_tickets b) \<Longrightarrow>
    map_of (gb_tickets (gw_pruneLocked b now)) k = Some t \<longleftrightarrow> map_of (gb_tickets b) k = Some t \<and> now < bt_expiresAt t"
  by (auto simp: gw_pruneLocked_def map_of_keep_Some)

lemma gw_prune_wf [simp]:
  "wf_map (gb_tickets b) \<Longrightarrow> wf_map (gb_tickets (gw_pruneLocked b now))"
  "wf_map (gb_consumed b) \<Longrightarrow> wf_map (gb_consumed (gw_pruneLocked b now))"
  by (simp_all add: gw_pruneLocked_def)

lemma gw_prune_length: "length (gb_tickets (gw_pruneLocked b now)) \<le> length (gb_tickets b)"
  by (simp add: gw_pruneLocked_def length_keep_le)

lemma issue_begin_Inr:
  assumes "issue_begin authz b now q = (b', es, Inr p)"
  shows "validateIssueRequest q" "normalizeBinding (iq_Binding q) = Some (pi_binding p)" "pi_request p = q\<lparr>iq_Binding := pi_binding p\<rparr>"
    "authz (issue_authorization p)" "reserveTicket b now = (b', True)"
  using assms by (auto simp: issue_begin_def Let_def split: if_splits option.splits prod.splits bool.splits)

lemma issue_begin_Inl:
  assumes "issue_begin authz b now q = (b', es, Inl e)"
  shows "b' = b \<or> b' = gw_pruneLocked b now"
  using assms by (auto simp: issue_begin_def reserveTicket_def Let_def split: if_splits option.splits prod.splits bool.splits)

lemma new_ticket_Inr:
  assumes "new_ticket b p d = Inr (h, v, t)"
  obtains r browserRaw connectionRaw where "dr_response d = Some r" "validateConnectorResponse r (dr_checked d)" "dr_browserRaw d = Some browserRaw"
    "dr_connectionRaw d = Some connectionRaw" "h = sha256 browserRaw" "v = b64_encode browserRaw" "bt_connectionID t = b64_encode connectionRaw"
    "bt_binding t = pi_binding p" "bt_reason t = iq_Reason (pi_request p)" "bt_upstreamTicket t = wp_Ticket r" "bt_upstreamSession t = wp_SessionID r"
    "bt_connectorBinding t = wq_Binding (connector_request p)" "bt_expiresAt t = min (wp_ExpiresAt r) (dr_now d + gc_TicketTTL (gb_config b))"
    "dr_now d < bt_expiresAt t"
  using assms by (auto simp: new_ticket_def result_simps Let_def min_def split: if_splits)

lemma storeTicket_cases:
  obtains "storeTicket b now h t = (gw_pruneLocked b now, False)"
  | "storeTicket b now h t = ((gw_pruneLocked b now)\<lparr>gb_tickets := put (gb_tickets (gw_pruneLocked b now)) h t\<rparr>, True)"
      "\<not> has_key (gb_tickets (gw_pruneLocked b now)) h" "\<not> gb_closed b"
proof -
  have "storeTicket b now h t = (gw_pruneLocked b now, False) \<or>
      storeTicket b now h t = ((gw_pruneLocked b now)\<lparr>gb_tickets := put (gb_tickets (gw_pruneLocked b now)) h t\<rparr>, True) \<and>
      \<not> has_key (gb_tickets (gw_pruneLocked b now)) h \<and> \<not> gb_closed b"
    by (simp add: storeTicket_def Let_def)
  then show ?thesis
    using that by blast
qed

lemma issue_finish_cases:
  obtains e es where "issue_finish b p d = (b, es, Inl e)"
  | es where "issue_finish b p d = (gw_pruneLocked b (dr_stored d), es, Inl ErrCapacity)"
  | h v t es where "new_ticket b p d = Inr (h, v, t)" "\<not> has_key (gb_tickets (gw_pruneLocked b (dr_stored d))) h" "\<not> gb_closed b"
      "issue_finish b p d = ((gw_pruneLocked b (dr_stored d))\<lparr>gb_tickets := put (gb_tickets (gw_pruneLocked b (dr_stored d))) h t\<rparr>, es,
        Inr \<lparr>ir_ProtocolVersion = ''v1'', ir_Ticket = v, ir_ConnectionID = bt_connectionID t, ir_ExpiresAt = bt_expiresAt t,
             ir_WebSocketURL = gb_publicURL b\<rparr>)"
proof (cases "new_ticket b p d")
  case (Inl e)
  then show ?thesis
    using that(1) by (simp add: issue_finish_def)
next
  case (Inr x)
  obtain h v t where x: "x = (h, v, t)"
    by (rule prod_cases3)
  show ?thesis
    by (rule storeTicket_cases [of b "dr_stored d" h t]) (use Inr x that(2, 3) in \<open>auto simp: issue_finish_def\<close>)
qed

lemma gw_consumeTicket_cases:
  obtains "gw_consumeTicket b now hello = (b, Inl ''invalid_ticket'')" "gw_hello_hash hello = None"
  | h code where "gw_hello_hash hello = Some h" "map_of (gb_tickets (gw_pruneLocked b now)) h = None"
      "gw_consumeTicket b now hello = (gw_pruneLocked b now, Inl code)"
  | h e r where "gw_hello_hash hello = Some h" "map_of (gb_tickets (gw_pruneLocked b now)) h = Some e"
      "gw_consumeTicket b now hello = ((gw_pruneLocked b now)\<lparr>gb_tickets := del (gb_tickets (gw_pruneLocked b now)) h,
        gb_consumed := put (gb_consumed (gw_pruneLocked b now)) h (now + gc_TicketTTL (gb_config b))\<rparr>, r)"
      "\<And>t. r = Inr t \<Longrightarrow> t = e \<and> now < bt_expiresAt e \<and> he_ConnectionID hello = bt_connectionID e \<and> normalizeBinding (he_Binding hello) = Some (bt_binding e)"
proof (cases "gw_hello_hash hello")
  case None
  then show ?thesis
    using that(1) by (simp add: gw_consumeTicket_def)
next
  case (Some h)
  show ?thesis
  proof (cases "map_of (gb_tickets (gw_pruneLocked b now)) h")
    case None
    with Some show ?thesis
      using that(2) by (simp add: gw_consumeTicket_def Let_def)
  next
    case (Some e)
    with \<open>gw_hello_hash hello = Some h\<close> show ?thesis
      by (intro that(3) [of h e "snd (gw_consumeTicket b now hello)"])
        (auto simp: gw_consumeTicket_def Let_def gw_sameBinding_iff split: if_splits option.splits)
  qed
qed

subsection \<open>The invariant\<close>

text \<open>Reservations are counted exactly, and tickets and reservations together fit the limit.\<close>

definition wf_gw :: "gw_state \<Rightarrow> bool" where
  "wf_gw s \<longleftrightarrow>
    (let b = gs_broker s in
     wf_map (gb_tickets b) \<and> wf_map (gb_consumed b) \<and> 0 < gc_MaxOutstandingTickets (gb_config b) \<and>
     gb_issuing b = int (length (gs_pending s) + gs_finishing s) \<and>
     int (length (gb_tickets b) + length (gs_pending s)) \<le> gc_MaxOutstandingTickets (gb_config b))"

lemma wf_gwI:
  assumes "wf_gw s" and "gb_config (gs_broker s') = gb_config (gs_broker s)" and "wf_map (gb_tickets (gs_broker s'))"
    and "wf_map (gb_consumed (gs_broker s'))"
    and "gb_issuing (gs_broker s') = int (length (gs_pending s') + gs_finishing s')"
    and "length (gb_tickets (gs_broker s')) + length (gs_pending s') \<le> length (gb_tickets (gs_broker s)) + length (gs_pending s)"
  shows "wf_gw s'"
  using assms by (simp add: wf_gw_def Let_def)

lemma wf_gw_prune: "wf_gw s \<Longrightarrow> wf_gw (s\<lparr>gs_broker := gw_pruneLocked (gs_broker s) now\<rparr>)"
  by (rule wf_gwI) (auto simp: wf_gw_def Let_def gw_prune_length)

lemma wf_gw_step:
  assumes wf: "wf_gw s"
  shows "wf_gw (gw_step op s)"
proof (cases op)
  case (G_Begin now authz q)
  obtain b es r where b: "issue_begin authz (gs_broker s) now q = (b, es, r)"
    by (rule prod_cases3)
  show ?thesis
  proof (cases r)
    case (Inl e)
    with b G_Begin issue_begin_Inl [of authz "gs_broker s" now q b es e] wf wf_gw_prune [OF wf, of now] show ?thesis
      by auto
  next
    case (Inr p)
    with b have "reserveTicket (gs_broker s) now = (b, True)"
      using issue_begin_Inr(5) [of authz "gs_broker s" now q b es p] by simp
    with b Inr G_Begin wf_gw_prune [OF wf, of now] show ?thesis
      by (auto simp: reserveTicket_def Let_def wf_gw_def split: if_splits)
  qed
next
  case (G_Finish k d)
  let ?p = "gs_pending s ! k" and ?rest = "take k (gs_pending s) @ drop (Suc k) (gs_pending s)"
  have rest: "length ?rest = length (gs_pending s) - 1" "0 < length (gs_pending s)" if "k < length (gs_pending s)"
    using that by auto
  show ?thesis
  proof (cases "k < length (gs_pending s)")
    case True
    have "wf_gw (s\<lparr>gs_broker := fst (issue_finish (gs_broker s) ?p d), gs_pending := ?rest, gs_finishing := Suc (gs_finishing s)\<rparr>)"
    proof (cases rule: issue_finish_cases [where b = "gs_broker s" and p = ?p and d = d])
      case (3 h v t es)
      have "length (put (gb_tickets (gw_pruneLocked (gs_broker s) (dr_stored d))) h t) \<le> Suc (length (gb_tickets (gs_broker s)))"
        using length_put_le [of _ h t] gw_prune_length [of "gs_broker s" "dr_stored d"] by (meson Suc_le_mono order_trans)
      with 3 wf rest [OF True] True show ?thesis
        by (intro wf_gwI [OF wf]) (auto simp: wf_gw_def Let_def)
    qed (rule wf_gwI [OF wf]; use wf rest [OF True] True gw_prune_length [of "gs_broker s" "dr_stored d"] in \<open>auto simp: wf_gw_def Let_def\<close>)+
    with G_Finish True show ?thesis
      by simp
  next
    case False
    with G_Finish wf show ?thesis
      by simp
  qed
next
  case (G_Consume now hello)
  show ?thesis
  proof (cases rule: gw_consumeTicket_cases [where b = "gs_broker s" and now = now and hello = hello])
    case (3 h e r)
    have "length (del (gb_tickets (gw_pruneLocked (gs_broker s) now)) h) \<le> length (gb_tickets (gs_broker s))"
      using length_del_le gw_prune_length by (rule order_trans)
    with 3 G_Consume wf show ?thesis
      by (intro wf_gwI [OF wf]) (auto simp: wf_gw_def Let_def)
  qed (use wf wf_gw_prune [OF wf] G_Consume in auto)
qed (use wf wf_gw_prune [OF wf] in \<open>auto simp: wf_gw_def Let_def gw_Close_def releaseTicketReservation_def\<close>)

lemma gw_step_config: "gb_config (gs_broker (gw_step op s)) = gb_config (gs_broker s)"
proof (cases op)
  case (G_Begin now authz q)
  then show ?thesis
    by (auto simp: issue_begin_def reserveTicket_def Let_def split: option.splits prod.splits sum.splits bool.splits if_splits)
next
  case (G_Finish k d)
  then show ?thesis
    by (cases rule: issue_finish_cases [where b = "gs_broker s" and p = "gs_pending s ! k" and d = d]) auto
next
  case (G_Consume now hello)
  then show ?thesis
    by (cases rule: gw_consumeTicket_cases [where b = "gs_broker s" and now = now and hello = hello]) auto
qed (auto simp: gw_Close_def releaseTicketReservation_def)

lemma gw_run_config: "gb_config (gs_broker (fold gw_step ops s)) = gb_config (gs_broker s)"
  by (induction ops arbitrary: s) (auto simp: gw_step_config)

subsection \<open>The broker as a ticket store\<close>

interpretation gateway: ticket_store wf_gw "\<lambda>s. map_of (gb_tickets (gs_broker s))" gw_step gw_issues gw_redeems
proof
  fix s op
  assume "wf_gw s"
  then show "wf_gw (gw_step op s)"
    by (rule wf_gw_step)
next
  fix s op k e
  assume wf: "wf_gw s" and held: "map_of (gb_tickets (gs_broker (gw_step op s))) k = Some e"
  let ?b = "gs_broker s"
  have pr: "map_of (gb_tickets (gw_pruneLocked ?b now)) k = Some e \<Longrightarrow> map_of (gb_tickets ?b) k = Some e" for now
    using wf by (simp add: gw_prune_tickets wf_gw_def Let_def)
  show "map_of (gb_tickets ?b) k = Some e \<or> gw_issues op s = Some (k, e)"
  proof (cases op)
    case (G_Begin now authz q)
    with held pr [of now] show ?thesis
      by (auto simp: issue_begin_def reserveTicket_def Let_def split: option.splits prod.splits sum.splits bool.splits if_splits)
  next
    case (G_Finish i d)
    with held pr [of "dr_stored d"] show ?thesis
      by (cases rule: issue_finish_cases [where b = ?b and p = "gs_pending s ! i" and d = d]) (auto split: if_splits)
  next
    case (G_Consume now hello)
    with held pr [of now] show ?thesis
      by (cases rule: gw_consumeTicket_cases [where b = ?b and now = now and hello = hello]) (auto split: if_splits)
  qed (use held pr in \<open>auto simp: gw_Close_def releaseTicketReservation_def split: if_splits\<close>)
next
  fix s op k
  assume wf: "wf_gw s" and red: "gw_redeems op s = Some k"
  then obtain now hello t where op: "op = G_Consume now hello" "snd (gw_consumeTicket (gs_broker s) now hello) = Inr t" "gw_hello_hash hello = Some k"
    by (cases op) (auto split: sum.splits)
  show "map_of (gb_tickets (gs_broker s)) k \<noteq> None"
    using op wf by (cases rule: gw_consumeTicket_cases [where b = "gs_broker s" and now = now and hello = hello])
      (auto simp: gw_prune_tickets wf_gw_def Let_def)
  show "map_of (gb_tickets (gs_broker (gw_step op s))) k = None"
    using op by (cases rule: gw_consumeTicket_cases [where b = "gs_broker s" and now = now and hello = hello]) auto
qed

text \<open>Every pending issue was authorized when it began.\<close>

lemma pending_was_authorized:
  assumes "p \<in> set (gs_pending (fold gw_step ops (gw_start b)))"
  shows "\<exists>now authz q. G_Begin now authz q \<in> set ops \<and> authz (issue_authorization p) \<and> validateIssueRequest q \<and>
    normalizeBinding (iq_Binding q) = Some (pi_binding p) \<and> pi_request p = q\<lparr>iq_Binding := pi_binding p\<rparr>"
  using assms
proof (induction ops rule: rev_induct)
  case Nil
  then show ?case
    by (simp add: gw_start_def)
next
  case (snoc op ops)
  let ?s = "fold gw_step ops (gw_start b)"
  show ?case
  proof (cases "p \<in> set (gs_pending ?s)")
    case True
    with snoc.IH show ?thesis
      by auto
  next
    case False
    with snoc.prems obtain now authz q where op: "op = G_Begin now authz q"
      by (cases op) (auto split: if_splits dest: in_set_takeD in_set_dropD)
    with snoc.prems False obtain b' es where "issue_begin authz (gs_broker ?s) now q = (b', es, Inr p)"
      by (auto split: prod.splits sum.splits)
    from issue_begin_Inr [OF this] op show ?thesis
      by auto
  qed
qed

text \<open>A reservation is honoured: what it stores is refused only by a closed broker, a full record of used tickets, or a collision.\<close>

lemma reservation_honoured:
  assumes "wf_gw s" and "k < length (gs_pending s)" and "new_ticket (gs_broker s) (gs_pending s ! k) d = Inr (h, v, t)"
    and "\<not> gb_closed (gs_broker s)" and "\<not> has_key (gb_tickets (gs_broker s)) h"
    and "int (length (gb_consumed (gs_broker s))) < 4 * gc_MaxOutstandingTickets (gb_config (gs_broker s))"
  shows "\<exists>b es r. issue_finish (gs_broker s) (gs_pending s ! k) d = (b, es, Inr r) \<and> map_of (gb_tickets b) h = Some t"
proof -
  let ?p = "gw_pruneLocked (gs_broker s) (dr_stored d)"
  have "\<not> has_key (gb_tickets ?p) h"
    using assms(1,5) gw_prune_tickets [of "gs_broker s" "dr_stored d" h] by (auto simp: has_key_def wf_gw_def Let_def)
  moreover have "int (length (gb_tickets ?p)) < gc_MaxOutstandingTickets (gb_config (gs_broker s))"
    using assms(1,2) gw_prune_length [of "gs_broker s" "dr_stored d"] by (simp add: wf_gw_def Let_def)
  moreover have "int (length (gb_consumed ?p)) < gc_MaxOutstandingTickets (gb_config (gs_broker s)) * 4"
    using assms(6) length_keep_le [of "\<lambda>e. dr_stored d < e" "gb_consumed (gs_broker s)"] by (simp add: gw_pruneLocked_def)
  ultimately show ?thesis
    using assms(3,4) by (simp add: issue_finish_def storeTicket_def Let_def)
qed

lemma gw_New_Inr:
  assumes "gw_New parse render cfg = Inr b"
  shows "wf_gw (gw_start b)" "gb_tickets b = []" "0 < gc_TicketTTL (gb_config b)" "gc_TicketTTL (gb_config b) \<le> 30 * second"
    "0 < gc_OutputBytesPerSecond (gb_config b)" "gc_MaxInputMessageBytes (gb_config b) \<le> 64 * 1024"
proof -
  from assms obtain c where c: "applyConfigDefaults cfg = Inr c" "gb_config b = c" "gb_tickets b = []" "gb_issuing b = 0" "gb_consumed b = []"
    by (auto simp: gw_New_def result_simps split: sum.splits)
  from c(1) have "0 < gc_TicketTTL c" "gc_TicketTTL c \<le> 30 * second" "0 < gc_MaxOutstandingTickets c" "0 < gc_OutputBytesPerSecond c"
      "gc_MaxInputMessageBytes c \<le> 64 * 1024"
    by (auto simp: applyConfigDefaults_def Let_def result_simps set_default_def second_def)
  with c show "wf_gw (gw_start b)" "gb_tickets b = []" "0 < gc_TicketTTL (gb_config b)" "gc_TicketTTL (gb_config b) \<le> 30 * second"
      "0 < gc_OutputBytesPerSecond (gb_config b)" "gc_MaxInputMessageBytes (gb_config b) \<le> 64 * 1024"
    by (simp_all add: wf_gw_def gw_start_def Let_def)
qed

subsection \<open>The relay\<close>

lemma connector_message_cases:
  "connector_message ud c t ready body = UpReady sz \<Longrightarrow> \<not> ready \<and> validTerminalSize sz \<and> ud_ready ud body = Some (bt_upstreamSession t, sz)"
  "connector_message ud c t ready body = UpRelay last' \<Longrightarrow>
    (\<exists>data. ud_type ud body = Some ''output'' \<and> ready \<and> \<not> last' \<and> ud_output ud body = Some data \<and> int (length data) \<le> gc_MaxOutputMessageBytes c) \<or>
    ud_type ud body = Some ''exit'' \<and> ready \<and> last' \<or> ud_type ud body = Some ''error'' \<and> last'"
  by (auto simp: connector_message_def split: option.splits if_splits)

text \<open>What may follow, given whether the session is ready: the shape of the messages to a browser.\<close>

fun relay_shape :: "up_decoders \<Rightarrow> gw_config \<Rightarrow> browserTicket \<Rightarrow> bool \<Rightarrow> to_browser list \<Rightarrow> bool" where
  "relay_shape ud c t ready [] \<longleftrightarrow> True"
| "relay_shape ud c t ready (SentReady sid sz # ms) \<longleftrightarrow>
    \<not> ready \<and> sid = bt_connectionID t \<and> validTerminalSize sz \<and> relay_shape ud c t True ms"
| "relay_shape ud c t ready (SentRaw body # ms) \<longleftrightarrow>
    ready \<and> ud_type ud body = Some ''output'' \<and> (\<exists>data. ud_output ud body = Some data \<and> int (length data) \<le> gc_MaxOutputMessageBytes c) \<and>
      relay_shape ud c t True ms \<or>
    ms = [] \<and> (ud_type ud body = Some ''error'' \<or> ready \<and> ud_type ud body = Some ''exit'')"

lemma relay_has_shape:
  assumes "proxyConnectorToBrowser ud c t delivers ready l frs = (sent, res)"
  shows "relay_shape ud c t ready sent"
  using assms
proof (induction frs arbitrary: ready l sent res)
  case Nil
  then show ?case
    by simp
next
  case (Cons f frs)
  obtain now fr where f: "f = (now, fr)"
    by (rule prod.exhaust)
  show ?case
  proof (cases "read_message (upstream_read_limit c) fr")
    case (TextFrame body)
    obtain l' ok where a: "allow l now (int (length body)) = (l', ok)"
      by (rule prod.exhaust)
    obtain sent1 res1 where one: "proxyConnectorToBrowser ud c t delivers True l' frs = (sent1, res1)"
      by (rule prod.exhaust)
    obtain sent2 res2 where two: "proxyConnectorToBrowser ud c t delivers ready l' frs = (sent2, res2)"
      by (rule prod.exhaust)
    show ?thesis
    proof (cases "connector_message ud c t ready body")
      case (UpReady sz)
      with Cons.prems f TextFrame a one Cons.IH [OF one] connector_message_cases(1) [OF UpReady] show ?thesis
        by (auto split: bool.splits if_splits)
    next
      case (UpRelay terminal)
      with Cons.prems f TextFrame a two Cons.IH [OF two] connector_message_cases(2) [OF UpRelay] show ?thesis
        by (auto split: bool.splits if_splits)
    qed (use Cons.prems f TextFrame a in \<open>auto split: bool.splits\<close>)
  qed (use Cons.prems f in auto)
qed

lemma relay_shape_ready:
  assumes "relay_shape ud c t True ms"
  shows "\<exists>outs final. ms = map SentRaw (outs @ final) \<and>
    (\<forall>m \<in> set outs. ud_type ud m = Some ''output'' \<and> (\<exists>data. ud_output ud m = Some data \<and> int (length data) \<le> gc_MaxOutputMessageBytes c)) \<and>
    (final = [] \<or> (\<exists>m. final = [m] \<and> ud_type ud m \<in> {Some ''exit'', Some ''error''}))"
  using assms
proof (induction ms)
  case Nil
  then show ?case
    by simp
next
  case (Cons m ms)
  then obtain body where m: "m = SentRaw body"
    by (cases m) auto
  show ?case
  proof (cases "ms = [] \<and> ud_type ud body \<in> {Some ''exit'', Some ''error''}")
    case True
    with m show ?thesis
      by (intro exI [of _ "[]"] exI [of _ "[body]"]) auto
  next
    case False
    with Cons.prems m have out: "ud_type ud body = Some ''output''" "\<exists>data. ud_output ud body = Some data \<and> int (length data) \<le> gc_MaxOutputMessageBytes c"
        "relay_shape ud c t True ms"
      by auto
    from Cons.IH [OF out(3)] obtain outs final where "ms = map SentRaw (outs @ final)"
        "\<forall>m \<in> set outs. ud_type ud m = Some ''output'' \<and> (\<exists>data. ud_output ud m = Some data \<and> int (length data) \<le> gc_MaxOutputMessageBytes c)"
        "final = [] \<or> (\<exists>m. final = [m] \<and> ud_type ud m \<in> {Some ''exit'', Some ''error''})"
      by blast
    with m out show ?thesis
      by (intro exI [of _ "body # outs"] exI [of _ final]) auto
  qed
qed

lemma read_message_Text:
  assumes "read_message limit fr = TextFrame body"
  shows "fr = TextFrame body" and "int (length body) \<le> limit"
  using assms by (auto simp: read_message_def split: frame.splits if_splits)

lemma relayed_valid:
  assumes "proxyBrowserToConnector dc c writes l frs = (sent, res)" and "body \<in> set sent"
  shows "browser_message_valid dc c body \<and> int (length body) \<le> browser_read_limit c"
  using assms
proof (induction frs arbitrary: l sent res)
  case (Cons f frs)
  obtain now fr where f: "f = (now, fr)"
    by (rule prod.exhaust)
  show ?case
  proof (cases "read_message (browser_read_limit c) fr")
    case (TextFrame body')
    from Cons.prems f TextFrame have "body = body' \<and> browser_message_valid dc c body'
        \<or> (\<exists>l' sent'. proxyBrowserToConnector dc c writes l' frs = (sent', res) \<and> body \<in> set sent')"
      by (auto split: prod.splits bool.splits if_splits)
    with Cons.IH read_message_Text(2) [OF TextFrame] show ?thesis
      by blast
  qed (use Cons.prems f in auto)
qed simp

text \<open>The bucket of the gateway and the one of the connector behave alike.\<close>

lemma gateway_bucket: "allow = Allow" "newRateLimiter = newByteRateLimiter"
  by (simp_all add: fun_eq_iff allow_def Allow_def newRateLimiter_def newByteRateLimiter_def)

section \<open>Evaluation fixtures\<close>

definition demo_gw_parse :: "string \<Rightarrow> parsed_url option" where
  "demo_gw_parse v = Some \<lparr>u_Scheme = (if v = ''wss'' then ''wss'' else ''https''), u_Host = drop 8 v @ ''x'', u_HasUser = False,
    u_Path = (if v = ''wss'' then ConnectPath else []), u_RawQuery = [], u_Fragment = []\<rparr>"

definition demo_gw_config :: gw_config where
  "demo_gw_config = \<lparr>gc_PublicWebSocketURL = ''wss'', gc_Development = False, gc_AllowedOrigins = [''https://x''], gc_ConnectorBaseURL = [],
    gc_ConnectorUnixSocket = ''/s'', gc_ConnectorOrigin = ''https://x'', gc_TicketTTL = 0, gc_HandshakeTimeout = 0, gc_ConnectorDialTimeout = 0,
    gc_AuthorizationTimeout = 0, gc_AuthorizationInterval = 0, gc_IdleTimeout = 0, gc_AbsoluteTimeout = 0, gc_WriteTimeout = 0,
    gc_MaxConcurrent = 0, gc_MaxOutstandingTickets = 0, gc_MaxInputMessageBytes = 0, gc_MaxOutputMessageBytes = 0,
    gc_InputBytesPerSecond = 0, gc_OutputBytesPerSecond = 0\<rparr>"

definition demo_broker :: broker where
  "demo_broker = projr (gw_New demo_gw_parse (\<lambda>v. v) demo_gw_config)"

lemma demo_broker_new: "gw_New demo_gw_parse (\<lambda>v. v) demo_gw_config = Inr demo_broker"
  and demo_broker_fields: "gb_tickets demo_broker = []" "gb_consumed demo_broker = []" "gb_issuing demo_broker = 0" "\<not> gb_closed demo_broker"
    "gc_MaxOutstandingTickets (gb_config demo_broker) = 128" "gc_TicketTTL (gb_config demo_broker) = 20 * second"
    "gc_MaxInputMessageBytes (gb_config demo_broker) = 16384" "gc_MaxOutputMessageBytes (gb_config demo_broker) = 16384"
proof -
  have o: "normalizeHTTPOrigin demo_gw_parse ''https://x'' False = Some ''https://xx''"
    by (simp add: normalizeHTTPOrigin_def demo_gw_parse_def trim_eval contains_any_def contains_single lower_char_def is_upper_def)
  have "\<exists>b. gw_New demo_gw_parse (\<lambda>v. v) demo_gw_config = Inr b \<and> gb_tickets b = [] \<and> gb_consumed b = [] \<and> gb_issuing b = 0 \<and> \<not> gb_closed b \<and>
      gc_MaxOutstandingTickets (gb_config b) = 128 \<and> gc_TicketTTL (gb_config b) = 20 * second \<and> gc_MaxInputMessageBytes (gb_config b) = 16384 \<and> gc_MaxOutputMessageBytes (gb_config b) = 16384"
    by (simp add: gw_New_def demo_gw_config_def applyConfigDefaults_def set_default_def Let_def o gw_normalizeOrigins_def put_def
      validatePublicWebSocketURL_def newUpstreamTransport_def is_abs_def has_prefix_def second_def minute_def hour_def)
      (simp add: demo_gw_parse_def)
  then show "gw_New demo_gw_parse (\<lambda>v. v) demo_gw_config = Inr demo_broker" "gb_tickets demo_broker = []" "gb_consumed demo_broker = []"
    "gb_issuing demo_broker = 0" "\<not> gb_closed demo_broker"
    "gc_MaxOutstandingTickets (gb_config demo_broker) = 128" "gc_TicketTTL (gb_config demo_broker) = 20 * second"
    "gc_MaxInputMessageBytes (gb_config demo_broker) = 16384" "gc_MaxOutputMessageBytes (gb_config demo_broker) = 16384"
    by (auto simp: demo_broker_def)
qed

definition demo_gw_binding :: "string list \<Rightarrow> binding" where
  "demo_gw_binding roles = \<lparr>bi_PrincipalID = ''alice'', bi_SessionID = ''s1'', bi_Roles = roles, bi_HostID = ''host_1'', bi_CredentialID = ''cred_1'',
    bi_Action = ActionWebSSH\<rparr>"

definition demo_issue :: issueRequest where
  "demo_issue = \<lparr>iq_Binding = demo_gw_binding [''b'', ''a''], iq_Target = \<lparr>t_Address = ''8.8.8.8'', t_Port = 22, t_User = ''ops''\<rparr>,
    iq_PinnedHostKey = ''key'', iq_Credential = \<lparr>cred_PrivateKeyPEM = ''pem'', cred_Passphrase = []\<rparr>, iq_InitialSize = demo_size,
    iq_Reason = ''inspection''\<rparr>"

definition demo_draw :: issue_draw where
  "demo_draw = \<lparr>dr_response = Some \<lparr>wp_ProtocolVersion = ProtocolVersion, wp_RequestID = ''r'', wp_Ticket = b64_encode (replicate 32 CHR ''u''),
      wp_SessionID = b64_encode (replicate 16 CHR ''v''), wp_ExpiresAt = 30 * second\<rparr>,
    dr_browserRaw = Some (replicate 32 CHR ''a''), dr_connectionRaw = Some (replicate 16 CHR ''c''), dr_checked = 1, dr_now = 1, dr_stored = 1\<rparr>"

definition demo_hello :: helloMessage where
  "demo_hello = \<lparr>he_Type = ''hello'', he_Ticket = b64_encode (replicate 32 CHR ''a''), he_ConnectionID = b64_encode (replicate 16 CHR ''c''),
    he_Binding = demo_gw_binding [''a'', ''b'']\<rparr>"

definition demo_browser_ticket :: browserTicket where
  "demo_browser_ticket = \<lparr>bt_connectionID = ''conn'', bt_binding = demo_gw_binding [''a'', ''b''], bt_reason = ''inspection'', bt_upstreamTicket = ''ticket'',
    bt_upstreamSession = ''session'', bt_connectorBinding = demo_webssh_binding, bt_expiresAt = 9\<rparr>"

text \<open>Decoders on words that are their own type.\<close>

definition demo_up :: up_decoders where
  "demo_up = \<lparr>ud_type = Some, ud_ready = (\<lambda>_. Some (''session'', demo_size)), ud_output = Some, ud_exit = (\<lambda>_. Some (0, [])), ud_error = (\<lambda>_. None)\<rparr>"

lemma demo_normalize:
  "roles \<in> {[''b'', ''a''], [''a'', ''b'']} \<Longrightarrow> normalizeBinding (demo_gw_binding roles) = Some (demo_gw_binding [''a'', ''b''])"
proof -
  have ids: "validID ''alice''" "validID ''s1''" "validID ''host_1''" "validID ''cred_1''" "validID ''a''" "validID ''b''"
    by (simp_all add: validID_def trim_eval runes_ascii_Cons byte_def is_control_def is_space_def)
  have le: "''a'' < (''b'' :: string)" 
    by simp
  then have "sort [''b'', ''a''] = [''a'', ''b'' :: string]" "sort [''a'', ''b''] = [''a'', ''b'' :: string]"
    by auto
  with ids show "roles \<in> {[''b'', ''a''], [''a'', ''b'']} \<Longrightarrow> normalizeBinding (demo_gw_binding roles) = Some (demo_gw_binding [''a'', ''b''])"
    by (auto simp: normalizeBinding_def demo_gw_binding_def Let_def)
qed

section \<open>Properties\<close>

text \<open>
  C4. A browser ticket opens one relay at most, and only for whom it was issued: when a hello message is
  accepted after any interleaving of operations on a new broker, an issue that the authorizer had allowed
  for the same principal, session, host, credential and set of roles stored the ticket less than half a
  minute ago; what the gateway then says to the connector is the ticket and session the connector gave for
  that principal, host and credential; and the ticket cannot be used again.
\<close>

theorem gateway_ticket_bound:
  assumes "gw_New parse render cfg = Inr b0" and "s = fold gw_step ops (gw_start b0)"
    and "gw_consumeTicket (gs_broker s) now hello = (b', Inr t)"
  shows "(\<exists>before k d after p r n authz q. ops = before @ G_Finish k d # after \<and> G_Begin n authz q \<in> set before \<and>
      authz (ticket_authorization t) \<and> pi_binding p = bt_binding t \<and> dr_response d = Some r \<and> validateConnectorResponse r (dr_checked d) \<and>
      bi_PrincipalID (he_Binding hello) = bi_PrincipalID (iq_Binding q) \<and> bi_SessionID (he_Binding hello) = bi_SessionID (iq_Binding q) \<and>
      bi_HostID (he_Binding hello) = bi_HostID (iq_Binding q) \<and> bi_CredentialID (he_Binding hello) = bi_CredentialID (iq_Binding q) \<and>
      set (bi_Roles (he_Binding hello)) = set (bi_Roles (iq_Binding q)) \<and>
      now < wp_ExpiresAt r \<and> now < dr_now d + 30 * second \<and>
      connector_hello t = \<lparr>hm_Type = WebSSHMessageHello, hm_Ticket = wp_Ticket r, hm_SessionID = wp_SessionID r, hm_Binding = wq_Binding (connector_request p)\<rparr>)
    \<and> count_along gw_step (\<lambda>op s. gw_redeems op s = gw_hello_hash hello) ops (gw_start b0)
      < count_along gw_step (\<lambda>op s. \<exists>e. gw_issues op s = Some (the (gw_hello_hash hello), e)) ops (gw_start b0)
    \<and> (\<forall>now2 < now + gc_TicketTTL (gb_config b0). gw_consumeTicket b' now2 hello = (gw_pruneLocked b' now2, Inl ''ticket_replayed''))"
proof -
  note new = gw_New_Inr [OF assms(1)]
  let ?b = "gs_broker s"
  have wf: "wf_gw s"
    using gateway.inv_run new(1) assms(2) by simp
  from assms(3) obtain h where h: "gw_hello_hash hello = Some h" "map_of (gb_tickets (gw_pruneLocked ?b now)) h = Some t"
      "b' = (gw_pruneLocked ?b now)\<lparr>gb_tickets := del (gb_tickets (gw_pruneLocked ?b now)) h,
        gb_consumed := put (gb_consumed (gw_pruneLocked ?b now)) h (now + gc_TicketTTL (gb_config ?b))\<rparr>"
      "now < bt_expiresAt t" "normalizeBinding (he_Binding hello) = Some (bt_binding t)"
    by (cases rule: gw_consumeTicket_cases [where b = ?b and now = now and hello = hello]) auto
  have held: "map_of (gb_tickets (gs_broker (fold gw_step ops (gw_start b0)))) h = Some t"
    using h(2) wf assms(2) by (simp add: gw_prune_tickets wf_gw_def Let_def)
  have empty: "map_of (gb_tickets (gs_broker (gw_start b0))) h = None"
    using new(2) by (simp add: gw_start_def)
  from gateway.held_was_issued [OF new(1) held] empty obtain before op after
    where ops: "ops = before @ op # after" "gw_issues op (fold gw_step before (gw_start b0)) = Some (h, t)"
    by auto
  let ?s = "fold gw_step before (gw_start b0)"
  from ops(2) obtain k d v where op: "op = G_Finish k d" "k < length (gs_pending ?s)" "new_ticket (gs_broker ?s) (gs_pending ?s ! k) d = Inr (h, v, t)"
    by (cases op) (auto split: if_splits sum.splits)
  let ?p = "gs_pending ?s ! k"
  from op(3) obtain r where r: "dr_response d = Some r" "validateConnectorResponse r (dr_checked d)" "bt_binding t = pi_binding ?p"
      "bt_reason t = iq_Reason (pi_request ?p)" "bt_upstreamTicket t = wp_Ticket r" "bt_upstreamSession t = wp_SessionID r"
      "bt_connectorBinding t = wq_Binding (connector_request ?p)" "bt_expiresAt t = min (wp_ExpiresAt r) (dr_now d + gc_TicketTTL (gb_config (gs_broker ?s)))"
    by (rule new_ticket_Inr)
  have "?p \<in> set (gs_pending ?s)"
    using op(2) by simp
  from pending_was_authorized [OF this] obtain n authz q where q: "G_Begin n authz q \<in> set before" "authz (issue_authorization ?p)"
      "normalizeBinding (iq_Binding q) = Some (pi_binding ?p)"
    by blast
  have az: "ticket_authorization t = issue_authorization ?p"
    using r by (simp add: ticket_authorization_def issue_authorization_def)
  have same: "(he_Binding hello)\<lparr>bi_Roles := sort (bi_Roles (he_Binding hello))\<rparr> = (iq_Binding q)\<lparr>bi_Roles := sort (bi_Roles (iq_Binding q))\<rparr>"
    using normalizeBinding_Some(1) [OF h(5)] normalizeBinding_Some(1) [OF q(3)] r(3) by simp
  have fields: "bi_PrincipalID (he_Binding hello) = bi_PrincipalID (iq_Binding q)" "bi_SessionID (he_Binding hello) = bi_SessionID (iq_Binding q)"
      "bi_HostID (he_Binding hello) = bi_HostID (iq_Binding q)" "bi_CredentialID (he_Binding hello) = bi_CredentialID (iq_Binding q)"
    using arg_cong [OF same, of bi_PrincipalID] arg_cong [OF same, of bi_SessionID] arg_cong [OF same, of bi_HostID]
      arg_cong [OF same, of bi_CredentialID] by simp_all
  have roles: "set (bi_Roles (he_Binding hello)) = set (bi_Roles (iq_Binding q))"
    using arg_cong [OF same, of "\<lambda>b. set (bi_Roles b)"] by simp
  have live: "now < wp_ExpiresAt r" "now < dr_now d + 30 * second"
    using h(4) r(8) new(4) by (simp_all add: gw_run_config gw_start_def)
  have hello: "connector_hello t = \<lparr>hm_Type = WebSSHMessageHello, hm_Ticket = wp_Ticket r, hm_SessionID = wp_SessionID r, hm_Binding = wq_Binding (connector_request ?p)\<rparr>"
    using r by (simp add: connector_hello_def)
  have one: "\<exists>before k d after p r n authz q. ops = before @ G_Finish k d # after \<and> G_Begin n authz q \<in> set before \<and>
      authz (ticket_authorization t) \<and> pi_binding p = bt_binding t \<and> dr_response d = Some r \<and> validateConnectorResponse r (dr_checked d) \<and>
      bi_PrincipalID (he_Binding hello) = bi_PrincipalID (iq_Binding q) \<and> bi_SessionID (he_Binding hello) = bi_SessionID (iq_Binding q) \<and>
      bi_HostID (he_Binding hello) = bi_HostID (iq_Binding q) \<and> bi_CredentialID (he_Binding hello) = bi_CredentialID (iq_Binding q) \<and>
      set (bi_Roles (he_Binding hello)) = set (bi_Roles (iq_Binding q)) \<and>
      now < wp_ExpiresAt r \<and> now < dr_now d + 30 * second \<and>
      connector_hello t = \<lparr>hm_Type = WebSSHMessageHello, hm_Ticket = wp_Ticket r, hm_SessionID = wp_SessionID r, hm_Binding = wq_Binding (connector_request p)\<rparr>"
    by (rule exI [of _ before], rule exI [of _ k], rule exI [of _ d], rule exI [of _ after], rule exI [of _ ?p], rule exI [of _ r],
        rule exI [of _ n], rule exI [of _ authz], rule exI [of _ q])
      (use ops(1) op(1) q az r(1-3) fields roles live hello in simp)
  have two: "count_along gw_step (\<lambda>op s. gw_redeems op s = Some h) ops (gw_start b0)
      < count_along gw_step (\<lambda>op s. \<exists>e. gw_issues op s = Some (h, e)) ops (gw_start b0)"
    using gateway.redeemed_less_issued [OF new(1), of ops h] held empty by simp
  have three: "gw_consumeTicket b' now2 hello = (gw_pruneLocked b' now2, Inl ''ticket_replayed'')" if "now2 < now + gc_TicketTTL (gb_config b0)" for now2
  proof -
    have "gc_TicketTTL (gb_config ?b) = gc_TicketTTL (gb_config b0)"
      using assms(2) by (simp add: gw_run_config gw_start_def)
    moreover have "map_of (gb_tickets (gw_pruneLocked b' now2)) h = None"
      using h(3) wf by (auto simp: gw_pruneLocked_def map_of_keep wf_gw_def Let_def)
    moreover have "has_key (gb_consumed (gw_pruneLocked b' now2)) h" if "now2 < now + gc_TicketTTL (gb_config ?b)"
      using that h(3) wf by (auto simp: gw_pruneLocked_def map_of_keep_Some has_key_def wf_gw_def Let_def)
    ultimately show ?thesis
      using that h(1) by (simp add: gw_consumeTicket_def Let_def)
  qed
  show ?thesis
    using one two three h(1) by simp
qed

lemma demo_issued:
  obtains s t b' where "s = fold gw_step [G_Begin 0 (\<lambda>_. True) demo_issue, G_Finish 0 demo_draw] (gw_start demo_broker)"
    "gw_consumeTicket (gs_broker s) 2 demo_hello = (b', Inr t)" "bt_upstreamTicket t = wp_Ticket (the (dr_response demo_draw))"
proof -
  let ?p = "\<lparr>pi_binding = demo_gw_binding [''a'', ''b''], pi_request = demo_issue\<lparr>iq_Binding := demo_gw_binding [''a'', ''b'']\<rparr>\<rparr>"
  define h where "h = sha256 (replicate 32 CHR ''a'')"
  have norm: "normalizeBinding (iq_Binding demo_issue) = Some (demo_gw_binding [''a'', ''b''])"
      "normalizeBinding (he_Binding demo_hello) = Some (demo_gw_binding [''a'', ''b''])"
    using demo_normalize by (simp_all add: demo_issue_def demo_hello_def)
  have "validID ''ops''" "gw_validateReason ''inspection''" "trim_space ''8.8.8.8'' = ''8.8.8.8''"
    by (simp_all add: validID_def gw_validateReason_def trim_eval runes_ascii_Cons byte_def is_control_def is_space_def)
  then have valid: "validateIssueRequest demo_issue"
    using norm(1) by (simp add: validateIssueRequest_def demo_issue_def demo_size_def validTerminalSize_def)
  let ?b1 = "demo_broker\<lparr>gb_issuing := 1\<rparr>"
  have begin': "issue_begin (\<lambda>_. True) demo_broker 0 demo_issue = (?b1, [], Inr ?p)"
    using valid norm(1) demo_broker_fields
    by (simp add: issue_begin_def reserveTicket_def gw_pruneLocked_def keep_def Let_def)
  have response: "validateConnectorResponse (the (dr_response demo_draw)) 1"
    by (simp add: validateConnectorResponse_def demo_draw_def decodes_to_def b64_decode_encode minute_def second_def)
  obtain t where t: "new_ticket ?b1 ?p demo_draw = Inr (h, b64_encode (replicate 32 CHR ''a''), t)" "bt_expiresAt t = 20 * second + 1"
      "bt_connectionID t = b64_encode (replicate 16 CHR ''c'')" "bt_binding t = demo_gw_binding [''a'', ''b'']"
      "bt_upstreamTicket t = wp_Ticket (the (dr_response demo_draw))"
    using response demo_broker_fields by (simp add: new_ticket_def demo_draw_def Let_def h_def second_def result_simps)
  have finish: "fst (issue_finish ?b1 ?p demo_draw) = ?b1\<lparr>gb_tickets := [(h, t)]\<rparr>"
    using t demo_broker_fields by (simp add: issue_finish_def storeTicket_def gw_pruneLocked_def keep_def put_def has_key_def Let_def)
  have hash: "gw_hello_hash demo_hello = Some h"
    by (simp add: gw_hello_hash_def demo_hello_def h_def b64_decode_encode)
  have fields: "he_Type demo_hello = ''hello''" "he_ConnectionID demo_hello = b64_encode (replicate 16 CHR ''c'')"
    by (simp_all add: demo_hello_def)
  obtain b' where "gw_consumeTicket (?b1\<lparr>gb_tickets := [(h, t)]\<rparr>) 2 demo_hello = (b', Inr t)"
    using t norm(2) fields by (simp add: gw_consumeTicket_def hash gw_pruneLocked_def keep_def Let_def second_def gw_sameBinding_iff)
  with begin' finish t(5) show ?thesis
    by (intro that [OF refl]) (auto simp: gw_start_def)
qed

theorem gateway_ticket_bound_witness:
  "\<exists>s t b'. s = fold gw_step [G_Begin 0 (\<lambda>_. True) demo_issue, G_Finish 0 demo_draw] (gw_start demo_broker) \<and>
    gw_consumeTicket (gs_broker s) 2 demo_hello = (b', Inr t) \<and>
    gw_consumeTicket b' 3 demo_hello = (gw_pruneLocked b' 3, Inl ''ticket_replayed'')"
proof -
  obtain s t b' where run: "s = fold gw_step [G_Begin 0 (\<lambda>_. True) demo_issue, G_Finish 0 demo_draw] (gw_start demo_broker)"
      "gw_consumeTicket (gs_broker s) 2 demo_hello = (b', Inr t)"
    by (rule demo_issued)
  from gateway_ticket_bound [OF demo_broker_new run] have "gw_consumeTicket b' 3 demo_hello = (gw_pruneLocked b' 3, Inl ''ticket_replayed'')"
    using demo_broker_fields by (simp add: second_def)
  with run show ?thesis
    by blast
qed

text \<open>
  C35. What the relay from the connector writes to the browser is the language of one session: nothing; a
  single error; or the ready message, with the browser's connection identifier in place of the connector's
  session identifier, then outputs within the size limit, then at most one exit or error message, which is
  the relay's last. The errors with which \<^verbatim>\<open>serveSession\<close> itself ends a session go to the same
  connection and are not among these messages.
\<close>

theorem relay_to_browser_wellformed:
  assumes "proxyConnectorToBrowser ud c t delivers False l frs = (sent, res)"
  shows "sent = [] \<or> (\<exists>m. sent = [SentRaw m] \<and> ud_type ud m = Some ''error'')
    \<or> (\<exists>sz outs final. sent = SentReady (bt_connectionID t) sz # map SentRaw (outs @ final) \<and> validTerminalSize sz
        \<and> (\<forall>m \<in> set outs. ud_type ud m = Some ''output'' \<and>
            (\<exists>data. ud_output ud m = Some data \<and> int (length data) \<le> gc_MaxOutputMessageBytes c))
        \<and> (final = [] \<or> (\<exists>m. final = [m] \<and> ud_type ud m \<in> {Some ''exit'', Some ''error''})))"
proof (cases sent)
  case (Cons m ms)
  show ?thesis
  proof (cases m)
    case (SentReady sid sz)
    with Cons relay_has_shape [OF assms] have shape: "sid = bt_connectionID t" "validTerminalSize sz" "relay_shape ud c t True ms"
      by simp_all
    with Cons SentReady relay_shape_ready [OF shape(3)] show ?thesis
      by blast
  next
    case (SentRaw body)
    with Cons relay_has_shape [OF assms] show ?thesis
      by simp
  qed
qed simp

lemma demo_bucket:
  obtains l' where "allow (newRateLimiter 1000 2000 0) 1 5 = (l', True)" "limiter_ok l'" "rl_last l' = 1" "1900 \<le> rl_tokens l'"
proof -
  let ?l = "newByteRateLimiter 1000 2000 0"
  have l: "limiter_ok ?l" "rl_last ?l \<le> 1" "rl_tokens ?l = 2000"
    by (simp_all add: newByteRateLimiter_def limiter_ok_def float64_exact)
  then obtain l' where l': "Allow ?l 1 5 = (l', True)" "rl_tokens ?l - of_int 5 - 2 \<le> rl_tokens l'"
    using Allow_enough [OF l(1,2), of 5] by auto
  then show ?thesis
    using that [of l'] Allow_True(3,4) [OF l'(1) l(1,2)] l(3) by (simp add: gateway_bucket)
qed

theorem relay_to_browser_wellformed_witness:
  "\<exists>sent res. proxyConnectorToBrowser demo_up (gb_config demo_broker) demo_browser_ticket (\<lambda>_. True) False
      (newRateLimiter 1000 2000 0) [(1, TextFrame ''ready''), (2, TextFrame ''exit'')] = (sent, res) \<and>
    sent = [SentReady ''conn'' demo_size, SentRaw ''exit'']"
proof -
  let ?run = "proxyConnectorToBrowser demo_up (gb_config demo_broker) demo_browser_ticket (\<lambda>_. True) False
      (newRateLimiter 1000 2000 0) [(1, TextFrame ''ready''), (2, TextFrame ''exit'')]"
  obtain l' where l': "allow (newRateLimiter 1000 2000 0) 1 5 = (l', True)" "limiter_ok l'" "rl_last l' = 1" "1900 \<le> rl_tokens l'"
    by (rule demo_bucket)
  obtain l'' where l'': "allow l' 2 4 = (l'', True)"
    using Allow_enough [OF l'(2), of 2 4] l'(3,4) by (auto simp: gateway_bucket)
  have limit: "read_message (upstream_read_limit (gb_config demo_broker)) (TextFrame m) = TextFrame m" if "length m < 10" for m
    using that demo_broker_fields by (simp add: read_message_def upstream_read_limit_def)
  have run: "?run = ([SentReady ''conn'' demo_size, SentRaw ''exit''], Some (quiet_result ''remote_exit''))"
    using l'(1) l'' limit by (simp add: connector_message_def demo_up_def demo_browser_ticket_def demo_size_def validTerminalSize_def)
  from relay_to_browser_wellformed [OF run] run show ?thesis
    by blast
qed

text \<open>
  C36. How the gateway's filter meets the connector's, when the gateway's limit on inputs is at most the
  connector's. A message of a browser that the gateway passes on and that is within the connector's read
  limit is refused by the connector for its rate only, and otherwise gives a valid request to the terminal:
  both apply a rate limit, and the connector counts at least 512 bytes for every message. A message that is
  passed on and longer than that limit, which can exceed it by at most 4096 bytes, ends the session as if
  the client had closed it.
\<close>

theorem relayed_input_accepted:
  assumes "proxyBrowserToConnector dc c writes l frs = (sent, res)" and "body \<in> set sent"
    and "gc_MaxInputMessageBytes c \<le> wm_maxInputMessageBytes m"
  shows "(int (length body) \<le> wm_maxInputMessageBytes m * 2 + 4096 \<longrightarrow>
      (\<exists>l''. client_frame dc m l' now (TextFrame body) = (l'', Inl \<lparr>ev_code = ''input_rate_limit'', ev_retryable = False\<rparr>)
        \<or> (\<exists>request. client_frame dc m l' now (TextFrame body) = (l'', Inr request) \<and> pty_request_ok m request))) \<and>
    (int (length body) > wm_maxInputMessageBytes m * 2 + 4096 \<longrightarrow>
      client_frame dc m l' now (TextFrame body) = (l', Inl \<lparr>ev_code = ''client_closed'', ev_retryable = False\<rparr>) \<and>
      int (length body) \<le> wm_maxInputMessageBytes m * 2 + 8192)"
proof (rule conjI)
  note relayed = relayed_valid [OF assms(1,2)]
  show "int (length body) \<le> wm_maxInputMessageBytes m * 2 + 4096 \<longrightarrow>
      (\<exists>l''. client_frame dc m l' now (TextFrame body) = (l'', Inl \<lparr>ev_code = ''input_rate_limit'', ev_retryable = False\<rparr>)
        \<or> (\<exists>request. client_frame dc m l' now (TextFrame body) = (l'', Inr request) \<and> pty_request_ok m request))"
  proof
    assume short: "int (length body) \<le> wm_maxInputMessageBytes m * 2 + 4096"
    obtain l'' ok where a: "Allow l' now (if int (length body) < 512 then 512 else int (length body)) = (l'', ok)"
      by (rule prod.exhaust)
    from relayed a assms(3) short show "\<exists>l''. client_frame dc m l' now (TextFrame body) = (l'', Inl \<lparr>ev_code = ''input_rate_limit'', ev_retryable = False\<rparr>)
        \<or> (\<exists>request. client_frame dc m l' now (TextFrame body) = (l'', Inr request) \<and> pty_request_ok m request)"
      by (cases ok)
        (auto simp: client_frame_def read_message_def connector_read_limit_def browser_message_valid_def pty_request_ok_def split: option.splits if_splits)
  qed
  show "int (length body) > wm_maxInputMessageBytes m * 2 + 4096 \<longrightarrow>
      client_frame dc m l' now (TextFrame body) = (l', Inl \<lparr>ev_code = ''client_closed'', ev_retryable = False\<rparr>) \<and>
      int (length body) \<le> wm_maxInputMessageBytes m * 2 + 8192"
    using relayed assms(3) by (simp add: client_frame_def read_message_def connector_read_limit_def browser_read_limit_def)
qed

theorem relayed_input_accepted_witness:
  "\<exists>l. proxyBrowserToConnector demo_input_decoders (gb_config demo_broker) (\<lambda>_. True) (newRateLimiter 1000 2000 0) [(1, TextFrame ''pwd;;'')] = ([''pwd;;''], None) \<and>
    client_frame demo_input_decoders demo_webssh (newByteRateLimiter 65536 131072 0) 5 (TextFrame ''pwd;;'') = (l, Inr (WriteInput ''pwd;;'')) \<and>
    pty_request_ok demo_webssh (WriteInput ''pwd;;'')"
proof -
  let ?l = "newByteRateLimiter 65536 131072 0"
  obtain l' where "allow (newRateLimiter 1000 2000 0) 1 5 = (l', True)"
    by (rule demo_bucket)
  then have run: "proxyBrowserToConnector demo_input_decoders (gb_config demo_broker) (\<lambda>_. True) (newRateLimiter 1000 2000 0) [(1, TextFrame ''pwd;;'')] = ([''pwd;;''], None)"
    using demo_broker_fields by (simp add: read_message_def browser_read_limit_def demo_input_decoders_def browser_message_valid_def WebSSHMessageInput_def)
  have limits: "gc_MaxInputMessageBytes (gb_config demo_broker) \<le> wm_maxInputMessageBytes demo_webssh" "wm_maxInputMessageBytes demo_webssh = 16384"
    using demo_broker_fields by (simp_all add: demo_webssh_def)
  have l: "limiter_ok ?l" "rl_last ?l \<le> 5" "513 \<le> rl_tokens ?l"
    by (simp_all add: newByteRateLimiter_def limiter_ok_def float64_exact)
  obtain l'' where "client_frame demo_input_decoders demo_webssh ?l 5 (TextFrame ''pwd;;'') = (l'', Inr (WriteInput ''pwd;;''))"
    using demo_input_accepted [OF l, of "''pwd;;''"] by auto
  with relayed_input_accepted [OF run _ limits(1), of "''pwd;;''" ?l 5] run limits(2) show ?thesis
    by simp
qed

end
