(* ===== verification/Envelope.thy ===== *)
theory Envelope
  imports Model
begin

text \<open>
  Envelope encryption of stored secrets (\<^verbatim>\<open>control-plane/internal/credentials\<close>) and the key managers that
  wrap data keys (\<^verbatim>\<open>keymanager\<close>): sealing, opening, the encryption context that binds an envelope to its
  object, and the development and Vault key managers. AES-GCM and Vault are arguments; the bytes they are
  given and the checks around them are modelled. Buffers are wiped after use, which values do not show.
\<close>

section \<open>Authenticated encryption\<close>

text \<open>AES-GCM with a key, a nonce, a text and additional data; opening fails if the tag does not match.\<close>

record aead =
  gcm_seal :: "string \<Rightarrow> string \<Rightarrow> string \<Rightarrow> string \<Rightarrow> string"
  gcm_open :: "string \<Rightarrow> string \<Rightarrow> string \<Rightarrow> string \<Rightarrow> string option"

definition nonce_size :: nat where "nonce_size = 12"
definition overhead :: nat where "overhead = 16"

definition aes_key :: "string \<Rightarrow> bool" where
  "aes_key k \<longleftrightarrow> length k \<in> {16, 24, 32}"

text \<open>What the documentation of the mode promises: opening undoes sealing, and a tag is appended.\<close>

definition gcm_correct :: "aead \<Rightarrow> bool" where
  "gcm_correct a \<longleftrightarrow> (\<forall>k n p x. aes_key k \<longrightarrow> length n = nonce_size \<longrightarrow>
    gcm_open a k n (gcm_seal a k n p x) x = Some p \<and> length (gcm_seal a k n p x) = length p + overhead)"

text \<open>A ciphertext that opens under no other additional data than its own.\<close>

definition gcm_binds :: "aead \<Rightarrow> string \<Rightarrow> string \<Rightarrow> string \<Rightarrow> string \<Rightarrow> bool" where
  "gcm_binds a k n p x \<longleftrightarrow> (\<forall>y. gcm_open a k n (gcm_seal a k n p x) y \<noteq> None \<longrightarrow> y = x)"

section \<open>Encryption contexts\<close>

record encryptionContext =
  ec_InstallationID :: string
  ec_CredentialID :: string
  ec_Version :: u64
  ec_CredentialType :: string

text \<open>The two patterns; a dollar at the end of a pattern of the library matches only the end of the text.\<close>

definition contextIDPattern :: "string \<Rightarrow> bool" where
  "contextIDPattern s \<longleftrightarrow> s \<noteq> [] \<and> length s \<le> 128 \<and> is_alnum (hd s) \<and> list_all (\<lambda>c. is_alnum c \<or> c \<in> set ''_.:-'') (tl s)"

definition credentialPattern :: "string \<Rightarrow> bool" where
  "credentialPattern s \<longleftrightarrow> s \<noteq> [] \<and> length s \<le> 64 \<and> is_lower (hd s) \<and> list_all (\<lambda>c. is_lower c \<or> is_digit c \<or> c = CHR ''_'') (tl s)"

text \<open>The JSON text of a string that needs no escapes, and of the context.\<close>

definition json_string :: "string \<Rightarrow> string" where
  "json_string s = [CHR 0x22] @ s @ [CHR 0x22]"

definition context_json :: "encryptionContext \<Rightarrow> string" where
  "context_json c =
    ''{'' @ json_string ''installation_id'' @ '':'' @ json_string (ec_InstallationID c) @
    '','' @ json_string ''credential_id'' @ '':'' @ json_string (ec_CredentialID c) @
    '','' @ json_string ''version'' @ '':'' @ format_nat (unat (ec_Version c)) @
    '','' @ json_string ''credential_type'' @ '':'' @ json_string (ec_CredentialType c) @ ''}''"

definition AAD :: "encryptionContext \<Rightarrow> string option" where
  "AAD c =
    (if \<not> contextIDPattern (ec_InstallationID c) \<or> \<not> contextIDPattern (ec_CredentialID c) \<or> ec_Version c = 0 \<or>
        \<not> credentialPattern (ec_CredentialType c) then None
     else Some (context_json c))"

definition ContextAAD :: "string \<Rightarrow> string \<Rightarrow> string \<Rightarrow> string \<Rightarrow> string option" where
  "ContextAAD installationID objectID secretID secretType =
    (if contains objectID '':'' \<or> contains secretID '':'' then None
     else AAD \<lparr>ec_InstallationID = installationID, ec_CredentialID = objectID @ '':'' @ secretID, ec_Version = 1,
       ec_CredentialType = secretType\<rparr>)"

text \<open>The callers in \<^verbatim>\<open>api\<close> ignore the error, so that a refused context is the empty one.\<close>

definition credentialAAD :: "string \<Rightarrow> string \<Rightarrow> string \<Rightarrow> string" where
  "credentialAAD installationID hostID credentialID =
    (case ContextAAD installationID hostID credentialID ''ssh_private_key'' of None \<Rightarrow> [] | Some aad \<Rightarrow> aad)"

definition workerTokenAAD :: "string \<Rightarrow> string \<Rightarrow> string \<Rightarrow> string" where
  "workerTokenAAD installationID workerID tokenID =
    (case ContextAAD installationID workerID tokenID ''cloudflare_api_token'' of None \<Rightarrow> [] | Some aad \<Rightarrow> aad)"

text \<open>\<^term>\<open>decode\<close> is the strict JSON decoding of a context.\<close>

definition ValidateEncryptionContext :: "(string \<Rightarrow> encryptionContext option) \<Rightarrow> string \<Rightarrow> bool" where
  "ValidateEncryptionContext decode aad \<longleftrightarrow> \<not> (length aad = 0 \<or> length aad > 1024) \<and>
    (case decode aad of None \<Rightarrow> False | Some c \<Rightarrow> AAD c = Some aad)"

section \<open>Envelopes\<close>

text \<open>
  A key manager: its identifier, the wrapping of a data key with a random nonce, and the unwrapping. The
  sealing service of production has only the first two.
\<close>

record kms =
  km_KeyID :: string
  km_WrapKey :: "string option \<Rightarrow> string \<Rightarrow> string \<Rightarrow> (string \<times> string) option"
  km_UnwrapKey :: "string \<Rightarrow> string \<Rightarrow> string \<Rightarrow> string option"

record credential_service =
  cs_wrapper :: kms
  cs_unwrapper :: "kms option"

definition NewService :: "kms option \<Rightarrow> credential_service option" where
  "NewService k' = (case k' of None \<Rightarrow> None | Some k \<Rightarrow> if km_KeyID k = [] then None else Some \<lparr>cs_wrapper = k, cs_unwrapper = Some k\<rparr>)"

definition NewSealingService :: "kms option \<Rightarrow> credential_service option" where
  "NewSealingService k' = (case k' of None \<Rightarrow> None | Some k \<Rightarrow> if km_KeyID k = [] then None else Some \<lparr>cs_wrapper = k, cs_unwrapper = None\<rparr>)"

datatype seal_error = PlaintextEmpty | ContextRequired | SealRandom | KeyRejected | WrapFailed

definition Seal :: "aead \<Rightarrow> credential_service \<Rightarrow> string option \<Rightarrow> string option \<Rightarrow> string option \<Rightarrow> string \<Rightarrow> string \<Rightarrow> seal_error + envelope" where
  "Seal a s keyRand nonceRand wrapRand plaintext aad =
    ensure (length plaintext \<noteq> 0) PlaintextEmpty (
    ensure (length aad \<noteq> 0) ContextRequired (
    some_or keyRand SealRandom (\<lambda>dataKey.
    ensure (aes_key dataKey) KeyRejected (
    some_or nonceRand SealRandom (\<lambda>nonce.
    some_or (km_WrapKey (cs_wrapper s) wrapRand dataKey aad) WrapFailed (\<lambda>(wrapped, keyNonce).
    Inr \<lparr>env_Ciphertext = gcm_seal a dataKey nonce plaintext aad, env_Nonce = nonce, env_WrappedKey = wrapped, env_KeyNonce = keyNonce,
         env_KeyID = km_KeyID (cs_wrapper s)\<rparr>))))))"

datatype 'e open_error = ErrUnwrapUnavailable | KeyIDUnavailable | UnwrapFailed | UnwrappedKeyRejected | EnvelopeMalformed | AuthenticationFailed | ConsumerError 'e

text \<open>\<^verbatim>\<open>Open\<close> with the consumer of the plaintext, whose result or error it gives back.\<close>

definition Open :: "aead \<Rightarrow> credential_service \<Rightarrow> envelope \<Rightarrow> string \<Rightarrow> (string \<Rightarrow> 'e + 'r) \<Rightarrow> 'e open_error + 'r" where
  "Open a s env aad consumer =
    some_or (cs_unwrapper s) ErrUnwrapUnavailable (\<lambda>u.
    ensure (env_KeyID env = km_KeyID u) KeyIDUnavailable (
    some_or (km_UnwrapKey u (env_WrappedKey env) (env_KeyNonce env) aad) UnwrapFailed (\<lambda>dataKey.
    ensure (aes_key dataKey) UnwrappedKeyRejected (
    ensure (\<not> (length (env_Nonce env) \<noteq> nonce_size \<or> length (env_Ciphertext env) < overhead)) EnvelopeMalformed (
    some_or (gcm_open a dataKey (env_Nonce env) (env_Ciphertext env) aad) AuthenticationFailed (\<lambda>plaintext.
    case consumer plaintext of Inl e \<Rightarrow> Inl (ConsumerError e) | Inr r \<Rightarrow> Inr r))))))"

section \<open>Key managers\<close>

record devKMS =
  dk_keyID :: string
  dk_master :: string

definition NewDevKMS :: "string \<Rightarrow> string \<Rightarrow> devKMS option" where
  "NewDevKMS keyID masterKey = (if keyID = [] \<or> length masterKey \<noteq> 32 then None else Some \<lparr>dk_keyID = keyID, dk_master = masterKey\<rparr>)"

definition dev_WrapKey :: "aead \<Rightarrow> devKMS \<Rightarrow> string option \<Rightarrow> string \<Rightarrow> string \<Rightarrow> (string \<times> string) option" where
  "dev_WrapKey a k rand dataKey aad =
    (if \<not> aes_key (dk_master k) then None
     else case rand of None \<Rightarrow> None | Some nonce \<Rightarrow> Some (gcm_seal a (dk_master k) nonce dataKey aad, nonce))"

definition dev_UnwrapKey :: "aead \<Rightarrow> devKMS \<Rightarrow> string \<Rightarrow> string \<Rightarrow> string \<Rightarrow> string option" where
  "dev_UnwrapKey a k wrappedKey nonce aad =
    (if \<not> aes_key (dk_master k) then None
     else if length nonce \<noteq> nonce_size \<or> length wrappedKey < overhead then None
     else gcm_open a (dk_master k) nonce wrappedKey aad)"

definition dev_kms :: "aead \<Rightarrow> devKMS \<Rightarrow> kms" where
  "dev_kms a k = \<lparr>km_KeyID = dk_keyID k, km_WrapKey = dev_WrapKey a k, km_UnwrapKey = dev_UnwrapKey a k\<rparr>"

text \<open>The manager of \<^verbatim>\<open>keymanager\<close> for tests and development, which checks the context as well.\<close>

definition NewMemoryManager :: "string \<Rightarrow> string \<Rightarrow> string \<Rightarrow> devKMS option" where
  "NewMemoryManager environment keyID master =
    (if environment \<noteq> ''development'' \<and> environment \<noteq> ''test'' then None
     else if keyID = [] \<or> length master \<noteq> 32 then None
     else Some \<lparr>dk_keyID = keyID, dk_master = master\<rparr>)"

definition memory_WrapKey ::
    "(string \<Rightarrow> encryptionContext option) \<Rightarrow> aead \<Rightarrow> devKMS \<Rightarrow> string option \<Rightarrow> string \<Rightarrow> string \<Rightarrow> (string \<times> string) option" where
  "memory_WrapKey decode a k rand dataKey aad =
    (if length dataKey \<noteq> 32 \<or> \<not> ValidateEncryptionContext decode aad then None
     else if \<not> aes_key (dk_master k) then None
     else case rand of None \<Rightarrow> None | Some nonce \<Rightarrow> Some (gcm_seal a (dk_master k) nonce dataKey aad, nonce))"

definition memory_UnwrapKey ::
    "(string \<Rightarrow> encryptionContext option) \<Rightarrow> aead \<Rightarrow> devKMS \<Rightarrow> string \<Rightarrow> string \<Rightarrow> string \<Rightarrow> string option" where
  "memory_UnwrapKey decode a k wrappedKey nonce aad =
    (if \<not> aes_key (dk_master k) then None
     else if length nonce \<noteq> nonce_size \<or> length wrappedKey < overhead \<or> \<not> ValidateEncryptionContext decode aad then None
     else case gcm_open a (dk_master k) nonce wrappedKey aad of
       None \<Rightarrow> None | Some plaintext \<Rightarrow> if length plaintext \<noteq> 32 then None else Some plaintext)"

section \<open>Vault\<close>

datatype capability = WrapOnly | UnwrapOnly | WrapUnwrap | OtherCapability string

text \<open>What the token file is, on a Unix system: whether it is a regular file, its permission bits and its contents, if it can be read.\<close>

record token_file =
  tf_Regular :: bool
  tf_Perm :: nat
  tf_Contents :: "string option"

definition FileToken :: "(string \<Rightarrow> token_file option) \<Rightarrow> string \<Rightarrow> string option" where
  "FileToken open_file path =
    (if \<not> has_prefix path ''/'' then None else
     case open_file path of None \<Rightarrow> None | Some f \<Rightarrow>
     if \<not> tf_Regular f \<or> and (tf_Perm f) 63 \<noteq> 0 then None else
     case tf_Contents f of None \<Rightarrow> None | Some contents \<Rightarrow>
     if length contents > 16 * 1024 then None else
     let token = trim_space contents in
     if token = [] \<or> contains_any token [CHR 0x0D, CHR 0x0A, CHR 0x00] then None else Some token)"

text \<open>The parts of an address as \<^verbatim>\<open>url.Parse\<close> gives them.\<close>

record vault_url =
  vu_Scheme :: string
  vu_Hostname :: string
  vu_HasUser :: bool
  vu_Path :: string
  vu_RawQuery :: string
  vu_Fragment :: string

record vaultConfig =
  vc_Address :: string
  vc_TransitMount :: string
  vc_KeyName :: string
  vc_Namespace :: string
  vc_Environment :: string
  vc_Capability :: capability
  vc_TLSCAFile :: string
  vc_TLSServerName :: string
  vc_RequestTimeout :: duration
  vc_AllowInsecureDevelopment :: bool

definition vaultPathPattern :: "string \<Rightarrow> bool" where
  "vaultPathPattern s \<longleftrightarrow> s \<noteq> [] \<and> length s \<le> 128 \<and> is_alnum (hd s) \<and> list_all (\<lambda>c. is_alnum c \<or> c = CHR ''_'' \<or> c = CHR ''-'') (tl s)"

definition vaultCiphertextPattern :: "string \<Rightarrow> bool" where
  "vaultCiphertextPattern s \<longleftrightarrow> has_prefix s ''vault:v'' \<and>
    (case split_on (CHR '':'') (drop 7 s) of
      [version, text] \<Rightarrow> version \<noteq> [] \<and> is_digit (hd version) \<and> hd version \<noteq> CHR ''0'' \<and> list_all is_digit (tl version) \<and>
        text \<noteq> [] \<and> list_all (\<lambda>c. is_alnum c \<or> c \<in> set ''_+/=-'') text
    | _ \<Rightarrow> False)"

definition vault_Validate :: "(string \<Rightarrow> vault_url option) \<Rightarrow> vaultConfig \<Rightarrow> bool" where
  "vault_Validate parse c \<longleftrightarrow>
    vc_Environment c \<in> {''production'', ''development'', ''test''} \<and>
    (case parse (vc_Address c) of None \<Rightarrow> False | Some parsed \<Rightarrow>
      \<not> (vu_Hostname parsed = [] \<or> vu_HasUser parsed \<or> vu_RawQuery parsed \<noteq> [] \<or> vu_Fragment parsed \<noteq> []) \<and>
      \<not> (vu_Path parsed \<noteq> [] \<and> vu_Path parsed \<noteq> ''/'') \<and>
      \<not> (\<not> vaultPathPattern (vc_TransitMount c) \<or> \<not> vaultPathPattern (vc_KeyName c)) \<and>
      \<not> (vc_Namespace c \<noteq> [] \<and> (contains_any (vc_Namespace c) [CHR 0x0D, CHR 0x0A, CHR 0x00] \<or> has_prefix (vc_Namespace c) ''/'' \<or>
          contains (vc_Namespace c) ''..'')) \<and>
      (case vc_Capability c of
        WrapOnly \<Rightarrow> True | UnwrapOnly \<Rightarrow> True | WrapUnwrap \<Rightarrow> vc_Environment c \<noteq> ''production'' | OtherCapability _ \<Rightarrow> False) \<and>
      (if vc_Environment c = ''production'' then \<not> (vu_Scheme parsed \<noteq> ''https'' \<or> vc_AllowInsecureDevelopment c)
       else if vu_Scheme parsed \<noteq> ''https'' \<and> \<not> (vu_Scheme parsed = ''http'' \<and> vc_AllowInsecureDevelopment c) then False
       else \<not> (vc_AllowInsecureDevelopment c \<and> vc_Environment c \<noteq> ''development'' \<and> vc_Environment c \<noteq> ''test'')) \<and>
      \<not> (vc_RequestTimeout c < 0 \<or> vc_RequestTimeout c > minute))"

text \<open>Standard base64 with padding, and its strict decoding.\<close>

definition std_encode :: "string \<Rightarrow> string" where
  "std_encode s =
    (let e = map (\<lambda>c. if c = CHR ''-'' then CHR ''+'' else if c = CHR ''_'' then CHR ''/'' else c) (b64_encode s)
     in e @ replicate ((4 - length e mod 4) mod 4) (CHR ''=''))"

definition std_decode :: "string \<Rightarrow> string option" where
  "std_decode s =
    (let f = filter (\<lambda>c. c \<noteq> CHR 0x0A \<and> c \<noteq> CHR 0x0D) s;
         body = rev (dropWhile (\<lambda>c. c = CHR ''='') (rev f))
     in if length f mod 4 \<noteq> 0 \<or> length f > length body + 2 \<or> CHR ''='' \<in> set body \<or> CHR ''-'' \<in> set body \<or> CHR ''_'' \<in> set body then None
        else b64_decode True (map (\<lambda>c. if c = CHR ''+'' then CHR ''-'' else if c = CHR ''/'' then CHR ''_'' else c) body))"

text \<open>
  The transit client. Its surroundings are the token source, the exchange with Vault (a status and the
  contents, if the body could be read) and the decoding of one field of the answer with the rest of the text.
\<close>

record vaultTransit =
  vt_baseURL :: string
  vt_mount :: string
  vt_keyName :: string
  vt_keyID :: string
  vt_namespace :: string
  vt_capability :: capability
  vt_timeout :: duration

type_synonym header = "(string \<times> string) list"

record vault_io =
  vi_Token :: "string option"
  vi_Do :: "string \<Rightarrow> header \<Rightarrow> (string \<times> string) list \<Rightarrow> (int \<times> string option) option"
  vi_Decode :: "string \<Rightarrow> string \<Rightarrow> (string \<times> string) option"

text \<open>\<^term>\<open>tls_ok\<close> says whether the certificate file gives a TLS configuration.\<close>

definition NewVaultTransit ::
    "(string \<Rightarrow> vault_url option) \<Rightarrow> (string \<Rightarrow> string \<Rightarrow> bool) \<Rightarrow> vaultConfig \<Rightarrow> bool \<Rightarrow> vaultTransit option" where
  "NewVaultTransit parse tls_ok c hasTokenSource =
    (if \<not> vault_Validate parse c then None
     else if \<not> hasTokenSource then None
     else if \<not> tls_ok (vc_TLSCAFile c) (vc_TLSServerName c) then None
     else let address = rev (dropWhile (\<lambda>x. x = CHR ''/'') (rev (vc_Address c)))
       in Some \<lparr>vt_baseURL = address, vt_mount = vc_TransitMount c, vt_keyName = vc_KeyName c,
         vt_keyID = ''vault-transit:'' @ hex_encode (take 6 (sha256 address)) @ ''/'' @ vc_TransitMount c @ ''/'' @ vc_KeyName c,
         vt_namespace = vc_Namespace c, vt_capability = vc_Capability c,
         vt_timeout = (if vc_RequestTimeout c = 0 then 10 * second else vc_RequestTimeout c)\<rparr>)"

definition vault_post :: "vault_io \<Rightarrow> vaultTransit \<Rightarrow> string \<Rightarrow> (string \<times> string) list \<Rightarrow> string \<Rightarrow> string option" where
  "vault_post h v operation payload field =
    (let requestURL = vt_baseURL v @ ''/v1/'' @ vt_mount v @ ''/'' @ operation @ ''/'' @ vt_keyName v in
     case vi_Token h of None \<Rightarrow> None | Some token \<Rightarrow>
     let headers = [(''Content-Type'', ''application/json''), (''X-Vault-Token'', token)] @
       (if vt_namespace v \<noteq> [] then [(''X-Vault-Namespace'', vt_namespace v)] else []) in
     case vi_Do h requestURL headers payload of None \<Rightarrow> None | Some (status, body) \<Rightarrow>
     case body of None \<Rightarrow> None | Some contents \<Rightarrow>
     if length contents > 64 * 1024 then None
     else if status < 200 \<or> status \<ge> 300 then None
     else case vi_Decode h field contents of None \<Rightarrow> None | Some (decoded, rest) \<Rightarrow>
       if \<not> list_all (\<lambda>c. c \<in> {CHR '' '', CHR 0x09, CHR 0x0A, CHR 0x0D}) rest then None else Some decoded)"

definition vault_WrapKey :: "vault_io \<Rightarrow> (string \<Rightarrow> encryptionContext option) \<Rightarrow> vaultTransit \<Rightarrow> string \<Rightarrow> string \<Rightarrow> (string \<times> string) option" where
  "vault_WrapKey h decode v dataKey aad =
    (if vt_capability v \<noteq> WrapOnly \<and> vt_capability v \<noteq> WrapUnwrap then None
     else if length dataKey \<noteq> 32 \<or> \<not> ValidateEncryptionContext decode aad then None
     else case vault_post h v ''encrypt'' [(''plaintext'', std_encode dataKey), (''context'', std_encode aad)] ''ciphertext'' of
       None \<Rightarrow> None
     | Some ciphertext \<Rightarrow> if length ciphertext > 64 * 1024 \<or> \<not> vaultCiphertextPattern ciphertext then None else Some (ciphertext, []))"

definition vault_UnwrapKey :: "vault_io \<Rightarrow> (string \<Rightarrow> encryptionContext option) \<Rightarrow> vaultTransit \<Rightarrow> string \<Rightarrow> string \<Rightarrow> string \<Rightarrow> string option" where
  "vault_UnwrapKey h decode v wrappedKey nonce aad =
    (if vt_capability v \<noteq> UnwrapOnly \<and> vt_capability v \<noteq> WrapUnwrap then None
     else if length nonce \<noteq> 0 \<or> length wrappedKey = 0 \<or> length wrappedKey > 64 * 1024 \<or> \<not> ValidateEncryptionContext decode aad \<or>
        \<not> vaultCiphertextPattern wrappedKey then None
     else case vault_post h v ''decrypt'' [(''ciphertext'', wrappedKey), (''context'', std_encode aad)] ''plaintext'' of
       None \<Rightarrow> None
     | Some text \<Rightarrow> (case std_decode text of None \<Rightarrow> None | Some dataKey \<Rightarrow> if length dataKey \<noteq> 32 then None else Some dataKey))"

definition vault_kms :: "vault_io \<Rightarrow> (string \<Rightarrow> encryptionContext option) \<Rightarrow> vaultTransit \<Rightarrow> kms" where
  "vault_kms h decode v = \<lparr>km_KeyID = vt_keyID v, km_WrapKey = (\<lambda>_. vault_WrapKey h decode v), km_UnwrapKey = vault_UnwrapKey h decode v\<rparr>"

definition memory_kms :: "(string \<Rightarrow> encryptionContext option) \<Rightarrow> aead \<Rightarrow> devKMS \<Rightarrow> kms" where
  "memory_kms decode a k = \<lparr>km_KeyID = dk_keyID k, km_WrapKey = memory_WrapKey decode a k, km_UnwrapKey = memory_UnwrapKey decode a k\<rparr>"

section \<open>Contexts are injective\<close>

lemma no_quote:
  "contextIDPattern s \<Longrightarrow> CHR 0x22 \<notin> set s" "credentialPattern s \<Longrightarrow> CHR 0x22 \<notin> set s" "CHR 0x2C \<notin> set (format_nat n)"
proof -
  have alnum: "\<not> is_alnum (CHR 0x22)" "\<not> is_lower (CHR 0x22)" "\<not> is_digit (CHR 0x22)" "\<not> is_digit (CHR 0x2C)"
    by (simp_all add: is_alnum_def is_alpha_def byte_classes byte_def)
  then show "contextIDPattern s \<Longrightarrow> CHR 0x22 \<notin> set s" "credentialPattern s \<Longrightarrow> CHR 0x22 \<notin> set s"
    by (cases s; force simp: contextIDPattern_def credentialPattern_def list_all_iff)+
  show "CHR 0x2C \<notin> set (format_nat n)"
    using format_nat_digits [of n] alnum(4) by (auto simp: list_all_iff)
qed

lemma context_json_inj:
  assumes "AAD c = Some x" and "AAD d = Some x"
  shows "c = d"
proof -
  have pats: "contextIDPattern (ec_InstallationID e)" "contextIDPattern (ec_CredentialID e)" "credentialPattern (ec_CredentialType e)"
    if "AAD e = Some x" for e
    using that by (auto simp: AAD_def split: if_splits)
  have "context_json c = context_json d"
    using assms by (auto simp: AAD_def split: if_splits)
  then have "ec_InstallationID c @ CHR 0x22 # '','' @ json_string ''credential_id'' @ '':'' @ json_string (ec_CredentialID c) @
      '','' @ json_string ''version'' @ '':'' @ format_nat (unat (ec_Version c)) @
      '','' @ json_string ''credential_type'' @ '':'' @ json_string (ec_CredentialType c) @ ''}'' =
    ec_InstallationID d @ CHR 0x22 # '','' @ json_string ''credential_id'' @ '':'' @ json_string (ec_CredentialID d) @
      '','' @ json_string ''version'' @ '':'' @ format_nat (unat (ec_Version d)) @
      '','' @ json_string ''credential_type'' @ '':'' @ json_string (ec_CredentialType d) @ ''}''"
    by (simp add: context_json_def json_string_def)
  then have 1: "ec_InstallationID c = ec_InstallationID d" and
    "ec_CredentialID c @ CHR 0x22 # '','' @ json_string ''version'' @ '':'' @ format_nat (unat (ec_Version c)) @
      '','' @ json_string ''credential_type'' @ '':'' @ json_string (ec_CredentialType c) @ ''}'' =
    ec_CredentialID d @ CHR 0x22 # '','' @ json_string ''version'' @ '':'' @ format_nat (unat (ec_Version d)) @
      '','' @ json_string ''credential_type'' @ '':'' @ json_string (ec_CredentialType d) @ ''}''"
    by (auto dest!: split_first simp: no_quote pats assms json_string_def)
  then have 2: "ec_CredentialID c = ec_CredentialID d" and
    "format_nat (unat (ec_Version c)) @ CHR 0x2C # json_string ''credential_type'' @ '':'' @ json_string (ec_CredentialType c) @ ''}'' =
     format_nat (unat (ec_Version d)) @ CHR 0x2C # json_string ''credential_type'' @ '':'' @ json_string (ec_CredentialType d) @ ''}''"
    by (auto dest!: split_first simp: no_quote pats assms json_string_def)
  then have 3: "ec_Version c = ec_Version d" and "ec_CredentialType c @ CHR 0x22 # ''}'' = ec_CredentialType d @ CHR 0x22 # ''}''"
    by (auto dest!: split_first simp: no_quote format_nat_inj json_string_def word_unat_eq_iff)
  with 1 2 show ?thesis
    by simp
qed

lemma ContextAAD_inj:
  assumes "ContextAAD i obj sec t = Some x" and "ContextAAD i' obj' sec' t' = Some x"
  shows "(i, obj, sec, t) = (i', obj', sec', t')"
proof -
  have colon: "CHR '':'' \<notin> set obj" "CHR '':'' \<notin> set obj'"
    and "AAD \<lparr>ec_InstallationID = i, ec_CredentialID = obj @ '':'' @ sec, ec_Version = 1, ec_CredentialType = t\<rparr> = Some x"
      "AAD \<lparr>ec_InstallationID = i', ec_CredentialID = obj' @ '':'' @ sec', ec_Version = 1, ec_CredentialType = t'\<rparr> = Some x"
    using assms by (auto simp: ContextAAD_def contains_single split: if_splits)
  from context_json_inj [OF this(3, 4)] have "i = i'" "t = t'" "obj @ CHR '':'' # sec = obj' @ CHR '':'' # sec'"
    by simp_all
  with split_first [OF this(3) colon] show ?thesis
    by simp
qed

lemma ContextAAD_nonempty: "ContextAAD i obj sec t = Some x \<Longrightarrow> x \<noteq> []"
  by (auto simp: ContextAAD_def AAD_def context_json_def split: if_splits)

section \<open>Padded base64\<close>

lemma b64_encode_alphabet: "c \<in> set (b64_encode s) \<Longrightarrow> c \<notin> {CHR ''+'', CHR ''/'', CHR ''='', CHR 0x0A, CHR 0x0D}"
proof -
  have "b64_char n \<notin> {CHR ''+'', CHR ''/'', CHR ''='', CHR 0x0A, CHR 0x0D}" for n
    unfolding insert_iff empty_iff char_eq_byte byte_b64_char by (simp add: byte_def) arith
  then show "c \<in> set (b64_encode s) \<Longrightarrow> c \<notin> {CHR ''+'', CHR ''/'', CHR ''='', CHR 0x0A, CHR 0x0D}"
    by (auto simp: b64_encode_def)
qed

lemma b64_length_mod: "length (b64_encode s) mod 4 \<noteq> 1"
  unfolding b64_encode_def length_map by (induction s rule: b64_values.induct) simp_all

lemma padding_length:
  fixes n :: nat
  assumes "n mod 4 \<noteq> 1"
  shows "(4 - n mod 4) mod 4 \<le> 2" "(n + (4 - n mod 4) mod 4) mod 4 = 0"
proof -
  consider "n mod 4 = 0" | "n mod 4 = 2" | "n mod 4 = 3"
    using assms by linarith
  then show "(4 - n mod 4) mod 4 \<le> 2" "(n + (4 - n mod 4) mod 4) mod 4 = 0"
    by (cases; simp; presburger)+
qed

lemma std_decode_encode: "std_decode (std_encode s) = Some s"
proof -
  let ?f = "\<lambda>c. if c = CHR ''-'' then CHR ''+'' else if c = CHR ''_'' then CHR ''/'' else c"
  let ?g = "\<lambda>c. if c = CHR ''+'' then CHR ''-'' else if c = CHR ''/'' then CHR ''_'' else c"
  let ?n = "\<lambda>c. c \<noteq> CHR 0x0A \<and> c \<noteq> CHR 0x0D"
  define e where "e = map ?f (b64_encode s)"
  define k where "k = (4 - length e mod 4) mod 4"
  have enc: "std_encode s = e @ replicate k (CHR ''='')"
    by (simp add: std_encode_def e_def k_def Let_def)
  have chars: "\<forall>c \<in> set e. c \<notin> {CHR ''='', CHR ''-'', CHR ''_'', CHR 0x0A, CHR 0x0D}"
    using b64_encode_alphabet [of _ s] unfolding e_def by auto
  have inverse: "map ?g e = b64_encode s"
    unfolding e_def map_map by (rule map_idI) (use b64_encode_alphabet [of _ s] in auto)
  have filt: "filter ?n (std_encode s) = std_encode s"
    using chars by (auto simp: enc filter_id_conv)
  have body: "rev (dropWhile (\<lambda>c. c = CHR ''='') (rev (std_encode s))) = e"
  proof -
    have "dropWhile (\<lambda>c. c = CHR ''='') (rev e) = rev e"
      using chars by (cases "rev e") (auto simp: dropWhile_eq_self_iff simp flip: set_rev [of e])
    then show ?thesis
      by (simp add: enc dropWhile_append)
  qed
  have "k \<le> 2" "(length e + k) mod 4 = 0"
    using padding_length [OF b64_length_mod [of s]] by (simp_all add: e_def k_def)
  then show ?thesis
    using chars unfolding std_decode_def filt body Let_def
    by (auto simp: enc inverse b64_decode_encode simp del: map_map)
qed

lemma std_encode_inj: "std_encode s = std_encode t \<Longrightarrow> s = t"
  using std_decode_encode by (metis option.inject)

section \<open>Key managers as an interface\<close>

text \<open>
  What sealing and opening need of the manager that wraps and the manager that unwraps: the same key
  identifier, and for the draws, keys and contexts that are \<^term>\<open>sound\<close>, unwrapping in the context of the
  wrapping, and in no other. The managers of the code meet it where the cipher or the service does.
\<close>

locale key_manager =
  fixes wrapper unwrapper :: kms
    and sound :: "string option \<Rightarrow> string \<Rightarrow> string \<Rightarrow> bool"
  assumes same_key: "km_KeyID wrapper = km_KeyID unwrapper"
    and unwraps: "sound r dk aad \<Longrightarrow> km_WrapKey wrapper r dk aad = Some (w, n) \<Longrightarrow> km_UnwrapKey unwrapper w n aad = Some dk"
    and binds: "sound r dk aad \<Longrightarrow> km_WrapKey wrapper r dk aad = Some (w, n) \<Longrightarrow> km_UnwrapKey unwrapper w n aad' = Some dk' \<Longrightarrow> aad' = aad"
begin

lemma sealed_opens:
  assumes "gcm_correct a" and "sound wr dk aad" and "length nonce = nonce_size"
    and "cs_wrapper s = wrapper" and "cs_unwrapper t = Some unwrapper"
    and "Seal a s (Some dk) (Some nonce) wr plaintext aad = Inr env"
  shows "Open a t env aad f = (case f plaintext of Inl e \<Rightarrow> Inl (ConsumerError e) | Inr r \<Rightarrow> Inr r)"
proof -
  obtain w n where wrap: "km_WrapKey wrapper wr dk aad = Some (w, n)" and key: "aes_key dk"
    and env: "env = \<lparr>env_Ciphertext = gcm_seal a dk nonce plaintext aad, env_Nonce = nonce, env_WrappedKey = w, env_KeyNonce = n,
      env_KeyID = km_KeyID wrapper\<rparr>"
    using assms(4, 6) by (auto simp: Seal_def result_simps)
  moreover have "gcm_open a dk nonce (gcm_seal a dk nonce plaintext aad) aad = Some plaintext"
      "length (gcm_seal a dk nonce plaintext aad) = length plaintext + overhead"
    using assms(1, 3) key by (auto simp: gcm_correct_def)
  ultimately show ?thesis
    using assms(3, 5) same_key unwraps [OF assms(2) wrap] by (simp add: Open_def)
qed

lemma sealed_opens_only_in_context:
  assumes "sound wr dk aad" and "cs_wrapper s = wrapper" and "cs_unwrapper t = Some unwrapper"
    and "Seal a s (Some dk) nr wr plaintext aad = Inr env" and "Open a t env aad' f = Inr r"
  shows "aad' = aad"
proof -
  obtain w n where wrap: "km_WrapKey wrapper wr dk aad = Some (w, n)" and env: "env_WrappedKey env = w" "env_KeyNonce env = n"
    using assms(2, 4) by (auto simp: Seal_def result_simps)
  moreover obtain dk' where "km_UnwrapKey unwrapper w n aad' = Some dk'"
    using assms(3, 5) env by (auto simp: Open_def result_simps)
  ultimately show ?thesis
    using binds [OF assms(1)] by blast
qed

end

definition dev_sound :: "aead \<Rightarrow> devKMS \<Rightarrow> string option \<Rightarrow> string \<Rightarrow> string \<Rightarrow> bool" where
  "dev_sound a k r dk aad \<longleftrightarrow> gcm_correct a \<and>
    (case r of None \<Rightarrow> True | Some n \<Rightarrow> length n = nonce_size \<and> gcm_binds a (dk_master k) n dk aad)"

interpretation dev: key_manager "dev_kms a k" "dev_kms a k" "dev_sound a k" for a k
  by unfold_locales
    (auto simp: dev_kms_def dev_WrapKey_def dev_UnwrapKey_def dev_sound_def gcm_correct_def gcm_binds_def split: option.splits if_splits)

interpretation memory: key_manager "memory_kms decode a k" "memory_kms decode a k" "dev_sound a k" for decode a k
  by unfold_locales
    (auto simp: memory_kms_def memory_WrapKey_def memory_UnwrapKey_def dev_sound_def gcm_correct_def gcm_binds_def split: option.splits if_splits)

text \<open>
  Vault's promise for a key with derivation: what it encrypted in a context it decrypts in that context, and
  refuses in any other.
\<close>

definition vault_sound :: "vault_io \<Rightarrow> vault_io \<Rightarrow> vaultTransit \<Rightarrow> string option \<Rightarrow> string \<Rightarrow> string \<Rightarrow> bool" where
  "vault_sound hw hu v r dk aad \<longleftrightarrow>
    (\<forall>c. vault_post hw v ''encrypt'' [(''plaintext'', std_encode dk), (''context'', std_encode aad)] ''ciphertext'' = Some c \<longrightarrow>
      vault_post hu v ''decrypt'' [(''ciphertext'', c), (''context'', std_encode aad)] ''plaintext'' = Some (std_encode dk) \<and>
      (\<forall>ctx. ctx \<noteq> std_encode aad \<longrightarrow> vault_post hu v ''decrypt'' [(''ciphertext'', c), (''context'', ctx)] ''plaintext'' = None))"

lemma vault_post_capability [simp]: "vault_post h (v\<lparr>vt_capability := c\<rparr>) = vault_post h v"
proof (intro ext)
  fix operation payload field
  have "vt_baseURL (v\<lparr>vt_capability := c\<rparr>) = vt_baseURL v" "vt_mount (v\<lparr>vt_capability := c\<rparr>) = vt_mount v"
    "vt_keyName (v\<lparr>vt_capability := c\<rparr>) = vt_keyName v" "vt_namespace (v\<lparr>vt_capability := c\<rparr>) = vt_namespace v"
    by simp_all
  then show "vault_post h (v\<lparr>vt_capability := c\<rparr>) operation payload field = vault_post h v operation payload field"
    by (simp only: vault_post_def cong: option.case_cong)
qed

interpretation vault: key_manager "vault_kms hw decode (v\<lparr>vt_capability := WrapOnly\<rparr>)" "vault_kms hu decode (v\<lparr>vt_capability := UnwrapOnly\<rparr>)"
  "vault_sound hw hu v" for hw hu decode v
proof
  fix r dk aad w n
  assume sound: "vault_sound hw hu v r dk aad"
    and wrap: "km_WrapKey (vault_kms hw decode (v\<lparr>vt_capability := WrapOnly\<rparr>)) r dk aad = Some (w, n)"
  have w: "vault_post hw v ''encrypt'' [(''plaintext'', std_encode dk), (''context'', std_encode aad)] ''ciphertext'' = Some w"
    "n = []" "length dk = 32" "ValidateEncryptionContext decode aad" "length w \<le> 64 * 1024" "vaultCiphertextPattern w"
    using wrap by (auto simp: vault_kms_def vault_WrapKey_def split: option.splits if_splits)
  have "w \<noteq> []"
    using w(6) by (auto simp: vaultCiphertextPattern_def has_prefix_def)
  then show "km_UnwrapKey (vault_kms hu decode (v\<lparr>vt_capability := UnwrapOnly\<rparr>)) w n aad = Some dk"
    using sound w by (auto simp: vault_kms_def vault_UnwrapKey_def vault_sound_def std_decode_encode)
  fix aad' dk'
  assume "km_UnwrapKey (vault_kms hu decode (v\<lparr>vt_capability := UnwrapOnly\<rparr>)) w n aad' = Some dk'"
  then have "vault_post hu v ''decrypt'' [(''ciphertext'', w), (''context'', std_encode aad')] ''plaintext'' \<noteq> None"
    by (auto simp: vault_kms_def vault_UnwrapKey_def split: option.splits if_splits)
  then have "std_encode aad' = std_encode aad"
    using sound w(1) by (auto simp: vault_sound_def)
  then show "aad' = aad"
    by (rule std_encode_inj)
qed (simp add: vault_kms_def)

section \<open>Stored secrets\<close>

text \<open>
  C6. A secret sealed for an installation, an object, a secret and a type opens with the key service of the
  control plane in that context, to the same plaintext; and if it opens in the context of any installation,
  object, secret and type, they are the ones it was sealed for: an envelope copied to another host, worker or
  credential is refused. The hypotheses are that AES-GCM is correct and that this wrapped key is
  authenticated with its additional data.
\<close>

theorem sealed_secret_bound_to_object:
  assumes "gcm_correct a" and "gcm_binds a (dk_master k) wn dk aad" and "length wn = nonce_size" and "length nonce = nonce_size"
    and "NewService (Some (dev_kms a k)) = Some s"
    and "ContextAAD inst obj sec ty = Some aad"
    and "Seal a s (Some dk) (Some nonce) (Some wn) plaintext aad = Inr env"
  shows "Open a s env aad g = (case g plaintext of Inl e \<Rightarrow> Inl (ConsumerError e) | Inr x \<Rightarrow> Inr x)
    \<and> (Open a s env aad' f = Inr r \<longrightarrow> ContextAAD inst' obj' sec' ty' = Some aad' \<longrightarrow> (inst', obj', sec', ty') = (inst, obj, sec, ty))"
proof -
  have s: "cs_wrapper s = dev_kms a k" "cs_unwrapper s = Some (dev_kms a k)"
    using assms(5) by (auto simp: NewService_def split: if_splits)
  have sound: "dev_sound a k (Some wn) dk aad"
    using assms(1, 2, 3) by (simp add: dev_sound_def)
  have "Open a s env aad g = (case g plaintext of Inl e \<Rightarrow> Inl (ConsumerError e) | Inr x \<Rightarrow> Inr x)"
    by (rule dev.sealed_opens [OF assms(1) sound assms(4) s assms(7)])
  moreover have "(inst', obj', sec', ty') = (inst, obj, sec, ty)"
    if "Open a s env aad' f = Inr r" "ContextAAD inst' obj' sec' ty' = Some aad'"
    using dev.sealed_opens_only_in_context [OF sound s assms(7) that(1)] ContextAAD_inj that(2) assms(6) by blast
  ultimately show ?thesis
    by blast
qed

definition demo_gcm :: "string \<Rightarrow> aead" where
  "demo_gcm x0 = \<lparr>gcm_seal = (\<lambda>k n p x. p @ replicate 16 (if x = x0 then CHR ''t'' else CHR ''f'')),
    gcm_open = (\<lambda>k n c x. if drop (length c - 16) c = replicate 16 (if x = x0 then CHR ''t'' else CHR ''f'')
      then Some (take (length c - 16) c) else None)\<rparr>"

definition demo_context :: string where
  "demo_context = credentialAAD ''inst'' ''host1'' ''cred1''"

definition demo_dev :: devKMS where
  "demo_dev = \<lparr>dk_keyID = ''dev'', dk_master = replicate 32 (CHR ''m'')\<rparr>"

definition demo_credentials :: credential_service where
  "demo_credentials = \<lparr>cs_wrapper = dev_kms (demo_gcm demo_context) demo_dev, cs_unwrapper = Some (dev_kms (demo_gcm demo_context) demo_dev)\<rparr>"

definition demo_envelope :: envelope where
  "demo_envelope = (case Seal (demo_gcm demo_context) demo_credentials (Some (replicate 32 (CHR ''d''))) (Some (replicate 12 (CHR ''n'')))
    (Some (replicate 12 (CHR ''w''))) ''PRIVATE KEY'' demo_context of Inr env \<Rightarrow> env)"

lemma demo_gcm_sound: "gcm_correct (demo_gcm x)" "gcm_binds (demo_gcm x) k n p x"
  by (auto simp: gcm_correct_def gcm_binds_def demo_gcm_def overhead_def split: if_splits)

lemmas context_eval = ContextAAD_def AAD_def contextIDPattern_def credentialPattern_def contains_single is_alnum_def is_alpha_def byte_classes byte_def

lemma demo_contexts:
  "ContextAAD ''inst'' ''host1'' ''cred1'' ''ssh_private_key'' = Some demo_context"
  "ContextAAD ''inst'' ''host2'' ''cred1'' ''ssh_private_key'' = Some (credentialAAD ''inst'' ''host2'' ''cred1'')"
  unfolding demo_context_def credentialAAD_def by (simp_all add: context_eval)

lemma demo_sealed:
  "Seal (demo_gcm demo_context) demo_credentials (Some (replicate 32 (CHR ''d''))) (Some (replicate 12 (CHR ''n'')))
    (Some (replicate 12 (CHR ''w''))) ''PRIVATE KEY'' demo_context = Inr demo_envelope"
  using ContextAAD_nonempty [OF demo_contexts(1)]
  by (simp add: demo_envelope_def Seal_def demo_credentials_def dev_kms_def dev_WrapKey_def aes_key_def demo_dev_def)

theorem sealed_secret_bound_to_object_witness:
  "Open (demo_gcm demo_context) demo_credentials demo_envelope demo_context Inr = (Inr ''PRIVATE KEY'' :: unit open_error + string)
   \<and> ok (Open (demo_gcm demo_context) demo_credentials demo_envelope (credentialAAD ''inst'' ''host2'' ''cred1'') (Inr :: string \<Rightarrow> unit + string)) = None"
proof -
  have "NewService (Some (dev_kms (demo_gcm demo_context) demo_dev)) = Some demo_credentials"
    by (simp add: NewService_def demo_credentials_def dev_kms_def demo_dev_def)
  note bound = sealed_secret_bound_to_object [OF demo_gcm_sound(1, 2) _ _ this demo_contexts(1) demo_sealed,
    unfolded length_replicate nonce_size_def, OF refl refl]
  have "Open (demo_gcm demo_context) demo_credentials demo_envelope demo_context Inr = (Inr ''PRIVATE KEY'' :: unit open_error + string)"
    using bound [where g = "Inr :: string \<Rightarrow> unit + string", THEN conjunct1] by simp
  moreover have "ok (Open (demo_gcm demo_context) demo_credentials demo_envelope (credentialAAD ''inst'' ''host2'' ''cred1'')
      (Inr :: string \<Rightarrow> unit + string)) = None" (is "ok ?opened = None")
  proof (cases ?opened)
    case (Inr r)
    from bound [where f = "Inr :: string \<Rightarrow> unit + string", THEN conjunct2, rule_format, OF Inr demo_contexts(2)]
    show ?thesis
      by simp
  qed (simp add: ok_def)
  ultimately show ?thesis ..
qed

text \<open>
  C37. Vault identities of production are separated: an accepted production configuration is over HTTPS and
  gives a client that wraps or unwraps, never both, so that a client that ever wraps a key refuses every
  unwrapping; and a sealing service opens no envelope at all.
\<close>

theorem production_vault_separated:
  assumes "NewVaultTransit parse tls_ok c ts = Some v" and "vc_Environment c = ''production''"
  shows "(\<exists>u. parse (vc_Address c) = Some u \<and> vu_Scheme u = ''https'' \<and> vu_Hostname u \<noteq> [])
    \<and> (vault_WrapKey h decode v dk aad = None \<or> vault_UnwrapKey h' decode v w n aad' = None)
    \<and> (NewSealingService (Some (vault_kms h decode v)) = Some s \<longrightarrow> Open a s env aad' f = Inl ErrUnwrapUnavailable)"
proof -
  have valid: "vault_Validate parse c" and cap: "vt_capability v = vc_Capability c"
    using assms(1) by (auto simp: NewVaultTransit_def Let_def split: if_splits)
  have "\<exists>u. parse (vc_Address c) = Some u \<and> vu_Scheme u = ''https'' \<and> vu_Hostname u \<noteq> []" "vc_Capability c \<in> {WrapOnly, UnwrapOnly}"
    using valid assms(2) by (auto simp: vault_Validate_def split: option.splits capability.splits)
  moreover have "Open a s env aad' f = Inl ErrUnwrapUnavailable" if "NewSealingService (Some (vault_kms h decode v)) = Some s"
    using that by (auto simp: NewSealingService_def Open_def split: if_splits)
  ultimately show ?thesis
    using cap by (auto simp: vault_WrapKey_def vault_UnwrapKey_def)
qed

definition demo_vault :: vaultConfig where
  "demo_vault = \<lparr>vc_Address = ''https://vault.example'', vc_TransitMount = ''transit'', vc_KeyName = ''vpsmgr'', vc_Namespace = [],
    vc_Environment = ''production'', vc_Capability = WrapOnly, vc_TLSCAFile = [], vc_TLSServerName = [], vc_RequestTimeout = 0,
    vc_AllowInsecureDevelopment = False\<rparr>"

definition demo_parse :: "string \<Rightarrow> vault_url option" where
  "demo_parse s = (if s = ''https://vault.example'' then Some \<lparr>vu_Scheme = ''https'', vu_Hostname = ''vault.example'', vu_HasUser = False,
    vu_Path = [], vu_RawQuery = [], vu_Fragment = []\<rparr> else None)"

definition demo_io :: vault_io where
  "demo_io = \<lparr>vi_Token = Some ''s.token'', vi_Do = (\<lambda>_ _ _. Some (200, Some [])), vi_Decode = (\<lambda>_ _. Some (''vault:v1:AA'', []))\<rparr>"

theorem production_vault_separated_witness:
  "\<exists>v. NewVaultTransit demo_parse (\<lambda>_ _. True) demo_vault True = Some v
    \<and> vault_WrapKey demo_io (\<lambda>_. Some \<lparr>ec_InstallationID = ''inst'', ec_CredentialID = ''host1:cred1'', ec_Version = 1,
        ec_CredentialType = ''ssh_private_key''\<rparr>) v (replicate 32 (CHR ''d'')) demo_context = Some (''vault:v1:AA'', [])
    \<and> vault_UnwrapKey demo_io (\<lambda>_. Some \<lparr>ec_InstallationID = ''inst'', ec_CredentialID = ''host1:cred1'', ec_Version = 1,
        ec_CredentialType = ''ssh_private_key''\<rparr>) v ''vault:v1:AA'' [] demo_context = None"
proof -
  let ?c = "\<lparr>ec_InstallationID = ''inst'', ec_CredentialID = ''host1:cred1'', ec_Version = 1, ec_CredentialType = ''ssh_private_key''\<rparr>"
  have "vault_Validate demo_parse demo_vault"
    by (simp add: vault_Validate_def demo_parse_def demo_vault_def vaultPathPattern_def is_alnum_def is_alpha_def byte_classes byte_def minute_def second_def)
  then obtain v where v: "NewVaultTransit demo_parse (\<lambda>_ _. True) demo_vault True = Some v"
    and cap: "vt_capability v = WrapOnly"
    by (simp add: NewVaultTransit_def Let_def demo_vault_def)
  have aad: "AAD ?c = Some demo_context"
    using demo_contexts(1) by (simp add: ContextAAD_def split: if_splits)
  then have "demo_context = context_json ?c"
    by (simp add: AAD_def split: if_splits)
  moreover have "length (context_json ?c) \<le> 1024"
    by (simp add: context_json_def json_string_def format_nat.simps [of "Suc 0"])
  moreover have "demo_context \<noteq> []"
    by (rule ContextAAD_nonempty [OF demo_contexts(1)])
  ultimately have "length demo_context \<le> 1024" "demo_context \<noteq> []"
    by simp_all
  then have "ValidateEncryptionContext (\<lambda>_. Some ?c) demo_context"
    using aad by (simp add: ValidateEncryptionContext_def)
  then have wrap: "vault_WrapKey demo_io (\<lambda>_. Some ?c) v (replicate 32 (CHR ''d'')) demo_context = Some (''vault:v1:AA'', [])"
    by (simp add: vault_WrapKey_def cap vault_post_def demo_io_def vaultCiphertextPattern_def has_prefix_def is_alnum_def is_alpha_def
      byte_classes byte_def Let_def)
  have "vc_Environment demo_vault = ''production''"
    by (simp add: demo_vault_def)
  from production_vault_separated [OF v this, where h = demo_io and h' = demo_io and decode = "\<lambda>_. Some ?c"
      and dk = "replicate 32 (CHR ''d'')" and aad = demo_context and w = "''vault:v1:AA''" and n = "[]" and aad' = demo_context,
    THEN conjunct2, THEN conjunct1] wrap
  have "vault_UnwrapKey demo_io (\<lambda>_. Some ?c) v ''vault:v1:AA'' [] demo_context = None"
    by (simp only: option.distinct simp_thms)
  with v wrap show ?thesis
    by (intro exI [of _ v] conjI)
qed

end
