(* ===== verification/Go_Text.thy ===== *)
theory Go_Text
  imports Go_Strings
begin

text \<open>
  Text functions of Go's library that the parsers of remote output use: encoding of runes, \<^verbatim>\<open>strings.Map\<close>,
  \<^verbatim>\<open>strings.ToValidUTF8\<close>, \<^verbatim>\<open>strings.Fields\<close> and the line scanner of \<^verbatim>\<open>bufio\<close>.
\<close>

section \<open>Runes\<close>

text \<open>\<^verbatim>\<open>utf8.AppendRune\<close>.\<close>

definition utf8_encode :: "nat \<Rightarrow> string" where
  "utf8_encode r' =
    (let r = (if r' > 0x10FFFF \<or> (0xD800 \<le> r' \<and> r' \<le> 0xDFFF) then rune_error else r') in
     if r < 0x80 then [char_of r]
     else if r < 0x800 then [char_of (0xC0 + r div 64), char_of (0x80 + r mod 64)]
     else if r < 0x10000 then [char_of (0xE0 + r div 4096), char_of (0x80 + r div 64 mod 64), char_of (0x80 + r mod 64)]
     else [char_of (0xF0 + r div 262144), char_of (0x80 + r div 4096 mod 64), char_of (0x80 + r div 64 mod 64), char_of (0x80 + r mod 64)])"

text \<open>\<^verbatim>\<open>strings.Map\<close> with a mapping that drops nothing; bytes that are no rune become U+FFFD.\<close>

definition map_runes :: "(nat \<Rightarrow> nat) \<Rightarrow> string \<Rightarrow> string" where
  "map_runes f s = concat (map (\<lambda>r. utf8_encode (f r)) (runes s))"

text \<open>\<^verbatim>\<open>strings.ToValidUTF8\<close>: a run of invalid bytes becomes one replacement.\<close>

function valid_loop :: "string \<Rightarrow> bool \<Rightarrow> string \<Rightarrow> string" where
  "valid_loop replacement invalid s =
    (if s = [] then []
     else let d = decode_rune s in
       if d = (rune_error, 1) then (if invalid then [] else replacement) @ valid_loop replacement True (drop 1 s)
       else take (snd d) s @ valid_loop replacement False (drop (snd d) s))"
  by pat_completeness auto
termination
  by (relation "measure (\<lambda>(r, i, s). length s)") (simp_all add: decode_rune_shrinks)

declare valid_loop.simps [simp del]

definition to_valid_utf8 :: "string \<Rightarrow> string \<Rightarrow> string" where
  "to_valid_utf8 s replacement = valid_loop replacement False s"

definition replacement_char :: string where
  "replacement_char = utf8_encode rune_error"

section \<open>Fields and lines\<close>

function fields_loop :: "string \<Rightarrow> string \<Rightarrow> string list" where
  "fields_loop word s =
    (if s = [] then (if word = [] then [] else [word])
     else let d = decode_rune s in
       if is_space (fst d) then (if word = [] then [] else [word]) @ fields_loop [] (drop (snd d) s)
       else fields_loop (word @ take (snd d) s) (drop (snd d) s))"
  by pat_completeness auto
termination
  by (relation "measure (\<lambda>(w, s). length s)") (simp_all add: decode_rune_shrinks)

declare fields_loop.simps [simp del]

definition string_fields :: "string \<Rightarrow> string list" where
  "string_fields s = fields_loop [] s"

definition drop_cr :: "string \<Rightarrow> string" where
  "drop_cr line = (if line \<noteq> [] \<and> last line = CHR 0x0D then butlast line else line)"

text \<open>
  The tokens of a \<^verbatim>\<open>bufio.Scanner\<close> over a text in memory, and whether it ends without an error. The buffer of
  \<^term>\<open>limit\<close> bytes has to hold a line and the byte after it, or one byte to see the end of the text.
\<close>

function scan_lines :: "nat \<Rightarrow> string \<Rightarrow> string list \<times> bool" where
  "scan_lines limit s =
    (if s = [] then ([], True)
     else let line = takeWhile (\<lambda>c. c \<noteq> CHR 0x0A) s in
       if length line \<ge> limit then ([], False)
       else let (lines, ok) = scan_lines limit (drop (Suc (length line)) s) in (drop_cr line # lines, ok))"
  by pat_completeness auto
termination
  by (relation "measure (\<lambda>(n, s). length s)") simp_all

declare scan_lines.simps [simp del]

section \<open>Lemmas\<close>

lemma scan_lines_Nil [simp]: "scan_lines limit [] = ([], True)"
  by (simp add: scan_lines.simps)

lemma scan_lines_line:
  assumes "CHR 0x0A \<notin> set line" and "length line < limit" and "line = [] \<or> last line \<noteq> CHR 0x0D"
  shows "scan_lines limit (line @ CHR 0x0A # s) = (line # fst (scan_lines limit s), snd (scan_lines limit s))"
proof -
  have "takeWhile (\<lambda>c. c \<noteq> CHR 0x0A) (line @ CHR 0x0A # s) = line"
    using assms(1) by (simp add: takeWhile_append)
  then show ?thesis
    using assms(2, 3) by (subst scan_lines.simps) (auto simp: drop_cr_def case_prod_beta)
qed

text \<open>The bytes of a rune beyond the control characters are no control bytes.\<close>

definition printable :: "char \<Rightarrow> bool" where
  "printable c \<longleftrightarrow> 32 \<le> byte c \<and> byte c \<noteq> 127"

lemma printable_encode: "\<not> is_control r \<Longrightarrow> list_all printable (utf8_encode r)"
  by (auto simp: utf8_encode_def Let_def printable_def is_control_def rune_error_def byte_def)

lemma printable_map_runes: "(\<And>r. \<not> is_control (f r)) \<Longrightarrow> list_all printable (map_runes f s)"
  using printable_encode by (force simp: map_runes_def list_all_iff)

lemma fields_loop_chars: "w \<in> set (fields_loop word s) \<Longrightarrow> set w \<subseteq> set word \<union> set s"
proof (induction word s rule: fields_loop.induct)
  case (1 word s)
  have sub: "set (take n s) \<subseteq> set s" "set (drop n s) \<subseteq> set s" for n
    by (rule set_take_subset, rule set_drop_subset)
  show ?case
  proof (cases "s = []")
    case True
    with "1.prems" show ?thesis
      by (simp add: fields_loop.simps split: if_splits)
  next
    case False
    show ?thesis
    proof (cases "is_space (fst (decode_rune s))")
      case True
      with False "1.prems" have "w = word \<or> w \<in> set (fields_loop [] (drop (snd (decode_rune s)) s))"
        by (subst (asm) fields_loop.simps) (auto simp: Let_def split: if_splits)
      with "1.IH"(1) [OF False refl True] sub [of "snd (decode_rune s)"] show ?thesis
        by auto
    next
      case space: False
      with False "1.prems" have "w \<in> set (fields_loop (word @ take (snd (decode_rune s)) s) (drop (snd (decode_rune s)) s))"
        by (subst (asm) fields_loop.simps) (simp add: Let_def)
      with "1.IH"(2) [OF False refl space] sub [of "snd (decode_rune s)"] show ?thesis
        by auto
    qed
  qed
qed

lemma set_join: "set (join sep ws) \<subseteq> set sep \<union> (\<Union>w \<in> set ws. set w)"
  by (induction sep ws rule: join.induct) auto

lemma printable_fields:
  assumes "list_all printable s"
  shows "list_all printable (join '' '' (string_fields s))"
proof -
  have "set w \<subseteq> set s" if "w \<in> set (string_fields s)" for w
    using fields_loop_chars [of w "[]" s] that by (simp add: string_fields_def)
  then have "set (join '' '' (string_fields s)) \<subseteq> {CHR '' ''} \<union> set s"
    using set_join [of "'' ''" "string_fields s"] by auto
  with assms show ?thesis
    by (auto simp: list_all_iff printable_def byte_def)
qed

end
