(* ===== verification/Host_Reports.thy ===== *)
theory Host_Reports
  imports Go_Text Model Ssh_Connector
begin

text \<open>
  What the control plane makes of the output of a remote host: the runtime snapshot
  (\<^verbatim>\<open>control-plane/internal/snapshot\<close>) and the process inventory with its rules (\<^verbatim>\<open>anomaly\<close>). The parser of
  decimal floating-point numbers is an argument; a constant such as 0.97 stands for the double next to it.
\<close>

section \<open>Runtime snapshots\<close>

definition boundedText :: "string \<Rightarrow> nat \<Rightarrow> string" where
  "boundedText value' max' = (let v = trim_space value' in if length v > max' then take max' v else v)"

definition displayField :: "string \<Rightarrow> string" where
  "displayField field =
    (if field = ''uptime'' then ''uptimeSeconds''
     else if field = ''memory_kib'' then ''memory''
     else if field = ''cpu_model'' then ''cpuModel''
     else if field = ''cpu_logical'' then ''cpuLogicalCores''
     else if field = ''filesystem'' then ''filesystems''
     else field)"

definition empty_snapshot :: "time \<Rightarrow> runtimeSnapshot" where
  "empty_snapshot observedAt = \<lparr>sn_ObservedAt = observedAt, sn_Hostname = [], sn_Kernel = [], sn_UptimeSeconds = 0,
    sn_Load = (Finite 0, Finite 0, Finite 0), sn_MemoryTotalBytes = 0, sn_MemoryAvailableBytes = 0, sn_CPUModel = [],
    sn_CPULogicalCores = 0, sn_Filesystems = [], sn_FieldErrors = []\<rparr>"

definition field_error :: "string \<Rightarrow> string \<Rightarrow> runtimeSnapshot \<Rightarrow> runtimeSnapshot" where
  "field_error field message sn = sn\<lparr>sn_FieldErrors := put (sn_FieldErrors sn) field message\<rparr>"

fun load_valid :: "go_float option \<Rightarrow> bool" where
  "load_valid (Some (Finite x)) \<longleftrightarrow> x \<ge> 0"
| "load_valid _ \<longleftrightarrow> False"

text \<open>The body of the switch, for a line with its fields at the tabulators.\<close>

definition snapshot_field :: "(string \<Rightarrow> go_float option) \<Rightarrow> string list \<Rightarrow> runtimeSnapshot \<Rightarrow> runtimeSnapshot" where
  "snapshot_field parse_float parts sn =
    (if parts ! 0 = ''hostname'' then sn\<lparr>sn_Hostname := boundedText (parts ! 1) 255\<rparr>
     else if parts ! 0 = ''kernel'' then sn\<lparr>sn_Kernel := boundedText (parts ! 1) 512\<rparr>
     else if parts ! 0 = ''uptime'' then
       (case parse_uint64 (parts ! 1) of
         Some n \<Rightarrow> sn\<lparr>sn_UptimeSeconds := of_nat n\<rparr>
       | None \<Rightarrow> field_error ''uptimeSeconds'' ''unavailable'' sn)
     else if parts ! 0 = ''load'' then
       (if length parts \<noteq> 4 then field_error ''load'' ''unavailable'' sn
        else let values = map parse_float (tl parts) in
          if list_all load_valid values then sn\<lparr>sn_Load := (the (values ! 0), the (values ! 1), the (values ! 2))\<rparr>
          else field_error ''load'' ''unavailable'' (sn\<lparr>sn_Load := (Finite 0, Finite 0, Finite 0)\<rparr>))
     else if parts ! 0 = ''memory_kib'' then
       (if length parts \<noteq> 3 then field_error ''memory'' ''unavailable'' sn
        else case (parse_uint64 (parts ! 1), parse_uint64 (parts ! 2)) of
          (Some total', Some available) \<Rightarrow>
            if available > total' \<or> total' > (2 ^ 64 - 1) div 1024 then field_error ''memory'' ''unavailable'' sn
            else sn\<lparr>sn_MemoryTotalBytes := of_nat total' * 1024, sn_MemoryAvailableBytes := of_nat available * 1024\<rparr>
        | _ \<Rightarrow> field_error ''memory'' ''unavailable'' sn)
     else if parts ! 0 = ''cpu_model'' then sn\<lparr>sn_CPUModel := boundedText (parts ! 1) 512\<rparr>
     else if parts ! 0 = ''cpu_logical'' then
       (case parse_uint64 (parts ! 1) of
         None \<Rightarrow> field_error ''cpuLogicalCores'' ''unavailable'' sn
       | Some n \<Rightarrow> if n \<ge> 2 ^ 32 \<or> n = 0 \<or> n > 65536 then field_error ''cpuLogicalCores'' ''unavailable'' sn
           else sn\<lparr>sn_CPULogicalCores := of_nat n\<rparr>)
     else if parts ! 0 = ''filesystem'' then
       (if length parts \<noteq> 5 \<or> length (sn_Filesystems sn) \<ge> 256 then field_error ''filesystems'' ''partial or unavailable'' sn
        else case (parse_uint64 (parts ! 2), parse_uint64 (parts ! 3), parse_uint64 (parts ! 4)) of
          (Some total', Some used, Some free) \<Rightarrow>
            if used > total' \<or> free > total' then field_error ''filesystems'' ''partial or unavailable'' sn
            else sn\<lparr>sn_Filesystems := sn_Filesystems sn @ [\<lparr>fs_Mount = boundedText (parts ! 1) 1024, fs_TotalBytes = of_nat total',
              fs_UsedBytes = of_nat used, fs_FreeBytes = of_nat free\<rparr>]\<rparr>
        | _ \<Rightarrow> field_error ''filesystems'' ''partial or unavailable'' sn)
     else sn)"

definition snapshot_line :: "(string \<Rightarrow> go_float option) \<Rightarrow> string \<Rightarrow> runtimeSnapshot \<times> string list \<Rightarrow> runtimeSnapshot \<times> string list" where
  "snapshot_line parse_float line st =
    (let (sn, seen) = st; parts = split_on (CHR 0x09) line in
     if length parts < 2 \<or> parts ! 0 \<in> set seen then (sn, seen)
     else (snapshot_field parse_float parts sn, parts ! 0 # seen))"

definition snapshot_fields :: "string list" where
  "snapshot_fields = [''hostname'', ''kernel'', ''uptime'', ''load'', ''memory_kib'', ''cpu_model'', ''cpu_logical'', ''filesystem'']"

definition parseLinuxSnapshot :: "(string \<Rightarrow> go_float option) \<Rightarrow> string \<Rightarrow> time \<Rightarrow> runtimeSnapshot" where
  "parseLinuxSnapshot parse_float output observedAt =
    (let (lines, whole) = scan_lines (64 * 1024) output;
         (sn, seen) = fold (snapshot_line parse_float) lines (empty_snapshot observedAt, []);
         sn' = (if \<not> whole then field_error ''collectorOutput'' ''truncated or invalid'' sn else sn)
     in fold (\<lambda>field s. if field \<notin> set seen then field_error (displayField field) ''unavailable'' s else s) snapshot_fields sn')"

section \<open>Running a catalogued command\<close>

datatype collect_error = HostKeyNotPinned | StoredHostKeyInvalid | TimeoutOutsidePolicy | LimitOutsidePolicy | CollectRun ssh_error

definition collect_config :: "host \<Rightarrow> 'a \<Rightarrow> 'k \<Rightarrow> duration \<Rightarrow> int \<Rightarrow> bool \<Rightarrow> ('k, 'a) ssh_config" where
  "collect_config host authMethod pinned timeout maxOutputBytes allowPrivate =
    \<lparr>cfg_Address = h_Address host, cfg_Port = h_Port host, cfg_User = h_Username host, cfg_Auth = Some authMethod,
     cfg_PinnedHostKey = Some pinned, cfg_ConnectTimeout = 10 * second, cfg_CommandTimeout = timeout,
     cfg_MaxOutputBytes = maxOutputBytes, cfg_AllowPrivateTargets = allowPrivate\<rparr>"

definition Collect ::
    "(('k, 'a) ssh_config \<Rightarrow> command \<Rightarrow> ssh_result \<times> ssh_error option) \<Rightarrow> (string \<Rightarrow> ('k \<times> string) option) \<Rightarrow> (string \<Rightarrow> go_float option)
     \<Rightarrow> bool \<Rightarrow> time \<Rightarrow> host \<Rightarrow> 'a \<Rightarrow> collect_error + runtimeSnapshot" where
  "Collect run parse_key parse_float allowPrivate now host authMethod =
    some_or (h_HostKey host) HostKeyNotPinned (\<lambda>pin.
    some_or (ok (ParsePinnedHostKey parse_key (hk_PublicKey pin))) StoredHostKeyInvalid (\<lambda>pinned.
    let (result, err) = run (collect_config host authMethod pinned (20 * second) (64 * 1024) allowPrivate) RuntimeSnapshotCommand in
    case err of Some e \<Rightarrow> Inl (CollectRun e) | None \<Rightarrow> Inr (parseLinuxSnapshot parse_float (r_Stdout result) now)))"

definition ExecuteCatalogCommand ::
    "(('k, 'a) ssh_config \<Rightarrow> command \<Rightarrow> ssh_result \<times> ssh_error option) \<Rightarrow> (string \<Rightarrow> ('k \<times> string) option)
     \<Rightarrow> bool \<Rightarrow> host \<Rightarrow> 'a \<Rightarrow> command \<Rightarrow> duration \<Rightarrow> int \<Rightarrow> collect_error + ssh_result" where
  "ExecuteCatalogCommand run parse_key allowPrivate host authMethod command timeout maxOutputBytes =
    some_or (h_HostKey host) HostKeyNotPinned (\<lambda>pin.
    some_or (ok (ParsePinnedHostKey parse_key (hk_PublicKey pin))) StoredHostKeyInvalid (\<lambda>pinned.
    ensure (\<not> (timeout \<le> 0 \<or> timeout > 30 * second)) TimeoutOutsidePolicy (
    ensure (\<not> (maxOutputBytes \<le> 0 \<or> maxOutputBytes > 256 * 1024)) LimitOutsidePolicy (
    let (result, err) = run (collect_config host authMethod pinned timeout maxOutputBytes allowPrivate) command in
    case err of Some e \<Rightarrow> Inl (CollectRun e) | None \<Rightarrow> Inr result))))"

section \<open>Process inventory\<close>

record process =
  pc_PID :: int
  pc_ParentPID :: int
  pc_User :: string
  pc_CPUPercent :: go_float
  pc_ElapsedSeconds :: u64
  pc_Name :: string

text \<open>
  The loop that shortens a token rune by rune. It ends only if every round removes something, so it is a
  partial function: not to return would be \<^const>\<open>None\<close>.
\<close>

partial_function (option) shorten :: "nat \<Rightarrow> string \<Rightarrow> string option" where
  "shorten limit s =
    (if length s > limit then shorten limit (take (length s - snd (decode_last_rune s)) s) else Some s)"

definition safeToken :: "string \<Rightarrow> nat \<Rightarrow> string option" where
  "safeToken s limit =
    (let v = map_runes (\<lambda>r. if is_control r then 32 else r) (to_valid_utf8 s replacement_char)
     in shorten limit (join '' '' (string_fields v)))"

fun cpu_in_range :: "go_float \<Rightarrow> bool" where
  "cpu_in_range (Finite x) \<longleftrightarrow> 0 \<le> x \<and> x \<le> 10000"
| "cpu_in_range _ \<longleftrightarrow> False"

text \<open>A line of the inventory: skipped, or a process; \<^const>\<open>None\<close> as for \<^const>\<open>shorten\<close>.\<close>

definition process_line :: "(string \<Rightarrow> go_float option) \<Rightarrow> string \<Rightarrow> process option option" where
  "process_line parse_float line =
    (let fs = string_fields line in
     if length fs < 6 then Some None
     else case (parse_int64 (fs ! 0), parse_int64 (fs ! 1), parse_float (fs ! 3), parse_uint64 (fs ! 4)) of
       (Some pid, Some parentPID, Some cpu, Some elapsed) \<Rightarrow>
         if pid < 1 \<or> parentPID < 0 \<or> \<not> cpu_in_range cpu then Some None
         else (case (safeToken (fs ! 2) 64, safeToken (join '' '' (drop 5 fs)) 128) of
             (Some user, Some name) \<Rightarrow> Some (Some \<lparr>pc_PID = pid, pc_ParentPID = parentPID, pc_User = user, pc_CPUPercent = cpu,
               pc_ElapsedSeconds = of_nat elapsed, pc_Name = name\<rparr>)
           | _ \<Rightarrow> None)
     | _ \<Rightarrow> Some None)"

definition maxProcesses :: nat where "maxProcesses = 4096"

datatype inventory_error = InventoryTooLarge | TooManyEntries | InventoryTruncated

fun inventory_loop :: "(string \<Rightarrow> go_float option) \<Rightarrow> process list \<Rightarrow> string list \<Rightarrow> bool \<Rightarrow> (inventory_error + process list) option" where
  "inventory_loop parse_float processes [] whole = Some (if \<not> whole then Inl InventoryTruncated else Inr processes)"
| "inventory_loop parse_float processes (line # lines) whole =
    (if length processes \<ge> maxProcesses then Some (Inl TooManyEntries)
     else case process_line parse_float line of
       None \<Rightarrow> None
     | Some None \<Rightarrow> inventory_loop parse_float processes lines whole
     | Some (Some p) \<Rightarrow> inventory_loop parse_float (processes @ [p]) lines whole)"

definition ParseProcessInventory :: "(string \<Rightarrow> go_float option) \<Rightarrow> string \<Rightarrow> (inventory_error + process list) option" where
  "ParseProcessInventory parse_float output =
    (if length output > 256 * 1024 then Some (Inl InventoryTooLarge)
     else let (lines, whole) = scan_lines 4096 output in inventory_loop parse_float [] lines whole)"

section \<open>Rules\<close>

definition knownMiner :: "nat list \<Rightarrow> bool" where
  "knownMiner name \<longleftrightarrow> name \<in> set (map (map byte) [''xmrig'', ''minerd'', ''kinsing'', ''watchbog'', ''cryptonight''])"

fun float_at_least :: "go_float \<Rightarrow> rat \<Rightarrow> bool" where
  "float_at_least (Finite x) n \<longleftrightarrow> x \<ge> n"
| "float_at_least PosInf n \<longleftrightarrow> True"
| "float_at_least _ n \<longleftrightarrow> False"

definition utf8_text :: "nat list \<Rightarrow> string" where
  "utf8_text rs = concat (map utf8_encode rs)"

definition finding :: "process \<Rightarrow> string \<Rightarrow> string \<Rightarrow> string \<Rightarrow> go_float \<Rightarrow> findingEvidence \<Rightarrow> string \<Rightarrow> processFinding" where
  "finding process ruleID title severity confidence evidence falsePositive =
    \<lparr>pf_ID = ruleID @ '':'' @ format_int (pc_PID process), pf_RuleID = ruleID, pf_Title = title, pf_Severity = severity,
     pf_Confidence = confidence, pf_Evidence = evidence, pf_FalsePositiveNote = falsePositive\<rparr>"

text \<open>The lower-case name is only compared with ASCII text, so it is the list of its runes.\<close>

definition scan_process :: "process \<Rightarrow> processFinding list" where
  "scan_process process =
    (let name = map lower_rune (runes (trim_space (pc_Name process)));
         evidence = \<lparr>fe_PID = pc_PID process, fe_ParentPID = pc_ParentPID process, fe_User = pc_User process,
           fe_ProcessName = pc_Name process, fe_CPUPercent = pc_CPUPercent process, fe_ElapsedSeconds = pc_ElapsedSeconds process\<rparr>
     in
      (if knownMiner name then [finding process ''known_miner_name''
        (utf8_text [0x8FDB, 0x7A0B, 0x540D, 0x547D, 0x4E2D, 0x5DF2, 0x77E5, 0x6316, 0x77FF, 0x7A0B, 0x5E8F, 0x7279, 0x5F81])
        ''critical'' (Finite (97 / 100)) evidence
        (utf8_text [0x7BA1, 0x7406, 0x5458, 0x53EF, 0x80FD, 0x4E3A, 0x538B, 0x6D4B, 0x3001, 0x7814, 0x7A76, 0x6216, 0x5408,
          0x89C4, 0x8BA1, 0x7B97, 0x4E3B, 0x52A8, 0x8FD0, 0x884C, 0x540C, 0x540D, 0x7A0B, 0x5E8F, 0xFF1B, 0x5904, 0x7F6E, 0x524D,
          0x5E94, 0x6838, 0x5BF9, 0x8F6F, 0x4EF6, 0x6765, 0x6E90, 0x3001, 0x7236, 0x8FDB, 0x7A0B, 0x548C, 0x53D8, 0x66F4, 0x8BB0,
          0x5F55, 0x3002])] else []) @
      (if float_at_least (pc_CPUPercent process) 90 \<and> pc_ElapsedSeconds process \<ge> 120 then [finding process ''sustained_high_cpu''
        (utf8_text [0x8FDB, 0x7A0B, 0x6301, 0x7EED, 0x5360, 0x7528, 0x9AD8, 0x20, 0x43, 0x50, 0x55])
        ''high'' (Finite (82 / 100)) evidence
        (utf8_text [0x7F16, 0x8BD1, 0x3001, 0x538B, 0x7F29, 0x3001, 0x6570, 0x636E, 0x5E93, 0x7EF4, 0x62A4, 0x548C, 0x4E1A,
          0x52A1, 0x5CF0, 0x503C, 0x53EF, 0x80FD, 0x4EA7, 0x751F, 0x76F8, 0x540C, 0x884C, 0x4E3A, 0xFF1B, 0x5EFA, 0x8BAE, 0x7ED3,
          0x5408, 0x5386, 0x53F2, 0x57FA, 0x7EBF, 0x4E0E, 0x4E1A, 0x52A1, 0x7A97, 0x53E3, 0x590D, 0x6838, 0x3002])] else []) @
      (if has_prefix name (map byte ''.'') \<and> name \<noteq> map byte ''.'' \<and> name \<noteq> map byte ''..'' then [finding process ''hidden_process_name''
        (utf8_text [0x8FDB, 0x7A0B, 0x540D, 0x79F0, 0x91C7, 0x7528, 0x9690, 0x85CF, 0x6587, 0x4EF6, 0x6837, 0x5F0F])
        ''medium'' (Finite (68 / 100)) evidence
        (utf8_text [0x67D0, 0x4E9B, 0x5408, 0x6CD5, 0x5B88, 0x62A4, 0x7A0B, 0x5E8F, 0x6216, 0x8FD0, 0x7EF4, 0x811A, 0x672C,
          0x4E5F, 0x4F1A, 0x4F7F, 0x7528, 0x70B9, 0x53F7, 0x5F00, 0x5934, 0x7684, 0x540D, 0x79F0, 0xFF1B, 0x9700, 0x68C0, 0x67E5,
          0x8F6F, 0x4EF6, 0x5305, 0x5F52, 0x5C5E, 0x548C, 0x542F, 0x52A8, 0x65B9, 0x5F0F, 0x3002])] else []) @
      (if has_prefix name (map byte ''kworker'') \<and> pc_User process \<noteq> ''root'' then [finding process ''kernel_worker_impersonation''
        (utf8_text [0x975E, 0x20, 0x72, 0x6F, 0x6F, 0x74, 0x20, 0x8FDB, 0x7A0B, 0x7591, 0x4F3C, 0x4F2A, 0x88C5, 0x4E3A, 0x5185,
          0x6838, 0x5DE5, 0x4F5C, 0x7EBF, 0x7A0B])
        ''high'' (Finite (9 / 10)) evidence
        (utf8_text [0x5BB9, 0x5668, 0x7528, 0x6237, 0x6620, 0x5C04, 0x6216, 0x6D4B, 0x8BD5, 0x5939, 0x5177, 0x53EF, 0x80FD,
          0x9020, 0x6210, 0x975E, 0x5178, 0x578B, 0x5C5E, 0x4E3B, 0xFF1B, 0x5E94, 0x4ECE, 0x5BBF, 0x4E3B, 0x673A, 0x547D, 0x540D,
          0x7A7A, 0x95F4, 0x590D, 0x6838, 0x3002])] else []))"

definition Scan :: "process list \<Rightarrow> time \<Rightarrow> anomalyScanResult" where
  "Scan processes observedAt =
    \<lparr>as_ObservedAt = observedAt, as_Engine = ''rules_v1'', as_AIExecutionAllowed = False,
     as_ProcessesEvaluated = length processes, as_Findings = concat (map scan_process processes), as_AIAnalysis = None\<rparr>"

section \<open>Lemmas\<close>

lemma shorten_returns: "\<exists>v. shorten limit s = Some v \<and> length v \<le> limit \<and> set v \<subseteq> set s"
proof (induction "length s" arbitrary: s rule: less_induct)
  case less
  show ?case
  proof (cases "length s > limit")
    case True
    then have "s \<noteq> []"
      by auto
    let ?t = "take (length s - snd (decode_last_rune s)) s"
    have "length ?t < length s" "set ?t \<subseteq> set s"
      using decode_last_rune_width [OF \<open>s \<noteq> []\<close>] set_take_subset [of _ s] by auto
    with less.hyps [of ?t] True show ?thesis
      by (subst shorten.simps) (auto intro: order_trans)
  qed (simp add: shorten.simps)
qed

lemma safeToken_returns: "\<exists>v. safeToken s limit = Some v \<and> length v \<le> limit \<and> list_all printable v"
proof -
  let ?m = "map_runes (\<lambda>r. if is_control r then 32 else r) (to_valid_utf8 s replacement_char)"
  have "list_all printable (join '' '' (string_fields ?m))"
    by (intro printable_fields printable_map_runes) (simp add: is_control_def)
  moreover obtain v where "shorten limit (join '' '' (string_fields ?m)) = Some v" "length v \<le> limit"
      "set v \<subseteq> set (join '' '' (string_fields ?m))"
    using shorten_returns by blast
  ultimately show ?thesis
    by (auto simp: safeToken_def Let_def list_all_iff)
qed

definition process_ok :: "process \<Rightarrow> bool" where
  "process_ok p \<longleftrightarrow> pc_PID p \<ge> 1 \<and> pc_ParentPID p \<ge> 0 \<and> cpu_in_range (pc_CPUPercent p) \<and>
    length (pc_User p) \<le> 64 \<and> length (pc_Name p) \<le> 128 \<and> list_all printable (pc_User p) \<and> list_all printable (pc_Name p)"

lemma process_line_returns:
  obtains "process_line parse_float line = Some None"
  | p where "process_line parse_float line = Some (Some p)" and "process_ok p"
proof -
  let ?fs = "string_fields line"
  obtain user where user: "safeToken (?fs ! 2) 64 = Some user" "length user \<le> 64" "list_all printable user"
    using safeToken_returns by blast
  obtain name where name: "safeToken (join '' '' (drop 5 ?fs)) 128 = Some name" "length name \<le> 128" "list_all printable name"
    using safeToken_returns by blast
  have "process_line parse_float line = Some None \<or> (\<exists>p. process_line parse_float line = Some (Some p) \<and> process_ok p)"
    unfolding process_line_def Let_def
    by (auto simp: user name process_ok_def split: option.split)
  then show thesis
    using that by blast
qed

lemma inventory_loop_returns:
  assumes "list_all process_ok processes" and "length processes \<le> maxProcesses"
  shows "\<exists>r. inventory_loop parse_float processes lines whole = Some r \<and>
    (case r of Inl e \<Rightarrow> e \<noteq> InventoryTooLarge | Inr ps \<Rightarrow> whole \<and> list_all process_ok ps \<and> length ps \<le> maxProcesses)"
  using assms
proof (induction lines arbitrary: processes)
  case (Cons line lines)
  show ?case
  proof (cases "length processes \<ge> maxProcesses")
    case False
    show ?thesis
    proof (cases rule: process_line_returns [of parse_float line])
      case 1
      with Cons.IH [OF Cons.prems] False show ?thesis
        by simp
    next
      case (2 p)
      with Cons.IH [of "processes @ [p]"] Cons.prems False show ?thesis
        by simp
    qed
  qed simp
qed simp

section \<open>Properties\<close>

text \<open>
  C13. The inventory parser returns on every output of every host, the shortening of tokens included: with
  the error for an output that is too large exactly for those, with an error for a line that is too long or
  too many entries, or with at most 4096 processes, whose numbers are in range and whose names are within
  their limits and free of control bytes.
\<close>

theorem inventory_parse_total:
  "\<exists>r. ParseProcessInventory parse_float output = Some r \<and>
    (case r of
      Inl e \<Rightarrow> (e = InventoryTooLarge) = (length output > 256 * 1024)
    | Inr ps \<Rightarrow> length output \<le> 256 * 1024 \<and> snd (scan_lines 4096 output) \<and> length ps \<le> 4096 \<and>
        list_all (\<lambda>p. pc_PID p \<ge> 1 \<and> pc_ParentPID p \<ge> 0 \<and> cpu_in_range (pc_CPUPercent p) \<and> length (pc_User p) \<le> 64 \<and>
          length (pc_Name p) \<le> 128 \<and> list_all printable (pc_User p) \<and> list_all printable (pc_Name p)) ps)"
proof (cases "length output > 256 * 1024")
  case False
  obtain lines whole where lines: "scan_lines 4096 output = (lines, whole)"
    by fastforce
  have "list_all process_ok []" "length ([] :: process list) \<le> maxProcesses"
    by simp_all
  from inventory_loop_returns [OF this, of parse_float lines whole]
  obtain r where r: "inventory_loop parse_float [] lines whole = Some r"
    and ok: "case r of Inl e \<Rightarrow> e \<noteq> InventoryTooLarge | Inr ps \<Rightarrow> whole \<and> list_all process_ok ps \<and> length ps \<le> maxProcesses"
    by blast
  have "ParseProcessInventory parse_float output = Some r"
    using False r lines by (simp add: ParseProcessInventory_def)
  with ok False lines show ?thesis
    by (cases r) (simp_all add: process_ok_def [abs_def] maxProcesses_def)
qed (simp add: ParseProcessInventory_def)

text \<open>What a snapshot satisfies at every line of the output.\<close>

definition filesystem_ok :: "filesystemUsage \<Rightarrow> bool" where
  "filesystem_ok f \<longleftrightarrow> length (fs_Mount f) \<le> 1024 \<and> fs_UsedBytes f \<le> fs_TotalBytes f \<and> fs_FreeBytes f \<le> fs_TotalBytes f"

fun load_ok :: "go_float \<Rightarrow> bool" where
  "load_ok (Finite x) \<longleftrightarrow> x \<ge> 0"
| "load_ok _ \<longleftrightarrow> False"

definition snapshot_ok :: "runtimeSnapshot \<Rightarrow> bool" where
  "snapshot_ok sn \<longleftrightarrow> length (sn_Hostname sn) \<le> 255 \<and> length (sn_Kernel sn) \<le> 512 \<and> length (sn_CPUModel sn) \<le> 512 \<and>
    sn_MemoryAvailableBytes sn \<le> sn_MemoryTotalBytes sn \<and> sn_CPULogicalCores sn \<le> 65536 \<and>
    list_all load_ok [fst (sn_Load sn), fst (snd (sn_Load sn)), snd (snd (sn_Load sn))] \<and>
    list_all filesystem_ok (sn_Filesystems sn)"

lemma parse_uint64_less: "parse_uint64 t = Some n \<Longrightarrow> n < 2 ^ 64"
  by (simp add: parse_uint64_def split: option.splits if_splits)

lemma u64_mono:
  assumes "a \<le> b" and "b < 2 ^ 64"
  shows "(of_nat a :: u64) \<le> of_nat b"
  using assms by (simp add: word_le_nat_alt unsigned_of_nat take_bit_nat_eq_self)

lemma memory_mono:
  assumes "available \<le> total'" and "total' \<le> (2 ^ 64 - 1) div 1024"
  shows "(of_nat available * 1024 :: u64) \<le> of_nat total' * 1024"
proof -
  have "(of_nat (available * 1024) :: u64) \<le> of_nat (total' * 1024)"
    using assms by (intro u64_mono) auto
  then show ?thesis
    by simp
qed

lemma cores_bound: "n \<le> 65536 \<Longrightarrow> (of_nat n :: 32 word) \<le> 65536"
  by (simp add: word_le_nat_alt unsigned_of_nat take_bit_nat_eq_self)

lemma length_boundedText: "length (boundedText t n) \<le> n"
  by (simp add: boundedText_def Let_def)

lemma load_valid_ok: "load_valid x \<Longrightarrow> load_ok (the x)"
  by (cases x rule: load_valid.cases) auto

lemma field_error_ok [simp]: "snapshot_ok (field_error f e sn) = snapshot_ok sn" "sn_Filesystems (field_error f e sn) = sn_Filesystems sn"
  "has_key (sn_FieldErrors (field_error f e sn)) k \<longleftrightarrow> k = f \<or> has_key (sn_FieldErrors sn) k"
  by (simp_all add: field_error_def snapshot_ok_def)

lemma load_triple:
  assumes "length parts = 4" and "list_all load_valid (map parse_float (tl parts))" and "i < 3"
  shows "load_ok (the (map parse_float (tl parts) ! i))"
  using assms by (intro load_valid_ok) (auto simp: list_all_length)

lemma snapshot_field_ok:
  assumes "snapshot_ok sn"
  shows "snapshot_ok (snapshot_field parse_float parts sn)"
proof -
  consider "parts ! 0 = ''load''" | "parts ! 0 = ''memory_kib''" | "parts ! 0 = ''cpu_logical''" | "parts ! 0 = ''filesystem''"
    | "parts ! 0 \<notin> {''load'', ''memory_kib'', ''cpu_logical'', ''filesystem''}"
    by blast
  then show ?thesis
  proof cases
    case 1
    then show ?thesis
      using assms load_triple [of parts parse_float 0] load_triple [of parts parse_float 1] load_triple [of parts parse_float 2]
      by (simp add: snapshot_field_def Let_def) (simp add: snapshot_ok_def)
  next
    case 2
    then show ?thesis
      using assms by (auto simp: snapshot_field_def split: option.split) (simp add: snapshot_ok_def memory_mono)
  next
    case 3
    then show ?thesis
      using assms by (auto simp: snapshot_field_def split: option.split) (simp add: snapshot_ok_def cores_bound)
  next
    case 4
    then show ?thesis
      using assms
      by (auto simp: snapshot_field_def split: option.split)
        (auto simp: snapshot_ok_def filesystem_ok_def length_boundedText intro: u64_mono parse_uint64_less)
  next
    case 5
    then show ?thesis
      using assms
      by (auto simp: snapshot_field_def split: option.split) (simp_all add: snapshot_ok_def length_boundedText)
  qed
qed

lemma snapshot_field_filesystems:
  "sn_Filesystems (snapshot_field parse_float parts sn) = sn_Filesystems sn \<or>
    parts ! 0 = ''filesystem'' \<and> length (sn_Filesystems (snapshot_field parse_float parts sn)) = Suc (length (sn_Filesystems sn))"
  by (auto simp: snapshot_field_def Let_def split: option.split)

lemma snapshot_field_one_more: "length (sn_Filesystems (snapshot_field parse_float parts sn)) \<le> Suc (length (sn_Filesystems sn))"
  by (rule disjE [OF snapshot_field_filesystems [of parse_float parts sn]]) simp_all

text \<open>The fields named by the lines, and the invariant of the loop.\<close>

definition names_field :: "string list \<Rightarrow> string \<Rightarrow> bool" where
  "names_field lines field \<longleftrightarrow> list_ex (\<lambda>line. length (split_on (CHR 0x09) line) \<ge> 2 \<and> split_on (CHR 0x09) line ! 0 = field) lines"

lemma names_field_Cons:
  "names_field (line # lines) field \<longleftrightarrow>
    length (split_on (CHR 0x09) line) \<ge> 2 \<and> split_on (CHR 0x09) line ! 0 = field \<or> names_field lines field"
  by (simp add: names_field_def)

lemma snapshot_fold:
  assumes "fold (snapshot_line parse_float) lines (sn, seen) = (sn', seen')" and "snapshot_ok sn"
    and "length (sn_Filesystems sn) \<le> (if ''filesystem'' \<in> set seen then 1 else 0)"
  shows "snapshot_ok sn' \<and> length (sn_Filesystems sn') \<le> 1 \<and> (\<forall>field. field \<in> set seen' \<longleftrightarrow> field \<in> set seen \<or> names_field lines field)"
  using assms
proof (induction lines arbitrary: sn seen)
  case Nil
  then show ?case
    by (auto simp: names_field_def split: if_splits)
next
  case (Cons line lines)
  let ?parts = "split_on (CHR 0x09) line"
  show ?case
  proof (cases "length ?parts < 2 \<or> ?parts ! 0 \<in> set seen")
    case True
    then have "snapshot_line parse_float line (sn, seen) = (sn, seen)"
      by (simp add: snapshot_line_def Let_def)
    then have "fold (snapshot_line parse_float) lines (sn, seen) = (sn', seen')"
      using Cons.prems(1) by simp
    from Cons.IH [OF this Cons.prems(2, 3)] True show ?thesis
      unfolding names_field_Cons by (meson not_le)
  next
    case False
    let ?sn = "snapshot_field parse_float ?parts sn"
    have "snapshot_line parse_float line (sn, seen) = (?sn, ?parts ! 0 # seen)"
      using False by (simp add: snapshot_line_def Let_def)
    then have fold: "fold (snapshot_line parse_float) lines (?sn, ?parts ! 0 # seen) = (sn', seen')"
      using Cons.prems(1) by simp
    have "length (sn_Filesystems ?sn) \<le> (if ''filesystem'' \<in> set (?parts ! 0 # seen) then 1 else 0)"
    proof (cases "?parts ! 0 = ''filesystem''")
      case True
      with False have "''filesystem'' \<notin> set seen"
        by metis
      with Cons.prems(3) have "length (sn_Filesystems sn) = 0"
        by simp
      with snapshot_field_one_more [of parse_float ?parts sn] have "length (sn_Filesystems ?sn) \<le> 1"
        by linarith
      with True show ?thesis
        by simp
    next
      case other: False
      with snapshot_field_filesystems [of parse_float ?parts sn] have "sn_Filesystems ?sn = sn_Filesystems sn"
        by blast
      with Cons.prems(3) other show ?thesis
        by simp
    qed
    from Cons.IH [OF fold snapshot_field_ok [OF Cons.prems(2)] this] False show ?thesis
      unfolding names_field_Cons by auto
  qed
qed

lemma missing_fields:
  "snapshot_ok (fold (\<lambda>field s. if \<not> P field then field_error (displayField field) ''unavailable'' s else s) fs sn) = snapshot_ok sn"
  "sn_Filesystems (fold (\<lambda>field s. if \<not> P field then field_error (displayField field) ''unavailable'' s else s) fs sn) = sn_Filesystems sn"
  "has_key (sn_FieldErrors (fold (\<lambda>field s. if \<not> P field then field_error (displayField field) ''unavailable'' s else s) fs sn)) k
    \<longleftrightarrow> has_key (sn_FieldErrors sn) k \<or> (\<exists>field \<in> set fs. \<not> P field \<and> displayField field = k)"
  by (induction fs arbitrary: sn) auto

lemma parse_snapshot_facts:
  "snapshot_ok (parseLinuxSnapshot parse_float output t) \<and> length (sn_Filesystems (parseLinuxSnapshot parse_float output t)) \<le> 1 \<and>
   (\<forall>field \<in> set snapshot_fields. names_field (fst (scan_lines (64 * 1024) output)) field \<or>
     has_key (sn_FieldErrors (parseLinuxSnapshot parse_float output t)) (displayField field))"
proof -
  obtain lines whole where lines: "scan_lines (64 * 1024) output = (lines, whole)"
    by fastforce
  obtain sn seen where folded: "fold (snapshot_line parse_float) lines (empty_snapshot t, []) = (sn, seen)"
    by fastforce
  have "snapshot_ok (empty_snapshot t)" "length (sn_Filesystems (empty_snapshot t)) \<le> (if ''filesystem'' \<in> set [] then 1 else 0)"
    by (simp_all add: empty_snapshot_def snapshot_ok_def)
  from snapshot_fold [OF folded this]
  have ok: "snapshot_ok sn" "length (sn_Filesystems sn) \<le> 1" and seen: "\<And>f. f \<in> set seen \<longleftrightarrow> names_field lines f"
    by auto
  define sn1 where "sn1 = (if \<not> whole then field_error ''collectorOutput'' ''truncated or invalid'' sn else sn)"
  have "parseLinuxSnapshot parse_float output t =
    fold (\<lambda>field s. if field \<notin> set seen then field_error (displayField field) ''unavailable'' s else s) snapshot_fields sn1"
    using lines folded by (simp add: parseLinuxSnapshot_def sn1_def)
  then show ?thesis
    using ok lines seen by (auto simp: missing_fields sn1_def)
qed

text \<open>
  C38. Whatever a host prints, the snapshot made of it is consistent: texts are within their limits, available
  memory is at most the total with no wrap-around of the conversion from kibibytes, loads are finite and not
  negative, the core count is within its limit, used and free space are at most the size of the filesystem;
  and each of the eight fields that no line names is reported as unavailable.
\<close>

theorem parsed_snapshot_consistent:
  "let sn = parseLinuxSnapshot parse_float output t in
    length (sn_Hostname sn) \<le> 255 \<and> length (sn_Kernel sn) \<le> 512 \<and> length (sn_CPUModel sn) \<le> 512
    \<and> sn_MemoryAvailableBytes sn \<le> sn_MemoryTotalBytes sn \<and> sn_CPULogicalCores sn \<le> 65536
    \<and> list_all load_ok [fst (sn_Load sn), fst (snd (sn_Load sn)), snd (snd (sn_Load sn))]
    \<and> list_all (\<lambda>f. length (fs_Mount f) \<le> 1024 \<and> fs_UsedBytes f \<le> fs_TotalBytes f \<and> fs_FreeBytes f \<le> fs_TotalBytes f) (sn_Filesystems sn)
    \<and> list_all (\<lambda>field. names_field (fst (scan_lines (64 * 1024) output)) field \<or> has_key (sn_FieldErrors sn) (displayField field)) snapshot_fields"
  using parse_snapshot_facts [of parse_float "output" t]
  by (auto simp: Let_def snapshot_ok_def filesystem_ok_def [abs_def] list_all_iff)

text \<open>
  C39. A snapshot never lists more than one filesystem, although the remote command prints a line for each
  and the parser has a limit of 256: every line after the first that begins with the same word is skipped,
  also those of further filesystems, and no field error is recorded for it.
\<close>

theorem snapshot_single_filesystem:
  "length (sn_Filesystems (parseLinuxSnapshot parse_float output t)) \<le> 1
   \<and> snapshot_line parse_float (''filesystem'' @ CHR 0x09 # rest) (sn, ''filesystem'' # seen) = (sn, ''filesystem'' # seen)"
  using parse_snapshot_facts [of parse_float "output" t]
  by (auto simp: snapshot_line_def split_on_append Let_def)

end
