(* ===== verification/Api_Server.thy ===== *)
theory Api_Server
  imports Store Envelope Host_Reports
begin

text \<open>
  The HTTP interface of the control plane (\<^verbatim>\<open>control-plane/internal/api/server.go\<close>) for sessions, hosts, host
  keys, credentials, jobs and audit events, over the in-memory repository. A handler is a function of the
  server's state; the decoded request body, the readings of the clock, random bytes and the SSH key library
  are arguments. The handlers that read a host and later write it back are two functions, a read and a
  write, because other requests may come in between.
\<close>

section \<open>Configuration\<close>

record api_config =
  ac_DevMode :: bool
  ac_DevBootstrapToken :: string
  ac_SessionTTL :: duration
  ac_JobTimeout :: duration
  ac_ProbeTimeout :: duration
  ac_AllowPrivateTargets :: bool
  ac_IdentityVerifier :: bool
  ac_InstallationID :: string
  ac_SecretExecutionEnabled :: bool
  ac_ConnectorClient :: bool
  ac_WebSSHConfig :: bool
  ac_RunbookConnector :: bool
  ac_MutationsEnabled :: bool

datatype api_config_error =
  DependenciesRequired | BootstrapTokenTooShort | InstallationIDRequired | SecretExecutionForbidden | SessionTTLTooLong
| AnalyzerFailed | WebSSHNeedsConnector | WebSSHInvalid

text \<open>
  \<^verbatim>\<open>NewServer\<close>: whether the dependencies are there, whether an analyzer is given or can be made, and whether the
  gateway accepts its configuration. The result is the configuration in use and whether there is a gateway.
\<close>

definition NewServer :: "bool \<Rightarrow> bool \<Rightarrow> bool \<Rightarrow> api_config \<Rightarrow> api_config_error + api_config \<times> bool" where
  "NewServer dependencies analyzer gateway c =
    ensure dependencies DependenciesRequired (
    ensure (\<not> (ac_DevMode c \<and> length (ac_DevBootstrapToken c) < 32)) BootstrapTokenTooShort (
    ensure (\<not> (ac_InstallationID c = [] \<and> \<not> ac_DevMode c)) InstallationIDRequired (
    let c1 = (if ac_InstallationID c = [] then c\<lparr>ac_InstallationID := ''development''\<rparr> else c) in
    ensure (\<not> (\<not> ac_DevMode c1 \<and> ac_SecretExecutionEnabled c1)) SecretExecutionForbidden (
    let c2 = (if ac_DevMode c1 then c1\<lparr>ac_SecretExecutionEnabled := True\<rparr> else c1);
        c3 = (if ac_SessionTTL c2 \<le> 0 then c2\<lparr>ac_SessionTTL := hour\<rparr> else c2) in
    ensure (\<not> ac_SessionTTL c3 > 8 * hour) SessionTTLTooLong (
    let c4 = (if ac_JobTimeout c3 \<le> 0 then c3\<lparr>ac_JobTimeout := 100 * second\<rparr> else c3);
        c5 = (if ac_ProbeTimeout c4 \<le> 0 then c4\<lparr>ac_ProbeTimeout := 12 * second\<rparr> else c4) in
    ensure analyzer AnalyzerFailed (
    if ac_WebSSHConfig c5 \<and> ac_DevMode c5 \<and> ac_SecretExecutionEnabled c5
    then ensure (ac_ConnectorClient c5) WebSSHNeedsConnector (ensure gateway WebSSHInvalid (Inr (c5, True)))
    else Inr (c5, False)))))))"

section \<open>State, requests and replies\<close>

text \<open>
  The mutable state of the server: the repository, the sessions, the cancel functions of the jobs with whether
  each has been called, the probe slots in use, and whether the last audit event was lost.
\<close>

record api =
  api_repo :: memory
  api_sessions :: sessions
  api_jobCancels :: "(string, bool) gomap"
  api_probes :: nat
  api_auditFailed :: bool

record api_request =
  rq_Authorization :: string
  rq_ID :: string
  rq_AuthNow :: time
  rq_Now :: time
  rq_AuditNow :: time
  rq_IDRand :: "string option"
  rq_AuditRand :: "string option"

datatype 'b api_reply = ErrorReply int string | Reply int 'b

definition writeStoreError :: "store_error \<Rightarrow> 'b api_reply" where
  "writeStoreError e = (case e of ErrNotFound \<Rightarrow> ErrorReply 404 ''not_found'' | ErrConflict \<Rightarrow> ErrorReply 409 ''version_conflict'')"

text \<open>\<^verbatim>\<open>ready\<close>: the in-memory repository is always ready; the probes are those of the configured dependencies.\<close>

definition ready :: "bool list \<Rightarrow> api \<Rightarrow> int" where
  "ready probes s = (if api_auditFailed s then 503 else if \<not> list_all (\<lambda>up. up) probes then 503 else 200)"

text \<open>The identifier \<^verbatim>\<open>requestIDMiddleware\<close> gives a request.\<close>

definition request_id :: "string option \<Rightarrow> string" where
  "request_id rand = (case NewID ''req'' rand of None \<Rightarrow> ''req_unavailable'' | Some i \<Rightarrow> i)"

text \<open>The decoder gives the first JSON value with known fields and the text after it.\<close>

definition decodeJSON :: "(string \<Rightarrow> ('i \<times> string) option) \<Rightarrow> string \<Rightarrow> 'i option" where
  "decodeJSON decode body =
    (if length body > 512 * 1024 then None
     else case decode body of None \<Rightarrow> None | Some (input, rest) \<Rightarrow>
       if list_all (\<lambda>c. c \<in> {CHR '' '', CHR 0x09, CHR 0x0A, CHR 0x0D}) rest then Some input else None)"

definition auditWithRequestID ::
    "string option \<Rightarrow> time \<Rightarrow> string \<Rightarrow> principal \<Rightarrow> string \<Rightarrow> string \<Rightarrow> string \<Rightarrow> string \<Rightarrow> (string, any_value) gomap \<Rightarrow> api \<Rightarrow> api" where
  "auditWithRequestID rand now requestID pr action targetType targetID outcome details s =
    (case NewID ''audit'' rand of
      None \<Rightarrow> s
    | Some i \<Rightarrow> s\<lparr>api_repo := AppendAudit (api_repo s) \<lparr>ae_ID = i, ae_Timestamp = now, ae_Actor = p_Subject pr, ae_Role = p_Role pr,
          ae_Action = action, ae_TargetType = targetType, ae_TargetID = targetID, ae_Outcome = outcome, ae_RequestID = requestID,
          ae_Details = SanitizeDetails details\<rparr>, api_auditFailed := False\<rparr>)"

definition audit ::
    "api_request \<Rightarrow> principal \<Rightarrow> string \<Rightarrow> string \<Rightarrow> string \<Rightarrow> string \<Rightarrow> (string, any_value) gomap \<Rightarrow> api \<Rightarrow> api" where
  "audit r pr action targetType targetID outcome details s =
    auditWithRequestID (rq_AuditRand r) (rq_AuditNow r) (rq_ID r) pr action targetType targetID outcome details s"

fun permission_name :: "permission \<Rightarrow> string" where
  "permission_name HostsRead = ''hosts:read''"
| "permission_name HostsWrite = ''hosts:write''"
| "permission_name HostsDelete = ''hosts:delete''"
| "permission_name HostKeyPin = ''host_key:pin''"
| "permission_name HostKeyReplace = ''host_key:replace''"
| "permission_name CredentialsManage = ''credentials:manage''"
| "permission_name JobsRead = ''jobs:read''"
| "permission_name SnapshotsRun = ''snapshots:run''"
| "permission_name CommandsRun = ''commands:run''"
| "permission_name AnomalyScansRun = ''anomaly_scans:run''"
| "permission_name TerminalSessionsOpen = ''terminal_sessions:open''"
| "permission_name RunbooksPreview = ''runbooks:preview''"
| "permission_name RunbooksExecute = ''runbooks:execute''"
| "permission_name JobsCancel = ''jobs:cancel''"
| "permission_name WorkersRead = ''cloudflare_workers:read''"
| "permission_name WorkersWrite = ''cloudflare_workers:write''"
| "permission_name WorkerTokensManage = ''cloudflare_worker_tokens:manage''"
| "permission_name WorkerDeploymentsPlan = ''cloudflare_worker_deployments:plan''"
| "permission_name WorkerDeploymentsRun = ''cloudflare_worker_deployments:execute''"
| "permission_name AuditRead = ''audit:read''"
| "permission_name SessionRevokeSelf = ''session:revoke_self''"

text \<open>\<^verbatim>\<open>require\<close> with the handler it guards; \<^term>\<open>refuse\<close> is how a refusal looks among the handler's results.\<close>

definition require ::
    "permission \<Rightarrow> api_request \<Rightarrow> (int \<Rightarrow> string \<Rightarrow> 'x) \<Rightarrow> (principal \<Rightarrow> api \<Rightarrow> api \<times> 'x) \<Rightarrow> api \<Rightarrow> api \<times> 'x" where
  "require permission r refuse handler s =
    (let (sessions, pr, authentic) = Authenticate (api_sessions s) (rq_AuthNow r) (rq_Authorization r);
         s1 = s\<lparr>api_sessions := sessions\<rparr> in
     if \<not> authentic then (s1, refuse 401 ''unauthorized'')
     else if \<not> Allowed (p_Role pr) permission
     then (audit r pr ''authorization.denied'' ''permission'' (permission_name permission) ''denied'' [] s1, refuse 403 ''forbidden'')
     else handler pr s1)"

text \<open>\<^verbatim>\<open>checkHostScope\<close> and then \<^verbatim>\<open>GetHost\<close>, which begins most handlers of a host.\<close>

definition checkHostScope :: "principal \<Rightarrow> string \<Rightarrow> bool" where
  "checkHostScope pr hostID = CanAccessHost pr hostID"

definition scoped_host :: "principal \<Rightarrow> string \<Rightarrow> api \<Rightarrow> 'b api_reply + host" where
  "scoped_host pr hostID s =
    (if \<not> checkHostScope pr hostID then Inl (ErrorReply 404 ''not_found'')
     else case GetHost (api_repo s) hostID of Inl e \<Rightarrow> Inl (writeStoreError e) | Inr host \<Rightarrow> Inr host)"

section \<open>Sessions\<close>

record devSessionRequest =
  ds_Subject :: string
  ds_Role :: role
  ds_AllHosts :: bool
  ds_HostIDs :: "string list"

record session_reply =
  sr_token :: string
  sr_session :: session

text \<open>The two draws are those of \<^const>\<open>Sessions_Issue\<close>.\<close>

definition createDevSession ::
    "api_config \<Rightarrow> api_request \<Rightarrow> string \<Rightarrow> string option \<Rightarrow> string option \<Rightarrow> devSessionRequest option \<Rightarrow> api \<Rightarrow> api \<times> session_reply api_reply" where
  "createDevSession c r bootstrap rand rand' body s =
    (if \<not> ac_DevMode c then (s, ErrorReply 404 ''not_found'')
     else if \<not> SecureTokenEqual bootstrap (ac_DevBootstrapToken c) then (s, ErrorReply 401 ''unauthorized'')
     else case body of None \<Rightarrow> (s, ErrorReply 400 ''invalid_request'') | Some input \<Rightarrow>
     let subject = trim_space (ds_Subject input) in
     if length subject < 1 \<or> length subject > 128 \<or> \<not> ValidRole (ds_Role input) \<or> (ds_AllHosts input \<and> length (ds_HostIDs input) > 0)
     then (s, ErrorReply 400 ''validation_error'')
     else if list_ex (\<lambda>hostID. \<not> has_prefix hostID ''host_'' \<or> length hostID > 128) (ds_HostIDs input) then (s, ErrorReply 400 ''validation_error'')
     else case Sessions_Issue (api_sessions s) (rq_Now r) rand rand'
         \<lparr>p_Subject = subject, p_Role = ds_Role input, p_AllHosts = ds_AllHosts input, p_HostIDs = ds_HostIDs input, p_SessionID = []\<rparr> (ac_SessionTTL c) of
       (sessions, Inl e) \<Rightarrow> (s\<lparr>api_sessions := sessions\<rparr>, ErrorReply 500 ''internal_error'')
     | (sessions, Inr (token, session)) \<Rightarrow>
         (audit r (s_Principal session) ''session.created'' ''session'' [] ''success'' [] (s\<lparr>api_sessions := sessions\<rparr>),
          Reply 201 \<lparr>sr_token = token, sr_session = session\<rparr>))"

text \<open>The verifier of assertions is an argument: what it says of the assertion in the body.\<close>

definition createIdentitySession ::
    "api_config \<Rightarrow> api_request \<Rightarrow> (string \<Rightarrow> principal option) \<Rightarrow> int \<Rightarrow> string option \<Rightarrow> string option \<Rightarrow> string option \<Rightarrow> api \<Rightarrow> api \<times> session_reply api_reply" where
  "createIdentitySession c r verify contentLength rand rand' body s =
    (if \<not> ac_IdentityVerifier c then (s, ErrorReply 404 ''not_found'')
     else if contentLength > 16 * 1024 then (s, ErrorReply 413 ''request_too_large'')
     else case body of None \<Rightarrow> (s, ErrorReply 400 ''invalid_request'') | Some assertion \<Rightarrow>
     case verify assertion of None \<Rightarrow> (s, ErrorReply 401 ''identity_assertion_rejected'') | Some pr \<Rightarrow>
     case Sessions_Issue (api_sessions s) (rq_Now r) rand rand' pr (ac_SessionTTL c) of
       (sessions, Inl e) \<Rightarrow> (s\<lparr>api_sessions := sessions\<rparr>, ErrorReply 500 ''internal_error'')
     | (sessions, Inr (token, session)) \<Rightarrow>
         (audit r (s_Principal session) ''session.identity_exchanged'' ''session'' [] ''success'' [] (s\<lparr>api_sessions := sessions\<rparr>),
          Reply 201 \<lparr>sr_token = token, sr_session = session\<rparr>))"

definition revokeCurrentSession :: "api_request \<Rightarrow> principal \<Rightarrow> api \<Rightarrow> api \<times> unit api_reply" where
  "revokeCurrentSession r pr s =
    (let s1 = audit r pr ''session.revoked'' ''session'' [] ''success'' [] s;
         (sessions, revoked) = Revoke (api_sessions s1) (rq_Authorization r)
     in (s1\<lparr>api_sessions := sessions\<rparr>, if \<not> revoked then ErrorReply 401 ''unauthorized'' else Reply 204 ()))"

section \<open>Hosts\<close>

definition usernamePattern :: "string \<Rightarrow> bool" where
  "usernamePattern t \<longleftrightarrow> t \<noteq> [] \<and> length t \<le> 64 \<and> (is_alpha (hd t) \<or> hd t = CHR ''_'') \<and>
    list_all (\<lambda>c. is_alnum c \<or> c \<in> set ''_.-'') (tl t)"

definition labelKeyPattern :: "string \<Rightarrow> bool" where
  "labelKeyPattern t \<longleftrightarrow> t \<noteq> [] \<and> length t \<le> 63 \<and> is_alnum (hd t) \<and> list_all (\<lambda>c. is_alnum c \<or> c \<in> set ''_.-'') (tl t)"

text \<open>
  The pattern ignores case, which for the library also lets the long s and the Kelvin sign stand for their
  ASCII letters; it is matched on runes.
\<close>

definition dns_rune :: "nat \<Rightarrow> bool" where
  "dns_rune r \<longleftrightarrow> 97 \<le> r \<and> r \<le> 122 \<or> 65 \<le> r \<and> r \<le> 90 \<or> 48 \<le> r \<and> r \<le> 57 \<or> r = 0x17F \<or> r = 0x212A"

fun split_runes :: "nat list \<Rightarrow> nat list list" where
  "split_runes [] = [[]]"
| "split_runes (r # rs) = (if r = 46 then [] # split_runes rs else (case split_runes rs of w # ws \<Rightarrow> (r # w) # ws))"

definition dnsPattern :: "string \<Rightarrow> bool" where
  "dnsPattern t \<longleftrightarrow> list_all (\<lambda>label. label \<noteq> [] \<and> length label \<le> 63 \<and> dns_rune (hd label) \<and> dns_rune (last label) \<and>
    list_all (\<lambda>r. dns_rune r \<or> r = 45) label) (split_runes (runes t))"

text \<open>
  \<^verbatim>\<open>normalizeAddress\<close>. Lower case is exact for the runes an address may have; other runes beyond ASCII are
  refused in either case.
\<close>

definition normalizeAddress :: "string \<Rightarrow> string" where
  "normalizeAddress t =
    (let v = trim_space t;
         w = (if has_prefix v ''['' \<and> has_suffix v '']'' then trim_suffix (trim_prefix v ''['') '']'' else v)
     in map_runes lower_rune w)"

definition validAddress :: "string \<Rightarrow> bool" where
  "validAddress t =
    (let v = normalizeAddress t in
     if length v = 0 \<or> length v > 253 \<or> contains_any v [CHR '' '', CHR ''/'', CHR 0x5C, CHR 0x0D, CHR 0x0A, CHR 0x09, CHR 0x00, CHR ''@''] then False
     else (case ParseAddr v of Some (V4 _) \<Rightarrow> True | Some (V6 _ zone) \<Rightarrow> zone = [] \<or> dnsPattern v | _ \<Rightarrow> dnsPattern v))"

definition validateHost :: "string \<Rightarrow> string \<Rightarrow> int \<Rightarrow> string \<Rightarrow> (string, string) gomap \<Rightarrow> bool \<Rightarrow> bool" where
  "validateHost name address port username labels allowPrivateTargets =
    (let name' = trim_space name; address' = trim_space address; username' = trim_space username in
     if length name' < 1 \<or> length name' > 100 then False
     else if \<not> validAddress address' then False
     else if ValidateTargetLiteral (normalizeAddress address') allowPrivateTargets \<noteq> None then False
     else if port < 1 \<or> port > 65535 then False
     else if \<not> usernamePattern username' then False
     else if length labels > 20 then False
     else \<not> list_ex (\<lambda>(k, v). \<not> labelKeyPattern k \<or> length v > 128 \<or> contains_any v [CHR 0x0D, CHR 0x0A, CHR 0x00]) labels)"

record createHostRequest =
  ch_Name :: string
  ch_Address :: string
  ch_Port :: int
  ch_Username :: string
  ch_Labels :: "(string, string) gomap"

definition createHost :: "api_config \<Rightarrow> api_request \<Rightarrow> createHostRequest option \<Rightarrow> principal \<Rightarrow> api \<Rightarrow> api \<times> host api_reply" where
  "createHost c r body pr s =
    (if \<not> p_AllHosts pr then (s, ErrorReply 403 ''host_scope_required'')
     else case body of None \<Rightarrow> (s, ErrorReply 400 ''invalid_request'') | Some input0 \<Rightarrow>
     let input = (if ch_Port input0 = 0 then input0\<lparr>ch_Port := 22\<rparr> else input0) in
     if \<not> validateHost (ch_Name input) (ch_Address input) (ch_Port input) (ch_Username input) (ch_Labels input) (ac_AllowPrivateTargets c)
     then (s, ErrorReply 400 ''validation_error'')
     else case NewID ''host'' (rq_IDRand r) of None \<Rightarrow> (s, ErrorReply 500 ''internal_error'') | Some i \<Rightarrow>
     let host = \<lparr>h_ID = i, h_Name = trim_space (ch_Name input), h_Address = normalizeAddress (ch_Address input), h_Port = ch_Port input,
           h_Username = trim_space (ch_Username input), h_Labels = ch_Labels input, h_HostKey = None, h_Version = 1,
           h_CreatedAt = rq_Now r, h_UpdatedAt = rq_Now r\<rparr> in
     case CreateHost (api_repo s) host of
       Inl e \<Rightarrow> (s, ErrorReply 409 ''conflict'')
     | Inr m \<Rightarrow> (audit r pr ''host.created'' ''host'' i ''success'' [(''name'', VString (h_Name host))] (s\<lparr>api_repo := m\<rparr>), Reply 201 host))"

definition listHosts :: "principal \<Rightarrow> api \<Rightarrow> host list api_reply" where
  "listHosts pr s = Reply 200 (filter (\<lambda>host. CanAccessHost pr (h_ID host)) (ListHosts (api_repo s)))"

definition getHost :: "string \<Rightarrow> principal \<Rightarrow> api \<Rightarrow> host api_reply" where
  "getHost hostID pr s = (case scoped_host pr hostID s of Inl e \<Rightarrow> e | Inr host \<Rightarrow> Reply 200 host)"

record updateHostRequest =
  up_Version :: u64
  up_Name :: "string option"
  up_Address :: "string option"
  up_Port :: "int option"
  up_Username :: "string option"
  up_Labels :: "(string, string) gomap option"

text \<open>The record \<^verbatim>\<open>updateHost\<close> writes back, made of the host it has read.\<close>

definition updated_host :: "updateHostRequest \<Rightarrow> time \<Rightarrow> host \<Rightarrow> host" where
  "updated_host input now host =
    (let host1 = host\<lparr>
           h_Name := (case up_Name input of None \<Rightarrow> h_Name host | Some v \<Rightarrow> trim_space v),
           h_Address := (case up_Address input of None \<Rightarrow> h_Address host | Some v \<Rightarrow> normalizeAddress v),
           h_Port := (case up_Port input of None \<Rightarrow> h_Port host | Some v \<Rightarrow> v),
           h_Username := (case up_Username input of None \<Rightarrow> h_Username host | Some v \<Rightarrow> trim_space v),
           h_Labels := (case up_Labels input of None \<Rightarrow> h_Labels host | Some v \<Rightarrow> v)\<rparr>;
         trustReset = (h_Address host \<noteq> h_Address host1 \<or> h_Port host \<noteq> h_Port host1);
         host2 = (if trustReset then host1\<lparr>h_HostKey := None\<rparr> else host1)
     in host2\<lparr>h_Version := up_Version input + 1, h_UpdatedAt := now\<rparr>)"

definition updateHost_write ::
    "api_config \<Rightarrow> api_request \<Rightarrow> updateHostRequest option \<Rightarrow> principal \<Rightarrow> host \<Rightarrow> api \<Rightarrow> api \<times> host api_reply" where
  "updateHost_write c r body pr host s =
    (case body of None \<Rightarrow> (s, ErrorReply 400 ''invalid_request'') | Some input \<Rightarrow>
     if up_Version input = 0 then (s, ErrorReply 400 ''validation_error'')
     else let h = updated_host input (rq_Now r) host in
     if \<not> validateHost (h_Name h) (h_Address h) (h_Port h) (h_Username h) (h_Labels h) (ac_AllowPrivateTargets c)
     then (s, ErrorReply 400 ''validation_error'')
     else case UpdateHost (api_repo s) h (up_Version input) of
       Inl e \<Rightarrow> (s, writeStoreError e)
     | Inr m \<Rightarrow> (audit r pr ''host.updated'' ''host'' (h_ID h) ''success''
           [(''hostKeyReset'', VOther (if h_Address host \<noteq> h_Address h \<or> h_Port host \<noteq> h_Port h then 1 else 0))] (s\<lparr>api_repo := m\<rparr>), Reply 200 h))"

definition deleteHost :: "api_request \<Rightarrow> string \<Rightarrow> principal \<Rightarrow> api \<Rightarrow> api \<times> unit api_reply" where
  "deleteHost r hostID pr s =
    (if \<not> checkHostScope pr hostID then (s, ErrorReply 404 ''not_found'')
     else case DeleteHost (api_repo s) hostID of
       Inl e \<Rightarrow> (s, writeStoreError e)
     | Inr m \<Rightarrow> (audit r pr ''host.deleted'' ''host'' hostID ''success'' [] (s\<lparr>api_repo := m\<rparr>), Reply 204 ()))"

section \<open>Host keys\<close>

text \<open>
  The SSH key library: parsing a line of authorized keys, the type of a key, its fingerprint, its text, and
  the number of bits of an RSA key if it can be inspected.
\<close>

record 'k key_lib =
  kl_parse :: "string \<Rightarrow> ('k \<times> string) option"
  kl_type :: "'k \<Rightarrow> string"
  kl_fingerprint :: "'k \<Rightarrow> string"
  kl_authorized :: "'k \<Rightarrow> string"
  kl_rsa_bits :: "'k \<Rightarrow> int option"

definition validateHostKeyAlgorithm :: "'k key_lib \<Rightarrow> 'k \<Rightarrow> bool" where
  "validateHostKeyAlgorithm kl key =
    (if kl_type kl key \<in> {''ssh-ed25519'', ''ecdsa-sha2-nistp256'', ''ecdsa-sha2-nistp384'', ''ecdsa-sha2-nistp521'',
        ''sk-ecdsa-sha2-nistp256@openssh.com'', ''sk-ssh-ed25519@openssh.com''} then True
     else if kl_type kl key = ''ssh-rsa'' then (case kl_rsa_bits kl key of None \<Rightarrow> False | Some bits \<Rightarrow> \<not> bits < 3072)
     else False)"

definition constantStringEqual :: "string \<Rightarrow> string \<Rightarrow> bool" where
  "constantStringEqual left right = (if length left \<noteq> length right then False else left = right)"

text \<open>
  A probe takes a slot, observes a key without trusting it, and gives the slot back. The reply repeats the
  observation; the time of observation and the constant that the key is not trusted are left out.
\<close>

definition probe_begin :: "string \<Rightarrow> principal \<Rightarrow> api \<Rightarrow> api \<times> ('b api_reply + host)" where
  "probe_begin hostID pr s =
    (case scoped_host pr hostID s of
      Inl e \<Rightarrow> (s, Inl e)
    | Inr host \<Rightarrow> if api_probes s \<ge> 4 then (s, Inl (ErrorReply 429 ''probe_capacity'')) else (s\<lparr>api_probes := api_probes s + 1\<rparr>, Inr host))"

definition probe_code :: "ssh_error \<Rightarrow> string" where
  "probe_code e =
    (if error_class e = DeadlineExceeded then ''probe_timeout''
     else if e = ErrTargetDenied then ''target_denied'' else ''probe_failed'')"

definition probe_finish ::
    "'k key_lib \<Rightarrow> (addr \<Rightarrow> string) \<Rightarrow> api_request \<Rightarrow> principal \<Rightarrow> string \<Rightarrow> ssh_error + hostKeyObservation \<Rightarrow> api \<Rightarrow> api \<times> hostKeyObservation api_reply" where
  "probe_finish kl addr_text r pr hostID observed s =
    (let s1 = s\<lparr>api_probes := api_probes s - 1\<rparr> in
     case observed of
       Inl e \<Rightarrow> (audit r pr ''host_key.probed'' ''host'' hostID ''failed'' [(''errorCode'', VString (probe_code e))] s1, ErrorReply 502 (probe_code e))
     | Inr o' \<Rightarrow>
         (case ParsePinnedHostKey (kl_parse kl) (ho_PublicKey o') of
           Inr key \<Rightarrow>
             if validateHostKeyAlgorithm kl key \<and> kl_fingerprint kl key = ho_FingerprintSHA256 o'
             then (audit r pr ''host_key.probed'' ''host'' hostID ''success'' [(''fingerprint'', VString (ho_FingerprintSHA256 o')),
                 (''algorithm'', VString (kl_type kl key)), (''resolvedAddress'', VString (addr_text (ho_ResolvedAddress o')))] s1,
               Reply 200 (o'\<lparr>ho_Algorithm := kl_type kl key\<rparr>))
             else (audit r pr ''host_key.probed'' ''host'' hostID ''failed'' [(''errorCode'', VString ''invalid_observation'')] s1,
               ErrorReply 502 ''invalid_observation'')
         | Inl _ \<Rightarrow> (audit r pr ''host_key.probed'' ''host'' hostID ''failed'' [(''errorCode'', VString ''invalid_observation'')] s1,
               ErrorReply 502 ''invalid_observation'')))"

record pinHostKeyRequest =
  pk_Version :: u64
  pk_PublicKey :: string
  pk_ExpectedFingerprintSHA256 :: string
  pk_Replace :: bool
  pk_ExpectedCurrentFingerprint :: string

definition pinHostKey_write ::
    "'k key_lib \<Rightarrow> api_request \<Rightarrow> pinHostKeyRequest option \<Rightarrow> principal \<Rightarrow> host \<Rightarrow> api \<Rightarrow> api \<times> host api_reply" where
  "pinHostKey_write kl r body pr host s =
    (case body of None \<Rightarrow> (s, ErrorReply 400 ''invalid_request'') | Some input \<Rightarrow>
     if pk_Version input = 0 \<or> trim_space (pk_ExpectedFingerprintSHA256 input) = [] then (s, ErrorReply 400 ''validation_error'')
     else case ParsePinnedHostKey (kl_parse kl) (pk_PublicKey input) of Inl _ \<Rightarrow> (s, ErrorReply 400 ''validation_error'') | Inr key \<Rightarrow>
     if \<not> validateHostKeyAlgorithm kl key then (s, ErrorReply 400 ''validation_error'')
     else let fingerprint = kl_fingerprint kl key in
     if \<not> constantStringEqual fingerprint (trim_space (pk_ExpectedFingerprintSHA256 input)) then (s, ErrorReply 400 ''fingerprint_mismatch'')
     else let replacing = (case h_HostKey host of None \<Rightarrow> False | Some pin \<Rightarrow> hk_FingerprintSHA256 pin \<noteq> fingerprint) in
     if replacing \<and> (\<not> pk_Replace input \<or> \<not> Allowed (p_Role pr) HostKeyReplace) then (s, ErrorReply 409 ''host_key_change'')
     else if replacing \<and> \<not> constantStringEqual (case h_HostKey host of None \<Rightarrow> [] | Some pin \<Rightarrow> hk_FingerprintSHA256 pin) (pk_ExpectedCurrentFingerprint input)
     then (s, ErrorReply 409 ''host_key_change'')
     else let h = host\<lparr>h_HostKey := Some \<lparr>hk_Algorithm = kl_type kl key, hk_FingerprintSHA256 = fingerprint,
             hk_PublicKey = trim_space (kl_authorized kl key), hk_ConfirmedAt = rq_Now r, hk_ConfirmedBy = p_Subject pr\<rparr>,
           h_Version := pk_Version input + 1, h_UpdatedAt := rq_Now r\<rparr> in
     case UpdateHost (api_repo s) h (pk_Version input) of
       Inl e \<Rightarrow> (s, writeStoreError e)
     | Inr m \<Rightarrow> (audit r pr (if replacing then ''host_key.replaced'' else ''host_key.pinned'') ''host'' (h_ID h) ''success''
           [(''fingerprint'', VString fingerprint), (''algorithm'', VString (kl_type kl key))] (s\<lparr>api_repo := m\<rparr>), Reply 200 h))"

section \<open>Credentials\<close>

text \<open>
  The key library gives the fingerprint of a private key if it parses with its passphrase; \<^term>\<open>marshal\<close> is the
  JSON of the two. The three draws are those of \<^const>\<open>Seal\<close>.
\<close>

definition putCredential ::
    "api_config \<Rightarrow> aead \<Rightarrow> credential_service \<Rightarrow> (string \<Rightarrow> string \<Rightarrow> string option) \<Rightarrow> (string \<Rightarrow> string \<Rightarrow> string option) \<Rightarrow> string option \<Rightarrow> string option
     \<Rightarrow> string option \<Rightarrow> api_request \<Rightarrow> string \<Rightarrow> (string \<times> string) option \<Rightarrow> principal \<Rightarrow> api \<Rightarrow> api \<times> credentialMetadata api_reply" where
  "putCredential c a cs private_key marshal keyRand nonceRand wrapRand r hostID body pr s =
    (case scoped_host pr hostID s of Inl e \<Rightarrow> (s, e) | Inr _ \<Rightarrow>
     case body of None \<Rightarrow> (s, ErrorReply 400 ''invalid_request'') | Some (privateKey, passphrase) \<Rightarrow>
     if length privateKey = 0 \<or> length privateKey > 256 * 1024 \<or> length passphrase > 4096 then (s, ErrorReply 400 ''validation_error'')
     else case private_key privateKey passphrase of None \<Rightarrow> (s, ErrorReply 400 ''invalid_credential'') | Some fingerprint \<Rightarrow>
     case NewID ''cred'' (rq_IDRand r) of None \<Rightarrow> (s, ErrorReply 500 ''internal_error'') | Some i \<Rightarrow>
     case marshal privateKey passphrase of None \<Rightarrow> (s, ErrorReply 500 ''internal_error'') | Some plaintext \<Rightarrow>
     case Seal a cs keyRand nonceRand wrapRand plaintext (credentialAAD (ac_InstallationID c) hostID i) of
       Inl _ \<Rightarrow> (s, ErrorReply 503 ''kms_unavailable'')
     | Inr envelope \<Rightarrow>
         (let metadata = \<lparr>cm_ID = i, cm_HostID = hostID, cm_Kind = ''ssh_private_key'', cm_PublicKeyFingerprint = fingerprint,
                cm_KeyID = env_KeyID envelope, cm_CreatedAt = rq_Now r, cm_CreatedBy = p_Subject pr\<rparr> in
          case PutCredential (api_repo s) \<lparr>sc_Metadata = metadata, sc_Envelope = envelope\<rparr> of
            Inl e \<Rightarrow> (s, writeStoreError e)
          | Inr m \<Rightarrow> (audit r pr ''credential.stored'' ''host'' hostID ''success'' [(''credentialId'', VString i),
                (''publicKeyFingerprint'', VString fingerprint)] (s\<lparr>api_repo := m\<rparr>), Reply 201 metadata)))"

definition getCredential :: "string \<Rightarrow> principal \<Rightarrow> api \<Rightarrow> credentialMetadata api_reply" where
  "getCredential hostID pr s =
    (if \<not> checkHostScope pr hostID then ErrorReply 404 ''not_found''
     else case GetCredential (api_repo s) hostID of Inl e \<Rightarrow> writeStoreError e | Inr credential \<Rightarrow> Reply 200 (sc_Metadata credential))"

definition deleteCredential :: "api_request \<Rightarrow> string \<Rightarrow> principal \<Rightarrow> api \<Rightarrow> api \<times> unit api_reply" where
  "deleteCredential r hostID pr s =
    (if \<not> checkHostScope pr hostID then (s, ErrorReply 404 ''not_found'')
     else case DeleteCredential (api_repo s) hostID of
       Inl e \<Rightarrow> (s, writeStoreError e)
     | Inr m \<Rightarrow> (audit r pr ''credential.deleted'' ''host'' hostID ''success'' [] (s\<lparr>api_repo := m\<rparr>), Reply 204 ()))"

section \<open>Jobs and audit events\<close>

definition listJobs :: "principal \<Rightarrow> api \<Rightarrow> job list api_reply" where
  "listJobs pr s = Reply 200 (filter (\<lambda>job. CanAccessHost pr (j_HostID job)) (ListJobs (api_repo s)))"

definition getJob :: "string \<Rightarrow> principal \<Rightarrow> api \<Rightarrow> job api_reply" where
  "getJob jobID pr s =
    (case GetJob (api_repo s) jobID of
      Inl e \<Rightarrow> writeStoreError e
    | Inr job \<Rightarrow> if \<not> checkHostScope pr (j_HostID job) then ErrorReply 404 ''not_found'' else Reply 200 job)"

definition cancelJob :: "api_request \<Rightarrow> string \<Rightarrow> principal \<Rightarrow> api \<Rightarrow> api \<times> job api_reply" where
  "cancelJob r jobID pr s =
    (case GetJob (api_repo s) jobID of
      Inl e \<Rightarrow> (s, writeStoreError e)
    | Inr job \<Rightarrow>
        if \<not> checkHostScope pr (j_HostID job) then (s, ErrorReply 404 ''not_found'')
        else if j_State job \<noteq> JobQueued \<and> j_State job \<noteq> JobRunning then (s, ErrorReply 409 ''job_terminal'')
        else if \<not> has_key (api_jobCancels s) (j_ID job) then (s, ErrorReply 409 ''job_not_cancellable'')
        else (audit r pr ''job.cancel_requested'' ''job'' (j_ID job) ''success'' [(''hostId'', VString (j_HostID job))]
          (s\<lparr>api_jobCancels := put (api_jobCancels s) (j_ID job) True\<rparr>), Reply 202 job))"

definition event_host :: "auditEvent \<Rightarrow> string" where
  "event_host event =
    (if ae_TargetType event = ''host'' then ae_TargetID event
     else case map_of (ae_Details event) ''hostId'' of Some (VString hostID) \<Rightarrow> hostID | _ \<Rightarrow> [])"

text \<open>The query parameter \<^verbatim>\<open>limit\<close>, empty if it is missing.\<close>

definition listAuditEvents :: "string \<Rightarrow> principal \<Rightarrow> api \<Rightarrow> auditEvent list api_reply" where
  "listAuditEvents limitText pr s =
    (let limit = (if limitText = [] then Some 100
           else case parse_int64 limitText of None \<Rightarrow> None | Some n \<Rightarrow> if n < 1 \<or> n > 500 then None else Some n) in
     case limit of None \<Rightarrow> ErrorReply 400 ''validation_error'' | Some n \<Rightarrow>
     Reply 200 (take (nat n) (filter (\<lambda>event. let hostID = event_host event in
         (hostID = [] \<and> (p_AllHosts pr \<or> ae_Actor event = p_Subject pr)) \<or> (hostID \<noteq> [] \<and> CanAccessHost pr hostID))
       (ListAudits (api_repo s) 500))))"

section \<open>What a principal can see\<close>

text \<open>The repository without the hosts, credentials and jobs that are out of a principal's scope.\<close>

definition scoped_view :: "principal \<Rightarrow> memory \<Rightarrow> memory" where
  "scoped_view pr m = m\<lparr>
    m_hosts := keep (\<lambda>host. CanAccessHost pr (h_ID host)) (m_hosts m),
    m_credentials := keep (\<lambda>credential. CanAccessHost pr (cm_HostID (sc_Metadata credential))) (m_credentials m),
    m_jobs := keep (\<lambda>job. CanAccessHost pr (j_HostID job)) (m_jobs m)\<rparr>"

definition scoped_api :: "principal \<Rightarrow> api \<Rightarrow> api" where
  "scoped_api pr s = s\<lparr>api_repo := scoped_view pr (api_repo s)\<rparr>"

lemma filter_map_snd: "filter P (map snd m) = map snd (keep P m)"
  unfolding keep_def by (induction m) auto

lemma keep_idem: "keep P (keep P m) = keep P m"
  by (simp add: keep_keep)

lemma scoped_lookup:
  assumes "wf_memory m"
  shows "map_of (m_hosts (scoped_view pr m)) i = (if CanAccessHost pr i then map_of (m_hosts m) i else None)"
    and "map_of (m_credentials (scoped_view pr m)) i = (if CanAccessHost pr i then map_of (m_credentials m) i else None)"
    and "map_of (m_jobs (scoped_view pr m)) j =
      (case map_of (m_jobs m) j of None \<Rightarrow> None | Some job \<Rightarrow> if CanAccessHost pr (j_HostID job) then Some job else None)"
  using assms unfolding wf_memory_def scoped_view_def
  by (auto simp: map_of_keep all_entries_iff split: option.split)

lemma scoped_has_key:
  assumes "wf_memory m"
  shows "has_key (m_hosts (scoped_view pr m)) i \<longleftrightarrow> CanAccessHost pr i \<and> has_key (m_hosts m) i"
    and "has_key (m_credentials (scoped_view pr m)) i \<longleftrightarrow> CanAccessHost pr i \<and> has_key (m_credentials m) i"
  using scoped_lookup [OF assms] by (simp_all add: has_key_def)

text \<open>
  C9. What is out of a principal's scope is invisible to it: listing and reading hosts, jobs and credential
  metadata, beginning a probe, cancelling a job and deleting a host or a credential are all answered as if
  the repository held only the hosts, credentials and jobs in scope. An object that is out of scope and one
  that does not exist are not told apart.
\<close>

theorem out_of_scope_invisible:
  assumes "wf_memory (api_repo s)"
  shows "listHosts pr s = listHosts pr (scoped_api pr s) \<and> getHost i pr s = getHost i pr (scoped_api pr s)
    \<and> listJobs pr s = listJobs pr (scoped_api pr s) \<and> getJob j pr s = getJob j pr (scoped_api pr s) \<and> getCredential i pr s = getCredential i pr (scoped_api pr s)
    \<and> snd (cancelJob r j pr s) = snd (cancelJob r j pr (scoped_api pr s)) \<and> snd (deleteHost r i pr s) = snd (deleteHost r i pr (scoped_api pr s))
    \<and> snd (deleteCredential r i pr s) = snd (deleteCredential r i pr (scoped_api pr s))
    \<and> snd (probe_begin i pr s :: api \<times> (unit api_reply + host)) = snd (probe_begin i pr (scoped_api pr s))"
proof -
  let ?v = "scoped_api pr s"
  note lookup = scoped_lookup [OF assms(1)] and keys = scoped_has_key [OF assms(1)]
  have scoped: "scoped_host pr i s = (scoped_host pr i ?v :: 'b api_reply + host)" for i
    by (simp add: scoped_host_def GetHost_def scoped_api_def lookup checkHostScope_def)
  have "listHosts pr s = listHosts pr ?v" "listJobs pr s = listJobs pr ?v"
    by (simp_all add: listHosts_def listJobs_def ListHosts_def ListJobs_def scoped_api_def scoped_view_def filter_sort filter_map_snd keep_idem)
  moreover have "getHost i pr s = getHost i pr ?v" "snd (probe_begin i pr s :: api \<times> (unit api_reply + host)) = snd (probe_begin i pr ?v)"
    by (simp_all add: getHost_def probe_begin_def scoped) (simp_all add: scoped_api_def split: sum.split)
  moreover have "getJob j pr s = getJob j pr ?v" "snd (cancelJob r j pr s) = snd (cancelJob r j pr ?v)"
    by (auto simp: getJob_def cancelJob_def GetJob_def scoped_api_def lookup checkHostScope_def writeStoreError_def split: option.split)
  moreover have "getCredential i pr s = getCredential i pr ?v" "snd (deleteHost r i pr s) = snd (deleteHost r i pr ?v)"
      "snd (deleteCredential r i pr s) = snd (deleteCredential r i pr ?v)"
    by (simp_all add: getCredential_def deleteHost_def deleteCredential_def GetCredential_def DeleteHost_def DeleteCredential_def scoped_api_def lookup keys
      checkHostScope_def ensure_def)
  ultimately show ?thesis
    by blast
qed

theorem out_of_scope_invisible_witness:
  "\<exists>s pr. wf_memory (api_repo s) \<and> has_key (m_hosts (api_repo s)) ''host_b'' \<and> \<not> CanAccessHost pr ''host_b''
    \<and> getHost ''host_b'' pr s = ErrorReply 404 ''not_found'' \<and> getHost ''host_b'' pr s = getHost ''host_b'' pr (scoped_api pr s)
    \<and> \<not> has_key (m_hosts (api_repo (scoped_api pr s))) ''host_b''"
proof -
  let ?host = "\<lambda>i. \<lparr>h_ID = i, h_Name = ''web'', h_Address = ''db1'', h_Port = 22, h_Username = ''root'', h_Labels = [], h_HostKey = None,
    h_Version = 1, h_CreatedAt = 1, h_UpdatedAt = 1\<rparr>"
  let ?s = "\<lparr>api_repo = NewMemory\<lparr>m_hosts := [(''host_a'', ?host ''host_a''), (''host_b'', ?host ''host_b'')]\<rparr>, api_sessions = [],
    api_jobCancels = [], api_probes = 0, api_auditFailed = False\<rparr>"
  let ?pr = "\<lparr>p_Subject = ''eve'', p_Role = ''viewer'', p_AllHosts = False, p_HostIDs = [''host_a''], p_SessionID = []\<rparr>"
  have wf: "wf_memory (api_repo ?s)"
    by (simp add: wf_memory_def NewMemory_def wf_map_def all_entries_def audits_clean_def)
  have "getHost ''host_b'' ?pr ?s = ErrorReply 404 ''not_found''"
    by (simp add: getHost_def scoped_host_def checkHostScope_def CanAccessHost_def)
  moreover have "getHost ''host_b'' ?pr ?s = getHost ''host_b'' ?pr (scoped_api ?pr ?s)"
    using out_of_scope_invisible [OF wf, where pr = ?pr and i = "''host_b''"] by blast
  moreover have "has_key (m_hosts (api_repo ?s)) ''host_b''" "\<not> CanAccessHost ?pr ''host_b''"
      "\<not> has_key (m_hosts (api_repo (scoped_api ?pr ?s))) ''host_b''"
    by (simp_all add: has_key_def CanAccessHost_def scoped_api_def scoped_view_def keep_def)
  ultimately show ?thesis
    using wf by blast
qed

section \<open>Host keys under interleaving\<close>

text \<open>\<^verbatim>\<open>updateHost\<close> and \<^verbatim>\<open>pinHostKey\<close> up to their read of the host.\<close>

definition host_read :: "permission \<Rightarrow> api_request \<Rightarrow> string \<Rightarrow> api \<Rightarrow> api \<times> (host api_reply + principal \<times> host)" where
  "host_read permission r hostID s =
    require permission r (\<lambda>code e. Inl (ErrorReply code e))
      (\<lambda>pr s. (s, case scoped_host pr hostID s of Inl e \<Rightarrow> Inl e | Inr host \<Rightarrow> Inr (pr, host))) s"

text \<open>A call of a handler that does not write back a host it has read.\<close>

inductive api_call :: "api_config \<Rightarrow> api \<Rightarrow> api \<Rightarrow> bool" for c where
  createDevSession: "createDevSession c r b x y body s = (s', rep) \<Longrightarrow> api_call c s s'"
| createIdentitySession: "createIdentitySession c r verify n x y body s = (s', rep) \<Longrightarrow> api_call c s s'"
| revokeCurrentSession: "require SessionRevokeSelf r ErrorReply (revokeCurrentSession r) s = (s', rep) \<Longrightarrow> api_call c s s'"
| createHost: "require HostsWrite r ErrorReply (createHost c r body) s = (s', rep) \<Longrightarrow> api_call c s s'"
| deleteHost: "require HostsDelete r ErrorReply (deleteHost r i) s = (s', rep) \<Longrightarrow> api_call c s s'"
| probe_begin: "require HostKeyPin r (\<lambda>code e. Inl (ErrorReply code e)) (probe_begin i) s = (s', rep :: unit api_reply + host) \<Longrightarrow> api_call c s s'"
| probe_finish: "probe_finish (kl :: string key_lib) f r pr h observed s = (s', rep) \<Longrightarrow> api_call c s s'"
| putCredential: "require CredentialsManage r ErrorReply (putCredential c a cs pk marshal x y z r i body) s = (s', rep) \<Longrightarrow> api_call c s s'"
| deleteCredential: "require CredentialsManage r ErrorReply (deleteCredential r i) s = (s', rep) \<Longrightarrow> api_call c s s'"
| cancelJob: "require JobsCancel r ErrorReply (cancelJob r j) s = (s', rep) \<Longrightarrow> api_call c s s'"

text \<open>
  A run of the server: its state, the requests that have read a host and not yet written it, and, for the
  statements below, the confirmations: what was pinned, for which host, address and port, by whom and with
  which request.
\<close>

record confirmation =
  cf_Host :: string
  cf_Address :: string
  cf_Port :: int
  cf_Pin :: hostKeyPin
  cf_Principal :: principal
  cf_Request :: pinHostKeyRequest

record api_run =
  ru_api :: api
  ru_pins :: "(principal \<times> host) list"
  ru_updates :: "(principal \<times> host) list"
  ru_confirmed :: "confirmation list"

definition initial_run :: api_run where
  "initial_run = \<lparr>ru_api = \<lparr>api_repo = NewMemory, api_sessions = NewSessions, api_jobCancels = [], api_probes = 0, api_auditFailed = False\<rparr>,
    ru_pins = [], ru_updates = [], ru_confirmed = []\<rparr>"

definition confirmation_of :: "principal \<Rightarrow> pinHostKeyRequest \<Rightarrow> host api_reply \<Rightarrow> confirmation list" where
  "confirmation_of pr input rep =
    (case rep of
      Reply _ h \<Rightarrow> (case h_HostKey h of None \<Rightarrow> [] | Some pin \<Rightarrow>
        [\<lparr>cf_Host = h_ID h, cf_Address = h_Address h, cf_Port = h_Port h, cf_Pin = pin, cf_Principal = pr, cf_Request = input\<rparr>])
    | ErrorReply _ _ \<Rightarrow> [])"

inductive api_reach :: "api_config \<Rightarrow> 'k key_lib \<Rightarrow> api_run \<Rightarrow> bool" for c kl where
  start: "api_reach c kl initial_run"
| call: "api_reach c kl u \<Longrightarrow> api_call c (ru_api u) s' \<Longrightarrow> api_reach c kl (u\<lparr>ru_api := s'\<rparr>)"
| pin_read: "api_reach c kl u \<Longrightarrow> host_read HostKeyPin r i (ru_api u) = (s', Inr p) \<Longrightarrow>
    api_reach c kl (u\<lparr>ru_api := s', ru_pins := p # ru_pins u\<rparr>)"
| pin_write: "api_reach c kl u \<Longrightarrow> (pr, h) \<in> set (ru_pins u) \<Longrightarrow> pinHostKey_write kl r (Some input) pr h (ru_api u) = (s', rep) \<Longrightarrow>
    api_reach c kl (u\<lparr>ru_api := s', ru_pins := remove1 (pr, h) (ru_pins u), ru_confirmed := confirmation_of pr input rep @ ru_confirmed u\<rparr>)"
| update_read: "api_reach c kl u \<Longrightarrow> host_read HostsWrite r i (ru_api u) = (s', Inr p) \<Longrightarrow>
    api_reach c kl (u\<lparr>ru_api := s', ru_updates := p # ru_updates u\<rparr>)"
| update_write: "api_reach c kl u \<Longrightarrow> (pr, h) \<in> set (ru_updates u) \<Longrightarrow> updateHost_write c r body pr h (ru_api u) = (s', rep) \<Longrightarrow>
    api_reach c kl (u\<lparr>ru_api := s', ru_updates := remove1 (pr, h) (ru_updates u)\<rparr>)"

abbreviation api_hosts :: "api \<Rightarrow> (string, host) gomap" where
  "api_hosts s \<equiv> m_hosts (api_repo s)"

lemma api_hosts_audit [simp]: "api_hosts (audit r pr a t i o' d s) = api_hosts s"
  by (simp add: audit_def auditWithRequestID_def AppendAudit_def split: option.split)

lemma require_cases:
  assumes "require permission r refuse handler s = (s', x)"
  obtains code e where "api_hosts s' = api_hosts s" and "x = refuse code e"
  | pr s1 where "api_hosts s1 = api_hosts s" and "Allowed (p_Role pr) permission" and "handler pr s1 = (s', x)"
proof -
  obtain sess pr authentic where auth: "Authenticate (api_sessions s) (rq_AuthNow r) (rq_Authorization r) = (sess, pr, authentic)"
    by (metis prod_cases3)
  have hosts: "api_hosts (s\<lparr>api_sessions := sess\<rparr>) = api_hosts s"
    by simp
  show thesis
  proof (cases "authentic \<and> Allowed (p_Role pr) permission")
    case True
    with assms auth have "handler pr (s\<lparr>api_sessions := sess\<rparr>) = (s', x)"
      by (simp add: require_def Let_def)
    with True hosts that(2) show thesis
      by blast
  next
    case False
    with assms auth have "api_hosts s' = api_hosts s \<and> (x = refuse 401 ''unauthorized'' \<or> x = refuse 403 ''forbidden'')"
      by (auto simp: require_def Let_def split: if_splits)
    with that(1) show thesis
      by blast
  qed
qed

text \<open>Such a call keeps, removes or adds hosts; an added host has no key.\<close>

definition hosts_step :: "(string, host) gomap \<Rightarrow> (string, host) gomap \<Rightarrow> bool" where
  "hosts_step m m' \<longleftrightarrow> m' = m \<or> (\<exists>i. m' = del m i) \<or> (\<exists>h. h_HostKey h = None \<and> m' = put m (h_ID h) h)"

lemma hosts_step_refl [simp]: "hosts_step m m"
  by (simp add: hosts_step_def)

lemma hosts_step_changes [simp]: "hosts_step m (del m i)" "h_HostKey h = None \<Longrightarrow> h_ID h = i \<Longrightarrow> hosts_step m (put m i h)"
  by (auto simp: hosts_step_def)

lemma session_calls:
  "api_hosts (fst (createDevSession c r b x y body s)) = api_hosts s"
  "api_hosts (fst (createIdentitySession c r verify n x y body' s)) = api_hosts s"
  "api_hosts (fst (revokeCurrentSession r pr s)) = api_hosts s"
  by (simp_all add: createDevSession_def createIdentitySession_def revokeCurrentSession_def Let_def split: option.split sum.split prod.split)

lemma credential_calls:
  "api_hosts (fst (putCredential c a cs pk marshal x y z r i cbody pr s)) = api_hosts s"
  "api_hosts (fst (deleteCredential r i pr s)) = api_hosts s"
  "api_hosts (fst (cancelJob r j pr s)) = api_hosts s"
  by (auto simp: putCredential_def deleteCredential_def cancelJob_def PutCredential_def DeleteCredential_def Let_def result_simps ensure_def
    split: option.split sum.split prod.split)

lemma probe_calls:
  "api_hosts (fst (probe_begin i pr s)) = api_hosts s"
  "api_hosts (fst (probe_finish kl f r pr h observed s)) = api_hosts s"
  by (auto simp: probe_begin_def probe_finish_def Let_def split: sum.split)

lemma createHost_hosts: "hosts_step (api_hosts s) (api_hosts (fst (createHost c r body pr s)))"
  by (simp add: createHost_def Let_def CreateHost_def ensure_def split: option.split sum.split)

lemma deleteHost_hosts: "hosts_step (api_hosts s) (api_hosts (fst (deleteHost r i pr s)))"
  by (simp add: deleteHost_def DeleteHost_def ensure_def split: sum.split)

lemma api_call_hosts:
  assumes "api_call c s s'"
  shows "hosts_step (api_hosts s) (api_hosts s')"
  using assms
proof cases
  case (createHost r body rep)
  then show ?thesis
    using createHost_hosts [of _ c r body] by (cases rule: require_cases) (metis fst_conv hosts_step_refl)+
next
  case (deleteHost r i rep)
  then show ?thesis
    using deleteHost_hosts [of _ r i] by (cases rule: require_cases) (metis fst_conv hosts_step_refl)+
next
  case (createDevSession r b x y body rep)
  then show ?thesis
    using session_calls(1) [of c r b x y body s] by simp
next
  case (createIdentitySession r verify n x y body rep)
  then show ?thesis
    using session_calls(2) [of c r verify n x y body s] by simp
next
  case (probe_finish kl f r pr h observed rep)
  then show ?thesis
    using probe_calls(2) [of kl f r pr h observed s] by simp
next
  case (revokeCurrentSession r rep)
  then show ?thesis
    by (cases rule: require_cases) (metis fst_conv hosts_step_refl session_calls(3))+
next
  case (probe_begin r i rep)
  then show ?thesis
    by (cases rule: require_cases) (metis fst_conv hosts_step_refl probe_calls(1))+
next
  case (putCredential r a cs pk marshal x y z i body rep)
  then show ?thesis
    by (cases rule: require_cases) (metis fst_conv hosts_step_refl credential_calls(1))+
next
  case (deleteCredential r i rep)
  then show ?thesis
    by (cases rule: require_cases) (metis fst_conv hosts_step_refl credential_calls(2))+
next
  case (cancelJob r j rep)
  then show ?thesis
    by (cases rule: require_cases) (metis fst_conv hosts_step_refl credential_calls(3))+
qed

lemma host_read_Inr:
  assumes "host_read permission r i s = (s', Inr (pr, h))"
  shows "api_hosts s' = api_hosts s \<and> Allowed (p_Role pr) permission \<and> CanAccessHost pr i \<and> map_of (api_hosts s) i = Some h"
  using assms unfolding host_read_def
  by (cases rule: require_cases)
    (auto simp: scoped_host_def checkHostScope_def GetHost_def some_or_def split: sum.splits if_splits option.splits)

lemma updateHost_write_cases:
  assumes "updateHost_write c r body pr h s = (s', rep)"
  obtains "s' = s" and "\<And>code h'. rep \<noteq> Reply code h'"
  | input where "body = Some input" and "api_hosts s' = put (api_hosts s) (h_ID h) (updated_host input (rq_Now r) h)"
    and "rep = Reply 200 (updated_host input (rq_Now r) h)"
proof -
  have "h_ID (updated_host input (rq_Now r) h) = h_ID h" for input
    by (simp add: updated_host_def Let_def)
  then have "s' = s \<and> (\<forall>code h'. rep \<noteq> Reply code h') \<or> (\<exists>input. body = Some input \<and>
      api_hosts s' = put (api_hosts s) (h_ID h) (updated_host input (rq_Now r) h) \<and> rep = Reply 200 (updated_host input (rq_Now r) h))"
    using assms unfolding updateHost_write_def Let_def
    by (auto simp: UpdateHost_def writeStoreError_def result_simps split: option.splits if_splits sum.splits store_error.splits)
  with that show thesis
    by blast
qed

lemma pinHostKey_write_cases:
  assumes "pinHostKey_write kl r (Some input) pr h s = (s', rep)"
  obtains "s' = s" and "\<And>code h'. rep \<noteq> Reply code h'"
  | pin h' where "api_hosts s' = put (api_hosts s) (h_ID h) h'" and "rep = Reply 200 h'" and "h_ID h' = h_ID h"
    and "h_Address h' = h_Address h" and "h_Port h' = h_Port h" and "h_HostKey h' = Some pin" and "hk_ConfirmedBy pin = p_Subject pr"
    and "hk_FingerprintSHA256 pin = trim_space (pk_ExpectedFingerprintSHA256 input)"
proof -
  have "s' = s \<and> (\<forall>code h'. rep \<noteq> Reply code h') \<or>
    (\<exists>h' pin. api_hosts s' = put (api_hosts s) (h_ID h) h' \<and> rep = Reply 200 h' \<and> h_ID h' = h_ID h \<and> h_Address h' = h_Address h \<and>
      h_Port h' = h_Port h \<and> h_HostKey h' = Some pin \<and> hk_ConfirmedBy pin = p_Subject pr \<and>
      hk_FingerprintSHA256 pin = trim_space (pk_ExpectedFingerprintSHA256 input))"
    using assms unfolding pinHostKey_write_def Let_def constantStringEqual_def
    by (auto simp: UpdateHost_def writeStoreError_def result_simps split: option.splits if_splits sum.splits store_error.splits)
  with that show thesis
    by blast
qed

text \<open>A host whose key, if it has one, is among the confirmations for its address and port.\<close>

definition confirms :: "confirmation \<Rightarrow> host \<Rightarrow> hostKeyPin \<Rightarrow> bool" where
  "confirms e h pin \<longleftrightarrow> cf_Host e = h_ID h \<and> cf_Address e = h_Address h \<and> cf_Port e = h_Port h \<and> cf_Pin e = pin \<and>
    Allowed (p_Role (cf_Principal e)) HostKeyPin \<and> CanAccessHost (cf_Principal e) (h_ID h) \<and>
    hk_ConfirmedBy pin = p_Subject (cf_Principal e) \<and> hk_FingerprintSHA256 pin = trim_space (pk_ExpectedFingerprintSHA256 (cf_Request e))"

definition trusted :: "confirmation list \<Rightarrow> host \<Rightarrow> bool" where
  "trusted conf h \<longleftrightarrow> (case h_HostKey h of None \<Rightarrow> True | Some pin \<Rightarrow> list_ex (\<lambda>e. confirms e h pin) conf)"

definition run_ok :: "api_run \<Rightarrow> bool" where
  "run_ok u \<longleftrightarrow>
    (\<forall>i h. map_of (api_hosts (ru_api u)) i = Some h \<longrightarrow> h_ID h = i \<and> trusted (ru_confirmed u) h) \<and>
    (\<forall>(pr, h) \<in> set (ru_pins u). Allowed (p_Role pr) HostKeyPin \<and> CanAccessHost pr (h_ID h) \<and> trusted (ru_confirmed u) h) \<and>
    (\<forall>(pr, h) \<in> set (ru_updates u). trusted (ru_confirmed u) h)"

lemma trusted_mono: "trusted conf h \<Longrightarrow> trusted (conf' @ conf) h"
  by (auto simp: trusted_def split: option.splits)

lemma trusted_updated: "trusted conf h \<Longrightarrow> trusted conf (updated_host input now h)"
  by (auto simp: trusted_def updated_host_def Let_def confirms_def split: option.splits)

lemma run_ok_hosts:
  assumes "run_ok u" and "map_of (api_hosts (ru_api u)) i = Some h"
  shows "h_ID h = i" and "trusted (ru_confirmed u) h"
  using assms by (auto simp: run_ok_def)

lemma run_ok_put:
  assumes "run_ok u" and "api_hosts s' = put (api_hosts (ru_api u)) (h_ID h) h" and "trusted (ru_confirmed u) h"
  shows "run_ok (u\<lparr>ru_api := s'\<rparr>)"
  using assms by (auto simp: run_ok_def)

lemma run_ok_confirmed: "run_ok u \<Longrightarrow> run_ok (u\<lparr>ru_confirmed := conf @ ru_confirmed u\<rparr>)"
  by (fastforce simp: run_ok_def intro: trusted_mono)

lemma run_ok_forget:
  "run_ok u \<Longrightarrow> run_ok (u\<lparr>ru_pins := remove1 p (ru_pins u)\<rparr>)" "run_ok u \<Longrightarrow> run_ok (u\<lparr>ru_updates := remove1 p (ru_updates u)\<rparr>)"
  using set_remove1_subset [of p "ru_pins u"] set_remove1_subset [of p "ru_updates u"] by (auto simp: run_ok_def)

lemma run_ok_same_hosts: "run_ok u \<Longrightarrow> api_hosts s' = api_hosts (ru_api u) \<Longrightarrow> run_ok (u\<lparr>ru_api := s'\<rparr>)"
  by (simp add: run_ok_def)

lemma run_ok_call:
  assumes "run_ok u" and "hosts_step (api_hosts (ru_api u)) (api_hosts s')"
  shows "run_ok (u\<lparr>ru_api := s'\<rparr>)"
  using assms by (auto simp: run_ok_def hosts_step_def trusted_def split: if_splits)

lemma api_reach_ok:
  assumes "api_reach c kl u"
  shows "run_ok u"
  using assms
proof induction
  case start
  show ?case
    by (simp add: run_ok_def initial_run_def NewMemory_def)
next
  case (call u s')
  then show ?case
    by (intro run_ok_call api_call_hosts)
next
  case (pin_read u r i s' p)
  obtain pr h where p: "p = (pr, h)"
    by fastforce
  from host_read_Inr [OF pin_read.hyps(2) [unfolded p]] run_ok_hosts [OF pin_read.IH] show ?case
    using run_ok_same_hosts [OF pin_read.IH, of s'] by (auto simp: run_ok_def p)
next
  case (pin_write u pr h r input s' rep)
  have pin: "Allowed (p_Role pr) HostKeyPin" "CanAccessHost pr (h_ID h)"
    using pin_write.IH pin_write.hyps(2) by (auto simp: run_ok_def)
  let ?u = "u\<lparr>ru_confirmed := confirmation_of pr input rep @ ru_confirmed u\<rparr>"
  have ok: "run_ok ?u"
    by (intro run_ok_confirmed pin_write.IH)
  have "run_ok (?u\<lparr>ru_api := s'\<rparr>)"
    using pin_write.hyps(3)
  proof (cases rule: pinHostKey_write_cases)
    case 1
    with ok show ?thesis
      by (intro run_ok_same_hosts) simp_all
  next
    case (2 pin' h')
    with pin have "trusted (ru_confirmed ?u) h'"
      by (simp add: trusted_def confirmation_of_def confirms_def)
    with ok 2 show ?thesis
      by (intro run_ok_put [where h = h']) simp_all
  qed
  from run_ok_forget(1) [OF this, of "(pr, h)"] show ?case
    by (simp add: run_ok_def)
next
  case (update_read u r i s' p)
  obtain pr h where p: "p = (pr, h)"
    by fastforce
  from host_read_Inr [OF update_read.hyps(2) [unfolded p]] run_ok_hosts [OF update_read.IH] show ?case
    using run_ok_same_hosts [OF update_read.IH, of s'] by (auto simp: run_ok_def p)
next
  case (update_write u pr h r body s' rep)
  have h: "trusted (ru_confirmed u) h"
    using update_write.IH update_write.hyps(2) by (auto simp: run_ok_def)
  have "run_ok (u\<lparr>ru_api := s'\<rparr>)"
    using update_write.hyps(3)
  proof (cases rule: updateHost_write_cases)
    case 1
    with update_write.IH show ?thesis
      by (intro run_ok_same_hosts) simp_all
  next
    case (2 input)
    have "h_ID (updated_host input (rq_Now r) h) = h_ID h"
      by (simp add: updated_host_def Let_def)
    with 2 trusted_updated [OF h] show ?thesis
      by (intro run_ok_put [OF update_write.IH, where h = "updated_host input (rq_Now r) h"]) simp_all
  qed
  from run_ok_forget(2) [OF this, of "(pr, h)"] show ?case
    by simp
qed

subsection \<open>An example\<close>

definition demo_admin :: principal where
  "demo_admin = \<lparr>p_Subject = ''ada'', p_Role = ''admin'', p_AllHosts = True, p_HostIDs = [], p_SessionID = ''session_'' @ b64_encode ''i''\<rparr>"

definition demo_sessions :: sessions where
  "demo_sessions = put [] (sha256 (b64_encode ''k'')) \<lparr>st_Session = \<lparr>s_Principal = demo_admin, s_ExpiresAt = 1 + hour\<rparr>,
    st_tokenHash = sha256 (b64_encode ''k''), st_revoked = False\<rparr>"

definition demo_request :: api_request where
  "demo_request = \<lparr>rq_Authorization = bearer @ b64_encode ''k'', rq_ID = ''req'', rq_AuthNow = 1, rq_Now = 1, rq_AuditNow = 1,
    rq_IDRand = Some ''h'', rq_AuditRand = None\<rparr>"

definition demo_api_config :: api_config where
  "demo_api_config = \<lparr>ac_DevMode = True, ac_DevBootstrapToken = replicate 32 (CHR ''b''), ac_SessionTTL = hour, ac_JobTimeout = 100 * second,
    ac_ProbeTimeout = 12 * second, ac_AllowPrivateTargets = False, ac_IdentityVerifier = False, ac_InstallationID = ''development'',
    ac_SecretExecutionEnabled = True, ac_ConnectorClient = False, ac_WebSSHConfig = False, ac_RunbookConnector = False, ac_MutationsEnabled = False\<rparr>"

definition demo_key_lib :: "string key_lib" where
  "demo_key_lib = \<lparr>kl_parse = (\<lambda>line. if line = ''key'' @ [CHR 0x0A] then Some (''key'', []) else None), kl_type = (\<lambda>_. ''ssh-ed25519''),
    kl_fingerprint = (\<lambda>_. ''SHA256:abc''), kl_authorized = (\<lambda>k. k), kl_rsa_bits = (\<lambda>_. None)\<rparr>"

definition demo_host :: host where
  "demo_host = \<lparr>h_ID = ''host_'' @ b64_encode ''h'', h_Name = ''web'', h_Address = ''db1'', h_Port = 22, h_Username = ''root'', h_Labels = [],
    h_HostKey = None, h_Version = 1, h_CreatedAt = 1, h_UpdatedAt = 1\<rparr>"

definition demo_pin :: "string \<Rightarrow> hostKeyPin" where
  "demo_pin fingerprint = \<lparr>hk_Algorithm = ''ssh-ed25519'', hk_FingerprintSHA256 = fingerprint, hk_PublicKey = ''key'', hk_ConfirmedAt = 1,
    hk_ConfirmedBy = ''ada''\<rparr>"

lemma demo_trims:
  "trim_space ''ada'' = ''ada''" "trim_space ''web'' = ''web''" "trim_space ''db1'' = ''db1''" "trim_space ''root'' = ''root''"
  "trim_space ''key'' = ''key''" "trim_space ''SHA256:abc'' = ''SHA256:abc''"
  by (simp_all add: trim_eval)

lemma demo_runes: "runes ''db1'' = [100, 98, 49]"
  by (simp add: runes_ascii_Cons byte_def)

lemma demo_normalized: "normalizeAddress ''db1'' = ''db1''"
  by (simp add: normalizeAddress_def Let_def demo_trims has_prefix_def map_runes_def demo_runes lower_rune_def utf8_encode_def) (simp add: char_of_eq_iff)

lemma demo_parse_addr: "ParseAddr ''db1'' = None"
  by (simp add: ParseAddr_def)

lemma demo_valid_host: "validateHost ''web'' ''db1'' 22 ''root'' [] p"
  by (simp add: validateHost_def Let_def demo_trims validAddress_def demo_normalized demo_parse_addr ValidateTargetLiteral_def dnsPattern_def demo_runes
    dns_rune_def usernamePattern_def contains_any_def is_alnum_def is_alpha_def byte_classes byte_def)

lemma demo_require:
  assumes "api_sessions s = demo_sessions" and "Allowed ''admin'' permission"
  shows "require permission demo_request refuse handler s = handler demo_admin s"
proof -
  have "Authenticate demo_sessions 1 (bearer @ b64_encode ''k'') = (demo_sessions, demo_admin, True)"
    by (simp add: Authenticate_def Let_def demo_sessions_def trim_space_plain [OF b64_encode_plain] b64_encode_Nil_iff hour_def minute_def second_def)
  moreover have same: "s\<lparr>api_sessions := demo_sessions\<rparr> = s"
    using assms(1) by simp
  moreover have "p_Role demo_admin = ''admin''"
    by (simp add: demo_admin_def)
  ultimately show ?thesis
    using assms by (simp add: require_def demo_request_def same)
qed

lemma demo_request_fields: "rq_IDRand demo_request = Some ''h''" "rq_Now demo_request = 1"
  by (simp_all add: demo_request_def)

lemma demo_audit: "audit demo_request pr a t i out d s = s"
  by (simp add: audit_def auditWithRequestID_def NewID_def demo_request_def)

text \<open>
  C5. However requests interleave between reading and writing a host, a pinned host key is one that a
  principal with the permission to pin, and with the host in scope, has confirmed for exactly this host,
  address and port, by sending the fingerprint of the key itself; the pin names the principal. In particular
  a key never survives a change of address or port.
\<close>

theorem pinned_key_was_confirmed:
  assumes "api_reach c kl u" and "map_of (m_hosts (api_repo (ru_api u))) i = Some h" and "h_HostKey h = Some pin"
  shows "\<exists>e \<in> set (ru_confirmed u). cf_Host e = i \<and> cf_Address e = h_Address h \<and> cf_Port e = h_Port h \<and> cf_Pin e = pin
    \<and> Allowed (p_Role (cf_Principal e)) HostKeyPin \<and> CanAccessHost (cf_Principal e) i \<and> hk_ConfirmedBy pin = p_Subject (cf_Principal e)
    \<and> hk_FingerprintSHA256 pin = trim_space (pk_ExpectedFingerprintSHA256 (cf_Request e))"
proof -
  note ok = api_reach_ok [OF assms(1)]
  from run_ok_hosts(2) [OF ok assms(2)] assms(3) obtain e where "e \<in> set (ru_confirmed u)" and "confirms e h pin"
    by (auto simp: trusted_def list_ex_iff)
  with run_ok_hosts(1) [OF ok assms(2)] show ?thesis
    unfolding confirms_def by blast
qed

lemma demo_reach:
  defines "s1 \<equiv> (ru_api initial_run)\<lparr>api_sessions := demo_sessions\<rparr>"
  defines "s2 \<equiv> s1\<lparr>api_repo := (api_repo s1)\<lparr>m_hosts := put [] (h_ID demo_host) demo_host\<rparr>\<rparr>"
  defines "h \<equiv> demo_host\<lparr>h_HostKey := Some (demo_pin ''SHA256:abc''), h_Version := 2\<rparr>"
  defines "s3 \<equiv> s2\<lparr>api_repo := (api_repo s2)\<lparr>m_hosts := put (m_hosts (api_repo s2)) (h_ID demo_host) h\<rparr>\<rparr>"
  shows "\<exists>u. api_reach demo_api_config demo_key_lib u \<and> ru_api u = s3"
proof -
  have "createDevSession demo_api_config demo_request (replicate 32 (CHR ''b'')) (Some ''k'') (Some ''i'')
      (Some \<lparr>ds_Subject = ''ada'', ds_Role = ''admin'', ds_AllHosts = True, ds_HostIDs = []\<rparr>) (ru_api initial_run) =
    (s1, Reply 201 \<lparr>sr_token = b64_encode ''k'', sr_session = \<lparr>s_Principal = demo_admin, s_ExpiresAt = 1 + hour\<rparr>\<rparr>)"
    by (simp add: createDevSession_def demo_api_config_def SecureTokenEqual_def Let_def demo_trims grants_eval Sessions_Issue_def hour_def minute_def second_def
      deduplicate_def demo_admin_def demo_sessions_def demo_audit s1_def initial_run_def NewSessions_def demo_request_def audit_def auditWithRequestID_def NewID_def
      RoleViewer_def RoleOperator_def RoleAdmin_def RoleAuditor_def)
  then have 1: "api_reach demo_api_config demo_key_lib (initial_run\<lparr>ru_api := s1\<rparr>)"
    by (intro api_reach.call [OF api_reach.start] api_call.createDevSession)
  have sess: "api_sessions s1 = demo_sessions" "api_sessions s2 = demo_sessions"
    by (simp_all add: s1_def s2_def)
  have allowed: "Allowed ''admin'' HostsWrite" "Allowed ''admin'' HostKeyPin"
    by (simp_all add: grants_eval RoleViewer_def RoleOperator_def RoleAdmin_def RoleAuditor_def)
  have "require HostsWrite demo_request ErrorReply (createHost demo_api_config demo_request
      (Some \<lparr>ch_Name = ''web'', ch_Address = ''db1'', ch_Port = 0, ch_Username = ''root'', ch_Labels = []\<rparr>)) s1 = (s2, Reply 201 demo_host)"
    unfolding demo_require [OF sess(1) allowed(1)]
    by (simp add: createHost_def demo_admin_def Let_def demo_valid_host demo_audit CreateHost_def s1_def s2_def initial_run_def NewMemory_def has_key_def
      NewID_def contains_any_def demo_trims demo_normalized demo_host_def demo_request_fields demo_api_config_def)
  then have 2: "api_reach demo_api_config demo_key_lib (initial_run\<lparr>ru_api := s2\<rparr>)"
    using api_reach.call [OF 1] api_call.createHost by fastforce
  have "host_read HostKeyPin demo_request (h_ID demo_host) s2 = (s2, Inr (demo_admin, demo_host))"
    unfolding host_read_def demo_require [OF sess(2) allowed(2)]
    by (simp add: scoped_host_def checkHostScope_def CanAccessHost_def demo_admin_def GetHost_def s2_def)
  then have 3: "api_reach demo_api_config demo_key_lib (initial_run\<lparr>ru_api := s2, ru_pins := [(demo_admin, demo_host)]\<rparr>)"
    using api_reach.pin_read [OF 2] by (fastforce simp: initial_run_def)
  have "\<exists>rep. pinHostKey_write demo_key_lib demo_request (Some \<lparr>pk_Version = 1, pk_PublicKey = ''key'', pk_ExpectedFingerprintSHA256 = ''SHA256:abc'',
      pk_Replace = False, pk_ExpectedCurrentFingerprint = []\<rparr>) demo_admin demo_host s2 = (s3, rep)"
    by (simp add: pinHostKey_write_def Let_def ParsePinnedHostKey_def demo_trims demo_key_lib_def validateHostKeyAlgorithm_def constantStringEqual_def
      UpdateHost_def demo_audit s2_def s3_def h_def demo_pin_def demo_host_def demo_admin_def demo_request_fields trim_eval)
  then obtain rep where "pinHostKey_write demo_key_lib demo_request (Some \<lparr>pk_Version = 1, pk_PublicKey = ''key'', pk_ExpectedFingerprintSHA256 = ''SHA256:abc'',
      pk_Replace = False, pk_ExpectedCurrentFingerprint = []\<rparr>) demo_admin demo_host s2 = (s3, rep)"
    by blast
  with api_reach.pin_write [OF 3, of demo_admin demo_host] show ?thesis
    by fastforce
qed

theorem pinned_key_was_confirmed_witness:
  "\<exists>u h. api_reach demo_api_config demo_key_lib u \<and> map_of (m_hosts (api_repo (ru_api u))) (h_ID demo_host) = Some h
    \<and> h_HostKey h = Some (demo_pin ''SHA256:abc'')
    \<and> (\<exists>e \<in> set (ru_confirmed u). cf_Address e = ''db1'' \<and> cf_Port e = 22 \<and> trim_space (pk_ExpectedFingerprintSHA256 (cf_Request e)) = ''SHA256:abc'')"
proof -
  let ?h = "demo_host\<lparr>h_HostKey := Some (demo_pin ''SHA256:abc''), h_Version := 2\<rparr>"
  obtain u where u: "api_reach demo_api_config demo_key_lib u" and h: "map_of (m_hosts (api_repo (ru_api u))) (h_ID demo_host) = Some ?h"
    using demo_reach by auto
  have "\<exists>e \<in> set (ru_confirmed u). cf_Address e = ''db1'' \<and> cf_Port e = 22 \<and> trim_space (pk_ExpectedFingerprintSHA256 (cf_Request e)) = ''SHA256:abc''"
    using pinned_key_was_confirmed [OF u h, of "demo_pin ''SHA256:abc''"] by (auto simp: demo_host_def demo_pin_def)
  with u h show ?thesis
    by (intro exI [of _ u] exI [of _ ?h]) simp
qed

text \<open>
  C40. A pin can be undone by a request that read the host earlier. \<^verbatim>\<open>updateHost\<close> compares the version in the
  request with the stored one, not with that of the host it has read, and writes back the record it has read:
  if the body arrives late and names the stored version, the update succeeds whatever was stored in between,
  and the stored host has the key and address of the old record. A key an administrator has just replaced is
  trusted again.
\<close>

theorem stale_update_restores_key:
  assumes "map_of (m_hosts (api_repo s)) (h_ID old) = Some current"
    and "up_Version input = h_Version current" and "h_Version current \<noteq> 0" and "up_Address input = None" and "up_Port input = None"
    and "validateHost (h_Name (updated_host input (rq_Now r) old)) (h_Address old) (h_Port old)
      (h_Username (updated_host input (rq_Now r) old)) (h_Labels (updated_host input (rq_Now r) old)) (ac_AllowPrivateTargets c)"
  shows "\<exists>s' h. updateHost_write c r (Some input) pr old s = (s', Reply 200 h) \<and> map_of (m_hosts (api_repo s')) (h_ID old) = Some h
    \<and> h_HostKey h = h_HostKey old \<and> h_Address h = h_Address old \<and> h_Port h = h_Port old \<and> h_Version h = h_Version current + 1"
proof -
  let ?h = "updated_host input (rq_Now r) old"
  have h: "h_ID ?h = h_ID old" "h_Address ?h = h_Address old" "h_Port ?h = h_Port old" "h_HostKey ?h = h_HostKey old"
      "h_Version ?h = h_Version current + 1"
    using assms(2, 4, 5) by (simp_all add: updated_host_def Let_def)
  let ?m = "api_repo s\<lparr>m_hosts := put (m_hosts (api_repo s)) (h_ID old) ?h\<rparr>"
  have "UpdateHost (api_repo s) ?h (up_Version input) = Inr ?m"
    using assms(1, 2) by (simp add: UpdateHost_def h)
  then have "\<exists>s'. updateHost_write c r (Some input) pr old s = (s', Reply 200 ?h) \<and> api_hosts s' = m_hosts ?m"
    using assms(2, 3, 6) by (simp add: updateHost_write_def Let_def h)
  with h show ?thesis
    by auto
qed

theorem stale_update_restores_key_witness:
  "\<exists>s' h. updateHost_write demo_api_config demo_request
      (Some \<lparr>up_Version = 2, up_Name = None, up_Address = None, up_Port = None, up_Username = None, up_Labels = None\<rparr>) demo_admin
      (demo_host\<lparr>h_HostKey := Some (demo_pin ''SHA256:old'')\<rparr>)
      \<lparr>api_repo = NewMemory\<lparr>m_hosts := [(h_ID demo_host, demo_host\<lparr>h_HostKey := Some (demo_pin ''SHA256:new''), h_Version := 2\<rparr>)]\<rparr>,
       api_sessions = [], api_jobCancels = [], api_probes = 0, api_auditFailed = False\<rparr> = (s', Reply 200 h)
    \<and> map_of (m_hosts (api_repo s')) (h_ID demo_host) = Some h \<and> h_HostKey h = Some (demo_pin ''SHA256:old'')"
proof -
  let ?old = "demo_host\<lparr>h_HostKey := Some (demo_pin ''SHA256:old'')\<rparr>"
  let ?new = "demo_host\<lparr>h_HostKey := Some (demo_pin ''SHA256:new''), h_Version := 2\<rparr>"
  let ?input = "\<lparr>up_Version = 2, up_Name = None, up_Address = None, up_Port = None, up_Username = None, up_Labels = None\<rparr>"
  let ?s = "\<lparr>api_repo = NewMemory\<lparr>m_hosts := [(h_ID demo_host, ?new)]\<rparr>, api_sessions = [], api_jobCancels = [], api_probes = 0, api_auditFailed = False\<rparr>"
  have "map_of (m_hosts (api_repo ?s)) (h_ID ?old) = Some ?new" "up_Version ?input = h_Version ?new" "h_Version ?new \<noteq> 0"
      "up_Address ?input = None" "up_Port ?input = None"
    by simp_all
  moreover have "validateHost (h_Name (updated_host ?input (rq_Now demo_request) ?old)) (h_Address ?old) (h_Port ?old)
      (h_Username (updated_host ?input (rq_Now demo_request) ?old)) (h_Labels (updated_host ?input (rq_Now demo_request) ?old))
      (ac_AllowPrivateTargets demo_api_config)"
    by (simp add: updated_host_def demo_host_def demo_valid_host)
  ultimately show ?thesis
    using stale_update_restores_key [of ?s ?old ?new ?input demo_request demo_api_config demo_admin] by auto
qed

end
