(* ===== verification/Spec2Isabelle.thy ===== *)
theory Spec2Isabelle
  imports Auth Identity Stepup Connector_Auth Audit_Sanitize Store Webssh_Gateway Api_Server
begin

text \<open>
  VPS manager: a verification development of the Go services under \<^verbatim>\<open>src/services\<close>.

  \<^bold>\<open>The program.\<close> A control plane keeps an inventory of hosts with their pinned host keys and sealed
  credentials, and lets principals with roles inspect and operate them. It never opens an SSH connection
  itself: a separate connector does, on requests that the control plane signs. Three flows cross the boundary.
  A snapshot or a command is one signed request. A runbook is a plan from a reviewed catalogue, executed
  under an approval bound to one digest. A terminal session exchanges a browser ticket at the gateway of the
  control plane for a connector ticket, and two relays then pass messages between the browser, the gateway
  and the connector. Secrets are sealed in envelopes whose data keys a key manager wraps.

  \<^bold>\<open>Theories.\<close> File names are relative to \<^verbatim>\<open>src/services\<close>; a definition has the name of the function or type it
  models, with a prefix where two packages share a name (\<^verbatim>\<open>gw_\<close> for the gateway, for instance).

  \<^item> \<^verbatim>\<open>Go_Prelude\<close>, \<^verbatim>\<open>Go_Strings\<close>, \<^verbatim>\<open>Go_Codec\<close>, \<^verbatim>\<open>Go_Text\<close>, \<^verbatim>\<open>Go_Netip\<close>, \<^verbatim>\<open>Go_Float\<close>: what the services use of
    the language and its library. Instants and durations are numbers of nanoseconds, maps are association
    lists with distinct keys, strings are lists of bytes with the UTF-8 decoder of the runtime; hexadecimal and
    base64 codes, SHA-256 and HMAC are executable; addresses are words of 32 and 128 bits; \<^verbatim>\<open>float64\<close> values
    are rationals rounded to the nearest double after every operation. Combinators for early returns and the
    lemmas on maps, codes and rounding that the other theories share are here.
  \<^item> \<^verbatim>\<open>Contracts\<close>: the interfaces as locales. \<^verbatim>\<open>ticket_store\<close> (a ticket is redeemed at most as often as it is
    issued) is interpreted by \<^verbatim>\<open>Stepup\<close>, \<^verbatim>\<open>Webssh_Connector\<close> and \<^verbatim>\<open>Webssh_Gateway\<close>; \<^verbatim>\<open>replay_guard\<close> (nothing is
    accepted twice while it is remembered) by \<^verbatim>\<open>Connector_Auth\<close> and \<^verbatim>\<open>Identity\<close>; \<^verbatim>\<open>versioned_store\<close> (a version
    is left once) by the hosts and deployments of \<^verbatim>\<open>Store\<close>. A fourth, \<^verbatim>\<open>key_manager\<close>, is in \<^verbatim>\<open>Envelope\<close>, with the
    development, in-memory and Vault managers as its interpretations.
  \<^item> \<^verbatim>\<open>Auth\<close> (\<^verbatim>\<open>control-plane/internal/auth\<close>): roles, permissions and sessions. \<^verbatim>\<open>Identity\<close>
    (\<^verbatim>\<open>control-plane/internal/identity\<close>): signed assertions of the login bridge. \<^verbatim>\<open>Stepup\<close>
    (\<^verbatim>\<open>control-plane/internal/stepup\<close>): tickets for sensitive actions.
  \<^item> \<^verbatim>\<open>Protocol_Types\<close> and \<^verbatim>\<open>Connector_Auth\<close> (\<^verbatim>\<open>connector-protocol\<close>): the messages between control plane and
    connector, and their signature, time window and nonces. \<^verbatim>\<open>Connector_Client\<close> (\<^verbatim>\<open>connector-protocol/client.go\<close>,
    \<^verbatim>\<open>runbook_client.go\<close>): the control plane's end.
  \<^item> \<^verbatim>\<open>Model\<close>, \<^verbatim>\<open>Audit_Sanitize\<close> and \<^verbatim>\<open>Store\<close> (\<^verbatim>\<open>control-plane/internal/model\<close>, \<^verbatim>\<open>audit\<close>, \<^verbatim>\<open>store\<close>): records, the job
    state machine, redaction of audit details, and every operation of the in-memory repository as a function
    on the record \<^verbatim>\<open>memory\<close>. A sequence of calls is a list of \<^verbatim>\<open>mem_call\<close> values.
  \<^item> \<^verbatim>\<open>Envelope\<close> (\<^verbatim>\<open>control-plane/internal/credentials\<close>, \<^verbatim>\<open>keymanager\<close>): envelopes and key managers.
  \<^item> \<^verbatim>\<open>Runbook\<close> (\<^verbatim>\<open>runbook\<close>): the catalogue with its scripts, plans and their execution.
  \<^item> \<^verbatim>\<open>Ssh_Connector\<close> (\<^verbatim>\<open>connector/sshconnector\<close>): destination policy, resolution, pinned keys, sessions and the
    output budget. The record \<^verbatim>\<open>network\<close> holds what the resolver, the dialer and the SSH package answer.
  \<^item> \<^verbatim>\<open>Connector_Server\<close>, \<^verbatim>\<open>Runbook_Service\<close>, \<^verbatim>\<open>Webssh_Connector\<close> (\<^verbatim>\<open>connector/service\<close>): the handlers of the
    connector, the ledger that starts a job once, and terminal sessions. A runbook execution is a
    \<^verbatim>\<open>begin_execute\<close> and a \<^verbatim>\<open>finish_execute\<close>, which \<^verbatim>\<open>service_step\<close> lets interleave.
  \<^item> \<^verbatim>\<open>Webssh_Gateway\<close> (\<^verbatim>\<open>websshgateway\<close>): the broker of browser tickets, the start of a session, both relays and
    the end of a session. Issuing a ticket is \<^verbatim>\<open>issue_begin\<close> and \<^verbatim>\<open>issue_finish\<close>, with others in between.
  \<^item> \<^verbatim>\<open>Host_Reports\<close> (\<^verbatim>\<open>control-plane/internal/snapshot\<close>, \<^verbatim>\<open>anomaly\<close>): the parsers of remote output and the rules on
    processes.
  \<^item> \<^verbatim>\<open>Api_Server\<close> (\<^verbatim>\<open>control-plane/internal/api/server.go\<close>): sessions, hosts, host keys, credentials, reading and
    cancelling jobs, audit events. A handler that reads a host and writes it back is two functions, and
    \<^verbatim>\<open>api_reach\<close> lets requests come in between.
  \<^item> This theory: the two flows that span components.

  \<^bold>\<open>What is shown.\<close>

  \<^item> End to end: a runbook reported as succeeded had a live approval for its exact binding and ran behind the
    approved keys (C1); the ticket exchanges of a terminal session fit together (C2).
  \<^item> Single use and replay: jobs (C3), browser and connector tickets (C4, C8), signed requests (C14, and the
    instant at which a replay is accepted after all, C26), assertions (C17), step-up tickets (C23), deployments (C20).
  \<^item> Who may do what: confirmed host keys (C5), host scope (C9), revocation and re-authorization (C10, C22),
    authentic assertions and verified step-up (C16, C19), the policy on destinations (C31) and how a zone
    passes it (C32).
  \<^item> Secrets: envelopes open only for their object (C6), the separated Vault identities of production (C37), redaction (C28).
  \<^item> Execution: pinned and complete command runs (C7), snapshots (C15), stop at the first failure (C11), reviewed
    plans (C29) and a guard of one of them that does not guard (C30), the end of all executions (C18).
  \<^item> Bounds and shapes: client input over every period (C33), what the relays pass on (C35, C36), parsers (C13,
    C38, C39), the repository (C12) and an update that undoes a change of a host (C40), and codes that bind their
    fields or fail to (C24, C27, C34).
  \<^item> Round trips: tokens (C21) and signatures (C25).

  \<^bold>\<open>Choices.\<close> Code outside the repository is an argument of the definitions that use it: JSON and URL parsing,
  Ed25519, AES-GCM, Vault, the SSH package, the network, the file system, the WebSocket package up to its
  frames, clocks and random bytes. Where a property relies on such code, the documented behaviour is a
  hypothesis with a name (\<^verbatim>\<open>honours_callback\<close>: a handshake succeeds only with a key the callback accepts;
  \<^verbatim>\<open>reports_copy_errors\<close>: a failed write of output fails the session; \<^verbatim>\<open>gcm_correct\<close>: opening what was sealed gives the text back), and a
  witness instantiates it. Functions of a critical section are atomic; what happens outside one is split at
  the places where another goroutine can come in. \<^verbatim>\<open>AuthorizeSession\<close> reads the clock once, where the code reads
  it for every session it passes. No definition has fuel: the loop that shortens a token is a
  \<^verbatim>\<open>partial_function\<close> and is shown to return (C13), every other recursion is on a list or a decreasing measure.
  The theorem on client input (C33) states what rounding adds: less than 1/2^20 of a byte for each message and
  a factor of 1 + 1/2^50, for the configured limits of at most 4 MiB per second; doubles hold every integer
  below 2^53, far above any count here. \<^verbatim>\<open>float64\<close> operations are rounded one by one, as on platforms without
  fused multiplication and addition. Limits of the reads on WebSockets are part of the relays. Wiping of
  memory, texts for people and response headers do not show in values and are left out.

  \<^bold>\<open>Not modelled.\<close> Creating jobs and running them in goroutines (\<^verbatim>\<open>api/operations.go\<close>, \<^verbatim>\<open>api/runbooks.go\<close> and the
  snapshot jobs of \<^verbatim>\<open>api/server.go\<close>): the state machine, repository and connector calls they use are modelled,
  their scheduling against cancellation and shutdown is not. The WebSSH and Cloudflare handlers of the
  control plane (\<^verbatim>\<open>api/webssh.go\<close>, \<^verbatim>\<open>api/cloudflare.go\<close>, \<^verbatim>\<open>api/cloudflare_execution.go\<close>). The PostgreSQL repository
  and \<^verbatim>\<open>persistence\<close>, whose meaning is that of SQL and Redis servers. \<^verbatim>\<open>cloudflareprovider\<close>, \<^verbatim>\<open>ai\<close> and \<^verbatim>\<open>aianalysis\<close>, clients
  of external services. The commands under \<^verbatim>\<open>cmd\<close>, which read the environment and wire the parts. The terminal
  transport (\<^verbatim>\<open>connector/webssh/pty.go\<close>) and \<^verbatim>\<open>connection_context.go\<close>, calls of the SSH and network packages. The
  web front end in TypeScript and the SQL migrations.
\<close>

section \<open>From the signed request to the remote command\<close>

lemma replayed_when_not_begun:
  assumes "begin_execute ps fpk fps decode h now r i = (h', Inl (Replied 200 resp))"
  shows "er_IdempotentReplay resp"
  using assms
  by (auto simp: begin_execute_def execute_checks_def authenticateRunbook_def authenticate_body_def
      split: prod.splits sum.splits option.splits if_splits runbookClaim.splits)

lemma handleExecute_fresh:
  assumes "handleExecute ps fpk fps decode runner h now r i = (h', Replied 200 resp)" and "\<not> er_IdempotentReplay resp"
  obtains h1 p where "begin_execute ps fpk fps decode h now r i = (h1, Inr p)" "finish_execute runner h1 p = (h', Replied 200 resp)"
  using assms replayed_when_not_begun
  by (fastforce simp: handleExecute_def split: prod.splits sum.splits)

lemma ssh_step_ok:
  assumes "step_ok (ssh_runner nw cfg el ca s)"
  obtains r t where "Run nw (cfg\<lparr>cfg_CommandTimeout := t\<rparr>) \<lparr>c_id = ''runbook:'' @ s_id s, c_script = s_command s\<rparr> = (r, None)"
    "r = fst (RunRunbookStep nw cfg s)"
proof -
  let ?c = "\<lparr>c_id = ''runbook:'' @ s_id s, c_script = s_command s\<rparr>"
  have self: "cfg = cfg\<lparr>cfg_CommandTimeout := cfg_CommandTimeout cfg\<rparr>"
    by simp
  define t where "t = (if s_timeout s > 0 \<and> (cfg_CommandTimeout cfg \<le> 0 \<or> s_timeout s < cfg_CommandTimeout cfg) then s_timeout s else cfg_CommandTimeout cfg)"
  have "snd (RunRunbookStep nw cfg s) = None"
    using assms by (auto simp: step_ok_def ssh_runner_def split: prod.splits)
  then have "\<exists>r. Run nw (cfg\<lparr>cfg_CommandTimeout := t\<rparr>) ?c = (r, None) \<and> r = fst (RunRunbookStep nw cfg s)"
    using self by (auto simp: RunRunbookStep_def t_def translateRunbookError_def Let_def split: if_splits prod.splits)
  then show ?thesis
    using that by blast
qed

lemma reported_step:
  assumes "step_ok (ssh_runner nw cfg el ca s)"
  defines "x \<equiv> step_response (step_result s (ssh_runner nw cfg el ca s))"
  shows "sr_ID x = s_id s" "sr_ExitCode x = 0" "sr_Stdout x = r_Stdout (fst (RunRunbookStep nw cfg s))"
    "sr_Stderr x = r_Stderr (fst (RunRunbookStep nw cfg s))"
  using assms(1) by (simp_all add: x_def step_response_def step_result_def Let_def ssh_runner_def step_ok_def split: prod.splits)

text \<open>What a valid approval says, and the digest of a bound plan with its fields in the open.\<close>

lemma approval_live:
  assumes "validateApproval q d digest now"
  shows "ap_Decision (eq_Approval q) = ''approved'' \<and> ap_Action (eq_Approval q) = rb_Action (eq_Binding q)
    \<and> ap_HostID (eq_Approval q) = rb_HostID (eq_Binding q) \<and> ap_JobID (eq_Approval q) = rb_JobID (eq_Binding q)
    \<and> ap_ApprovedAt (eq_Approval q) \<le> now + 30 * second \<and> now < ap_ExpiresAt (eq_Approval q)
    \<and> ap_ExpiresAt (eq_Approval q) \<le> ap_ApprovedAt (eq_Approval q) + 15 * minute \<and> ap_ScopeDigest (eq_Approval q) = digest
    \<and> (df_Emergency d \<longrightarrow> eg_IncidentID (eq_Emergency q) \<noteq> [] \<and> now < eg_ExpiresAt (eq_Emergency q) \<and> eg_ExpiresAt (eq_Emergency q) \<le> now + 4 * hour)"
  using assms by (auto simp: validateApproval_def Let_def validIdentifier_def maxApprovalLifetime_def maxEmergencyLifetime_def split: if_splits)

lemma approved_digest:
  assumes "buildBoundPlan v b = Inr (pl, digest)"
  shows "digest = hex_encode (sha256 (join [CHR 0x0A]
    [hex_encode (sha256 (join [CHR 0x0A]
       [CatalogVersion, ra_ID (rb_Action b), format_int (ra_Version (rb_Action b)), rb_HostID b, rb_JobID b, rp_Service (rb_Parameters b),
        rp_Timezone (rb_Parameters b), format_int (rp_PID (rb_Parameters b)), format_nat (unat (rp_ProcessStartTicks (rb_Parameters b)))])),
     t_Address (rb_Target b), format_int (t_Port (rb_Target b)), t_User (rb_Target b), rb_PinnedHostKeySHA256 b, rb_CredentialPublicKeySHA256 b]))"
proof -
  have built: "Build (ra_ID (rb_Action b)) (ra_Version (rb_Action b)) (rb_Parameters b) = Inr pl"
    and "digest = bound_digest (hex_encode (sha256 (join [CHR 0x0A] (scope_fields (rb_HostID b) (rb_JobID b) pl)))) b"
    using buildBoundPlan_Inr [OF assms] by blast+
  moreover have "df_ID (p_definition pl) = ra_ID (rb_Action b)" "df_Version (p_definition pl) = ra_Version (rb_Action b)"
      "p_parameters pl = rb_Parameters b"
    using Build_fields [OF built] by simp_all
  ultimately show ?thesis
    by (simp add: bound_digest_def bound_fields_def scope_fields_def)
qed

text \<open>
  C1. A runbook that the connector reports as succeeded was requested by the control plane with a live
  approval for exactly this operation: approved at most 30 seconds ahead of the connector's clock and not yet
  expired, for a quarter of an hour at most, for the action, the host and the job of the binding, and with
  the digest of the action, its version, host, job and parameters, the target and the two fingerprints, as
  the binding has them. Its plan is the plan of the reviewed catalogue for this action and these parameters;
  an emergency action came with an incident and a grant that had not expired; and every step ran on the
  address the target resolves to and the policy admits, behind the host key and with the credential whose
  fingerprints the binding names, and its reported output is what the command wrote. Replays of a recorded
  result are marked.
\<close>

theorem approved_runbook_end_to_end:
  assumes "honours_callback nw" and "reports_copy_errors nw"
    and "handleExecute ps fpk fps decode (\<lambda>_ cfg. ssh_runner nw cfg el ca) h now r i = (h', Replied 200 resp)"
    and "er_Status resp = ''succeeded''" and "\<not> er_IdempotentReplay resp"
  shows "\<exists>v q pl pinned sig. Verify (rh_verifier h) now (Some (cr_Http r)) (cr_Body r) = (v, None) \<and> decode (cr_Body r) = Some q
    \<and> er_Binding resp = eq_Binding q
    \<and> ap_Decision (eq_Approval q) = ''approved'' \<and> ap_Action (eq_Approval q) = rb_Action (eq_Binding q)
    \<and> ap_HostID (eq_Approval q) = rb_HostID (eq_Binding q) \<and> ap_JobID (eq_Approval q) = rb_JobID (eq_Binding q)
    \<and> ap_ApprovedAt (eq_Approval q) \<le> now + 30 * second \<and> now < ap_ExpiresAt (eq_Approval q)
    \<and> ap_ExpiresAt (eq_Approval q) \<le> ap_ApprovedAt (eq_Approval q) + 15 * minute
    \<and> ap_ScopeDigest (eq_Approval q) = er_ScopeDigest resp
    \<and> er_ScopeDigest resp = hex_encode (sha256 (join [CHR 0x0A]
        [hex_encode (sha256 (join [CHR 0x0A]
           [CatalogVersion, ra_ID (rb_Action (eq_Binding q)), format_int (ra_Version (rb_Action (eq_Binding q))), rb_HostID (eq_Binding q),
            rb_JobID (eq_Binding q), rp_Service (rb_Parameters (eq_Binding q)), rp_Timezone (rb_Parameters (eq_Binding q)),
            format_int (rp_PID (rb_Parameters (eq_Binding q))), format_nat (unat (rp_ProcessStartTicks (rb_Parameters (eq_Binding q))))])),
         t_Address (rb_Target (eq_Binding q)), format_int (t_Port (rb_Target (eq_Binding q))), t_User (rb_Target (eq_Binding q)),
         rb_PinnedHostKeySHA256 (eq_Binding q), rb_CredentialPublicKeySHA256 (eq_Binding q)]))
    \<and> (df_Emergency (p_definition pl) \<longrightarrow> eg_IncidentID (eq_Emergency q) \<noteq> [] \<and> now < eg_ExpiresAt (eq_Emergency q)
        \<and> eg_ExpiresAt (eq_Emergency q) \<le> now + 4 * hour)
    \<and> Build (ra_ID (rb_Action (eq_Binding q))) (ra_Version (rb_Action (eq_Binding q))) (rb_Parameters (eq_Binding q)) = Inr pl
    \<and> (df_Mutating (p_definition pl) \<longrightarrow> rh_mutationsEnabled h)
    \<and> fpk pinned = rb_PinnedHostKeySHA256 (eq_Binding q) \<and> fps sig = rb_CredentialPublicKeySHA256 (eq_Binding q)
    \<and> map sr_ID (er_Steps resp) = map s_id (p_steps pl)
    \<and> (\<forall>s \<in> set (p_steps pl). \<exists>ip conn key l t.
          resolveTarget (nw_lookup nw) (t_Address (rb_Target (eq_Binding q))) (rh_allowPrivateTargets h) = Inr ip
        \<and> targetAllowed ip (rh_allowPrivateTargets h) \<and> nw_dial nw ip (t_Port (rb_Target (eq_Binding q))) = Inr conn
        \<and> nw_handshake nw conn (join_host_port (t_Address (rb_Target (eq_Binding q))) (t_Port (rb_Target (eq_Binding q))))
            (t_User (rb_Target (eq_Binding q))) (Some sig) (PinnedHostKeyCallback (nw_marshal nw) (Some pinned)) = (Some key, Inr l)
        \<and> nw_marshal nw key = nw_marshal nw pinned
        \<and> (let ws = se_writes (nw_session nw l (s_command s) t (if rh_outputLimit h \<le> 0 then 2 ^ 20 else rh_outputLimit h)) in
           \<exists>res \<in> set (er_Steps resp). sr_ID res = s_id s \<and> sr_ExitCode res = 0 \<and> sr_Stdout res = stream_output Stdout ws \<and> sr_Stderr res = stream_output Stderr ws))"
proof -
  let ?runner = "\<lambda>_ cfg. ssh_runner nw cfg el ca"
  from assms(3,5) obtain h1 p where b: "begin_execute ps fpk fps decode h now r i = (h1, Inr p)" and f: "finish_execute ?runner h1 p = (h', Replied 200 resp)"
    by (rule handleExecute_fresh)
  from b obtain v l c where c: "Verify (rh_verifier h) now (Some (cr_Http r)) (cr_Body r) = (v, None)" "decode (cr_Body r) = Some (pe_Request p)"
      "buildBoundPlan (eq_ProtocolVersion (pe_Request p)) (eq_Binding (pe_Request p)) = Inr (pe_Plan p, pe_Digest p)"
      "df_Mutating (p_definition (pe_Plan p)) \<longrightarrow> rh_mutationsEnabled h"
      "validateApproval (pe_Request p) (p_definition (pe_Plan p)) (pe_Digest p) now"
      "validateRunbookSSHMaterial ps fpk fps (pe_Request p) = Some (pe_Pinned p, pe_Signer p)"
      "h1 = h\<lparr>rh_verifier := v, rh_inUse := rh_inUse h + 1, rh_ledger := l\<rparr>"
    by (rule begin_execute_Inr)
  let ?q = "pe_Request p" and ?b = "eq_Binding (pe_Request p)" and ?pl = "pe_Plan p" and ?cfg = "runbook_config h1 p"
  let ?ok = "\<lambda>s. step_ok (ssh_runner nw ?cfg el ca s)"
  note built = buildBoundPlan_Inr [OF c(3), THEN conjunct2, THEN conjunct2, THEN conjunct2, THEN conjunct1]
  note n = takeWhile_short [of ?ok "p_steps ?pl"]
  from f assms(4) have all: "\<not> length (takeWhile ?ok (p_steps ?pl)) < length (p_steps ?pl)"
    by (auto simp: finish_execute_def Let_def Execute_built [OF built] run_steps_prefix split: if_splits)
  then have ok: "\<forall>s \<in> set (p_steps ?pl). ?ok s" and len: "length (takeWhile ?ok (p_steps ?pl)) = length (p_steps ?pl)"
    using n length_takeWhile_le [of ?ok "p_steps ?pl"] by (auto simp: list_all_iff)
  from f have resp: "er_Binding resp = ?b" "er_ScopeDigest resp = pe_Digest p"
      "er_Steps resp = map (\<lambda>s. step_response (step_result s (ssh_runner nw ?cfg el ca s))) (p_steps ?pl)"
    by (auto simp: finish_execute_def Let_def Execute_built [OF built] run_steps_prefix len comp_def)
  have "\<exists>ip conn key l t. resolveTarget (nw_lookup nw) (t_Address (rb_Target ?b)) (rh_allowPrivateTargets h) = Inr ip
        \<and> targetAllowed ip (rh_allowPrivateTargets h) \<and> nw_dial nw ip (t_Port (rb_Target ?b)) = Inr conn
        \<and> nw_handshake nw conn (join_host_port (t_Address (rb_Target ?b)) (t_Port (rb_Target ?b)))
            (t_User (rb_Target ?b)) (Some (pe_Signer p)) (PinnedHostKeyCallback (nw_marshal nw) (Some (pe_Pinned p))) = (Some key, Inr l)
        \<and> nw_marshal nw key = nw_marshal nw (pe_Pinned p)
        \<and> (let ws = se_writes (nw_session nw l (s_command s) t (if rh_outputLimit h \<le> 0 then 2 ^ 20 else rh_outputLimit h)) in
           \<exists>res \<in> set (er_Steps resp). sr_ID res = s_id s \<and> sr_ExitCode res = 0 \<and> sr_Stdout res = stream_output Stdout ws \<and> sr_Stderr res = stream_output Stderr ws)"
    if s: "s \<in> set (p_steps ?pl)" for s
  proof -
    from ok s have sok: "?ok s" ..
    then obtain res t where run: "Run nw (?cfg\<lparr>cfg_CommandTimeout := t\<rparr>) \<lparr>c_id = ''runbook:'' @ s_id s, c_script = s_command s\<rparr> = (res, None)"
        "res = fst (RunRunbookStep nw ?cfg s)"
      by (rule ssh_step_ok)
    let ?x = "step_response (step_result s (ssh_runner nw ?cfg el ca s))"
    have x: "?x \<in> set (er_Steps resp)" "sr_ID ?x = s_id s" "sr_ExitCode ?x = 0" "sr_Stdout ?x = r_Stdout res" "sr_Stderr ?x = r_Stderr res"
      using s resp(3) reported_step [OF sok] run(2) by auto
    have cfg: "cfg_AllowPrivateTargets ?cfg = rh_allowPrivateTargets h" "cfg_Port ?cfg = t_Port (rb_Target ?b)"
        "cfg_Address ?cfg = t_Address (rb_Target ?b)" "cfg_User ?cfg = t_User (rb_Target ?b)" "cfg_Auth ?cfg = Some (pe_Signer p)"
        "cfg_PinnedHostKey ?cfg = Some (pe_Pinned p)"
        "cfg_MaxOutputBytes (run_defaults (?cfg\<lparr>cfg_CommandTimeout := t\<rparr>)) = (if rh_outputLimit h \<le> 0 then 2 ^ 20 else rh_outputLimit h)"
      by (simp_all add: runbook_config_def Let_def c(7) run_defaults_def)
    from Run_success_resolved [OF assms(1,2) run(1)] obtain ip conn key l where
        "resolveTarget (nw_lookup nw) (t_Address (rb_Target ?b)) (rh_allowPrivateTargets h) = Inr ip"
        "targetAllowed ip (rh_allowPrivateTargets h)" "nw_dial nw ip (t_Port (rb_Target ?b)) = Inr conn"
        "nw_handshake nw conn (join_host_port (t_Address (rb_Target ?b)) (t_Port (rb_Target ?b)))
            (t_User (rb_Target ?b)) (Some (pe_Signer p)) (PinnedHostKeyCallback (nw_marshal nw) (Some (pe_Pinned p))) = (Some key, Inr l)"
        "nw_marshal nw key = nw_marshal nw (pe_Pinned p)"
        "let ws = se_writes (nw_session nw l (s_command s) (cfg_CommandTimeout (run_defaults (?cfg\<lparr>cfg_CommandTimeout := t\<rparr>)))
           (if rh_outputLimit h \<le> 0 then 2 ^ 20 else rh_outputLimit h))
         in r_Stdout res = stream_output Stdout ws \<and> r_Stderr res = stream_output Stderr ws"
      by (auto simp add: cfg simp del: if_split)
    with x show ?thesis
      unfolding Let_def by metis
  qed
  moreover have "map sr_ID (er_Steps resp) = map s_id (p_steps ?pl)"
    by (simp add: resp(3) step_response_def step_result_def Let_def)
  moreover have "fpk (pe_Pinned p) = rb_PinnedHostKeySHA256 ?b" "fps (pe_Signer p) = rb_CredentialPublicKeySHA256 ?b"
    using c(6) by (auto simp: validateRunbookSSHMaterial_def split: if_splits sum.splits option.splits)
  moreover note approval_live [OF c(5)] approved_digest [OF c(3)]
  ultimately show ?thesis
    using c(1,2,4) resp(1,2) built by metis
qed


lemma demo_step_ok:
  assumes "IsReviewedCatalogStep s" and "trim_space (s_command s) \<noteq> []"
    and cfg: "cfg_Address cfg = ''8.8.8.8''" "cfg_Port cfg = 22" "cfg_User cfg = ''ops''" "cfg_Auth cfg = Some ()" "cfg_PinnedHostKey cfg = Some ''key''"
      "cfg_MaxOutputBytes cfg = 1048576" "\<not> cfg_AllowPrivateTargets cfg"
  shows "step_ok (ssh_runner (demo_network ''key'' [(Stdout, ''ok'')]) cfg el ca s)"
proof -
  have trims: "trim_space ''8.8.8.8'' = ''8.8.8.8''" "trim_space ''ops'' = ''ops''"
    by (simp_all add: trim_eval)
  have ne: "s_command s \<noteq> []"
    using assms(2) by (auto simp: trim_eval)
  have "\<exists>r. Run (demo_network ''key'' [(Stdout, ''ok'')]) (cfg\<lparr>cfg_CommandTimeout := t\<rparr>) \<lparr>c_id = ''runbook:'' @ s_id s, c_script = s_command s\<rparr> = (r, None)
      \<and> r_ExitCode r = 0" for t
    using cfg assms(2) trims
    by (simp add: Run_def validateConfig_def run_defaults_def resolveTarget_def demo_address demo_address_allowed
      demo_network_def runSession_def PinnedHostKeyCallback_def Let_def write_all_def Write_def newOutputBudget_def)
  from this [of "s_timeout s"] this [of "cfg_CommandTimeout cfg"] show ?thesis
    using assms(1) ne by (auto simp: step_ok_def ssh_runner_def RunRunbookStep_def translateRunbookError_def Let_def)
qed


lemma demo_plan_steps:
  assumes "Build ActionCapabilities 1 no_parameters = Inr pl" and "s \<in> set (p_steps pl)"
  shows "IsReviewedCatalogStep s" "trim_space (s_command s) \<noteq> []"
proof -
  have cmd: "trim_space capabilitiesCommand \<noteq> []" "trim_space ''LC_ALL=C id -u; uname -sr'' \<noteq> []"
    by (simp_all add: trim_eval capabilitiesCommand_def)
  obtain ss where ss: "buildSteps ActionCapabilities no_parameters = Inr (ss, no_parameters)" "p_steps pl = map (\<lambda>s. s\<lparr>s_seal := sealStep s\<rparr>) ss"
    using assms(1) by (rule Build_Inr) auto
  from ss(1) have "ss = readOnlySteps ''capabilities'' ''collect supported host tools'' capabilitiesCommand"
    by (simp add: buildSteps_def no_parameters_def result_simps)
  with ss(2) assms(2) cmd show "trim_space (s_command s) \<noteq> []"
    by (auto simp: readOnlySteps_def newStep_def)
  from ss(2) assms(2) show "IsReviewedCatalogStep s"
    by (auto simp: reviewed_sealed)
qed

theorem approved_runbook_end_to_end_witness:
  "\<exists>h' resp. handleExecute demo_parsers (\<lambda>_. demo_fingerprint) (\<lambda>_. demo_fingerprint) (\<lambda>_. Some demo_execute_request) demo_runner demo_handler
      (31 * second) demo_conn_request ''r'' = (h', Replied 200 resp)
    \<and> er_Status resp = ''succeeded'' \<and> ap_ScopeDigest (eq_Approval demo_execute_request) = er_ScopeDigest resp"
proof -
  let ?nw = "demo_network ''key'' [(Stdout, ''ok'')]"
  obtain h1 p where b: "begin_execute demo_parsers (\<lambda>_. demo_fingerprint) (\<lambda>_. demo_fingerprint) (\<lambda>_. Some demo_execute_request) demo_handler
      (31 * second) demo_conn_request ''r'' = (h1, Inr p)" and pl: "Build ActionCapabilities 1 no_parameters = Inr (pe_Plan p)"
      and pin: "pe_Pinned p = ''key''" "pe_Request p = demo_execute_request"
    by (rule demo_begin)
  from b obtain v l where h1: "h1 = demo_handler\<lparr>rh_verifier := v, rh_inUse := rh_inUse demo_handler + 1, rh_ledger := l\<rparr>"
    by (rule begin_execute_Inr)
  let ?cfg = "runbook_config h1 p"
  have ok: "list_all (\<lambda>s. step_ok (ssh_runner ?nw ?cfg (\<lambda>_. 1) (\<lambda>_. False) s)) (p_steps (pe_Plan p))"
    unfolding list_all_iff
  proof
    fix s
    assume "s \<in> set (p_steps (pe_Plan p))"
    from demo_plan_steps [OF pl this] show "step_ok (ssh_runner ?nw ?cfg (\<lambda>_. 1) (\<lambda>_. False) s)"
      by (rule demo_step_ok) (simp_all add: runbook_config_def h1 demo_handler_def pin demo_execute_request_def demo_binding_def)
  qed
  then have "\<not> length (takeWhile (\<lambda>s. step_ok (ssh_runner ?nw ?cfg (\<lambda>_. 1) (\<lambda>_. False) s)) (p_steps (pe_Plan p))) < length (p_steps (pe_Plan p))"
    using takeWhile_short by blast
  then obtain h' resp where f: "finish_execute (\<lambda>_ cfg. ssh_runner ?nw cfg (\<lambda>_. 1) (\<lambda>_. False)) h1 p = (h', Replied 200 resp)"
      "er_Status resp = ''succeeded''" "\<not> er_IdempotentReplay resp"
    by (simp add: finish_execute_def Let_def Execute_built [OF pl] run_steps_prefix)
  from b f(1) have e: "handleExecute demo_parsers (\<lambda>_. demo_fingerprint) (\<lambda>_. demo_fingerprint) (\<lambda>_. Some demo_execute_request)
      (\<lambda>_ cfg. ssh_runner ?nw cfg (\<lambda>_. 1) (\<lambda>_. False)) demo_handler (31 * second) demo_conn_request ''r'' = (h', Replied 200 resp)"
    by (simp add: handleExecute_def)
  have runner: "demo_runner = (\<lambda>_ cfg. ssh_runner ?nw cfg (\<lambda>_. 1) (\<lambda>_. False))"
    by (simp add: demo_runner_def fun_eq_iff)
  from approved_runbook_end_to_end [OF demo_network_honest e f(2,3)] show ?thesis
    unfolding runner using e f(2) by auto
qed

section \<open>From the browser's hello to the connector's session\<close>

text \<open>
  C2. The two ticket exchanges fit together: when the connector issues a ticket for the gateway's request and
  the gateway a browser ticket for it, a browser that repeats the ticket, the connection and the binding,
  with its roles in any order, before the expiry is admitted if it is still authorized; and what the gateway
  then sends to the connector redeems there the ticket for exactly the target, host key and credential of
  the request.
\<close>

theorem webssh_handoff:
  assumes "createTicket m issuedAt (Some tb) (Some sb) (connector_request p\<lparr>wq_ProtocolVersion := ProtocolVersion\<rparr>) i = (m', Inr r)"
    and "length tb = 32" and "dr_response d = Some r" and "issue_finish b p d = (b', es, Inr resp)" and "length (the (dr_browserRaw d)) = 32"
    and "decode body = Some \<lparr>he_Type = ''hello'', he_Ticket = ir_Ticket resp, he_ConnectionID = ir_ConnectionID resp, he_Binding = bnd\<rparr>"
    and "normalizeBinding bnd = Some (pi_binding p)" and "authz (issue_authorization p)"
    and "now < ir_ExpiresAt resp" and "connectorNow < wp_ExpiresAt r" and "wf_map (gb_tickets b)" and "wf_map (wm_tickets m)"
  shows "\<exists>b'' es' t m'' ct. serveSession_start decode authz (Dialed WebSSHSubprotocol True) b' now (TextFrame body) = (b'', es', GwRelay t (connector_hello t))
    \<and> consumeTicket m' connectorNow (connector_hello t) = (m'', Inr ct)
    \<and> wt_target ct = iq_Target (pi_request p) \<and> wt_pinnedHostKey ct = iq_PinnedHostKey (pi_request p)
    \<and> wt_credential ct = iq_Credential (pi_request p) \<and> wt_initialSize ct = iq_InitialSize (pi_request p)"
proof -
  let ?hello = "\<lparr>he_Type = ''hello'', he_Ticket = ir_Ticket resp, he_ConnectionID = ir_ConnectionID resp, he_Binding = bnd\<rparr>"
  let ?q = "connector_request p\<lparr>wq_ProtocolVersion := ProtocolVersion\<rparr>"
  from assms(4) obtain h v t where f: "new_ticket b p d = Inr (h, v, t)"
      "b' = (gw_pruneLocked b (dr_stored d))\<lparr>gb_tickets := put (gb_tickets (gw_pruneLocked b (dr_stored d))) h t\<rparr>"
      "ir_Ticket resp = v" "ir_ConnectionID resp = bt_connectionID t" "ir_ExpiresAt resp = bt_expiresAt t"
    by (cases rule: issue_finish_cases [where b = b and p = p and d = d]) auto
  from f(1) assms(3) obtain raw where t: "dr_browserRaw d = Some raw" "h = sha256 raw" "v = b64_encode raw" "bt_binding t = pi_binding p"
      "bt_reason t = iq_Reason (pi_request p)" "bt_upstreamTicket t = wp_Ticket r" "bt_upstreamSession t = wp_SessionID r"
      "bt_connectorBinding t = wq_Binding (connector_request p)"
    by (elim new_ticket_Inr) auto
  have hash: "gw_hello_hash ?hello = Some h"
    using assms(5) t(1-3) f(3) by (simp add: gw_hello_hash_def b64_decode_encode)
  have held: "map_of (gb_tickets (gw_pruneLocked b' now)) h = Some t"
    using f(2,5) assms(9,11) by (simp add: gw_prune_tickets)
  have admitted: "\<exists>b''. gw_consumeTicket b' now ?hello = (b'', Inr t)"
    using hash held assms(7,9) f(4,5) t(4) by (simp add: gw_consumeTicket_def Let_def gw_sameBinding_iff)
  have az: "ticket_authorization t = issue_authorization p"
    using t by (simp add: ticket_authorization_def issue_authorization_def)
  have start: "\<exists>b'' es'. serveSession_start decode authz (Dialed WebSSHSubprotocol True) b' now (TextFrame body) = (b'', es', GwRelay t (connector_hello t))"
    using admitted assms(6,8) az by (auto simp: serveSession_start_def Let_def)
  from assms(1) have c: "wp_Ticket r = b64_encode tb" "wp_SessionID r = b64_encode sb" "wp_ExpiresAt r = issuedAt + wm_ticketTTL m"
      "m' = (pruneLocked m issuedAt)\<lparr>wm_tickets := put (wm_tickets (pruneLocked m issuedAt)) (sha256 tb) (new_webssh_ticket m issuedAt sb ?q)\<rparr>"
    by (auto elim: createTicket_Inr)
  have hash': "hello_hash (connector_hello t) = Some (sha256 tb)"
    using assms(2) t(6) c(1) by (simp add: hello_hash_def connector_hello_def b64_decode_encode)
  have held': "map_of (wm_tickets (pruneLocked m' connectorNow)) (sha256 tb) = Some (new_webssh_ticket m issuedAt sb ?q)"
    using c(3,4) assms(10,12) by (subst prune_tickets) (simp_all add: new_webssh_ticket_def pruneLocked_def)
  have "\<exists>m''. consumeTicket m' connectorNow (connector_hello t) = (m'', Inr (new_webssh_ticket m issuedAt sb ?q))"
    using hash' held' c(2,3) assms(10) t(7,8)
    by (simp add: consumeTicket_def Let_def new_webssh_ticket_def sameString_def sameBinding_def connector_hello_def connector_request_def)
  with start show ?thesis
    by (auto simp: new_webssh_ticket_def connector_request_def)
qed

lemma demo_finished:
  obtains b' es resp where
    "issue_finish demo_broker \<lparr>pi_binding = demo_gw_binding [''a'', ''b''], pi_request = demo_issue\<rparr> demo_draw = (b', es, Inr resp)"
    "ir_ExpiresAt resp = 20 * second + 1"
proof -
  have response: "validateConnectorResponse (the (dr_response demo_draw)) 1"
    by (simp add: validateConnectorResponse_def demo_draw_def decodes_to_def b64_decode_encode minute_def second_def)
  then show ?thesis
    using that demo_broker_fields
    by (simp add: issue_finish_def new_ticket_def storeTicket_def gw_pruneLocked_def keep_def has_key_def demo_draw_def Let_def second_def result_simps)
qed

theorem webssh_handoff_witness:
  "\<exists>m' ct m''. createTicket demo_webssh 0 (Some (replicate 32 CHR ''u'')) (Some (replicate 16 CHR ''v''))
      (connector_request \<lparr>pi_binding = demo_gw_binding [''a'', ''b''], pi_request = demo_issue\<rparr>\<lparr>wq_ProtocolVersion := ProtocolVersion\<rparr>) ''r''
      = (m', Inr (the (dr_response demo_draw)))
    \<and> (\<exists>t. consumeTicket m' 7 (connector_hello t) = (m'', Inr ct)) \<and> wt_target ct = iq_Target demo_issue"
proof -
  let ?p = "\<lparr>pi_binding = demo_gw_binding [''a'', ''b''], pi_request = demo_issue\<rparr>"
  let ?r = "the (dr_response demo_draw)"
  obtain m' where c: "createTicket demo_webssh 0 (Some (replicate 32 CHR ''u'')) (Some (replicate 16 CHR ''v''))
      (connector_request ?p\<lparr>wq_ProtocolVersion := ProtocolVersion\<rparr>) ''r'' = (m', Inr ?r)"
    by (simp add: createTicket_def demo_webssh_def disabled_manager_def pruneLocked_def keep_def has_key_def Let_def new_webssh_ticket_def demo_draw_def second_def)
  obtain b' es resp where f: "issue_finish demo_broker ?p demo_draw = (b', es, Inr resp)" "ir_ExpiresAt resp = 20 * second + 1"
    by (rule demo_finished)
  let ?decode = "\<lambda>_ :: string. Some \<lparr>he_Type = ''hello'', he_Ticket = ir_Ticket resp, he_ConnectionID = ir_ConnectionID resp, he_Binding = demo_gw_binding [''b'', ''a'']\<rparr>"
  have fixtures: "dr_response demo_draw = Some ?r" "length (the (dr_browserRaw demo_draw)) = 32" "wp_ExpiresAt ?r = 30 * second" "wf_map (wm_tickets demo_webssh)"
    by (simp_all add: demo_draw_def demo_webssh_def disabled_manager_def)
  have bound: "normalizeBinding (demo_gw_binding [''b'', ''a'']) = Some (pi_binding ?p)"
    by (simp add: demo_normalize)
  have "\<exists>b'' es' t m'' ct. serveSession_start ?decode (\<lambda>_. True) (Dialed WebSSHSubprotocol True) b' 5 (TextFrame []) = (b'', es', GwRelay t (connector_hello t))
    \<and> consumeTicket m' 7 (connector_hello t) = (m'', Inr ct)
    \<and> wt_target ct = iq_Target (pi_request ?p) \<and> wt_pinnedHostKey ct = iq_PinnedHostKey (pi_request ?p)
    \<and> wt_credential ct = iq_Credential (pi_request ?p) \<and> wt_initialSize ct = iq_InitialSize (pi_request ?p)"
    by (rule webssh_handoff [where bnd = "demo_gw_binding [''b'', ''a'']", OF c _ fixtures(1) f(1) fixtures(2) _ bound])
      (use f(2) fixtures demo_broker_fields in \<open>simp_all add: second_def\<close>)
  with c show ?thesis
    by auto
qed

end
